(* ===== verification/Prelude.thy ===== *)
theory Prelude
  imports Complex_Main "HOL-Library.Sublist" "HOL-Library.Multiset"
begin

text \<open>
  Shared vocabulary of the development. It holds the value types of
  \<^verbatim>\<open>src/backend/models/schemas.py\<close> that the geometry core passes around
  (\<open>Coordinate\<close>, \<open>BoundingBox\<close>, \<open>ValidationResult\<close>), the geodesy
  interface the components call (a distance and a bearing function, bundled as
  \<open>geo_kernel\<close>), the Python numeric idioms the code relies on
  (\<open>x or y\<close> on floats, \<open>round\<close>, float \<open>%\<close>, \<open>min\<close>/\<open>max\<close> of a
  list) and the generic lemmas on them that the component theories share.
  Python floats are modelled as \<open>real\<close>: the model is the exact arithmetic the
  code approximates.
\<close>

named_theorems py_simps "evaluation rules for the Python numeric helpers"
named_theorems geo_laws_rules "consequences of the geodesy interface laws"

section \<open>Schemas\<close>

text \<open>\<^verbatim>\<open>class Coordinate(BaseModel)\<close>: a longitude and a latitude. Pydantic
  checks the ranges \<open>-180 \<le> lng \<le> 180\<close>, \<open>-90 \<le> lat \<le> 90\<close> when an
  object is built; \<open>valid_coord\<close> is that check.\<close>

record coordinate =
  lng :: real
  lat :: real

definition valid_coord :: "coordinate \<Rightarrow> bool" where
  "valid_coord c \<longleftrightarrow> -180 \<le> lng c \<and> lng c \<le> 180 \<and> -90 \<le> lat c \<and> lat c \<le> 90"

abbreviation polyline_valid :: "coordinate list \<Rightarrow> bool" where
  "polyline_valid ps \<equiv> list_all valid_coord ps"

text \<open>\<^verbatim>\<open>class BoundingBox(BaseModel)\<close> with its three derived quantities.\<close>

record bounding_box =
  min_lng :: real
  min_lat :: real
  max_lng :: real
  max_lat :: real

definition bbox_center :: "bounding_box \<Rightarrow> coordinate" where
  "bbox_center b = \<lparr>lng = (min_lng b + max_lng b) / 2, lat = (min_lat b + max_lat b) / 2\<rparr>"

definition width_deg :: "bounding_box \<Rightarrow> real" where
  "width_deg b = max_lng b - min_lng b"

definition height_deg :: "bounding_box \<Rightarrow> real" where
  "height_deg b = max_lat b - min_lat b"

text \<open>A box whose corners are valid coordinates and whose minimum is below its
  maximum on both axes (the data model's invariant for \<open>BoundingBox\<close>).\<close>

definition bbox_ok :: "bounding_box \<Rightarrow> bool" where
  "bbox_ok b \<longleftrightarrow> -180 \<le> min_lng b \<and> min_lng b < max_lng b \<and> max_lng b \<le> 180 \<and>
                 -90 \<le> min_lat b \<and> min_lat b < max_lat b \<and> max_lat b \<le> 90"

text \<open>\<^verbatim>\<open>class ValidationResult(BaseModel)\<close>: \<open>method_name\<close> (the field \<open>method\<close>) is one of the two
  strings the validator writes; \<open>reasoning\<close> is the text the validator formats,
  kept as the values it is formatted from.\<close>

datatype validation_method = Algorithmic | Glm_4v

datatype reasoning =
    Empty_point_set
  | Degenerate_shape
  | Blended real real real real real
  | Vision_text string

record validation_result =
  score :: real
  passed :: bool
  method_name :: validation_method
  reasoning :: reasoning

section \<open>The geodesy interface\<close>

text \<open>
  The mapper, the resampler, the scorer and the tightening step call two
  primitives of \<^verbatim>\<open>street_mapper.py\<close>: \<open>haversine_distance_m\<close> and
  \<open>_bearing_deg\<close>. The components are defined over a \<open>geo_kernel\<close> holding
  the two functions; \<open>Geodesy\<close> supplies the haversine kernel and proves that it
  satisfies \<open>geo_laws\<close>, the laws the components' theorems assume.
\<close>

record geo_kernel =
  geo_dist :: "coordinate \<Rightarrow> coordinate \<Rightarrow> real"
  geo_bearing :: "coordinate \<Rightarrow> coordinate \<Rightarrow> real"

definition geo_laws :: "geo_kernel \<Rightarrow> bool" where
  "geo_laws g \<longleftrightarrow>
     (\<forall>a. geo_dist g a a = 0) \<and>
     (\<forall>a b. geo_dist g a b = geo_dist g b a) \<and>
     (\<forall>a b. valid_coord a \<longrightarrow> valid_coord b \<longrightarrow> 0 \<le> geo_dist g a b) \<and>
     (\<forall>a b. 0 \<le> geo_bearing g a b \<and> geo_bearing g a b < 360)"

lemma geo_laws_dist_self [geo_laws_rules]: "geo_laws g \<Longrightarrow> geo_dist g a a = 0"
  by (simp add: geo_laws_def)

lemma geo_laws_dist_sym [geo_laws_rules]: "geo_laws g \<Longrightarrow> geo_dist g a b = geo_dist g b a"
  by (simp add: geo_laws_def)

lemma geo_laws_dist_nonneg [geo_laws_rules]:
  "geo_laws g \<Longrightarrow> valid_coord a \<Longrightarrow> valid_coord b \<Longrightarrow> 0 \<le> geo_dist g a b"
  by (simp add: geo_laws_def)

lemma geo_laws_bearing_range [geo_laws_rules]:
  "geo_laws g \<Longrightarrow> 0 \<le> geo_bearing g a b \<and> geo_bearing g a b < 360"
  by (simp add: geo_laws_def)

text \<open>The exceptions the backend raises as values: \<open>ValueError\<close> from \<open>min()\<close>
  of an empty sequence, \<open>IndexError\<close> from \<open>np.percentile\<close> of an empty
  array, pydantic's \<open>ValidationError\<close> (a \<open>ValueError\<close>) from a model whose
  field is out of range, the \<open>httpx\<close>/JSON errors of an HTTP call that
  is not caught, \<open>TypeError\<close> (iterating or converting a value of the wrong
  JSON type), \<open>AttributeError\<close> (\<open>.get\<close> on a value that is not a
  dictionary) and \<open>KeyError\<close> (a missing key of a dictionary).\<close>

datatype py_error = Value_error | Index_error | Validation_error | Http_error | Type_error | Attribute_error
  | Key_error

text \<open>Sequencing of statements that may raise: the first exception propagates.\<close>

definition sbind :: "'e + 'a \<Rightarrow> ('a \<Rightarrow> 'e + 'b) \<Rightarrow> 'e + 'b" where
  "sbind r f = (case r of Inl e \<Rightarrow> Inl e | Inr x \<Rightarrow> f x)"

text \<open>A list comprehension \<open>[f(x) for x in xs]\<close> whose body may raise.\<close>

fun map_sum :: "('a \<Rightarrow> 'e + 'b) \<Rightarrow> 'a list \<Rightarrow> 'e + 'b list" where
  "map_sum f [] = Inr []"
| "map_sum f (x # xs) = sbind (f x) (\<lambda>y. sbind (map_sum f xs) (\<lambda>ys. Inr (y # ys)))"

text \<open>Building pydantic \<open>Coordinate\<close>s: \<open>Coordinate(lng=..., lat=...)\<close> raises
  \<open>ValidationError\<close> for a point out of range, and a list comprehension of them
  raises at its first such point.\<close>

definition check_coord :: "coordinate \<Rightarrow> py_error + coordinate" where
  "check_coord c = (if valid_coord c then Inr c else Inl Validation_error)"

definition check_coords :: "coordinate list \<Rightarrow> py_error + coordinate list" where
  "check_coords ps = (if polyline_valid ps then Inr ps else Inl Validation_error)"

section \<open>Python numeric idioms\<close>

text \<open>\<open>x or y\<close> on floats: \<open>y\<close> when \<open>x\<close> is zero.\<close>

definition py_or :: "real \<Rightarrow> real \<Rightarrow> real" where
  "py_or x y = (if x = 0 then y else x)"

text \<open>The literal \<^verbatim>\<open>1e-6\<close> the code uses for a degenerate extent.\<close>

definition eps6 :: real where
  "eps6 = 1 / 1000000"

text \<open>Float \<open>x % m\<close> for \<open>m > 0\<close>: the result has the sign of \<open>m\<close>.\<close>

definition py_fmod :: "real \<Rightarrow> real \<Rightarrow> real" where
  "py_fmod x m = x - m * of_int \<lfloor>x / m\<rfloor>"

text \<open>\<open>round(x)\<close> on a float: to the nearest integer, ties to even.\<close>

definition py_round :: "real \<Rightarrow> int" where
  "py_round x =
     (let f = \<lfloor>x\<rfloor>; r = x - of_int f in
      if r < 1 / 2 then f else if 1 / 2 < r then f + 1 else if even f then f else f + 1)"

text \<open>\<open>min(xs)\<close> and \<open>max(xs)\<close> of a non-empty list (the callers never pass an
  empty one), as the first element folded with the rest.\<close>

definition list_min :: "real list \<Rightarrow> real" where
  "list_min xs = fold min (tl xs) (hd xs)"

definition list_max :: "real list \<Rightarrow> real" where
  "list_max xs = fold max (tl xs) (hd xs)"

text \<open>Linear interpolation as the code writes it:
  \<open>a.lng + (b.lng - a.lng) * frac\<close>, and the segment midpoint
  \<open>(a.lng + b.lng) / 2\<close>.\<close>

definition interp :: "coordinate \<Rightarrow> coordinate \<Rightarrow> real \<Rightarrow> coordinate" where
  "interp a b t = \<lparr>lng = lng a + (lng b - lng a) * t, lat = lat a + (lat b - lat a) * t\<rparr>"

definition midpoint :: "coordinate \<Rightarrow> coordinate \<Rightarrow> coordinate" where
  "midpoint a b = \<lparr>lng = (lng a + lng b) / 2, lat = (lat a + lat b) / 2\<rparr>"

text \<open>\<open>range(start, stop, step)\<close> for a positive step.\<close>

definition py_range :: "nat \<Rightarrow> nat \<Rightarrow> nat \<Rightarrow> nat list" where
  "py_range start stop step = map (\<lambda>k. start + k * step) [0..<(stop - start + step - 1) div step]"

text \<open>The consecutive pairs \<open>(xs[i], xs[i + 1])\<close> a loop over
  \<open>range(len(xs) - 1)\<close> visits.\<close>

definition pairs :: "'a list \<Rightarrow> ('a \<times> 'a) list" where
  "pairs xs = zip xs (tl xs)"

text \<open>A distance is linear along the code's interpolation when the points
  \<open>interp a b s\<close> and \<open>interp a b t\<close> are \<open>|t - s|\<close> of the way from \<open>a\<close>
  to \<open>b\<close> apart. A planar metric on degrees has this property; the haversine
  distance has it only approximately (see \<open>StreetMapper\<close>).\<close>

definition seg_linear :: "geo_kernel \<Rightarrow> bool" where
  "seg_linear g \<longleftrightarrow>
     (\<forall>a b s t. 0 \<le> s \<longrightarrow> s \<le> 1 \<longrightarrow> 0 \<le> t \<longrightarrow> t \<le> 1 \<longrightarrow>
        geo_dist g (interp a b s) (interp a b t) = \<bar>t - s\<bar> * geo_dist g a b)"

text \<open>A planar reference kernel: the taxicab distance on degrees and a constant
  bearing. It is executable, satisfies the interface laws and is linear along
  segments, so witnesses can evaluate the components on it.\<close>

definition taxicab_kernel :: geo_kernel where
  "taxicab_kernel = \<lparr>geo_dist = (\<lambda>a b. \<bar>lng b - lng a\<bar> + \<bar>lat b - lat a\<bar>), geo_bearing = (\<lambda>a b. 0)\<rparr>"

text \<open>The taxicab distance with a coarse compass: bearing 90 (east) when the
  longitude grows, 0 otherwise. Witnesses of turn detection use it.\<close>

definition compass_kernel :: geo_kernel where
  "compass_kernel = taxicab_kernel\<lparr>geo_bearing := (\<lambda>a b. if lng a < lng b then 90 else 0)\<rparr>"


section \<open>Lemmas on the helpers\<close>

lemma sbind_simps [simp]: "sbind (Inl e) f = Inl e" "sbind (Inr x) f = f x"
  by (simp_all add: sbind_def)

lemma sbind_eq_Inr: "sbind r f = Inr y \<longleftrightarrow> (\<exists>x. r = Inr x \<and> f x = Inr y)"
  by (cases r) simp_all

lemma sbind_eq_Inl: "sbind r f = Inl e \<longleftrightarrow> r = Inl e \<or> (\<exists>x. r = Inr x \<and> f x = Inl e)"
  by (cases r) simp_all

lemma sbind_assoc [simp]: "sbind (sbind r f) g = sbind r (\<lambda>x. sbind (f x) g)"
  by (cases r) simp_all

lemma sbind_cong [fundef_cong]:
  "r1 = r2 \<Longrightarrow> (\<And>y. r2 = Inr y \<Longrightarrow> f1 y = f2 y) \<Longrightarrow> sbind r1 f1 = sbind r2 f2"
  by (cases r2) simp_all

lemma check_coord_Inr: "check_coord c = Inr c' \<longleftrightarrow> c' = c \<and> valid_coord c"
  by (auto simp: check_coord_def)

lemma check_coords_Inr: "check_coords ps = Inr qs \<longleftrightarrow> qs = ps \<and> polyline_valid ps"
  by (auto simp: check_coords_def)

lemma check_coord_Inl: "check_coord c = Inl e \<Longrightarrow> e = Validation_error"
  by (simp add: check_coord_def split: if_splits)

lemma check_coords_Inl: "check_coords ps = Inl e \<Longrightarrow> e = Validation_error"
  by (simp add: check_coords_def split: if_splits)

lemma check_coord_valid [simp]: "valid_coord c \<Longrightarrow> check_coord c = Inr c"
  by (simp add: check_coord_def)

lemma check_coords_valid [simp]: "polyline_valid ps \<Longrightarrow> check_coords ps = Inr ps"
  by (simp add: check_coords_def)

lemma map_sum_map: "map_sum (\<lambda>x. Inr (f x)) xs = Inr (map f xs)"
  by (induction xs) simp_all

lemma map_sum_Inr: "map_sum f xs = Inr ys \<longleftrightarrow> list_all2 (\<lambda>x y. f x = Inr y) xs ys"
  by (induction xs arbitrary: ys) (auto simp: sbind_eq_Inr list_all2_Cons1)

lemma py_or_nonzero [py_simps]: "x \<noteq> 0 \<Longrightarrow> py_or x y = x"
  by (simp add: py_or_def)

lemma py_or_zero [py_simps]: "py_or 0 y = y"
  by (simp add: py_or_def)

lemma eps6_pos [simp]: "0 < eps6"
  by (simp add: eps6_def)

lemma py_or_eps6_pos: "0 \<le> x \<Longrightarrow> 0 < py_or x eps6"
  by (simp add: py_or_def)

lemma py_fmod_range:
  assumes "0 < m"
  shows "0 \<le> py_fmod x m \<and> py_fmod x m < m"
  using floor_divide_lower [OF assms, of x] floor_divide_upper [OF assms, of x]
  by (simp add: py_fmod_def algebra_simps)

lemma py_round_cases: "py_round x = \<lfloor>x\<rfloor> \<or> (py_round x = \<lfloor>x\<rfloor> + 1 \<and> of_int \<lfloor>x\<rfloor> < x)"
  unfolding py_round_def Let_def by auto

lemma py_round_le_ceiling: "py_round x \<le> \<lceil>x\<rceil>"
proof -
  have "\<lfloor>x\<rfloor> \<le> \<lceil>x\<rceil>" by (rule floor_le_ceiling)
  moreover have "of_int \<lfloor>x\<rfloor> < x \<Longrightarrow> \<lfloor>x\<rfloor> + 1 \<le> \<lceil>x\<rceil>"
    by (simp add: less_ceiling_iff [symmetric])
  ultimately show ?thesis using py_round_cases [of x] by auto
qed

lemma floor_le_py_round: "\<lfloor>x\<rfloor> \<le> py_round x"
  unfolding py_round_def Let_def by auto

lemma py_round_int_bounds:
  assumes "of_int lo \<le> x" and "x \<le> of_int hi"
  shows "lo \<le> py_round x \<and> py_round x \<le> hi"
proof
  have "lo \<le> \<lfloor>x\<rfloor>" using assms(1) by (simp add: le_floor_iff)
  then show "lo \<le> py_round x" using floor_le_py_round [of x] by linarith
next
  have "\<lceil>x\<rceil> \<le> hi" using assms(2) by (simp add: ceiling_le_iff)
  then show "py_round x \<le> hi" using py_round_le_ceiling [of x] by linarith
qed

lemma py_round_of_int [simp]: "py_round (of_int k) = k"
  by (simp add: py_round_def)

lemma py_round_numeral [simp]: "py_round (numeral k) = numeral k"
  using py_round_of_int [of "numeral k"] by simp

lemma py_round_mono_int: "of_int k \<le> x \<Longrightarrow> k \<le> py_round x"
  using py_round_int_bounds [of k x "\<lceil>x\<rceil>"] by simp

lemma list_min_Min: "xs \<noteq> [] \<Longrightarrow> list_min xs = Min (set xs)"
  using Min.set_eq_fold [of "hd xs" "tl xs"] by (simp add: list_min_def)

lemma list_max_Max: "xs \<noteq> [] \<Longrightarrow> list_max xs = Max (set xs)"
  using Max.set_eq_fold [of "hd xs" "tl xs"] by (simp add: list_max_def)

lemma list_min_le: "y \<in> set xs \<Longrightarrow> list_min xs \<le> y"
  by (cases "xs = []") (simp_all add: list_min_Min)

lemma list_max_ge: "y \<in> set xs \<Longrightarrow> y \<le> list_max xs"
  by (cases "xs = []") (simp_all add: list_max_Max)

lemma list_min_in: "xs \<noteq> [] \<Longrightarrow> list_min xs \<in> set xs"
  by (simp add: list_min_Min)

lemma list_max_in: "xs \<noteq> [] \<Longrightarrow> list_max xs \<in> set xs"
  by (simp add: list_max_Max)

lemma list_min_le_max: "list_min xs \<le> list_max xs"
  using list_min_in list_max_ge by (cases "xs = []") (auto simp: list_min_def list_max_def)

lemma list_min_map_mono: "mono (f :: real \<Rightarrow> real) \<Longrightarrow> xs \<noteq> [] \<Longrightarrow> list_min (map f xs) = f (list_min xs)"
  by (simp add: list_min_Min mono_Min_commute)

lemma list_max_map_mono: "mono (f :: real \<Rightarrow> real) \<Longrightarrow> xs \<noteq> [] \<Longrightarrow> list_max (map f xs) = f (list_max xs)"
  by (simp add: list_max_Max mono_Max_commute)

lemma list_extent_nonneg: "0 \<le> list_max xs - list_min xs"
  using list_min_le_max [of xs] by simp

text \<open>A loop keeping the running maximum of \<open>f x\<close> from \<open>a\<close>.\<close>

lemma fold_max_Max:
  "fold (\<lambda>x m. max m (f x)) xs (a :: 'a :: linorder) = Max (insert a (f ` set xs))"
proof -
  have "fold (\<lambda>x m. max m (f x)) xs a = fold max (map f xs) a"
    by (simp add: fold_map comp_def) (rule fold_cong, simp_all add: fun_eq_iff max.commute)
  also have "\<dots> = Max (set (a # map f xs))" by (simp only: Max.set_eq_fold)
  finally show ?thesis by simp
qed

lemma fold_max_ge_init: "(a :: 'a :: linorder) \<le> fold (\<lambda>x m. max m (f x)) xs a"
  by (simp add: fold_max_Max)

lemma length_filter_mono:
  "(\<And>x. P x \<Longrightarrow> Q x) \<Longrightarrow> length (filter P xs) \<le> length (filter Q xs)"
  by (induction xs) auto

lemma py_range_bound_iff: "0 < (step::nat) \<Longrightarrow> (Suc k * step \<le> stop - start + step - 1) \<longleftrightarrow> start + k * step < stop"
  by (simp add: algebra_simps, linarith)
lemma set_py_range: assumes "0 < step"
  shows "set (py_range start stop step) = {i. start \<le> i \<and> i < stop \<and> step dvd (i - start)}"
proof -
  have k: "k < (stop - start + step - 1) div step \<longleftrightarrow> start + k * step < stop" for k
    using assms less_eq_div_iff_mult_less_eq [of step "Suc k" "stop - start + step - 1"] py_range_bound_iff [OF assms, of k stop start]
    by linarith
  have "set (py_range start stop step) = (\<lambda>k. start + k * step) ` {k. k < (stop - start + step - 1) div step}"
    unfolding py_range_def by auto
  also have "\<dots> = (\<lambda>k. start + k * step) ` {k. start + k * step < stop}" by (simp only: k)
  also have "\<dots> = {i. start \<le> i \<and> i < stop \<and> step dvd (i - start)}"
  proof (intro set_eqI iffI)
    fix i assume "i \<in> {i. start \<le> i \<and> i < stop \<and> step dvd (i - start)}"
    then obtain k where "start \<le> i" "i < stop" "i - start = step * k" by (auto elim: dvdE)
    then have "i = start + k * step" "start + k * step < stop" by (simp_all add: mult.commute)
    then show "i \<in> (\<lambda>k. start + k * step) ` {k. start + k * step < stop}" by blast
  qed auto
  finally show ?thesis .
qed
lemma pairs_simps [simp]:
  "pairs [] = []" "pairs [x] = []" "pairs (x # y # ys) = (x, y) # pairs (y # ys)"
  by (simp_all add: pairs_def)

lemma pairs_append_single: "xs \<noteq> [] \<Longrightarrow> pairs (xs @ [y]) = pairs xs @ [(last xs, y)]"
  by (induction xs rule: induct_list012) simp_all

lemma pairs_append_Cons:
  "xs \<noteq> [] \<Longrightarrow> pairs (xs @ y # ys) = pairs (xs @ [y]) @ pairs (y # ys)"
  by (induction xs rule: induct_list012) simp_all

lemma pairs_map: "pairs (map f xs) = map (\<lambda>(x, y). (f x, f y)) (pairs xs)"
  by (induction xs rule: induct_list012) simp_all

lemma pairs_upt: "pairs [0..<Suc n] = map (\<lambda>j. (j, Suc j)) [0..<n]"
proof (induction n)
  case 0
  then show ?case by simp
next
  case (Suc n)
  have "[0..<Suc (Suc n)] = [0..<Suc n] @ [Suc n]" by (rule upt_Suc_append) simp
  then have "pairs [0..<Suc (Suc n)] = pairs [0..<Suc n] @ [(n, Suc n)]"
    by (simp del: upt_Suc add: pairs_append_single)
  also have "\<dots> = map (\<lambda>j. (j, Suc j)) [0..<Suc n]" using Suc.IH by simp
  finally show ?case .
qed

lemma pairs_map_upt: "pairs (map f [0..<Suc n]) = map (\<lambda>j. (f j, f (Suc j))) [0..<n]"
  by (simp only: pairs_map pairs_upt) simp

lemma pairs_short: "length xs < 2 \<Longrightarrow> pairs xs = []"
  by (cases xs) (simp_all add: pairs_def)

lemma set_pairs_subset: "(a, b) \<in> set (pairs xs) \<Longrightarrow> a \<in> set xs \<and> b \<in> set xs"
  by (induction xs rule: induct_list012) auto

lemma length_pairs [simp]: "length (pairs xs) = length xs - 1"
  by (simp add: pairs_def)

lemma snd_last_pairs: "pairs xs \<noteq> [] \<Longrightarrow> snd (last (pairs xs)) = last xs"
proof (induction xs rule: induct_list012)
  case (3 x y zs)
  then show ?case by (cases zs) simp_all
qed simp_all

lemma subseq_set: "subseq xs ys \<Longrightarrow> set xs \<subseteq> set ys"
  by (auto elim: list_emb_set)

lemma interp_0 [simp]: "interp a b 0 = a"
  by (simp add: interp_def)

lemma interp_1 [simp]: "interp a b 1 = b"
  by (simp add: interp_def)

lemma interp_same [simp]: "interp a a t = a"
  by (simp add: interp_def)

lemma midpoint_same [simp]: "midpoint a a = a"
  by (simp add: midpoint_def)

lemma convex_between:
  fixes x y t :: real
  assumes "lo \<le> x" "x \<le> hi" "lo \<le> y" "y \<le> hi" "0 \<le> t" "t \<le> 1"
  shows "lo \<le> x + (y - x) * t \<and> x + (y - x) * t \<le> hi"
proof -
  have "x + (y - x) * t = (1 - t) * x + t * y" by (simp add: algebra_simps)
  moreover have "(1 - t) * lo + t * lo \<le> (1 - t) * x + t * y"
    using assms by (intro add_mono mult_left_mono) auto
  moreover have "(1 - t) * x + t * y \<le> (1 - t) * hi + t * hi"
    using assms by (intro add_mono mult_left_mono) auto
  ultimately show ?thesis by (simp add: algebra_simps)
qed

lemma valid_interp:
  "valid_coord a \<Longrightarrow> valid_coord b \<Longrightarrow> 0 \<le> t \<Longrightarrow> t \<le> 1 \<Longrightarrow> valid_coord (interp a b t)"
  unfolding valid_coord_def interp_def
  using convex_between [of "-180" "lng a" 180 "lng b" t] convex_between [of "-90" "lat a" 90 "lat b" t]
  by simp

lemma valid_midpoint: "valid_coord a \<Longrightarrow> valid_coord b \<Longrightarrow> valid_coord (midpoint a b)"
  unfolding valid_coord_def midpoint_def by simp

lemma taxicab_kernel_laws: "geo_laws taxicab_kernel"
  by (simp add: geo_laws_def taxicab_kernel_def abs_minus_commute)

lemma compass_kernel_laws: "geo_laws compass_kernel"
  by (simp add: geo_laws_def compass_kernel_def taxicab_kernel_def abs_minus_commute)

lemma taxicab_seg_linear: "seg_linear taxicab_kernel"
proof -
  have "\<bar>(lng b - lng a) * t - (lng b - lng a) * s\<bar> + \<bar>(lat b - lat a) * t - (lat b - lat a) * s\<bar>
        = \<bar>t - s\<bar> * (\<bar>lng b - lng a\<bar> + \<bar>lat b - lat a\<bar>)" for a b :: coordinate and s t :: real
    by (simp add: abs_mult [symmetric] algebra_simps)
  then show ?thesis by (simp add: seg_linear_def taxicab_kernel_def interp_def)
qed

end
