(* ===== verification/Geodesy.thy ===== *)
theory Geodesy
  imports Prelude
begin

text \<open>
  The geodesy kernel of \<^verbatim>\<open>src/backend/services/street_mapper.py\<close>
  (lines 10--31): the haversine great-circle distance \<open>haversine_distance_m\<close>
  and the initial bearing \<open>_bearing_deg\<close>, over real arithmetic with the
  transcendental functions of \<open>Complex_Main\<close>. Python's \<open>math.atan2\<close> is
  the C library's two-argument arctangent, written out case by case. The theory
  proves the laws of \<open>geo_laws\<close> for the haversine kernel, so the theorems of
  the other components apply to the code's own distance and bearing.
\<close>

section \<open>Definitions\<close>

definition radians :: "real \<Rightarrow> real" where
  "radians x = x * pi / 180"

definition degrees :: "real \<Rightarrow> real" where
  "degrees x = x * 180 / pi"

text \<open>\<open>math.atan2(y, x)\<close>: the angle of the point \<open>(x, y)\<close>, in \<open>(-pi, pi]\<close>.\<close>

definition atan2 :: "real \<Rightarrow> real \<Rightarrow> real" where
  "atan2 y x =
     (if 0 < x then arctan (y / x)
      else if x < 0 then (if 0 \<le> y then arctan (y / x) + pi else arctan (y / x) - pi)
      else if 0 < y then pi / 2 else if y < 0 then - (pi / 2) else 0)"

definition earth_radius_m :: real where
  "earth_radius_m = 6371000"

text \<open>The quantity \<open>a_val\<close> of \<open>haversine_distance_m\<close>.\<close>

definition haversine_a :: "coordinate \<Rightarrow> coordinate \<Rightarrow> real" where
  "haversine_a a b =
     (let phi1 = radians (lat a); phi2 = radians (lat b);
          d_phi = radians (lat b - lat a); d_lambda = radians (lng b - lng a)
      in sin (d_phi / 2) ^ 2 + cos phi1 * cos phi2 * sin (d_lambda / 2) ^ 2)"

definition haversine_distance_m :: "coordinate \<Rightarrow> coordinate \<Rightarrow> real" where
  "haversine_distance_m a b =
     (let a_val = haversine_a a b
      in earth_radius_m * 2 * atan2 (sqrt a_val) (sqrt (1 - a_val)))"

definition bearing_deg :: "coordinate \<Rightarrow> coordinate \<Rightarrow> real" where
  "bearing_deg a b =
     (let d_lng = radians (lng b - lng a); lat1 = radians (lat a); lat2 = radians (lat b);
          x = sin d_lng * cos lat2;
          y = cos lat1 * sin lat2 - sin lat1 * cos lat2 * cos d_lng
      in py_fmod (degrees (atan2 x y)) 360)"

definition haversine_kernel :: geo_kernel where
  "haversine_kernel = \<lparr>geo_dist = haversine_distance_m, geo_bearing = bearing_deg\<rparr>"

section \<open>Lemmas\<close>

lemma atan2_zero_left [simp]: "0 \<le> x \<Longrightarrow> atan2 0 x = 0"
  by (simp add: atan2_def)

lemma atan2_first_quadrant:
  assumes "0 \<le> y" and "0 \<le> x"
  shows "0 \<le> atan2 y x \<and> atan2 y x \<le> pi / 2"
proof (cases "0 < x")
  case True
  have "arctan (y / x) < pi / 2" using arctan_bounded by blast
  moreover have "0 \<le> arctan (y / x)" using assms by (simp add: arctan_le_zero_iff [symmetric] not_le)
  ultimately show ?thesis using True by (simp add: atan2_def)
next
  case False
  with assms show ?thesis by (simp add: atan2_def)
qed

lemma radians_diff: "radians (x - y) = radians x - radians y"
  by (simp add: radians_def diff_divide_distrib algebra_simps)

lemma cos_radians_lat_nonneg:
  assumes "valid_coord c"
  shows "0 \<le> cos (radians (lat c))"
proof (rule cos_ge_zero)
  have "-90 \<le> lat c" and "lat c \<le> 90" using assms by (simp_all add: valid_coord_def)
  then have "0 \<le> (lat c + 90) * pi" and "0 \<le> (90 - lat c) * pi"
    by simp_all
  then show "- (pi / 2) \<le> radians (lat c)" and "radians (lat c) \<le> pi / 2"
    by (simp_all add: radians_def algebra_simps)
qed

lemma haversine_a_self [simp]: "haversine_a a a = 0"
  by (simp add: haversine_a_def radians_def)

lemma haversine_a_sym: "haversine_a a b = haversine_a b a"
proof -
  have "radians (lat a - lat b) / 2 = - (radians (lat b - lat a) / 2)"
    and "radians (lng a - lng b) / 2 = - (radians (lng b - lng a) / 2)"
    by (simp_all add: radians_def field_simps)
  then show ?thesis by (simp add: haversine_a_def Let_def)
qed

lemma sin_half_sq: "sin (x / 2) ^ 2 = (1 - cos x) / (2::real)"
  using cos_double_sin [of "x / 2"] by simp

lemma haversine_a_upper:
  assumes "valid_coord a" and "valid_coord b"
  shows "haversine_a a b \<le> 1"
proof -
  define p1 p2 l where "p1 = radians (lat a)" and "p2 = radians (lat b)"
    and "l = radians (lng b - lng a)"
  have c: "0 \<le> cos p1 * cos p2"
    using cos_radians_lat_nonneg [OF assms(1)] cos_radians_lat_nonneg [OF assms(2)]
    by (simp add: p1_def p2_def)
  have "sin (l / 2) ^ 2 \<le> 1"
    by (simp add: abs_square_le_1)
  then have "cos p1 * cos p2 * sin (l / 2) ^ 2 \<le> cos p1 * cos p2"
    using c mult_left_mono by fastforce
  moreover have "sin ((p2 - p1) / 2) ^ 2 = (1 - cos p2 * cos p1 - sin p2 * sin p1) / 2"
    by (simp add: sin_half_sq cos_diff)
  moreover have "cos (p1 + p2) \<le> 1" by simp
  ultimately have "sin ((p2 - p1) / 2) ^ 2 + cos p1 * cos p2 * sin (l / 2) ^ 2 \<le> 1"
    by (simp add: cos_add algebra_simps)
  then show ?thesis
    by (simp add: haversine_a_def Let_def radians_diff p1_def p2_def l_def)
qed

lemma haversine_a_lower:
  assumes "valid_coord a" and "valid_coord b"
  shows "0 \<le> haversine_a a b"
proof -
  have "0 \<le> cos (radians (lat a)) * cos (radians (lat b))"
    using cos_radians_lat_nonneg [OF assms(1)] cos_radians_lat_nonneg [OF assms(2)] by simp
  then show ?thesis
    by (simp add: haversine_a_def Let_def)
qed

lemma atan2_sqrt_range:
  assumes "0 \<le> a" and "a \<le> 1"
  shows "0 \<le> atan2 (sqrt a) (sqrt (1 - a)) \<and> atan2 (sqrt a) (sqrt (1 - a)) \<le> pi / 2"
  using assms by (intro atan2_first_quadrant) simp_all

lemma haversine_distance_self [simp]: "haversine_distance_m a a = 0"
  by (simp add: haversine_distance_m_def)

lemma haversine_distance_sym: "haversine_distance_m a b = haversine_distance_m b a"
  by (simp add: haversine_distance_m_def haversine_a_sym)

lemma haversine_distance_nonneg:
  assumes "valid_coord a" and "valid_coord b"
  shows "0 \<le> haversine_distance_m a b"
  using atan2_sqrt_range [OF haversine_a_lower [OF assms] haversine_a_upper [OF assms]]
  by (simp add: haversine_distance_m_def earth_radius_m_def Let_def)

lemma bearing_deg_in_range: "0 \<le> bearing_deg a b \<and> bearing_deg a b < 360"
  by (simp add: bearing_deg_def Let_def py_fmod_range)

lemma arctan_abs_tan:
  assumes "\<bar>t\<bar> < pi / 2"
  shows "arctan (\<bar>sin t\<bar> / cos t) = \<bar>t\<bar>"
proof -
  have "0 < cos t" using assms by (intro cos_gt_zero_pi) auto
  have "\<bar>sin t\<bar> = sin \<bar>t\<bar>"
  proof (cases "0 \<le> t")
    case True
    with assms have "0 \<le> sin t" by (intro sin_ge_zero) auto
    with True show ?thesis by simp
  next
    case False
    with assms have "0 \<le> sin (- t)" by (intro sin_ge_zero) auto
    with False show ?thesis by simp
  qed
  then have "\<bar>sin t\<bar> / cos t = tan \<bar>t\<bar>"
    by (simp add: tan_def)
  with assms show ?thesis by (simp add: arctan_tan)
qed

lemma atan2_half_angle:
  assumes "\<bar>t\<bar> \<le> pi / 2"
  shows "atan2 \<bar>sin t\<bar> (cos t) = \<bar>t\<bar>"
proof (cases "\<bar>t\<bar> < pi / 2")
  case True
  then have "0 < cos t" by (intro cos_gt_zero_pi) auto
  with True show ?thesis by (simp add: atan2_def arctan_abs_tan)
next
  case False
  with assms have "t = pi / 2 \<or> t = - (pi / 2)" by auto
  then show ?thesis
  proof
    assume t: "t = pi / 2"
    show ?thesis unfolding t by (simp add: atan2_def)
  next
    assume t: "t = - (pi / 2)"
    show ?thesis unfolding t by (simp add: atan2_def)
  qed
qed

section \<open>Theorems\<close>

text \<open>The haversine distance of a point to itself is zero, and the distance is
  symmetric in its two arguments (the spec's first testable property).\<close>

lemma haversine_zero_and_symmetric:
  "haversine_distance_m a a = 0 \<and> haversine_distance_m a b = haversine_distance_m b a"
  by (simp add: haversine_distance_sym)

text \<open>For coordinates in the schema's ranges, \<open>a_val\<close> lies in \<open>[0, 1]\<close>,
  so both square roots of \<open>haversine_distance_m\<close> take non-negative arguments and
  \<open>math.sqrt\<close> never raises a domain error.\<close>

theorem haversine_sqrt_domain:
  assumes "valid_coord a" and "valid_coord b"
  shows "0 \<le> haversine_a a b \<and> 0 \<le> 1 - haversine_a a b"
  using haversine_a_lower [OF assms] haversine_a_upper [OF assms] by simp

theorem haversine_sqrt_domain_witness:
  "valid_coord \<lparr>lng = 14.4205, lat = 50.0875\<rparr> \<and> valid_coord \<lparr>lng = 14.46, lat = 50.09\<rparr> \<and>
   0 \<le> haversine_a \<lparr>lng = 14.4205, lat = 50.0875\<rparr> \<lparr>lng = 14.46, lat = 50.09\<rparr> \<and>
   0 \<le> 1 - haversine_a \<lparr>lng = 14.4205, lat = 50.0875\<rparr> \<lparr>lng = 14.46, lat = (50.09::real)\<rparr>"
proof -
  have v: "valid_coord \<lparr>lng = 14.4205, lat = 50.0875\<rparr>" "valid_coord \<lparr>lng = 14.46, lat = (50.09::real)\<rparr>"
    by (simp_all add: valid_coord_def)
  show ?thesis using haversine_sqrt_domain [OF v] v by simp
qed

text \<open>For valid coordinates the distance lies between 0 and half the Earth's
  circumference, \<open>pi * 6371000\<close> metres.\<close>

theorem haversine_bounds:
  assumes "valid_coord a" and "valid_coord b"
  shows "0 \<le> haversine_distance_m a b \<and> haversine_distance_m a b \<le> pi * earth_radius_m"
proof -
  let ?a = "haversine_a a b"
  have r: "0 \<le> atan2 (sqrt ?a) (sqrt (1 - ?a)) \<and> atan2 (sqrt ?a) (sqrt (1 - ?a)) \<le> pi / 2"
    using atan2_sqrt_range [OF haversine_a_lower [OF assms] haversine_a_upper [OF assms]] .
  then have "earth_radius_m * 2 * atan2 (sqrt ?a) (sqrt (1 - ?a)) \<le> earth_radius_m * 2 * (pi / 2)"
    by (intro mult_left_mono) (simp_all add: earth_radius_m_def)
  with r show ?thesis by (simp add: haversine_distance_m_def earth_radius_m_def Let_def)
qed

theorem haversine_bounds_witness:
  "valid_coord \<lparr>lng = 14.4205, lat = 50.0875\<rparr> \<and> valid_coord \<lparr>lng = 14.46, lat = 50.09\<rparr> \<and>
   0 \<le> haversine_distance_m \<lparr>lng = 14.4205, lat = 50.0875\<rparr> \<lparr>lng = 14.46, lat = 50.09\<rparr> \<and>
   haversine_distance_m \<lparr>lng = 14.4205, lat = 50.0875\<rparr> \<lparr>lng = 14.46, lat = (50.09::real)\<rparr>
     \<le> pi * earth_radius_m"
proof -
  have v: "valid_coord \<lparr>lng = 14.4205, lat = 50.0875\<rparr>" "valid_coord \<lparr>lng = 14.46, lat = (50.09::real)\<rparr>"
    by (simp_all add: valid_coord_def)
  show ?thesis using haversine_bounds [OF v] v by simp
qed

text \<open>\<open>_bearing_deg\<close> always returns a value in \<open>[0, 360)\<close>, the range its
  docstring promises, whatever its arguments.\<close>

lemma bearing_deg_range: "0 \<le> bearing_deg a b \<and> bearing_deg a b < 360"
  by (rule bearing_deg_in_range)

text \<open>The haversine kernel satisfies the interface laws every component
  theorem assumes: zero distance from a point to itself, symmetry, non-negative
  distance between valid coordinates and bearings in \<open>[0, 360)\<close>.\<close>

theorem haversine_kernel_laws: "geo_laws haversine_kernel"
  by (simp add: geo_laws_def haversine_kernel_def haversine_distance_sym
      haversine_distance_nonneg bearing_deg_in_range)

theorem haversine_kernel_laws_witness:
  "valid_coord \<lparr>lng = 14.4205, lat = 50.0875\<rparr> \<and> valid_coord \<lparr>lng = 14.46, lat = 50.09\<rparr> \<and>
   0 \<le> geo_dist haversine_kernel \<lparr>lng = 14.4205, lat = 50.0875\<rparr> \<lparr>lng = 14.46, lat = (50.09::real)\<rparr>"
proof -
  have v: "valid_coord \<lparr>lng = 14.4205, lat = 50.0875\<rparr>" "valid_coord \<lparr>lng = 14.46, lat = (50.09::real)\<rparr>"
    by (simp_all add: valid_coord_def)
  show ?thesis using haversine_kernel_laws v unfolding geo_laws_def by blast
qed

text \<open>Between two valid points on the same meridian the haversine distance is
  the exact arc length \<open>R * |delta lat|\<close> (in radians): the formula computes the
  great-circle distance the spec names.\<close>

theorem haversine_meridian:
  assumes "lng a = lng b" and "valid_coord a" and "valid_coord b"
  shows "haversine_distance_m a b = earth_radius_m * \<bar>radians (lat b - lat a)\<bar>"
proof -
  define t where "t = radians (lat b - lat a) / 2"
  have "\<bar>lat b - lat a\<bar> \<le> 180" using assms(2,3) by (auto simp: valid_coord_def)
  then have "\<bar>lat b - lat a\<bar> * pi \<le> 180 * pi" by (simp add: mult_right_mono)
  then have t: "\<bar>t\<bar> \<le> pi / 2" by (simp add: t_def radians_def abs_mult)
  then have "0 \<le> cos t" by (intro cos_ge_zero) auto
  have "1 - sin t ^ 2 = cos t ^ 2" by (simp add: cos_squared_eq)
  with \<open>0 \<le> cos t\<close> have c: "sqrt (1 - sin t ^ 2) = cos t" by simp
  have "haversine_a a b = sin t ^ 2"
    using assms(1) by (simp add: haversine_a_def t_def Let_def radians_def)
  then have "haversine_distance_m a b = earth_radius_m * 2 * atan2 \<bar>sin t\<bar> (cos t)"
    using c by (simp add: haversine_distance_m_def real_sqrt_abs)
  also have "\<dots> = earth_radius_m * \<bar>radians (lat b - lat a)\<bar>"
    using atan2_half_angle [OF t] by (simp add: t_def)
  finally show ?thesis .
qed

text \<open>The repository's test \<open>test_haversine_distance_known\<close>: two points of Prague
  0.009 degrees apart on one meridian are \<open>R * 0.009 * pi / 180\<close> metres apart,
  about one kilometre.\<close>

theorem haversine_meridian_witness:
  "lng \<lparr>lng = 14.4205, lat = 50.0875\<rparr> = lng \<lparr>lng = 14.4205, lat = 50.0965\<rparr> \<and>
   valid_coord \<lparr>lng = 14.4205, lat = 50.0875\<rparr> \<and> valid_coord \<lparr>lng = 14.4205, lat = 50.0965\<rparr> \<and>
   haversine_distance_m \<lparr>lng = 14.4205, lat = 50.0875\<rparr> \<lparr>lng = 14.4205, lat = 50.0965\<rparr>
     = 6371000 * (9 / 1000) * pi / 180"
proof -
  have v: "valid_coord \<lparr>lng = 14.4205, lat = 50.0875\<rparr>" "valid_coord \<lparr>lng = 14.4205, lat = 50.0965\<rparr>"
    by (simp_all add: valid_coord_def)
  show ?thesis
    using haversine_meridian [OF _ v] v by (simp add: earth_radius_m_def radians_def)
qed

end
