(* ===== verification/Resample.thy ===== *)
theory Resample
  imports Geodesy
begin

text \<open>
  \<open>_resample_curve(points, n)\<close> of \<^verbatim>\<open>src/backend/services/shape_validator.py\<close>
  (lines 264--295): \<open>n\<close> points equally spaced by arc length along a polyline.
  The prefix sums of the segment lengths are \<open>cum_lengths\<close>; the inner
  \<open>for i in range(1, len(cumlen))\<close> loop with its \<open>break\<close> is \<open>locate\<close>, which
  walks the segments and their cumulative lengths together and yields \<open>None\<close>
  where the loop would end without appending. \<open>n\<close> is a \<open>nat\<close>: the only
  caller passes 50.
\<close>

section \<open>Definitions\<close>

fun cum_lengths :: "geo_kernel \<Rightarrow> real \<Rightarrow> coordinate \<Rightarrow> coordinate list \<Rightarrow> real list" where
  "cum_lengths g acc prev [] = []"
| "cum_lengths g acc prev (p # ps) = (acc + geo_dist g prev p) # cum_lengths g (acc + geo_dist g prev p) p ps"

definition cumlen_of :: "geo_kernel \<Rightarrow> coordinate list \<Rightarrow> real list" where
  "cumlen_of g points = 0 # cum_lengths g 0 (hd points) (tl points)"

fun locate :: "real \<Rightarrow> (coordinate \<times> coordinate) list \<Rightarrow> (real \<times> real) list \<Rightarrow> coordinate option" where
  "locate target_len ((a, b) # segs) ((c0, c1) # cs) =
     (if target_len \<le> c1 then
        (let seg_len = c1 - c0;
             frac = (if seg_len = 0 then 0 else (target_len - c0) / seg_len)
         in Some (interp a b frac))
      else locate target_len segs cs)"
| "locate target_len _ _ = None"

definition resample_curve :: "geo_kernel \<Rightarrow> coordinate list \<Rightarrow> nat \<Rightarrow> coordinate list" where
  "resample_curve g points n =
     (if length points < 2 \<or> n < 2 then (if n \<le> length points then take n points else points)
      else
        let cumlen = cumlen_of g points; total = last cumlen in
        if total = 0 then replicate n (hd points)
        else List.map_filter
               (\<lambda>k. locate (total * real k / real (n - 1)) (pairs points) (pairs cumlen)) [0..<n])"

section \<open>Lemmas\<close>

lemma length_cum_lengths [simp]: "length (cum_lengths g acc prev ps) = length ps"
  by (induction ps arbitrary: acc prev) simp_all

lemma length_cumlen_of [simp]: "points \<noteq> [] \<Longrightarrow> length (cumlen_of g points) = length points"
  by (cases points) (simp_all add: cumlen_of_def)

text \<open>With non-negative segment lengths the prefix sums never decrease.\<close>

definition seg_nonneg :: "geo_kernel \<Rightarrow> coordinate list \<Rightarrow> bool" where
  "seg_nonneg g ps \<longleftrightarrow> (\<forall>(a, b) \<in> set (pairs ps). 0 \<le> geo_dist g a b)"

lemma seg_nonneg_Cons: "seg_nonneg g (a # b # ps) \<longleftrightarrow> 0 \<le> geo_dist g a b \<and> seg_nonneg g (b # ps)"
  by (simp add: seg_nonneg_def)

lemma seg_nonneg_valid: "geo_laws g \<Longrightarrow> polyline_valid ps \<Longrightarrow> seg_nonneg g ps"
  unfolding seg_nonneg_def using set_pairs_subset by (fastforce simp: list_all_iff geo_laws_def)

lemma cum_lengths_mono:
  "seg_nonneg g (prev # ps) \<Longrightarrow> sorted (acc # cum_lengths g acc prev ps)"
proof (induction ps arbitrary: acc prev)
  case Nil
  then show ?case by simp
next
  case (Cons p ps)
  then have d: "0 \<le> geo_dist g prev p" and r: "seg_nonneg g (p # ps)"
    by (simp_all add: seg_nonneg_Cons)
  have "sorted ((acc + geo_dist g prev p) # cum_lengths g (acc + geo_dist g prev p) p ps)"
    using Cons.IH [OF r] .
  with d show ?case by (auto intro: order.trans [of acc "acc + geo_dist g prev p"])
qed

lemma last_cum_lengths_ge:
  "seg_nonneg g (prev # ps) \<Longrightarrow> acc \<le> last (acc # cum_lengths g acc prev ps)"
  using cum_lengths_mono [of g prev ps acc] last_in_set [of "cum_lengths g acc prev ps"] by auto

lemma cumlen_total_nonneg: "seg_nonneg g points \<Longrightarrow> points \<noteq> [] \<Longrightarrow> 0 \<le> last (cumlen_of g points)"
proof (cases points)
  case (Cons a ps)
  assume "seg_nonneg g points"
  then show ?thesis using last_cum_lengths_ge [of g a ps 0] Cons by (simp add: cumlen_of_def)
qed simp

lemma sorted_cumlen_of: "seg_nonneg g points \<Longrightarrow> points \<noteq> [] \<Longrightarrow> sorted (cumlen_of g points)"
  by (cases points) (simp_all only: cumlen_of_def list.sel cum_lengths_mono)

lemma locate_found:
  "length segs = length cs \<Longrightarrow> cs \<noteq> [] \<Longrightarrow> t \<le> snd (last cs) \<Longrightarrow> locate t segs cs \<noteq> None"
proof (induction t segs cs rule: locate.induct)
  case (1 t a b segs c0 c1 cs)
  then show ?case by (cases cs) (auto simp: Let_def)
qed auto

text \<open>The point \<open>locate\<close> returns lies on segment \<open>i\<close>, at the fraction of it
  whose interpolated cumulative length is the target.\<close>

lemma locate_at:
  "sorted cl \<Longrightarrow> length ps = length cl \<Longrightarrow> hd cl \<le> t \<Longrightarrow>
   locate t (pairs ps) (pairs cl) = Some q \<Longrightarrow>
   \<exists>i f. Suc i < length ps \<and> 0 \<le> f \<and> f \<le> 1 \<and> q = interp (ps ! i) (ps ! Suc i) f \<and>
         cl ! i + f * (cl ! Suc i - cl ! i) = t"
proof (induction ps arbitrary: cl)
  case Nil
  then show ?case by simp
next
  case (Cons a ps)
  show ?case
  proof (cases ps)
    case Nil
    with Cons.prems show ?thesis by (cases cl) simp_all
  next
    case (Cons b ps')
    from Cons.prems(2) \<open>ps = b # ps'\<close> obtain c0 c1 cl' where cl: "cl = c0 # c1 # cl'"
      by (metis Suc_length_conv)
    have le: "c0 \<le> c1" "sorted (c1 # cl')" using Cons.prems(1) cl by simp_all
    have t0: "c0 \<le> t" using Cons.prems(3) cl by simp
    show ?thesis
    proof (cases "t \<le> c1")
      case True
      define f where "f = (if c1 - c0 = 0 then 0 else (t - c0) / (c1 - c0))"
      have "0 \<le> f \<and> f \<le> 1" using le t0 True by (auto simp: f_def field_simps)
      moreover have "c0 + f * (c1 - c0) = t" using t0 True by (auto simp: f_def)
      moreover have "q = interp a b f"
        using Cons.prems(4) True \<open>ps = b # ps'\<close> cl by (simp add: f_def Let_def)
      ultimately show ?thesis using \<open>ps = b # ps'\<close> cl by (intro exI [of _ 0] exI [of _ f]) simp
    next
      case False
      then have "locate t (pairs ps) (pairs (c1 # cl')) = Some q"
        using Cons.prems(4) \<open>ps = b # ps'\<close> cl by simp
      moreover have "length ps = length (c1 # cl')" using Cons.prems(2) cl by simp
      ultimately obtain i f where "Suc i < length ps" "0 \<le> f \<and> f \<le> 1"
        "q = interp (ps ! i) (ps ! Suc i) f" "(c1 # cl') ! i + f * ((c1 # cl') ! Suc i - (c1 # cl') ! i) = t"
        using Cons.IH [of "c1 # cl'"] le(2) False by auto
      then show ?thesis using cl by (intro exI [of _ "Suc i"] exI [of _ f]) simp
    qed
  qed
qed

lemma map_filter_total:
  "\<forall>x \<in> set xs. f x \<noteq> None \<Longrightarrow> List.map_filter f xs = map (\<lambda>x. the (f x)) xs"
  by (induction xs) (auto simp: List.map_filter_simps split: option.splits)

lemma target_range:
  assumes "0 \<le> tot" "k < n"
  shows "0 \<le> tot * real k / real (n - 1)" "tot * real k / real (n - 1) \<le> tot"
proof -
  have "real k \<le> real (n - 1)" using assms(2) by simp
  then have "real k / real (n - 1) \<le> 1" by (cases "n - 1 = 0") (simp_all add: divide_le_eq_1)
  then show "tot * real k / real (n - 1) \<le> tot"
    using assms(1) mult_left_le [of "real k / real (n - 1)" tot] by simp
qed (use assms(1) in simp)

lemma cumlen_facts:
  assumes "seg_nonneg g points" "2 \<le> length points"
  shows "sorted (cumlen_of g points)" "hd (cumlen_of g points) = 0"
    "0 \<le> last (cumlen_of g points)" "length (cumlen_of g points) = length points"
    "length (pairs points) = length (pairs (cumlen_of g points))" "pairs (cumlen_of g points) \<noteq> []"
    "snd (last (pairs (cumlen_of g points))) = last (cumlen_of g points)"
proof -
  have ne: "points \<noteq> []" using assms(2) by auto
  show "sorted (cumlen_of g points)" "0 \<le> last (cumlen_of g points)"
    using sorted_cumlen_of cumlen_total_nonneg assms(1) ne by blast+
  show "hd (cumlen_of g points) = 0" by (simp add: cumlen_of_def)
  show len: "length (cumlen_of g points) = length points" using ne by simp
  then show "length (pairs points) = length (pairs (cumlen_of g points))" by simp
  show ne2: "pairs (cumlen_of g points) \<noteq> []"
    using len assms(2) by (metis length_pairs list.size(3) not_numeral_le_zero diff_is_0_eq numeral_le_one_iff semiring_norm(69) Suc_1 not_less_eq_eq)
  show "snd (last (pairs (cumlen_of g points))) = last (cumlen_of g points)"
    using snd_last_pairs [OF ne2] .
qed

lemma resample_located:
  assumes "seg_nonneg g points" "2 \<le> length points" "2 \<le> n" "last (cumlen_of g points) \<noteq> 0"
  shows "resample_curve g points n =
           map (\<lambda>k. the (locate (last (cumlen_of g points) * real k / real (n - 1))
                                 (pairs points) (pairs (cumlen_of g points)))) [0..<n]"
    and "k < n \<Longrightarrow> locate (last (cumlen_of g points) * real k / real (n - 1))
                                 (pairs points) (pairs (cumlen_of g points)) \<noteq> None"
proof -
  note c = cumlen_facts [OF assms(1,2)]
  show found: "k < n \<Longrightarrow> locate (last (cumlen_of g points) * real k / real (n - 1))
                                 (pairs points) (pairs (cumlen_of g points)) \<noteq> None" for k
    using locate_found [OF c(5,6)] target_range [OF c(3)] c(7) by simp
  show "resample_curve g points n =
           map (\<lambda>k. the (locate (last (cumlen_of g points) * real k / real (n - 1))
                                 (pairs points) (pairs (cumlen_of g points)))) [0..<n]"
    using assms(2-4) found by (simp add: resample_curve_def Let_def map_filter_total)
qed

lemma resample_degenerate:
  "2 \<le> length points \<Longrightarrow> 2 \<le> n \<Longrightarrow> last (cumlen_of g points) = 0 \<Longrightarrow>
   resample_curve g points n = replicate n (hd points)"
  by (simp add: resample_curve_def Let_def)

lemma resample_valid:
  assumes "geo_laws g" "polyline_valid points"
  shows "polyline_valid (resample_curve g points n)"
proof (cases "length points < 2 \<or> n < 2")
  case True
  then show ?thesis using assms(2)
    by (auto simp: resample_curve_def list_all_iff dest: in_set_takeD)
next
  case False
  then have len: "2 \<le> length points" "2 \<le> n" by auto
  have sn: "seg_nonneg g points" using seg_nonneg_valid assms .
  note c = cumlen_facts [OF sn len(1)]
  show ?thesis
  proof (cases "last (cumlen_of g points) = 0")
    case True
    then show ?thesis using resample_degenerate [OF len True] assms(2) len(1)
      by (cases points) (simp_all add: list_all_iff)
  next
    case nz: False
    let ?t = "\<lambda>k. last (cumlen_of g points) * real k / real (n - 1)"
    have "valid_coord (the (locate (?t k) (pairs points) (pairs (cumlen_of g points))))" if k: "k < n" for k
    proof -
      obtain q where q: "locate (?t k) (pairs points) (pairs (cumlen_of g points)) = Some q"
        using resample_located(2) [OF sn len nz k] by blast
      have "hd (cumlen_of g points) \<le> ?t k" using c(2) target_range(1) [OF c(3) k] by simp
      then obtain i f where "Suc i < length points" "0 \<le> f" "f \<le> 1" "q = interp (points ! i) (points ! Suc i) f"
        using locate_at [OF c(1) c(4) [symmetric] _ q] by blast
      then have "valid_coord q" using assms(2) by (auto simp: list_all_iff intro!: valid_interp)
      then show ?thesis using q by simp
    qed
    then show ?thesis using resample_located(1) [OF sn len nz] by (simp add: list_all_iff)
  qed
qed

lemma resample_nonempty:
  assumes "geo_laws g" "polyline_valid points" "points \<noteq> []" "0 < n"
  shows "resample_curve g points n \<noteq> []"
proof (cases "length points < 2 \<or> n < 2")
  case True
  then show ?thesis using assms(3,4) by (auto simp: resample_curve_def)
next
  case False
  then have len: "2 \<le> length points" "2 \<le> n" by auto
  have sn: "seg_nonneg g points" using seg_nonneg_valid assms(1,2) .
  show ?thesis
    using resample_degenerate [OF len] resample_located(1) [OF sn len] len(2) by (cases "last (cumlen_of g points) = 0") auto
qed

section \<open>Properties\<close>

text \<open>C19. On a polyline of at least two valid points, \<open>_resample_curve(points, n)\<close>
  with \<open>n \<ge> 2\<close> returns exactly \<open>n\<close> points: the inner search always finds a
  segment, so no sample is skipped.\<close>

theorem resample_length:
  assumes "geo_laws g" "polyline_valid points" "2 \<le> length points" "2 \<le> n"
  shows "length (resample_curve g points n) = n"
proof (cases "last (cumlen_of g points) = 0")
  case True
  then show ?thesis using resample_degenerate assms(3,4) by simp
next
  case False
  then show ?thesis using resample_located(1) [OF seg_nonneg_valid [OF assms(1,2)] assms(3,4)] by simp
qed

text \<open>Sample \<open>k\<close> of the resampled curve lies on segment \<open>i\<close> of the input, at the
  fraction \<open>f \<in> [0, 1]\<close> of it at which the interpolated cumulative length is
  \<open>total * k / (n - 1)\<close>: the samples are spaced equally by arc length.\<close>

theorem resample_arc_position:
  assumes "geo_laws g" "polyline_valid points" "2 \<le> length points" "2 \<le> n" "k < n"
  shows "\<exists>i f. Suc i < length points \<and> 0 \<le> f \<and> f \<le> 1 \<and>
           resample_curve g points n ! k = interp (points ! i) (points ! Suc i) f \<and>
           cumlen_of g points ! i + f * (cumlen_of g points ! Suc i - cumlen_of g points ! i) =
           last (cumlen_of g points) * real k / real (n - 1)"
proof -
  have sn: "seg_nonneg g points" using seg_nonneg_valid assms(1,2) .
  note c = cumlen_facts [OF sn assms(3)]
  show ?thesis
  proof (cases "last (cumlen_of g points) = 0")
    case True
    have "cumlen_of g points ! 0 = 0" by (simp add: cumlen_of_def)
    moreover have "resample_curve g points n ! k = interp (points ! 0) (points ! Suc 0) 0"
      using resample_degenerate [OF assms(3,4) True] assms(3,5) by (cases points) simp_all
    ultimately show ?thesis using True assms(3) by (intro exI [of _ 0] exI [of _ 0]) simp
  next
    case False
    let ?t = "last (cumlen_of g points) * real k / real (n - 1)"
    obtain q where q: "locate ?t (pairs points) (pairs (cumlen_of g points)) = Some q"
      using resample_located(2) [OF sn assms(3,4) False assms(5)] by blast
    have "resample_curve g points n ! k = q"
      using resample_located(1) [OF sn assms(3,4) False] assms(5) q by simp
    moreover have "hd (cumlen_of g points) \<le> ?t" using c(2) target_range(1) [OF c(3) assms(5)] by simp
    ultimately show ?thesis using locate_at [OF c(1) c(4) [symmetric] _ q] by simp
  qed
qed

text \<open>The first resampled point is the first point of the input.\<close>

theorem resample_starts_at_first:
  assumes "geo_laws g" "polyline_valid points" "2 \<le> length points" "2 \<le> n"
  shows "hd (resample_curve g points n) = hd points"
proof (cases "last (cumlen_of g points) = 0")
  case True
  then show ?thesis using resample_degenerate assms(3,4) by simp
next
  case False
  have sn: "seg_nonneg g points" using seg_nonneg_valid assms(1,2) .
  obtain a b ps where p: "points = a # b # ps" using assms(3) by (metis Suc_le_length_iff numeral_2_eq_2)
  have "0 \<le> geo_dist g a b" using sn p by (simp add: seg_nonneg_Cons)
  then have "locate 0 (pairs points) (pairs (cumlen_of g points)) = Some a"
    using p by (simp add: cumlen_of_def Let_def)
  then show ?thesis using resample_located(1) [OF sn assms(3,4) False] assms(4) p
    by (simp add: hd_map upt_conv_Cons del: upt_Suc)
qed

section \<open>Witnesses\<close>

lemma two_point_valid: "polyline_valid [\<lparr>lng = 0, lat = 0\<rparr>, \<lparr>lng = 2, lat = (0::real)\<rparr>]"
  by (simp add: valid_coord_def)

theorem resample_length_witness:
  "geo_laws taxicab_kernel \<and> polyline_valid [\<lparr>lng = 0, lat = 0\<rparr>, \<lparr>lng = 2, lat = (0::real)\<rparr>] \<and> length (resample_curve taxicab_kernel [\<lparr>lng = 0, lat = 0\<rparr>, \<lparr>lng = 2, lat = (0::real)\<rparr>] 3) = 3"
  using resample_length [OF taxicab_kernel_laws two_point_valid] taxicab_kernel_laws two_point_valid by simp

theorem resample_arc_position_witness:
  "geo_laws taxicab_kernel \<and> polyline_valid [\<lparr>lng = 0, lat = 0\<rparr>, \<lparr>lng = 2, lat = (0::real)\<rparr>] \<and> (1::nat) < 3 \<and>
   (\<exists>i f. Suc i < length [\<lparr>lng = 0, lat = 0\<rparr>, \<lparr>lng = 2, lat = (0::real)\<rparr>] \<and> 0 \<le> f \<and> f \<le> 1 \<and>
      resample_curve taxicab_kernel [\<lparr>lng = 0, lat = 0\<rparr>, \<lparr>lng = 2, lat = (0::real)\<rparr>] 3 ! 1 = interp ([\<lparr>lng = 0, lat = 0\<rparr>, \<lparr>lng = 2, lat = (0::real)\<rparr>] ! i) ([\<lparr>lng = 0, lat = 0\<rparr>, \<lparr>lng = 2, lat = (0::real)\<rparr>] ! Suc i) f \<and>
      cumlen_of taxicab_kernel [\<lparr>lng = 0, lat = 0\<rparr>, \<lparr>lng = 2, lat = (0::real)\<rparr>] ! i + f * (cumlen_of taxicab_kernel [\<lparr>lng = 0, lat = 0\<rparr>, \<lparr>lng = 2, lat = (0::real)\<rparr>] ! Suc i - cumlen_of taxicab_kernel [\<lparr>lng = 0, lat = 0\<rparr>, \<lparr>lng = 2, lat = (0::real)\<rparr>] ! i) =
      last (cumlen_of taxicab_kernel [\<lparr>lng = 0, lat = 0\<rparr>, \<lparr>lng = 2, lat = (0::real)\<rparr>]) * real 1 / real (3 - 1))"
proof (intro conjI taxicab_kernel_laws two_point_valid)
  show "(1::nat) < 3" by simp
  show "\<exists>i f. Suc i < length [\<lparr>lng = 0, lat = 0\<rparr>, \<lparr>lng = 2, lat = (0::real)\<rparr>] \<and> 0 \<le> f \<and> f \<le> 1 \<and>
      resample_curve taxicab_kernel [\<lparr>lng = 0, lat = 0\<rparr>, \<lparr>lng = 2, lat = (0::real)\<rparr>] 3 ! 1 = interp ([\<lparr>lng = 0, lat = 0\<rparr>, \<lparr>lng = 2, lat = (0::real)\<rparr>] ! i) ([\<lparr>lng = 0, lat = 0\<rparr>, \<lparr>lng = 2, lat = (0::real)\<rparr>] ! Suc i) f \<and>
      cumlen_of taxicab_kernel [\<lparr>lng = 0, lat = 0\<rparr>, \<lparr>lng = 2, lat = (0::real)\<rparr>] ! i + f * (cumlen_of taxicab_kernel [\<lparr>lng = 0, lat = 0\<rparr>, \<lparr>lng = 2, lat = (0::real)\<rparr>] ! Suc i - cumlen_of taxicab_kernel [\<lparr>lng = 0, lat = 0\<rparr>, \<lparr>lng = 2, lat = (0::real)\<rparr>] ! i) =
      last (cumlen_of taxicab_kernel [\<lparr>lng = 0, lat = 0\<rparr>, \<lparr>lng = 2, lat = (0::real)\<rparr>]) * real 1 / real (3 - 1)"
    by (rule resample_arc_position [OF taxicab_kernel_laws two_point_valid]) simp_all
qed

theorem resample_starts_at_first_witness:
  "geo_laws taxicab_kernel \<and> polyline_valid [\<lparr>lng = 0, lat = 0\<rparr>, \<lparr>lng = 2, lat = (0::real)\<rparr>] \<and>
   hd (resample_curve taxicab_kernel [\<lparr>lng = 0, lat = 0\<rparr>, \<lparr>lng = 2, lat = (0::real)\<rparr>] 5) = \<lparr>lng = 0, lat = 0\<rparr>"
  using resample_starts_at_first [OF taxicab_kernel_laws two_point_valid, of 5] taxicab_kernel_laws two_point_valid
  by simp

end
