(* ===== verification/Metrics.thy ===== *)
theory Metrics
  imports Resample
begin

text \<open>
  The similarity measures of \<^verbatim>\<open>src/backend/services/shape_validator.py\<close> that the
  validator blends: the shared bounding box and the pixel mapping of
  \<open>rasterize_route\<close>, the Hausdorff distance and its 90th-percentile variant
  (with numpy's linear percentile), the point-set diameter, the ordered
  sampling score over \<open>_resample_curve\<close> and the raster IoU score. PIL's line
  drawing is a parameter \<open>line_drawer\<close>; the seeded random sampler of
  \<open>_compute_diameter\<close> is a parameter \<open>diameter_sampler\<close>. Exceptions are the
  values of \<open>py_error\<close>.
\<close>

section \<open>Definitions\<close>

text \<open>\<open>_compute_shared_bbox\<close>: the box of both point sets, each side padded by
  \<open>padding_pct\<close> of the extent (\<open>1e-6\<close> for a zero extent).\<close>

definition compute_shared_bbox :: "coordinate list \<Rightarrow> coordinate list \<Rightarrow> real \<Rightarrow> bounding_box" where
  "compute_shared_bbox points_a points_b padding_pct =
     (let all_lngs = map lng points_a @ map lng points_b;
          all_lats = map lat points_a @ map lat points_b;
          mn_lng = list_min all_lngs; mx_lng = list_max all_lngs;
          mn_lat = list_min all_lats; mx_lat = list_max all_lats;
          w = py_or (mx_lng - mn_lng) eps6;
          h = py_or (mx_lat - mn_lat) eps6
      in \<lparr>min_lng = mn_lng - w * padding_pct, min_lat = mn_lat - h * padding_pct,
          max_lng = mx_lng + w * padding_pct, max_lat = mx_lat + h * padding_pct\<rparr>)"

text \<open>\<open>int(x)\<close> on a float truncates towards zero.\<close>

definition py_int :: "real \<Rightarrow> int" where
  "py_int x = (if 0 \<le> x then \<lfloor>x\<rfloor> else \<lceil>x\<rceil>)"

text \<open>\<open>to_pixel\<close> inside \<open>rasterize_route\<close>: column from the longitude, row from
  the latitude with the y axis flipped.\<close>

definition to_pixel :: "bounding_box \<Rightarrow> nat \<Rightarrow> coordinate \<Rightarrow> int \<times> int" where
  "to_pixel bbox img_size c =
     (let w = max_lng bbox - min_lng bbox; h = max_lat bbox - min_lat bbox
      in (py_int ((lng c - min_lng bbox) / w * real (img_size - 1)),
          py_int ((max_lat bbox - lat c) / h * real (img_size - 1))))"

text \<open>A raster is the set of lit pixels \<open>(x, y)\<close> of the \<open>img_size \<times> img_size\<close> image;
  \<open>draw.line(pixels, fill=255, width=line_width)\<close> of PIL is the parameter.\<close>

type_synonym raster = "nat \<times> nat \<Rightarrow> bool"
type_synonym line_drawer = "nat \<Rightarrow> nat \<Rightarrow> (int \<times> int) list \<Rightarrow> raster"

definition rasterize_route :: "line_drawer \<Rightarrow> coordinate list \<Rightarrow> bounding_box \<Rightarrow> nat \<Rightarrow> nat \<Rightarrow> raster" where
  "rasterize_route draw coords bbox img_size line_width =
     (let pixels = map (to_pixel bbox img_size) coords
      in if 2 \<le> length pixels then draw img_size line_width pixels else (\<lambda>_. False))"

text \<open>\<open>min(haversine_distance_m(s, t) for t in tgt)\<close>, and the two directed
  distances: \<open>directed_hd\<close> keeps the running maximum from \<open>0.0\<close>.\<close>

definition min_dist :: "geo_kernel \<Rightarrow> coordinate \<Rightarrow> coordinate list \<Rightarrow> real" where
  "min_dist g s tgt = list_min (map (geo_dist g s) tgt)"

definition directed_hd :: "geo_kernel \<Rightarrow> coordinate list \<Rightarrow> coordinate list \<Rightarrow> real" where
  "directed_hd g src tgt = fold (\<lambda>s max_min. max max_min (min_dist g s tgt)) src 0"

text \<open>\<open>min()\<close> of an empty generator raises as soon as a source point meets an
  empty target.\<close>

definition hausdorff_distance :: "geo_kernel \<Rightarrow> coordinate list \<Rightarrow> coordinate list \<Rightarrow> py_error + real" where
  "hausdorff_distance g points_a points_b =
     (if (points_a \<noteq> [] \<and> points_b = []) \<or> (points_b \<noteq> [] \<and> points_a = []) then Inl Value_error
      else Inr (max (directed_hd g points_a points_b) (directed_hd g points_b points_a)))"

definition directed_distances :: "geo_kernel \<Rightarrow> coordinate list \<Rightarrow> coordinate list \<Rightarrow> real list" where
  "directed_distances g src tgt = map (\<lambda>s. min_dist g s tgt) src"

text \<open>\<open>np.percentile(a, q)\<close> with numpy's default linear method: the sorted
  values interpolated at the virtual index \<open>q / 100 * (n - 1)\<close>.\<close>

definition np_percentile :: "real list \<Rightarrow> real \<Rightarrow> py_error + real" where
  "np_percentile a q =
     (if a = [] then Inl Index_error
      else let xs = sort a; n = length xs; idx = q / 100 * real (n - 1);
               lo = nat \<lfloor>idx\<rfloor>; hi = min (Suc lo) (n - 1); gamma = idx - real lo
           in Inr (xs ! lo + (xs ! hi - xs ! lo) * gamma))"

definition modified_hausdorff_distance :: "geo_kernel \<Rightarrow> coordinate list \<Rightarrow> coordinate list \<Rightarrow> real \<Rightarrow> py_error + real" where
  "modified_hausdorff_distance g points_a points_b percentile =
     (if (points_a \<noteq> [] \<and> points_b = []) \<or> (points_b \<noteq> [] \<and> points_a = []) then Inl Value_error
      else np_percentile (directed_distances g points_a points_b @ directed_distances g points_b points_a) percentile)"

text \<open>\<open>_compute_diameter\<close>: the largest distance over a list of index pairs,
  from \<open>0.0\<close>, replaced only by a strictly larger one. Up to 60 points every
  pair \<open>i < j\<close> is checked; above, point \<open>i\<close> is checked against the indices
  \<open>rng.sample(range(n), min(50, n))\<close> returns for it, which the seeded generator
  fixes as a function of \<open>n\<close> and \<open>i\<close>.\<close>

type_synonym diameter_sampler = "nat \<Rightarrow> nat \<Rightarrow> nat list"

definition scan_max :: "geo_kernel \<Rightarrow> coordinate list \<Rightarrow> (nat \<times> nat) list \<Rightarrow> real" where
  "scan_max g points idx =
     fold (\<lambda>(i, j) max_dist. let d = geo_dist g (points ! i) (points ! j) in if d > max_dist then d else max_dist)
       idx 0"

definition all_pairs :: "nat \<Rightarrow> (nat \<times> nat) list" where
  "all_pairs n = concat (map (\<lambda>i. map (Pair i) [Suc i..<n]) [0..<n])"

definition sampled_pairs :: "diameter_sampler \<Rightarrow> nat \<Rightarrow> (nat \<times> nat) list" where
  "sampled_pairs smp n = concat (map (\<lambda>i. map (Pair i) (filter (\<lambda>j. i \<noteq> j) (smp n i))) [0..<n])"

definition compute_diameter :: "geo_kernel \<Rightarrow> diameter_sampler \<Rightarrow> coordinate list \<Rightarrow> real" where
  "compute_diameter g smp points =
     (let n = length points in
      if n < 2 then 0
      else if n \<le> 60 then scan_max g points (all_pairs n)
      else scan_max g points (sampled_pairs smp n))"

text \<open>\<open>rng.sample(range(n), k)\<close> draws indices below \<open>n\<close>.\<close>

definition sampler_ok :: "diameter_sampler \<Rightarrow> nat \<Rightarrow> bool" where
  "sampler_ok smp n \<longleftrightarrow> (\<forall>i < n. \<forall>j \<in> set (smp n i). j < n)"

text \<open>\<open>_ordered_sampling_score\<close>: the mean distance between corresponding
  resampled points, normalised by the target's diameter.\<close>

definition ordered_sampling_score :: "geo_kernel \<Rightarrow> diameter_sampler \<Rightarrow> coordinate list \<Rightarrow> coordinate list \<Rightarrow> nat \<Rightarrow> real" where
  "ordered_sampling_score g smp target actual n_samples =
     (let t_resampled = resample_curve g target n_samples;
          a_resampled = resample_curve g actual n_samples
      in if t_resampled = [] \<or> a_resampled = [] then 0
         else let dists = map (\<lambda>(t, a). geo_dist g t a) (zip t_resampled a_resampled);
                  mean_dist = sum_list dists / real (length dists);
                  diameter = compute_diameter g smp target
              in if diameter = 0 then 0
                 else of_int (py_round ((1 - min (mean_dist / diameter) 1) * 100)))"

text \<open>\<open>(arr > 0).sum()\<close> over the image, and \<open>_raster_iou_score\<close>.\<close>

definition count_pixels :: "nat \<Rightarrow> raster \<Rightarrow> nat" where
  "count_pixels img_size r = length (filter r (List.product [0..<img_size] [0..<img_size]))"

definition raster_iou_score :: "line_drawer \<Rightarrow> coordinate list \<Rightarrow> coordinate list \<Rightarrow> nat \<Rightarrow> nat \<Rightarrow> real" where
  "raster_iou_score draw target actual img_size line_width =
     (let bbox = compute_shared_bbox target actual (1 / 10);
          img_t = rasterize_route draw target bbox img_size line_width;
          img_a = rasterize_route draw actual bbox img_size line_width;
          intersection = count_pixels img_size (\<lambda>p. img_t p \<and> img_a p);
          union = count_pixels img_size (\<lambda>p. img_t p \<or> img_a p)
      in if union = 0 then 0 else of_int (py_round (real intersection / real union * 100)))"

section \<open>Lemmas\<close>

subsection \<open>Diameter\<close>

text \<open>The reference the diameter is measured against: the largest distance
  between two points of the set.\<close>

definition point_set_diameter :: "geo_kernel \<Rightarrow> coordinate list \<Rightarrow> real" where
  "point_set_diameter g points = list_max (concat (map (\<lambda>a. map (geo_dist g a) points) points))"

lemma scan_max_Max:
  "scan_max g points idx = Max (insert 0 ((\<lambda>(i, j). geo_dist g (points ! i) (points ! j)) ` set idx))"
proof -
  have "scan_max g points idx = fold (\<lambda>x m. max m ((\<lambda>(i, j). geo_dist g (points ! i) (points ! j)) x)) idx 0"
    unfolding scan_max_def by (intro fold_cong) (auto simp: max_def fun_eq_iff Let_def)
  then show ?thesis by (simp add: fold_max_Max)
qed

lemma set_all_pairs: "set (all_pairs n) = {(i, j). i < j \<and> j < n}"
  by (auto simp: all_pairs_def image_iff)

lemma set_sampled_pairs: "set (sampled_pairs smp n) = {(i, j). i < n \<and> j \<in> set (smp n i) \<and> i \<noteq> j}"
  by (auto simp: sampled_pairs_def)

lemma point_set_diameter_Max:
  "points \<noteq> [] \<Longrightarrow> point_set_diameter g points = Max {geo_dist g (points ! i) (points ! j) | i j. i < length points \<and> j < length points}"
proof -
  assume ne: "points \<noteq> []"
  have "set (concat (map (\<lambda>a. map (geo_dist g a) points) points)) =
        {geo_dist g (points ! i) (points ! j) | i j. i < length points \<and> j < length points}"
    by (auto simp: in_set_conv_nth image_iff) (use nth_mem in blast)+
  moreover have "concat (map (\<lambda>a. map (geo_dist g a) points) points) \<noteq> []" using ne by simp
  ultimately show ?thesis unfolding point_set_diameter_def by (simp add: list_max_Max)
qed

lemma all_pairs_values:
  assumes "geo_laws g" "points \<noteq> []"
  shows "insert 0 ((\<lambda>(i, j). geo_dist g (points ! i) (points ! j)) ` {(i, j). i < j \<and> j < length points}) =
         {geo_dist g (points ! i) (points ! j) | i j. i < length points \<and> j < length points}"
    (is "?L = ?R")
proof
  have "0 \<in> ?R" using assms by (auto intro!: exI [of _ 0] simp: geo_laws_dist_self)
  moreover have "(\<lambda>(i, j). geo_dist g (points ! i) (points ! j)) ` {(i, j). i < j \<and> j < length points} \<subseteq> ?R"
    by fastforce
  ultimately show "?L \<subseteq> ?R" by blast
next
  show "?R \<subseteq> ?L"
  proof
    fix x assume "x \<in> ?R"
    then obtain i j where ij: "i < length points" "j < length points" "x = geo_dist g (points ! i) (points ! j)"
      by blast
    consider "i < j" | "i = j" | "j < i" by linarith
    then show "x \<in> ?L"
    proof cases
      case 1
      then show ?thesis using ij by auto
    next
      case 2
      then show ?thesis using ij assms(1) by (simp add: geo_laws_dist_self)
    next
      case 3
      then have "x = geo_dist g (points ! j) (points ! i)" using ij assms(1) by (simp add: geo_laws_dist_sym)
      then show ?thesis using ij 3 by auto
    qed
  qed
qed

lemma scan_sampled_le_diameter:
  assumes "geo_laws g" "points \<noteq> []" "sampler_ok smp (length points)"
  shows "scan_max g points (sampled_pairs smp (length points)) \<le> point_set_diameter g points"
proof -
  let ?R = "{geo_dist g (points ! i) (points ! j) | i j. i < length points \<and> j < length points}"
  have fin: "finite ?R"
  proof -
    have "?R = (\<lambda>(i, j). geo_dist g (points ! i) (points ! j)) ` ({..<length points} \<times> {..<length points})"
      by auto
    then show ?thesis by simp
  qed
  have "0 \<in> ?R" using assms(1,2) by (auto intro!: exI [of _ 0] simp: geo_laws_dist_self)
  moreover have "(\<lambda>(i, j). geo_dist g (points ! i) (points ! j)) ` set (sampled_pairs smp (length points)) \<subseteq> ?R"
    using assms(3) by (auto simp: set_sampled_pairs sampler_ok_def)
  ultimately show ?thesis
    unfolding scan_max_Max point_set_diameter_Max [OF assms(2)]
    by (intro Max_mono fin) auto
qed

lemma scan_max_nonneg: "0 \<le> scan_max g points idx"
  by (simp add: scan_max_Max)

lemma compute_diameter_single: "geo_laws g \<Longrightarrow> length points = 1 \<Longrightarrow>
  compute_diameter g smp points = 0 \<and> point_set_diameter g points = 0"
  by (cases points) (simp_all add: compute_diameter_def point_set_diameter_def list_max_def geo_laws_dist_self)

lemma scan_all_pairs_diameter:
  "geo_laws g \<Longrightarrow> points \<noteq> [] \<Longrightarrow> scan_max g points (all_pairs (length points)) = point_set_diameter g points"
proof -
  assume a: "geo_laws g" and ne: "points \<noteq> []"
  have "scan_max g points (all_pairs (length points)) =
        Max (insert 0 ((\<lambda>(i, j). geo_dist g (points ! i) (points ! j)) ` {(i, j). i < j \<and> j < length points}))"
    by (simp only: scan_max_Max set_all_pairs)
  also have "\<dots> = point_set_diameter g points"
    using all_pairs_values [OF a ne] point_set_diameter_Max [OF ne] by simp
  finally show ?thesis .
qed

subsection \<open>Percentile and Hausdorff distances\<close>

lemma np_percentile_between:
  assumes "a \<noteq> []" "0 \<le> q" "q \<le> 100"
  shows "\<exists>p. np_percentile a q = Inr p \<and> (\<exists>x \<in> set a. \<exists>y \<in> set a. x \<le> p \<and> p \<le> y)"
proof -
  define xs where "xs = sort a"
  define n where "n = length xs"
  define idx where "idx = q / 100 * real (n - 1)"
  define lo where "lo = nat \<lfloor>idx\<rfloor>"
  define hi where "hi = min (Suc lo) (n - 1)"
  define gamma where "gamma = idx - real lo"
  have n0: "0 < n" using assms(1) by (simp add: n_def xs_def)
  have idx0: "0 \<le> idx" using assms(2) by (simp add: idx_def)
  have "idx \<le> real (n - 1)"
    using assms(3) mult_left_le_one_le [of "real (n - 1)" "q / 100"] assms(2) by (simp add: idx_def mult.commute)
  then have "lo \<le> n - 1" using idx0 by (simp add: lo_def nat_le_iff floor_le_iff)
  then have lohi: "lo \<le> hi" "hi < n" using n0 by (auto simp: hi_def)
  have lo_real: "real lo = of_int \<lfloor>idx\<rfloor>" using idx0 by (simp add: lo_def)
  have g: "0 \<le> gamma" "gamma \<le> 1"
    using lo_real floor_le_one [of idx] by (simp_all add: gamma_def) linarith
  have sorted: "xs ! lo \<le> xs ! hi" using lohi sorted_nth_mono [of xs lo hi] by (simp add: xs_def n_def)
  define p where "p = xs ! lo + (xs ! hi - xs ! lo) * gamma"
  have "xs ! lo \<le> p" "p \<le> xs ! hi"
    using sorted g mult_left_le [of gamma "xs ! hi - xs ! lo"] by (simp_all add: p_def)
  moreover have "xs ! lo \<in> set a" "xs ! hi \<in> set a"
    using lohi nth_mem [of lo xs] nth_mem [of hi xs] by (simp_all add: xs_def n_def)
  moreover have "np_percentile a q = Inr p"
    using assms(1) by (simp add: np_percentile_def Let_def p_def gamma_def hi_def lo_def idx_def n_def xs_def)
  ultimately show ?thesis by blast
qed

lemma directed_hd_Max: "directed_hd g src tgt = Max (insert 0 ((\<lambda>s. min_dist g s tgt) ` set src))"
  by (simp add: directed_hd_def fold_max_Max)

lemma directed_hd_ge: "s \<in> set src \<Longrightarrow> min_dist g s tgt \<le> directed_hd g src tgt"
  by (simp add: directed_hd_Max)

lemma min_dist_nonneg:
  "geo_laws g \<Longrightarrow> valid_coord s \<Longrightarrow> polyline_valid tgt \<Longrightarrow> tgt \<noteq> [] \<Longrightarrow> 0 \<le> min_dist g s tgt"
  using list_min_in [of "map (geo_dist g s) tgt"] by (auto simp: min_dist_def list_all_iff geo_laws_dist_nonneg)

lemma min_dist_member:
  assumes "geo_laws g" "valid_coord s" "polyline_valid tgt" "s \<in> set tgt"
  shows "min_dist g s tgt = 0"
proof -
  have "min_dist g s tgt \<le> 0"
    using list_min_le [of 0 "map (geo_dist g s) tgt"] assms(1,4) by (force simp: min_dist_def geo_laws_dist_self)
  then show ?thesis using min_dist_nonneg [OF assms(1-3)] assms(4) by fastforce
qed

lemma directed_distances_self:
  "geo_laws g \<Longrightarrow> polyline_valid ps \<Longrightarrow> set (directed_distances g ps ps) \<subseteq> {0}"
  by (auto simp: directed_distances_def list_all_iff intro: min_dist_member)

lemma modified_hausdorff_self_zero:
  assumes "geo_laws g" "polyline_valid points" "points \<noteq> []" "0 \<le> q" "q \<le> 100"
  shows "modified_hausdorff_distance g points points q = Inr 0"
proof -
  let ?all = "directed_distances g points points @ directed_distances g points points"
  have "?all \<noteq> []" using assms(3) by (simp add: directed_distances_def)
  then obtain m x y where m: "np_percentile ?all q = Inr m" "x \<in> set ?all" "y \<in> set ?all" "x \<le> m" "m \<le> y"
    using np_percentile_between [OF _ assms(4,5)] by blast
  moreover have "x = 0" "y = 0" using m(2,3) directed_distances_self [OF assms(1,2)] by auto
  ultimately show ?thesis using assms(3) by (simp add: modified_hausdorff_distance_def)
qed

lemma scan_max_constant:
  assumes "geo_laws g" "\<forall>p \<in> set points. p = c" "\<forall>(i, j) \<in> set idx. i < length points \<and> j < length points"
  shows "scan_max g points idx = 0"
proof -
  have "geo_dist g (points ! i) (points ! j) = 0" if "(i, j) \<in> set idx" for i j
  proof -
    have "points ! i = c" "points ! j = c" using assms(2,3) that by auto
    then show ?thesis using assms(1) by (simp add: geo_laws_dist_self)
  qed
  then have "(\<lambda>(i, j). geo_dist g (points ! i) (points ! j)) ` set idx \<subseteq> {0}" by auto
  then show ?thesis unfolding scan_max_Max by (cases "set idx = {}") (auto simp: subset_singleton_iff)
qed

lemma compute_diameter_constant:
  assumes "geo_laws g" "\<forall>p \<in> set points. p = c" "sampler_ok smp (length points)"
  shows "compute_diameter g smp points = 0"
proof -
  have "\<forall>(i, j) \<in> set (all_pairs (length points)). i < length points \<and> j < length points"
    by (auto simp: set_all_pairs)
  moreover have "\<forall>(i, j) \<in> set (sampled_pairs smp (length points)). i < length points \<and> j < length points"
    using assms(3) by (auto simp: set_sampled_pairs sampler_ok_def)
  ultimately show ?thesis
    using scan_max_constant [OF assms(1,2)] by (simp add: compute_diameter_def Let_def)
qed

subsection \<open>Scores\<close>

text \<open>The normalised scores: \<open>(1 - min(r, 1)) * 100\<close> for a non-negative ratio, and
  \<open>round\<close> of a value in [0, 100].\<close>

lemma normalised_score_range: "0 \<le> r \<Longrightarrow> 0 \<le> (1 - min r 1) * 100 \<and> (1 - min r 1) * (100 :: real) \<le> 100"
  by (simp add: min_def)

lemma py_round_percent: "0 \<le> x \<Longrightarrow> x \<le> 100 \<Longrightarrow> 0 \<le> real_of_int (py_round x) \<and> real_of_int (py_round x) \<le> 100"
  using py_round_int_bounds [of 0 x 100] by simp

lemma compute_diameter_nonneg: "0 \<le> compute_diameter g smp points"
  by (simp add: compute_diameter_def Let_def scan_max_nonneg)

lemma ordered_sampling_range:
  assumes "geo_laws g" "polyline_valid target" "polyline_valid actual"
  shows "0 \<le> ordered_sampling_score g smp target actual n \<and> ordered_sampling_score g smp target actual n \<le> 100"
proof -
  let ?t = "resample_curve g target n" and ?a = "resample_curve g actual n"
  let ?dists = "map (\<lambda>(t, a). geo_dist g t a) (zip ?t ?a)"
  have vt: "polyline_valid ?t" and va: "polyline_valid ?a" using resample_valid assms by blast+
  have "\<forall>d \<in> set ?dists. 0 \<le> d"
    using vt va assms(1) by (auto simp: list_all_iff geo_laws_dist_nonneg elim!: in_set_zipE)
  then have mean: "0 \<le> sum_list ?dists / real (length ?dists)" by (intro divide_nonneg_nonneg sum_list_nonneg) auto
  have "0 \<le> sum_list ?dists / real (length ?dists) / compute_diameter g smp target" by (rule divide_nonneg_nonneg [OF mean compute_diameter_nonneg])
  then show ?thesis
    using py_round_percent normalised_score_range
    by (simp add: ordered_sampling_score_def Let_def)
qed

lemma ordered_sampling_self:
  assumes "geo_laws g" "polyline_valid points" "points \<noteq> []" "0 < n"
    "compute_diameter g smp points \<noteq> 0"
  shows "ordered_sampling_score g smp points points n = 100"
proof -
  let ?t = "resample_curve g points n"
  have "?t \<noteq> []" using resample_nonempty assms(1-4) .
  moreover have "map (\<lambda>(t, a). geo_dist g t a) (zip ?t ?t) = map (\<lambda>_. 0) ?t"
    using assms(1) by (simp add: zip_same_conv_map comp_def geo_laws_dist_self)
  ultimately show ?thesis using assms(5) by (simp add: ordered_sampling_score_def Let_def sum_list_triv)
qed

lemma count_pixels_mono:
  "(\<And>p. r p \<Longrightarrow> r' p) \<Longrightarrow> count_pixels sz r \<le> count_pixels sz r'"
  unfolding count_pixels_def by (rule length_filter_mono)

lemma ratio_percent: "(i :: nat) \<le> u \<Longrightarrow> 0 \<le> real i / real u * 100 \<and> real i / real u * 100 \<le> (100 :: real)"
proof -
  assume "i \<le> u"
  then have r: "real i / real u \<le> 1" by (cases "u = 0") (simp_all add: divide_le_eq_1)
  have "real i / real u * 100 \<le> 1 * 100" by (rule mult_right_mono [OF r]) simp
  then show ?thesis by simp
qed

lemma iou_percent:
  "0 \<le> (if u = 0 then 0 else real_of_int (py_round (real i / real u * 100))) \<and>
   (if u = 0 then 0 else real_of_int (py_round (real i / real u * 100))) \<le> 100"
  if "(i :: nat) \<le> u"
  using py_round_percent ratio_percent [OF that] by simp

lemma raster_iou_range: "0 \<le> raster_iou_score draw target actual sz w \<and> raster_iou_score draw target actual sz w \<le> 100"
  unfolding raster_iou_score_def Let_def by (rule iou_percent, rule count_pixels_mono) simp

lemma raster_iou_self: "raster_iou_score draw points points sz w \<in> {0, 100}"
  by (simp add: raster_iou_score_def Let_def)

subsection \<open>Shared box and pixels\<close>

lemma py_int_nonneg: "0 \<le> x \<Longrightarrow> py_int x = \<lfloor>x\<rfloor>"
  by (simp add: py_int_def)

lemma pixel_range:
  assumes "0 \<le> a" "a \<le> W" "0 < W"
  shows "0 \<le> py_int (a / W * real k) \<and> py_int (a / W * real k) \<le> int k"
proof -
  have f: "0 \<le> a / W" "a / W \<le> 1" using assms by simp_all
  then have "a / W * real k \<le> 1 * real k" by (intro mult_right_mono) simp_all
  moreover have "0 \<le> a / W * real k" using f by (intro mult_nonneg_nonneg) simp_all
  ultimately show ?thesis by (simp add: py_int_nonneg floor_le_iff)
qed

text \<open>On one axis: the padded extent is positive and contains every value.\<close>

lemma padded_extent:
  fixes vs :: "real list"
  assumes "v \<in> set vs" "0 < pad"
  defines "w \<equiv> py_or (list_max vs - list_min vs) eps6"
  shows "0 < (list_max vs + w * pad) - (list_min vs - w * pad)"
    "0 \<le> v - (list_min vs - w * pad)" "v - (list_min vs - w * pad) \<le> (list_max vs + w * pad) - (list_min vs - w * pad)"
    "0 \<le> (list_max vs + w * pad) - v" "(list_max vs + w * pad) - v \<le> (list_max vs + w * pad) - (list_min vs - w * pad)"
proof -
  have w: "0 < w" unfolding w_def by (rule py_or_eps6_pos [OF list_extent_nonneg])
  then have wp: "0 < w * pad" using assms(2) by simp
  have "list_min vs \<le> v" "v \<le> list_max vs" using assms(1) list_min_le list_max_ge by blast+
  then show "0 < (list_max vs + w * pad) - (list_min vs - w * pad)"
    "0 \<le> v - (list_min vs - w * pad)" "v - (list_min vs - w * pad) \<le> (list_max vs + w * pad) - (list_min vs - w * pad)"
    "0 \<le> (list_max vs + w * pad) - v" "(list_max vs + w * pad) - v \<le> (list_max vs + w * pad) - (list_min vs - w * pad)"
    using wp by linarith+
qed

section \<open>Properties\<close>

text \<open>C20. For at most 60 points \<open>_compute_diameter\<close> checks every pair and returns
  the exact diameter of the point set: the largest distance between two of
  its points.\<close>

theorem compute_diameter_exact:
  assumes "geo_laws g" "points \<noteq> []" "length points \<le> 60"
  shows "compute_diameter g smp points = point_set_diameter g points"
proof (cases "length points < 2")
  case True
  then have "length points = 1" using assms(2) by (cases points) simp_all
  then show ?thesis using compute_diameter_single assms(1) by simp
next
  case False
  then show ?thesis using assms(3) scan_all_pairs_diameter [OF assms(1,2)] by (simp add: compute_diameter_def)
qed

text \<open>Above 60 points \<open>_compute_diameter\<close> samples pairs; for any sampler
  drawing indices of the set, the result is between 0 and the exact diameter,
  so the sampled diameter never overstates the shape's size.\<close>

theorem compute_diameter_bounds:
  assumes "geo_laws g" "points \<noteq> []" "sampler_ok smp (length points)"
  shows "0 \<le> compute_diameter g smp points \<and> compute_diameter g smp points \<le> point_set_diameter g points"
proof -
  consider "length points < 2" | "\<not> length points < 2" "length points \<le> 60" | "60 < length points" by linarith
  then show ?thesis
  proof cases
    case 1
    then have "length points = 1" using assms(2) by (cases points) simp_all
    then show ?thesis using compute_diameter_single assms(1) by simp
  next
    case 2
    then show ?thesis using scan_all_pairs_diameter [OF assms(1,2)] scan_max_nonneg [of g points "all_pairs (length points)"]
      by (simp add: compute_diameter_def)
  next
    case 3
    then show ?thesis using scan_sampled_le_diameter [OF assms] by (simp add: compute_diameter_def scan_max_nonneg)
  qed
qed

text \<open>C22. The 90th-percentile (modified) Hausdorff distance is defined for any
  two non-empty point sets and never exceeds the Hausdorff distance, for every
  percentile in [0, 100].\<close>

theorem modified_hausdorff_le_hausdorff:
  assumes "points_a \<noteq> []" "points_b \<noteq> []" "0 \<le> q" "q \<le> 100"
  shows "\<exists>m h. modified_hausdorff_distance g points_a points_b q = Inr m \<and>
               hausdorff_distance g points_a points_b = Inr h \<and> m \<le> h"
proof -
  let ?all = "directed_distances g points_a points_b @ directed_distances g points_b points_a"
  have "?all \<noteq> []" using assms(1) by (simp add: directed_distances_def)
  then obtain m y where m: "np_percentile ?all q = Inr m" "y \<in> set ?all" "m \<le> y"
    using np_percentile_between [OF _ assms(3,4)] by blast
  have "y \<le> max (directed_hd g points_a points_b) (directed_hd g points_b points_a)"
    using m(2) by (auto simp: directed_distances_def intro: max.coboundedI1 max.coboundedI2 directed_hd_ge)
  then show ?thesis using m assms(1,2)
    by (simp add: modified_hausdorff_distance_def hausdorff_distance_def)
qed

text \<open>With a positive padding the shared box of \<open>_raster_iou_score\<close> has a
  positive width and height, so \<open>to_pixel\<close> never divides by zero, and every
  point of either shape maps to a pixel inside the \<open>size \<times> size\<close> image.\<close>

theorem shared_bbox_pixel_in_image:
  assumes "0 < padding_pct" "c \<in> set points_a \<union> set points_b"
  shows "let bbox = compute_shared_bbox points_a points_b padding_pct in
           min_lng bbox < max_lng bbox \<and> min_lat bbox < max_lat bbox \<and>
           0 \<le> fst (to_pixel bbox img_size c) \<and> fst (to_pixel bbox img_size c) \<le> int (img_size - 1) \<and>
           0 \<le> snd (to_pixel bbox img_size c) \<and> snd (to_pixel bbox img_size c) \<le> int (img_size - 1)"
proof -
  define L where "L = map lng points_a @ map lng points_b"
  define A where "A = map lat points_a @ map lat points_b"
  define wL where "wL = py_or (list_max L - list_min L) eps6"
  define wA where "wA = py_or (list_max A - list_min A) eps6"
  have bb: "compute_shared_bbox points_a points_b padding_pct =
              \<lparr>min_lng = list_min L - wL * padding_pct, min_lat = list_min A - wA * padding_pct,
               max_lng = list_max L + wL * padding_pct, max_lat = list_max A + wA * padding_pct\<rparr>"
    by (simp add: compute_shared_bbox_def Let_def L_def A_def wL_def wA_def)
  have "lng c \<in> set L" "lat c \<in> set A" using assms(2) by (auto simp: L_def A_def)
  note eL = padded_extent [OF \<open>lng c \<in> set L\<close> assms(1), folded wL_def]
    and eA = padded_extent [OF \<open>lat c \<in> set A\<close> assms(1), folded wA_def]
  note pL = pixel_range [OF eL(2,3,1), of "img_size - 1"]
    and pA = pixel_range [OF eA(4,5,1), of "img_size - 1"]
  show ?thesis unfolding Let_def bb to_pixel_def using eL(1) eA(1) pL pA by simp
qed

section \<open>Witnesses\<close>

theorem compute_diameter_exact_witness:
  "geo_laws taxicab_kernel \<and> [\<lparr>lng = 0, lat = 0\<rparr>, \<lparr>lng = 2, lat = (0::real)\<rparr>] \<noteq> [] \<and> length [\<lparr>lng = 0, lat = 0\<rparr>, \<lparr>lng = 2, lat = (0::real)\<rparr>] \<le> 60 \<and>
   compute_diameter taxicab_kernel (\<lambda>_ _. [] :: nat list) [\<lparr>lng = 0, lat = 0\<rparr>, \<lparr>lng = 2, lat = (0::real)\<rparr>] = point_set_diameter taxicab_kernel [\<lparr>lng = 0, lat = 0\<rparr>, \<lparr>lng = 2, lat = (0::real)\<rparr>]"
  using compute_diameter_exact [OF taxicab_kernel_laws, of "[\<lparr>lng = 0, lat = 0\<rparr>, \<lparr>lng = 2, lat = (0::real)\<rparr>]" "(\<lambda>_ _. [] :: nat list)"] taxicab_kernel_laws by simp

theorem compute_diameter_bounds_witness:
  "geo_laws taxicab_kernel \<and> [\<lparr>lng = 0, lat = 0\<rparr>, \<lparr>lng = 2, lat = (0::real)\<rparr>] \<noteq> [] \<and> sampler_ok (\<lambda>_ _. [] :: nat list) (length [\<lparr>lng = 0, lat = 0\<rparr>, \<lparr>lng = 2, lat = (0::real)\<rparr>]) \<and>
   0 \<le> compute_diameter taxicab_kernel (\<lambda>_ _. [] :: nat list) [\<lparr>lng = 0, lat = 0\<rparr>, \<lparr>lng = 2, lat = (0::real)\<rparr>] \<and>
   compute_diameter taxicab_kernel (\<lambda>_ _. [] :: nat list) [\<lparr>lng = 0, lat = 0\<rparr>, \<lparr>lng = 2, lat = (0::real)\<rparr>] \<le> point_set_diameter taxicab_kernel [\<lparr>lng = 0, lat = 0\<rparr>, \<lparr>lng = 2, lat = (0::real)\<rparr>]"
proof -
  have s: "sampler_ok (\<lambda>_ _. [] :: nat list) (length [\<lparr>lng = 0, lat = 0\<rparr>, \<lparr>lng = 2, lat = (0::real)\<rparr>])" by (simp add: sampler_ok_def)
  show ?thesis using compute_diameter_bounds [OF taxicab_kernel_laws _ s] taxicab_kernel_laws s by simp
qed

theorem modified_hausdorff_le_hausdorff_witness:
  "[\<lparr>lng = 0, lat = 0\<rparr>, \<lparr>lng = 2, lat = (0::real)\<rparr>] \<noteq> [] \<and> [\<lparr>lng = 0, lat = 1\<rparr>, \<lparr>lng = 2, lat = (1::real)\<rparr>] \<noteq> [] \<and> 0 \<le> (90::real) \<and> (90::real) \<le> 100 \<and>
   (\<exists>m h. modified_hausdorff_distance taxicab_kernel [\<lparr>lng = 0, lat = 0\<rparr>, \<lparr>lng = 2, lat = (0::real)\<rparr>] [\<lparr>lng = 0, lat = 1\<rparr>, \<lparr>lng = 2, lat = (1::real)\<rparr>] 90 = Inr m \<and>
          hausdorff_distance taxicab_kernel [\<lparr>lng = 0, lat = 0\<rparr>, \<lparr>lng = 2, lat = (0::real)\<rparr>] [\<lparr>lng = 0, lat = 1\<rparr>, \<lparr>lng = 2, lat = (1::real)\<rparr>] = Inr h \<and> m \<le> h)"
  using modified_hausdorff_le_hausdorff [of "[\<lparr>lng = 0, lat = 0\<rparr>, \<lparr>lng = 2, lat = (0::real)\<rparr>]" "[\<lparr>lng = 0, lat = 1\<rparr>, \<lparr>lng = 2, lat = (1::real)\<rparr>]" 90 taxicab_kernel] by simp

theorem shared_bbox_pixel_in_image_witness:
  "0 < (1 / 10 :: real) \<and> \<lparr>lng = 2, lat = (0::real)\<rparr> \<in> set [\<lparr>lng = 0, lat = 0\<rparr>, \<lparr>lng = 2, lat = (0::real)\<rparr>] \<union> set [\<lparr>lng = 0, lat = 1\<rparr>, \<lparr>lng = 2, lat = (1::real)\<rparr>] \<and>
   (let bbox = compute_shared_bbox [\<lparr>lng = 0, lat = 0\<rparr>, \<lparr>lng = 2, lat = (0::real)\<rparr>] [\<lparr>lng = 0, lat = 1\<rparr>, \<lparr>lng = 2, lat = (1::real)\<rparr>] (1 / 10) in
      min_lng bbox < max_lng bbox \<and> min_lat bbox < max_lat bbox \<and>
      0 \<le> fst (to_pixel bbox 128 \<lparr>lng = 2, lat = 0\<rparr>) \<and> fst (to_pixel bbox 128 \<lparr>lng = 2, lat = 0\<rparr>) \<le> int (128 - 1) \<and>
      0 \<le> snd (to_pixel bbox 128 \<lparr>lng = 2, lat = 0\<rparr>) \<and> snd (to_pixel bbox 128 \<lparr>lng = 2, lat = 0\<rparr>) \<le> int (128 - 1))"
proof -
  have m: "\<lparr>lng = 2, lat = (0::real)\<rparr> \<in> set [\<lparr>lng = 0, lat = 0\<rparr>, \<lparr>lng = 2, lat = (0::real)\<rparr>] \<union> set [\<lparr>lng = 0, lat = 1\<rparr>, \<lparr>lng = 2, lat = (1::real)\<rparr>]" by simp
  show ?thesis using shared_bbox_pixel_in_image [of "1 / 10" _ "[\<lparr>lng = 0, lat = 0\<rparr>, \<lparr>lng = 2, lat = (0::real)\<rparr>]" "[\<lparr>lng = 0, lat = 1\<rparr>, \<lparr>lng = 2, lat = (1::real)\<rparr>]" 128, OF _ m] m by simp
qed

end
