(* ===== verification/PyStr.thy ===== *)
theory PyStr
  imports Prelude
begin

text \<open>
  The Python string idioms the backend relies on, on HOL strings (lists of
  8-bit characters; the model reads strings as ASCII, so \<open>str.lower\<close> and
  \<open>str.isalpha\<close> are their ASCII cases): \<open>strip\<close>, \<open>find\<close>/\<open>rfind\<close> of one
  character, \<open>lower\<close>/\<open>upper\<close>, \<open>isalpha\<close>, the substring test \<open>in\<close>,
  \<open>split()\<close>, \<open>split(sep)\<close> and \<open>sep.join\<close>. Each is
  proved against the library's view where there is one (\<open>in\<close> is
  \<open>Sublist.sublist\<close>) and \<open>join\<close> inverts \<open>split\<close>.
\<close>

named_theorems py_str_simps "evaluation rules for the Python string helpers on literals"

section \<open>Definitions\<close>

text \<open>\<open>str.strip()\<close>: the characters \<open>str.isspace\<close> accepts in the 8-bit range
  (tab to carriage return, the four separators \<open>0x1c\<close>--\<open>0x1f\<close>, space, and
  \<open>0x85\<close>, \<open>0xa0\<close>).\<close>

definition py_isspace :: "char \<Rightarrow> bool" where
  "py_isspace c =
     (let n = (of_char c :: nat) in (9 \<le> n \<and> n \<le> 13) \<or> (28 \<le> n \<and> n \<le> 32) \<or> n = 133 \<or> n = 160)"

definition py_strip :: "string \<Rightarrow> string" where
  "py_strip s = rev (dropWhile py_isspace (rev (dropWhile py_isspace s)))"

text \<open>\<open>str.find\<close> and \<open>str.rfind\<close> of one character: the index, or \<open>-1\<close>.\<close>

fun py_find :: "char \<Rightarrow> string \<Rightarrow> int" where
  "py_find c [] = -1"
| "py_find c (x # xs) = (if x = c then 0 else let r = py_find c xs in if r < 0 then -1 else r + 1)"

definition py_rfind :: "char \<Rightarrow> string \<Rightarrow> int" where
  "py_rfind c s = (let r = py_find c (rev s) in if r < 0 then -1 else int (length s) - 1 - r)"

text \<open>Case mapping and \<open>isalpha\<close> on ASCII characters.\<close>

definition py_lower_char :: "char \<Rightarrow> char" where
  "py_lower_char c = (let n = (of_char c :: nat) in if 65 \<le> n \<and> n \<le> 90 then char_of (n + 32) else c)"

definition py_upper_char :: "char \<Rightarrow> char" where
  "py_upper_char c = (let n = (of_char c :: nat) in if 97 \<le> n \<and> n \<le> 122 then char_of (n - 32) else c)"

definition py_lower :: "string \<Rightarrow> string" where
  "py_lower s = map py_lower_char s"

definition py_isalpha_char :: "char \<Rightarrow> bool" where
  "py_isalpha_char c = (let n = (of_char c :: nat) in (65 \<le> n \<and> n \<le> 90) \<or> (97 \<le> n \<and> n \<le> 122))"

definition py_isalpha :: "string \<Rightarrow> bool" where
  "py_isalpha s = (s \<noteq> [] \<and> list_all py_isalpha_char s)"

text \<open>The substring test \<open>needle in hay\<close>.\<close>

fun py_in :: "string \<Rightarrow> string \<Rightarrow> bool" where
  "py_in n [] = (n = [])"
| "py_in n (c # cs) = (prefix n (c # cs) \<or> py_in n cs)"

text \<open>\<open>s.endswith(p)\<close>.\<close>

definition py_endswith :: "string \<Rightarrow> string \<Rightarrow> bool" where
  "py_endswith s p = prefix (rev p) (rev s)"

text \<open>\<open>s.split(sep)\<close> for a one-character separator (empty fields kept),
  \<open>s.split()\<close> (runs of whitespace, no empty fields) and \<open>sep.join\<close>.\<close>

fun split_on :: "(char \<Rightarrow> bool) \<Rightarrow> string \<Rightarrow> string list" where
  "split_on p [] = [[]]"
| "split_on p (c # cs) = (if p c then [] # split_on p cs else (let r = split_on p cs in (c # hd r) # tl r))"

definition py_split_sep :: "char \<Rightarrow> string \<Rightarrow> string list" where
  "py_split_sep sep s = split_on (\<lambda>c. c = sep) s"

definition py_split :: "string \<Rightarrow> string list" where
  "py_split s = filter (\<lambda>w. w \<noteq> []) (split_on py_isspace s)"

fun py_join :: "string \<Rightarrow> string list \<Rightarrow> string" where
  "py_join sep [] = []"
| "py_join sep [w] = w"
| "py_join sep (w # ws) = w @ sep @ py_join sep ws"

section \<open>Lemmas\<close>

declare py_isspace_def [py_str_simps] py_strip_def [py_str_simps] py_lower_def [py_str_simps]
  py_lower_char_def [py_str_simps] py_upper_char_def [py_str_simps] py_isalpha_char_def [py_str_simps]
  py_isalpha_def [py_str_simps] py_split_def [py_str_simps] py_split_sep_def [py_str_simps]
  char_of_def [py_str_simps] bit_0 [py_str_simps] py_endswith_def [py_str_simps]

lemma py_find_append:
  "c \<notin> set a \<Longrightarrow> py_find c (a @ c # b) = int (length a)"
  by (induction a) (auto simp: Let_def)

lemma py_rfind_append:
  "c \<notin> set b \<Longrightarrow> py_rfind c (a @ c # b) = int (length a)"
proof -
  assume "c \<notin> set b"
  then have "py_find c (rev b @ c # rev a) = int (length b)" by (simp add: py_find_append)
  then show ?thesis by (simp add: py_rfind_def Let_def)
qed

lemma py_find_absent: "c \<notin> set s \<Longrightarrow> py_find c s = -1"
  by (induction s) (auto simp: Let_def)

lemma py_in_sublist: "py_in n h \<longleftrightarrow> sublist n h"
  by (induction h) (auto simp: sublist_Cons_right)

lemma py_endswith_suffix: "py_endswith s p \<longleftrightarrow> suffix p s"
  by (simp add: py_endswith_def suffix_to_prefix)

lemma split_on_nonempty [simp]: "split_on p s \<noteq> []"
  by (induction s) (auto simp: Let_def)

lemma join_split_on: "py_join [c] (split_on (\<lambda>x. x = c) s) = s"
proof (induction s)
  case Nil
  then show ?case by simp
next
  case (Cons x s)
  obtain w ws where r: "split_on (\<lambda>x. x = c) s = w # ws"
    using split_on_nonempty by (metis list.exhaust)
  show ?case
  proof (cases "x = c")
    case True
    then show ?thesis using Cons r by simp
  next
    case False
    then show ?thesis using Cons r by (cases ws) simp_all
  qed
qed

lemma split_on_append_sep:
  "list_all (\<lambda>x. \<not> p x) a \<Longrightarrow> p s \<Longrightarrow> split_on p (a @ s # b) = a # split_on p b"
  by (induction a) (auto simp: Let_def)

lemma split_on_no_sep: "list_all (\<lambda>x. \<not> p x) a \<Longrightarrow> split_on p a = [a]"
  by (induction a) (auto simp: Let_def)

lemma split_on_append:
  "split_on p (a @ b) = butlast (split_on p a) @ (last (split_on p a) @ hd (split_on p b)) # tl (split_on p b)"
proof (induction a)
  case Nil
  then show ?case by (cases "split_on p b") simp_all
next
  case (Cons x a)
  obtain w ws where r: "split_on p a = w # ws"
    using split_on_nonempty by (metis list.exhaust)
  show ?case using Cons r by (cases ws) (auto simp: Let_def)
qed

lemma split_on_join:
  "ws \<noteq> [] \<Longrightarrow> list_all (\<lambda>w. c \<notin> set w) ws \<Longrightarrow> split_on (\<lambda>x. x = c) (py_join [c] ws) = ws"
proof (induction "[c]" ws rule: py_join.induct)
  case (2 w)
  then show ?case using split_on_no_sep [of "\<lambda>x. x = c" w] by (auto simp: list_all_iff)
next
  case (3 w v vs)
  then have "list_all (\<lambda>x. \<not> x = c) w" "split_on (\<lambda>x. x = c) (py_join [c] (v # vs)) = v # vs"
    by (auto simp: list_all_iff)
  then show ?case by (simp add: split_on_append_sep)
qed simp

end
