(* ===== verification/Validator.thy ===== *)
theory Validator
  imports Metrics PyStr
begin

text \<open>
  \<open>ShapeValidator\<close> of \<^verbatim>\<open>src/backend/services/shape_validator.py\<close>: the blended
  algorithmic validation \<open>_validate_algorithmic\<close>, the parsing half of
  \<open>_validate_with_vision\<close> and \<open>validate\<close>, which tries the vision model when an
  API key is set and falls back to the algorithmic score on any exception.
  The HTTP call is the parameter \<open>response\<close> (the message text or the
  exception it raised), \<open>json.loads\<close> is the parameter \<open>loads\<close> (\<open>None\<close> for a
  \<open>JSONDecodeError\<close>) and reading \<open>score\<close> and \<open>reasoning\<close> out of the decoded
  value is the parameter \<open>get_fields\<close>. Constructing a \<open>ValidationResult\<close> checks
  pydantic's \<open>0 <= score <= 100\<close>.
\<close>

section \<open>Definitions\<close>

text \<open>\<open>VALIDATION_THRESHOLD\<close> with the environment variable unset.\<close>

definition validation_threshold :: int where
  "validation_threshold = 45"

text \<open>\<open>ValidationResult(score=..., passed=..., method=..., reasoning=...)\<close>:
  pydantic rejects a score outside [0, 100].\<close>

definition mk_validation_result :: "real \<Rightarrow> bool \<Rightarrow> validation_method \<Rightarrow> reasoning \<Rightarrow> py_error + validation_result" where
  "mk_validation_result s p m r =
     (if 0 \<le> s \<and> s \<le> 100 then Inr \<lparr>score = s, passed = p, method_name = m, reasoning = r\<rparr>
      else Inl Validation_error)"

definition validate_algorithmic ::
  "geo_kernel \<Rightarrow> diameter_sampler \<Rightarrow> line_drawer \<Rightarrow> coordinate list \<Rightarrow> coordinate list \<Rightarrow> int \<Rightarrow> py_error + validation_result" where
  "validate_algorithmic g smp draw target_points actual_points threshold =
     (if target_points = [] \<or> actual_points = [] then mk_validation_result 0 False Algorithmic Empty_point_set
      else
        let diameter = compute_diameter g smp target_points in
        if diameter = 0 then mk_validation_result 0 False Algorithmic Degenerate_shape
        else
          case modified_hausdorff_distance g target_points actual_points 90 of
            Inl e \<Rightarrow> Inl e
          | Inr mhd \<Rightarrow>
              let mhd_norm = min (mhd / diameter) 1;
                  mhd_score = (1 - mhd_norm) * 100;
                  os_score = ordered_sampling_score g smp target_points actual_points 50;
                  iou_score = raster_iou_score draw target_points actual_points 128 12;
                  blended = 55 / 100 * mhd_score + 35 / 100 * os_score + 10 / 100 * iou_score;
                  score = py_round blended
              in mk_validation_result (of_int score) (threshold \<le> score) Algorithmic
                   (Blended mhd_score mhd os_score iou_score diameter))"

text \<open>The fallback of the vision parser: the text from the first \<open>{\<close> to the
  last \<open>}\<close>, or the \<open>ValueError\<close> it raises.\<close>

definition extract_json_span :: "string \<Rightarrow> py_error + string" where
  "extract_json_span text =
     (let start = py_find (CHR ''{'') text; stop = py_rfind (CHR ''}'') text + 1 in
      if 0 \<le> start \<and> start < stop then Inr (take (nat stop - nat start) (drop (nat start) text))
      else Inl Value_error)"

definition validate_with_vision ::
  "(string \<Rightarrow> 'j option) \<Rightarrow> ('j \<Rightarrow> py_error + real \<times> string) \<Rightarrow> py_error + string \<Rightarrow>
   coordinate list \<Rightarrow> coordinate list \<Rightarrow> int \<Rightarrow> py_error + validation_result" where
  "validate_with_vision loads get_fields response target_points actual_points threshold =
     (if target_points = [] \<and> actual_points = [] then Inl Value_error
      else case response of
        Inl e \<Rightarrow> Inl e
      | Inr content \<Rightarrow>
          let text = py_strip content;
              data = (case loads text of
                        Some d \<Rightarrow> Inr d
                      | None \<Rightarrow> (case extract_json_span text of
                                   Inl e \<Rightarrow> Inl e
                                 | Inr json_text \<Rightarrow> (case loads json_text of Some d \<Rightarrow> Inr d | None \<Rightarrow> Inl Value_error)))
          in case data of
               Inl e \<Rightarrow> Inl e
             | Inr d \<Rightarrow> (case get_fields d of
                           Inl e \<Rightarrow> Inl e
                         | Inr (score_val, reasoning_text) \<Rightarrow>
                             mk_validation_result score_val (of_int threshold \<le> score_val) Glm_4v
                               (Vision_text reasoning_text)))"

definition validate ::
  "bool \<Rightarrow> (string \<Rightarrow> 'j option) \<Rightarrow> ('j \<Rightarrow> py_error + real \<times> string) \<Rightarrow> py_error + string \<Rightarrow>
   geo_kernel \<Rightarrow> diameter_sampler \<Rightarrow> line_drawer \<Rightarrow> coordinate list \<Rightarrow> coordinate list \<Rightarrow> int \<Rightarrow>
   py_error + validation_result" where
  "validate has_key loads get_fields response g smp draw target_points actual_points threshold =
     (if has_key then
        (case validate_with_vision loads get_fields response target_points actual_points threshold of
           Inr r \<Rightarrow> Inr r
         | Inl _ \<Rightarrow> validate_algorithmic g smp draw target_points actual_points threshold)
      else validate_algorithmic g smp draw target_points actual_points threshold)"

section \<open>Lemmas\<close>

lemma mk_validation_result_Inr:
  "mk_validation_result s p m r = Inr v \<Longrightarrow>
   score v = s \<and> 0 \<le> s \<and> s \<le> 100 \<and> passed v = p \<and> method_name v = m \<and> reasoning v = r"
  by (auto simp: mk_validation_result_def split: if_splits)

lemma mk_validation_result_in_range:
  "0 \<le> s \<Longrightarrow> s \<le> 100 \<Longrightarrow> mk_validation_result s p m r = Inr \<lparr>score = s, passed = p, method_name = m, reasoning = r\<rparr>"
  by (simp add: mk_validation_result_def)

lemma modified_hausdorff_nonneg:
  assumes "geo_laws g" "polyline_valid points_a" "polyline_valid points_b"
    "points_a \<noteq> []" "points_b \<noteq> []" "0 \<le> q" "q \<le> 100"
  shows "\<exists>m. modified_hausdorff_distance g points_a points_b q = Inr m \<and> 0 \<le> m"
proof -
  let ?all = "directed_distances g points_a points_b @ directed_distances g points_b points_a"
  have "?all \<noteq> []" using assms(4) by (simp add: directed_distances_def)
  then obtain m x where m: "np_percentile ?all q = Inr m" "x \<in> set ?all" "x \<le> m"
    using np_percentile_between [OF _ assms(6,7)] by blast
  have "0 \<le> x" using m(2) assms(1-5)
    by (auto simp: directed_distances_def list_all_iff intro!: min_dist_nonneg)
  then show ?thesis using m assms(4,5) by (simp add: modified_hausdorff_distance_def)
qed

lemma blended_range:
  fixes a b c :: real
  assumes "0 \<le> a" "a \<le> 100" "0 \<le> b" "b \<le> 100" "0 \<le> c" "c \<le> 100"
  shows "0 \<le> 55 / 100 * a + 35 / 100 * b + 10 / 100 * c \<and> 55 / 100 * a + 35 / 100 * b + 10 / 100 * c \<le> 100"
  using assms by linarith

text \<open>The algorithmic path always yields a result in range; \<open>passed\<close> implies the
  threshold is met, and for a positive threshold is equivalent to it.\<close>

definition result_ok :: "int \<Rightarrow> validation_result \<Rightarrow> bool" where
  "result_ok threshold r \<longleftrightarrow>
     0 \<le> score r \<and> score r \<le> 100 \<and> (passed r \<longrightarrow> of_int threshold \<le> score r) \<and>
     (0 < threshold \<longrightarrow> (passed r \<longleftrightarrow> of_int threshold \<le> score r))"

lemma validate_algorithmic_ok:
  assumes "geo_laws g" "polyline_valid target_points" "polyline_valid actual_points"
  shows "\<exists>r. validate_algorithmic g smp draw target_points actual_points threshold = Inr r \<and>
             method_name r = Algorithmic \<and> result_ok threshold r"
proof (cases "target_points = [] \<or> actual_points = [] \<or> compute_diameter g smp target_points = 0")
  case True
  then show ?thesis by (auto simp: validate_algorithmic_def mk_validation_result_def result_ok_def)
next
  case False
  let ?d = "compute_diameter g smp target_points"
  have d: "0 < ?d" using False compute_diameter_nonneg [of g smp target_points] by linarith
  obtain m where m: "modified_hausdorff_distance g target_points actual_points 90 = Inr m" "0 \<le> m"
    using modified_hausdorff_nonneg [OF assms, of 90] False by auto
  let ?ms = "(1 - min (m / ?d) 1) * 100"
  let ?os = "ordered_sampling_score g smp target_points actual_points 50"
  let ?iou = "raster_iou_score draw target_points actual_points 128 12"
  let ?s = "py_round (55 / 100 * ?ms + 35 / 100 * ?os + 10 / 100 * ?iou)"
  have "0 \<le> m / ?d" using m(2) d by simp
  then have ms: "0 \<le> ?ms \<and> ?ms \<le> 100" by (rule normalised_score_range)
  have os: "0 \<le> ?os \<and> ?os \<le> 100" using ordered_sampling_range [OF assms] .
  have iou: "0 \<le> ?iou \<and> ?iou \<le> 100" by (rule raster_iou_range)
  have "0 \<le> 55 / 100 * ?ms + 35 / 100 * ?os + 10 / 100 * ?iou \<and> 55 / 100 * ?ms + 35 / 100 * ?os + 10 / 100 * ?iou \<le> 100"
    using ms os iou by (intro blended_range) simp_all
  then have "0 \<le> real_of_int ?s \<and> real_of_int ?s \<le> 100" by (intro py_round_percent) simp_all
  then show ?thesis using False m(1)
    by (simp add: validate_algorithmic_def Let_def mk_validation_result_def result_ok_def)
qed

lemma validate_with_vision_ok:
  "validate_with_vision loads get_fields response target_points actual_points threshold = Inr r \<Longrightarrow>
   method_name r = Glm_4v \<and> result_ok threshold r"
  by (auto simp: validate_with_vision_def result_ok_def Let_def split: sum.splits option.splits if_splits
           dest!: mk_validation_result_Inr)

section \<open>Properties\<close>

text \<open>C1. Whichever path runs, \<open>validate\<close> never raises for valid point sets:
  the vision path's result is kept only when pydantic accepts it, and the
  algorithmic path always produces a score in [0, 100]. The result's
  \<open>passed\<close> implies \<open>score \<ge> threshold\<close>, and is equivalent to it for a
  positive threshold.\<close>

theorem validate_well_formed:
  assumes "geo_laws g" "polyline_valid target_points" "polyline_valid actual_points"
  shows "\<exists>r. validate has_key loads get_fields response g smp draw target_points actual_points threshold = Inr r \<and>
             result_ok threshold r"
proof -
  obtain ra where ra: "validate_algorithmic g smp draw target_points actual_points threshold = Inr ra" "result_ok threshold ra"
    using validate_algorithmic_ok [OF assms] by blast
  show ?thesis
  proof (cases "validate_with_vision loads get_fields response target_points actual_points threshold")
    case (Inl e)
    then show ?thesis using ra by (simp add: validate_def)
  next
    case (Inr rv)
    then show ?thesis using ra validate_with_vision_ok [OF Inr] by (simp add: validate_def)
  qed
qed

text \<open>C15. A target whose points all coincide has diameter 0, so the algorithmic
  validator returns score 0 and \<open>passed = False\<close> whatever the actual route.\<close>

theorem validate_algorithmic_degenerate_target:
  assumes "geo_laws g" "target_points \<noteq> []" "\<forall>p \<in> set target_points. p = hd target_points"
    "sampler_ok smp (length target_points)"
  shows "\<exists>why. validate_algorithmic g smp draw target_points actual_points threshold =
                 Inr \<lparr>score = 0, passed = False, method_name = Algorithmic, reasoning = why\<rparr>"
  using compute_diameter_constant [OF assms(1,3,4)] assms(2)
  by (auto simp: validate_algorithmic_def mk_validation_result_def)

text \<open>C13. A route identical to its (non-degenerate) target scores at least 90
  and passes every threshold up to 90, the default 45 included.\<close>

theorem validate_algorithmic_identical:
  assumes "geo_laws g" "polyline_valid target_points" "target_points \<noteq> []"
    "compute_diameter g smp target_points \<noteq> 0" "threshold \<le> 90"
  shows "\<exists>r. validate_algorithmic g smp draw target_points target_points threshold = Inr r \<and>
             90 \<le> score r \<and> passed r"
proof -
  let ?d = "compute_diameter g smp target_points"
  let ?iou = "raster_iou_score draw target_points target_points 128 12"
  have mhd: "modified_hausdorff_distance g target_points target_points 90 = Inr 0"
    using modified_hausdorff_self_zero [OF assms(1-3)] by simp
  have os: "ordered_sampling_score g smp target_points target_points 50 = 100"
    using ordered_sampling_self [OF assms(1-3) _ assms(4)] by simp
  have "0 \<le> ?iou" using raster_iou_self [of draw target_points 128 12] by auto
  then have "90 \<le> py_round (55 / 100 * 100 + 35 / 100 * 100 + 10 / 100 * ?iou)"
    by (intro py_round_mono_int) simp
  moreover have "0 \<le> py_round (55 / 100 * 100 + 35 / 100 * 100 + 10 / 100 * ?iou) \<and>
                 real_of_int (py_round (55 / 100 * 100 + 35 / 100 * 100 + 10 / 100 * ?iou)) \<le> 100"
    using py_round_percent raster_iou_range [of draw target_points target_points 128 12]
    by (intro conjI) (simp_all add: blended_range)
  ultimately show ?thesis using assms(3,4,5) mhd os
    by (simp add: validate_algorithmic_def Let_def mk_validation_result_def)
qed

text \<open>C34. A vision judge that answers with a score outside [0, 100] does not
  reach the caller: pydantic rejects the \<open>ValidationResult\<close>, \<open>validate\<close>
  catches the error and returns the algorithmic result.\<close>

theorem validate_vision_out_of_range_falls_back:
  assumes "response = Inr content" "loads (py_strip content) = Some d" "get_fields d = Inr (s, txt)"
    "s < 0 \<or> 100 < s" "target_points \<noteq> []"
  shows "validate True loads get_fields response g smp draw target_points actual_points threshold =
         validate_algorithmic g smp draw target_points actual_points threshold"
  using assms by (auto simp: validate_def validate_with_vision_def mk_validation_result_def Let_def)

text \<open>The fallback parser recovers a JSON object embedded in prose: for a
  reply \<open>pre @ {body} @ post\<close> where \<open>pre\<close> has no \<open>{\<close> and \<open>post\<close> no \<open>}\<close>,
  \<open>text[text.find("{"):text.rfind("}") + 1]\<close> is exactly the object; a reply
  without \<open>{\<close> raises \<open>ValueError\<close>.\<close>

theorem extract_json_span_roundtrip:
  assumes "CHR ''{'' \<notin> set pre" "CHR ''}'' \<notin> set post"
  shows "extract_json_span (pre @ CHR ''{'' # body @ CHR ''}'' # post) = Inr (CHR ''{'' # body @ [CHR ''}''])
       \<and> (CHR ''{'' \<notin> set t \<longrightarrow> extract_json_span t = Inl Value_error)"
proof
  let ?t = "pre @ CHR ''{'' # body @ CHR ''}'' # post"
  have f: "py_find (CHR ''{'') ?t = int (length pre)" using py_find_append [OF assms(1)] by simp
  have "py_rfind (CHR ''}'') ((pre @ CHR ''{'' # body) @ CHR ''}'' # post) = int (length (pre @ CHR ''{'' # body))"
    by (rule py_rfind_append [OF assms(2)])
  then have r: "py_rfind (CHR ''}'') ?t = int (length pre) + 1 + int (length body)" by simp
  have "nat (int (length pre) + 1 + int (length body) + 1) - length pre = length body + 2" by simp
  then show "extract_json_span ?t = Inr (CHR ''{'' # body @ [CHR ''}''])"
    using f r by (simp add: extract_json_span_def Let_def)
next
  show "CHR ''{'' \<notin> set t \<longrightarrow> extract_json_span t = Inl Value_error"
    by (simp add: extract_json_span_def py_find_absent)
qed

section \<open>Witnesses\<close>

lemma two_point_polyline_valid: "polyline_valid [\<lparr>lng = 0, lat = 0\<rparr>, \<lparr>lng = 2, lat = (0::real)\<rparr>]"
  by (simp add: valid_coord_def)

theorem validate_well_formed_witness:
  "geo_laws taxicab_kernel \<and> polyline_valid [\<lparr>lng = 0, lat = 0\<rparr>, \<lparr>lng = 2, lat = (0::real)\<rparr>] \<and>
   (\<exists>r. validate True (\<lambda>_. Some () :: unit option) (\<lambda>_ :: unit. Inr (150, ''great'') :: py_error + real \<times> string) (Inr ''{}'') taxicab_kernel (\<lambda>_ _. [] :: nat list) (\<lambda>_ _ _ _. False) [\<lparr>lng = 0, lat = 0\<rparr>, \<lparr>lng = 2, lat = (0::real)\<rparr>] [\<lparr>lng = 0, lat = 0\<rparr>, \<lparr>lng = 2, lat = (0::real)\<rparr>] 45 = Inr r \<and> result_ok 45 r)"
  using validate_well_formed [OF taxicab_kernel_laws two_point_polyline_valid two_point_polyline_valid,
      of True "(\<lambda>_. Some () :: unit option)" "(\<lambda>_ :: unit. Inr (150, ''great'') :: py_error + real \<times> string)" "Inr ''{}''" "(\<lambda>_ _. [] :: nat list)" "(\<lambda>_ _ _ _. False)" 45]
    taxicab_kernel_laws two_point_polyline_valid by simp

theorem validate_algorithmic_degenerate_target_witness:
  "geo_laws taxicab_kernel \<and> [\<lparr>lng = 1, lat = 1\<rparr>, \<lparr>lng = 1, lat = (1::real)\<rparr>] \<noteq> [] \<and> sampler_ok (\<lambda>_ _. [] :: nat list) (length [\<lparr>lng = 1, lat = 1\<rparr>, \<lparr>lng = 1, lat = (1::real)\<rparr>]) \<and>
   (\<exists>why. validate_algorithmic taxicab_kernel (\<lambda>_ _. [] :: nat list) (\<lambda>_ _ _ _. False) [\<lparr>lng = 1, lat = 1\<rparr>, \<lparr>lng = 1, lat = (1::real)\<rparr>] [\<lparr>lng = 0, lat = 0\<rparr>, \<lparr>lng = 2, lat = (0::real)\<rparr>] 45 =
          Inr \<lparr>score = 0, passed = False, method_name = Algorithmic, reasoning = why\<rparr>)"
proof -
  have s: "sampler_ok (\<lambda>_ _. [] :: nat list) (length [\<lparr>lng = 1, lat = 1\<rparr>, \<lparr>lng = 1, lat = (1::real)\<rparr>])" by (simp add: sampler_ok_def)
  have c: "\<forall>p \<in> set [\<lparr>lng = 1, lat = 1\<rparr>, \<lparr>lng = 1, lat = (1::real)\<rparr>]. p = hd [\<lparr>lng = 1, lat = 1\<rparr>, \<lparr>lng = 1, lat = (1::real)\<rparr>]" by simp
  show ?thesis using validate_algorithmic_degenerate_target [OF taxicab_kernel_laws _ c s, of "(\<lambda>_ _ _ _. False)" "[\<lparr>lng = 0, lat = 0\<rparr>, \<lparr>lng = 2, lat = (0::real)\<rparr>]" 45]
      taxicab_kernel_laws s c by simp
qed

lemma two_point_diameter: "compute_diameter taxicab_kernel (\<lambda>_ _. [] :: nat list) [\<lparr>lng = 0, lat = 0\<rparr>, \<lparr>lng = 2, lat = (0::real)\<rparr>] = 2"
  by (simp add: compute_diameter_def scan_max_def all_pairs_def taxicab_kernel_def)

theorem validate_algorithmic_identical_witness:
  "geo_laws taxicab_kernel \<and> polyline_valid [\<lparr>lng = 0, lat = 0\<rparr>, \<lparr>lng = 2, lat = (0::real)\<rparr>] \<and> [\<lparr>lng = 0, lat = 0\<rparr>, \<lparr>lng = 2, lat = (0::real)\<rparr>] \<noteq> [] \<and> compute_diameter taxicab_kernel (\<lambda>_ _. [] :: nat list) [\<lparr>lng = 0, lat = 0\<rparr>, \<lparr>lng = 2, lat = (0::real)\<rparr>] \<noteq> 0 \<and>
   (45::int) \<le> 90 \<and>
   (\<exists>r. validate_algorithmic taxicab_kernel (\<lambda>_ _. [] :: nat list) (\<lambda>_ _ _ _. False) [\<lparr>lng = 0, lat = 0\<rparr>, \<lparr>lng = 2, lat = (0::real)\<rparr>] [\<lparr>lng = 0, lat = 0\<rparr>, \<lparr>lng = 2, lat = (0::real)\<rparr>] 45 = Inr r \<and> 90 \<le> score r \<and> passed r)"
  using validate_algorithmic_identical [OF taxicab_kernel_laws two_point_polyline_valid _ _, of "(\<lambda>_ _. [] :: nat list)" 45 "(\<lambda>_ _ _ _. False)"]
    taxicab_kernel_laws two_point_polyline_valid two_point_diameter by simp

theorem validate_vision_out_of_range_falls_back_witness:
  "(Inr ''{}'' :: py_error + string) = Inr ''{}'' \<and> (\<lambda>_. Some () :: unit option) (py_strip ''{}'') = Some () \<and> (\<lambda>_ :: unit. Inr (150, ''great'') :: py_error + real \<times> string) () = Inr (150, ''great'') \<and>
   ((150::real) < 0 \<or> 100 < (150::real)) \<and> [\<lparr>lng = 0, lat = 0\<rparr>, \<lparr>lng = 2, lat = (0::real)\<rparr>] \<noteq> [] \<and>
   validate True (\<lambda>_. Some () :: unit option) (\<lambda>_ :: unit. Inr (150, ''great'') :: py_error + real \<times> string) (Inr ''{}'') taxicab_kernel (\<lambda>_ _. [] :: nat list) (\<lambda>_ _ _ _. False) [\<lparr>lng = 0, lat = 0\<rparr>, \<lparr>lng = 2, lat = (0::real)\<rparr>] [\<lparr>lng = 0, lat = 0\<rparr>, \<lparr>lng = 2, lat = (0::real)\<rparr>] 45 =
   validate_algorithmic taxicab_kernel (\<lambda>_ _. [] :: nat list) (\<lambda>_ _ _ _. False) [\<lparr>lng = 0, lat = 0\<rparr>, \<lparr>lng = 2, lat = (0::real)\<rparr>] [\<lparr>lng = 0, lat = 0\<rparr>, \<lparr>lng = 2, lat = (0::real)\<rparr>] 45"
  using validate_vision_out_of_range_falls_back [of "Inr ''{}''" "''{}''" "(\<lambda>_. Some () :: unit option)" "()" "(\<lambda>_ :: unit. Inr (150, ''great'') :: py_error + real \<times> string)" 150 "''great''" "[\<lparr>lng = 0, lat = 0\<rparr>, \<lparr>lng = 2, lat = (0::real)\<rparr>]" taxicab_kernel "(\<lambda>_ _. [] :: nat list)" "(\<lambda>_ _ _ _. False)" "[\<lparr>lng = 0, lat = 0\<rparr>, \<lparr>lng = 2, lat = (0::real)\<rparr>]" 45]
  by simp

theorem extract_json_span_roundtrip_witness:
  "CHR ''{'' \<notin> set ''score: '' \<and> CHR ''}'' \<notin> set '' ok'' \<and>
   extract_json_span (''score: '' @ CHR ''{'' # ''s=80'' @ CHR ''}'' # '' ok'') = Inr (CHR ''{'' # ''s=80'' @ [CHR ''}'']) \<and>
   CHR ''{'' \<notin> set ''no json'' \<and> extract_json_span ''no json'' = Inl Value_error"
  using extract_json_span_roundtrip [of "''score: ''" "'' ok''" "''s=80''" "''no json''"] by simp

end
