(* ===== verification/ScaleToBbox.thy ===== *)
theory ScaleToBbox
  imports Geodesy
begin

text \<open>
  The first stage of \<^verbatim>\<open>StreetMapper.map_to_streets\<close>
  (\<^verbatim>\<open>src/backend/services/street_mapper.py\<close>): \<open>scale_to_bbox\<close>, one uniform
  scale factor and a translation taking the shape's centre to the target box's
  centre, and the bounds it keeps the points within.
\<close>

section \<open>Scale to the target box\<close>

text \<open>\<open>scale_to_bbox(points, target_bbox, padding_pct)\<close>: the shape's own box,
  its extents replaced by \<^verbatim>\<open>1e-6\<close> when zero, one scale factor for both axes
  (the smaller of the two ratios), and every point moved so that the shape's
  centre lands on the target's centre.\<close>

definition shape_scale :: "coordinate list \<Rightarrow> bounding_box \<Rightarrow> real \<Rightarrow> real" where
  "shape_scale points target_bbox padding_pct =
     (let lngs = map lng points; lats = map lat points;
          s_width = py_or (list_max lngs - list_min lngs) eps6;
          s_height = py_or (list_max lats - list_min lats) eps6;
          pad_lng = width_deg target_bbox * padding_pct;
          pad_lat = height_deg target_bbox * padding_pct;
          t_width = width_deg target_bbox - 2 * pad_lng;
          t_height = height_deg target_bbox - 2 * pad_lat
      in min (t_width / s_width) (t_height / s_height))"

definition scale_to_bbox :: "coordinate list \<Rightarrow> bounding_box \<Rightarrow> real \<Rightarrow> coordinate list" where
  "scale_to_bbox points target_bbox padding_pct =
     (if points = [] then []
      else
        let lngs = map lng points; lats = map lat points;
            s_cx = (list_min lngs + list_max lngs) / 2;
            s_cy = (list_min lats + list_max lats) / 2;
            t_cx = (min_lng target_bbox + max_lng target_bbox) / 2;
            t_cy = (min_lat target_bbox + max_lat target_bbox) / 2;
            scale = shape_scale points target_bbox padding_pct
        in map (\<lambda>p. \<lparr>lng = t_cx + (lng p - s_cx) * scale, lat = t_cy + (lat p - s_cy) * scale\<rparr>)
             points)"

subsection \<open>Lemmas\<close>

lemma length_scale_to_bbox [simp]: "length (scale_to_bbox ps b pad) = length ps"
  by (simp add: scale_to_bbox_def Let_def)

lemma scale_to_bbox_Nil [simp]: "scale_to_bbox [] b pad = []"
  by (simp add: scale_to_bbox_def)

lemma scale_to_bbox_nth:
  assumes "i < length ps"
  shows "scale_to_bbox ps b pad ! i =
    \<lparr>lng = (min_lng b + max_lng b) / 2
            + (lng (ps ! i) - (list_min (map lng ps) + list_max (map lng ps)) / 2) * shape_scale ps b pad,
     lat = (min_lat b + max_lat b) / 2
            + (lat (ps ! i) - (list_min (map lat ps) + list_max (map lat ps)) / 2) * shape_scale ps b pad\<rparr>"
  using assms by (auto simp: scale_to_bbox_def Let_def)

text \<open>A coordinate between the extremes of its axis is within half the extent of
  the axis' centre, and the extent with \<^verbatim>\<open>1e-6\<close> in place of zero bounds it.\<close>

lemma centred_le_half_extent:
  fixes x lo hi :: real
  assumes "lo \<le> x" "x \<le> hi"
  shows "\<bar>x - (lo + hi) / 2\<bar> \<le> py_or (hi - lo) eps6 / 2"
proof (cases "hi = lo")
  case True
  with assms show ?thesis using less_imp_le [OF eps6_pos] by (simp add: py_or_def)
next
  case False
  from assms have "\<bar>x - (lo + hi) / 2\<bar> \<le> (hi - lo) / 2" unfolding abs_le_iff by (simp add: field_simps)
  with False show ?thesis by (simp add: py_or_def)
qed

lemma padded_extent_nonneg: "0 < (w::real) \<Longrightarrow> 0 \<le> pad \<Longrightarrow> pad \<le> 1 / 2 \<Longrightarrow> 0 \<le> w - 2 * (w * pad)"
  using mult_nonneg_nonneg [of w "1 - 2 * pad"] by (simp add: algebra_simps)

lemma padded_extent_pos: "0 < (w::real) \<Longrightarrow> pad < 1 / 2 \<Longrightarrow> 0 < w - 2 * (w * pad)"
  using mult_pos_pos [of w "1 - 2 * pad"] by (simp add: algebra_simps)

lemma scaled_offset_bound:
  fixes x lo hi s t :: real
  assumes "lo \<le> x" "x \<le> hi" "0 \<le> s" "s \<le> t / py_or (hi - lo) eps6"
  shows "\<bar>(x - (lo + hi) / 2) * s\<bar> \<le> t / 2"
proof -
  have w: "0 < py_or (hi - lo) eps6" using assms(1,2) by (intro py_or_eps6_pos) simp
  have "\<bar>(x - (lo + hi) / 2) * s\<bar> = \<bar>x - (lo + hi) / 2\<bar> * s" using assms(3) by (simp add: abs_mult)
  also have "\<dots> \<le> py_or (hi - lo) eps6 / 2 * s"
    using centred_le_half_extent [OF assms(1,2)] assms(3) by (rule mult_right_mono)
  also have "\<dots> \<le> py_or (hi - lo) eps6 / 2 * (t / py_or (hi - lo) eps6)"
    using assms(4) w by (intro mult_left_mono) simp_all
  also have "\<dots> = t / 2" using w by simp
  finally show ?thesis .
qed

lemma shape_scale_nonneg:
  assumes "bbox_ok b" "0 \<le> pad" "pad \<le> 1 / 2"
  shows "0 \<le> shape_scale ps b pad"
proof -
  have "0 \<le> width_deg b - 2 * (width_deg b * pad)" "0 \<le> height_deg b - 2 * (height_deg b * pad)"
    using assms by (auto simp: bbox_ok_def width_deg_def height_deg_def intro!: padded_extent_nonneg)
  moreover have "0 < py_or (list_max (map lng ps) - list_min (map lng ps)) eps6"
    "0 < py_or (list_max (map lat ps) - list_min (map lat ps)) eps6"
    by (rule py_or_eps6_pos, rule list_extent_nonneg)+
  ultimately show ?thesis by (simp add: shape_scale_def Let_def)
qed

lemma shape_scale_pos:
  assumes "bbox_ok b" "0 \<le> pad" "pad < 1 / 2"
  shows "0 < shape_scale ps b pad"
proof -
  have "0 < width_deg b - 2 * (width_deg b * pad)" "0 < height_deg b - 2 * (height_deg b * pad)"
    using assms by (auto simp: bbox_ok_def width_deg_def height_deg_def intro!: padded_extent_pos)
  moreover have "0 < py_or (list_max (map lng ps) - list_min (map lng ps)) eps6"
    "0 < py_or (list_max (map lat ps) - list_min (map lat ps)) eps6"
    by (rule py_or_eps6_pos, rule list_extent_nonneg)+
  ultimately show ?thesis by (simp add: shape_scale_def Let_def)
qed

lemma shape_scale_le_lng:
  "shape_scale ps b pad \<le> (width_deg b - 2 * (width_deg b * pad)) / py_or (list_max (map lng ps) - list_min (map lng ps)) eps6"
  by (simp add: shape_scale_def Let_def)

lemma shape_scale_le_lat:
  "shape_scale ps b pad \<le> (height_deg b - 2 * (height_deg b * pad)) / py_or (list_max (map lat ps) - list_min (map lat ps)) eps6"
  by (simp add: shape_scale_def Let_def)

lemma axis_fits:
  fixes x lo hi s bmin bmax pad :: real
  assumes "lo \<le> x" "x \<le> hi" "0 \<le> s"
    and "s \<le> ((bmax - bmin) - 2 * ((bmax - bmin) * pad)) / py_or (hi - lo) eps6"
  shows "bmin + (bmax - bmin) * pad \<le> (bmin + bmax) / 2 + (x - (lo + hi) / 2) * s \<and>
         (bmin + bmax) / 2 + (x - (lo + hi) / 2) * s \<le> bmax - (bmax - bmin) * pad"
proof -
  have "\<bar>(x - (lo + hi) / 2) * s\<bar> \<le> ((bmax - bmin) - 2 * ((bmax - bmin) * pad)) / 2"
    using scaled_offset_bound [OF assms] .
  then show ?thesis unfolding abs_le_iff by (simp add: field_simps)
qed

text \<open>With a well-formed target box and a padding fraction in \<open>[0, 1/2]\<close>
  (the code uses 0.1), every point \<open>scale_to_bbox\<close> returns lies inside the target
  box shrunk by the padding on each side (the repository's test
  \<open>test_scale_to_bbox_fits_within_target\<close>, for every input).\<close>

theorem scale_to_bbox_within_padded_box:
  assumes "bbox_ok b" and "0 \<le> pad" and "pad \<le> 1 / 2"
    and "q \<in> set (scale_to_bbox ps b pad)"
  shows "min_lng b + width_deg b * pad \<le> lng q \<and> lng q \<le> max_lng b - width_deg b * pad \<and>
         min_lat b + height_deg b * pad \<le> lat q \<and> lat q \<le> max_lat b - height_deg b * pad"
proof -
  from assms(4) obtain i where i: "i < length ps" and q: "q = scale_to_bbox ps b pad ! i"
    by (auto simp: in_set_conv_nth)
  let ?s = "shape_scale ps b pad"
  have s0: "0 \<le> ?s" using shape_scale_nonneg [OF assms(1-3)] .
  have x: "list_min (map lng ps) \<le> lng (ps ! i)" "lng (ps ! i) \<le> list_max (map lng ps)"
    using i by (simp_all add: list_min_le list_max_ge)
  have y: "list_min (map lat ps) \<le> lat (ps ! i)" "lat (ps ! i) \<le> list_max (map lat ps)"
    using i by (simp_all add: list_min_le list_max_ge)
  show ?thesis
    using axis_fits [OF x s0 shape_scale_le_lng [unfolded width_deg_def]]
      axis_fits [OF y s0 shape_scale_le_lat [unfolded height_deg_def]]
    by (simp add: q scale_to_bbox_nth [OF i] width_deg_def height_deg_def)
qed

theorem scale_to_bbox_within_padded_box_witness:
  "bbox_ok \<lparr>min_lng = 14.42, min_lat = 50.07, max_lng = 14.46, max_lat = 50.09\<rparr> \<and>
   (0::real) \<le> 1 / 10 \<and> (1::real) / 10 \<le> 1 / 2 \<and>
   \<lparr>lng = 14.44, lat = 50.08\<rparr> \<in> set (scale_to_bbox [\<lparr>lng = 0, lat = 0\<rparr>]
      \<lparr>min_lng = 14.42, min_lat = 50.07, max_lng = 14.46, max_lat = 50.09\<rparr> (1 / 10)) \<and>
   14.42 + width_deg \<lparr>min_lng = 14.42, min_lat = 50.07, max_lng = 14.46, max_lat = 50.09\<rparr> * (1 / 10)
     \<le> lng \<lparr>lng = 14.44, lat = (50.08::real)\<rparr>"
proof -
  let ?b = "\<lparr>min_lng = 14.42, min_lat = 50.07, max_lng = 14.46, max_lat = 50.09\<rparr>"
  have b: "bbox_ok ?b" by (simp add: bbox_ok_def)
  have m: "\<lparr>lng = 14.44, lat = 50.08\<rparr> \<in> set (scale_to_bbox [\<lparr>lng = 0, lat = 0\<rparr>] ?b (1 / 10))"
    by (simp add: scale_to_bbox_def list_min_def list_max_def)
  show ?thesis
    using scale_to_bbox_within_padded_box [OF b _ _ m] b m by simp
qed

text \<open>\<open>scale_to_bbox\<close> applies one positive factor to both axes: the offset
  between any two output points is the offset between the corresponding input
  points times the same \<open>k > 0\<close>, so the shape's aspect ratio is preserved (the
  repository's test \<open>test_scale_preserves_aspect_ratio\<close>).\<close>

theorem scale_to_bbox_uniform:
  assumes "bbox_ok b" and "0 \<le> pad" and "pad < 1 / 2"
  shows "\<exists>k > 0. \<forall>i < length ps. \<forall>j < length ps.
           lng (scale_to_bbox ps b pad ! i) - lng (scale_to_bbox ps b pad ! j) = k * (lng (ps ! i) - lng (ps ! j)) \<and>
           lat (scale_to_bbox ps b pad ! i) - lat (scale_to_bbox ps b pad ! j) = k * (lat (ps ! i) - lat (ps ! j))"
proof (intro exI conjI allI impI)
  show "0 < shape_scale ps b pad" using shape_scale_pos [OF assms] .
  fix i j assume "i < length ps" "j < length ps"
  then show "lng (scale_to_bbox ps b pad ! i) - lng (scale_to_bbox ps b pad ! j)
               = shape_scale ps b pad * (lng (ps ! i) - lng (ps ! j))"
    and "lat (scale_to_bbox ps b pad ! i) - lat (scale_to_bbox ps b pad ! j)
               = shape_scale ps b pad * (lat (ps ! i) - lat (ps ! j))"
    by (simp_all add: scale_to_bbox_nth algebra_simps)
qed

theorem scale_to_bbox_uniform_witness:
  "bbox_ok \<lparr>min_lng = 14.42, min_lat = 50.07, max_lng = 14.46, max_lat = 50.09\<rparr> \<and>
   (0::real) \<le> 1 / 10 \<and> (1::real) / 10 < 1 / 2 \<and>
   (\<exists>k > 0. \<forall>i < length [\<lparr>lng = 0, lat = 0\<rparr>, \<lparr>lng = 1, lat = 2\<rparr>].
      \<forall>j < length [\<lparr>lng = 0, lat = 0\<rparr>, \<lparr>lng = 1, lat = 2\<rparr>].
      lng (scale_to_bbox [\<lparr>lng = 0, lat = 0\<rparr>, \<lparr>lng = 1, lat = 2\<rparr>]
             \<lparr>min_lng = 14.42, min_lat = 50.07, max_lng = 14.46, max_lat = 50.09\<rparr> (1 / 10) ! i)
      - lng (scale_to_bbox [\<lparr>lng = 0, lat = 0\<rparr>, \<lparr>lng = 1, lat = 2\<rparr>]
             \<lparr>min_lng = 14.42, min_lat = 50.07, max_lng = 14.46, max_lat = 50.09\<rparr> (1 / 10) ! j)
      = k * (lng ([\<lparr>lng = 0, lat = 0\<rparr>, \<lparr>lng = 1, lat = 2\<rparr>] ! i)
             - lng ([\<lparr>lng = 0, lat = 0\<rparr>, \<lparr>lng = 1, lat = 2\<rparr>] ! j)) \<and>
      lat (scale_to_bbox [\<lparr>lng = 0, lat = 0\<rparr>, \<lparr>lng = 1, lat = 2\<rparr>]
             \<lparr>min_lng = 14.42, min_lat = 50.07, max_lng = 14.46, max_lat = 50.09\<rparr> (1 / 10) ! i)
      - lat (scale_to_bbox [\<lparr>lng = 0, lat = 0\<rparr>, \<lparr>lng = 1, lat = 2\<rparr>]
             \<lparr>min_lng = 14.42, min_lat = 50.07, max_lng = 14.46, max_lat = 50.09\<rparr> (1 / 10) ! j)
      = k * (lat ([\<lparr>lng = 0, lat = 0\<rparr>, \<lparr>lng = 1, lat = 2\<rparr>] ! i)
             - lat ([\<lparr>lng = 0, lat = 0\<rparr>, \<lparr>lng = 1, lat = (2::real)\<rparr>] ! j)))"
proof -
  have b: "bbox_ok \<lparr>min_lng = 14.42, min_lat = 50.07, max_lng = 14.46, max_lat = (50.09::real)\<rparr>"
    by (simp add: bbox_ok_def)
  show ?thesis by (intro conjI b scale_to_bbox_uniform) simp_all
qed

lemma map_lng_scale_to_bbox:
  "ps \<noteq> [] \<Longrightarrow> map lng (scale_to_bbox ps b pad) =
     map (\<lambda>x. (min_lng b + max_lng b) / 2 + (x - (list_min (map lng ps) + list_max (map lng ps)) / 2)
                 * shape_scale ps b pad) (map lng ps)"
  by (simp add: scale_to_bbox_def Let_def)

lemma map_lat_scale_to_bbox:
  "ps \<noteq> [] \<Longrightarrow> map lat (scale_to_bbox ps b pad) =
     map (\<lambda>x. (min_lat b + max_lat b) / 2 + (x - (list_min (map lat ps) + list_max (map lat ps)) / 2)
                 * shape_scale ps b pad) (map lat ps)"
  by (simp add: scale_to_bbox_def Let_def)

lemma affine_mono: "0 \<le> (k::real) \<Longrightarrow> mono (\<lambda>x. c + (x - d) * k)"
  by (auto intro!: monoI mult_right_mono)

lemma centre_of_affine:
  fixes lo hi c d k :: real
  assumes "d = (lo + hi) / 2"
  shows "((c + (lo - d) * k) + (c + (hi - d) * k)) / 2 = c"
  unfolding assms by (simp add: field_simps)

text \<open>With a well-formed target box and a padding fraction in \<open>[0, 1/2]\<close>,
  the box of the scaled shape is centred on the target box: the midpoint of the
  output's extreme longitudes (latitudes) is the target's centre longitude
  (latitude).\<close>

theorem scale_to_bbox_centred:
  assumes "bbox_ok b" and "0 \<le> pad" and "pad \<le> 1 / 2" and "ps \<noteq> []"
  shows "(list_min (map lng (scale_to_bbox ps b pad)) + list_max (map lng (scale_to_bbox ps b pad))) / 2
           = lng (bbox_center b) \<and>
         (list_min (map lat (scale_to_bbox ps b pad)) + list_max (map lat (scale_to_bbox ps b pad))) / 2
           = lat (bbox_center b)"
proof -
  let ?k = "shape_scale ps b pad"
  have k: "0 \<le> ?k" using shape_scale_nonneg [OF assms(1-3)] .
  have ne: "map lng ps \<noteq> []" "map lat ps \<noteq> []" using assms(4) by simp_all
  let ?f = "\<lambda>x. (min_lng b + max_lng b) / 2 + (x - (list_min (map lng ps) + list_max (map lng ps)) / 2) * ?k"
  let ?g = "\<lambda>x. (min_lat b + max_lat b) / 2 + (x - (list_min (map lat ps) + list_max (map lat ps)) / 2) * ?k"
  have "list_min (map lng (scale_to_bbox ps b pad)) = ?f (list_min (map lng ps))"
    and "list_max (map lng (scale_to_bbox ps b pad)) = ?f (list_max (map lng ps))"
    unfolding map_lng_scale_to_bbox [OF assms(4)]
    by (simp_all only: list_min_map_mono [OF affine_mono [OF k] ne(1)]
        list_max_map_mono [OF affine_mono [OF k] ne(1)])
  moreover have "list_min (map lat (scale_to_bbox ps b pad)) = ?g (list_min (map lat ps))"
    and "list_max (map lat (scale_to_bbox ps b pad)) = ?g (list_max (map lat ps))"
    unfolding map_lat_scale_to_bbox [OF assms(4)]
    by (simp_all only: list_min_map_mono [OF affine_mono [OF k] ne(2)]
        list_max_map_mono [OF affine_mono [OF k] ne(2)])
  ultimately show ?thesis
    by (simp only: centre_of_affine bbox_center_def coordinate.simps)
qed

theorem scale_to_bbox_centred_witness:
  "bbox_ok \<lparr>min_lng = 14.42, min_lat = 50.07, max_lng = 14.46, max_lat = 50.09\<rparr> \<and>
   (0::real) \<le> 1 / 10 \<and> (1::real) / 10 \<le> 1 / 2 \<and> [\<lparr>lng = 0, lat = 0\<rparr>, \<lparr>lng = 1, lat = (2::real)\<rparr>] \<noteq> [] \<and>
   (list_min (map lng (scale_to_bbox [\<lparr>lng = 0, lat = 0\<rparr>, \<lparr>lng = 1, lat = 2\<rparr>]
        \<lparr>min_lng = 14.42, min_lat = 50.07, max_lng = 14.46, max_lat = 50.09\<rparr> (1 / 10)))
    + list_max (map lng (scale_to_bbox [\<lparr>lng = 0, lat = 0\<rparr>, \<lparr>lng = 1, lat = 2\<rparr>]
        \<lparr>min_lng = 14.42, min_lat = 50.07, max_lng = 14.46, max_lat = 50.09\<rparr> (1 / 10)))) / 2
   = lng (bbox_center \<lparr>min_lng = 14.42, min_lat = 50.07, max_lng = 14.46, max_lat = 50.09\<rparr>)"
proof -
  have b: "bbox_ok \<lparr>min_lng = 14.42, min_lat = 50.07, max_lng = 14.46, max_lat = (50.09::real)\<rparr>"
    by (simp add: bbox_ok_def)
  show ?thesis by (intro conjI b conjunct1 [OF scale_to_bbox_centred [OF b]]) simp_all
qed

end
