(* ===== verification/Densify.thy ===== *)
theory Densify
  imports Geodesy
begin

text \<open>
  The second stage of \<^verbatim>\<open>StreetMapper.map_to_streets\<close>: \<open>densify\<close>, which
  subdivides every segment longer than the bound; its pieces are within the
  bound and it keeps every input point.
\<close>

section \<open>Densify\<close>

text \<open>\<open>densify(points, max_segment_m)\<close>: for each consecutive pair \<open>a, b\<close>
  whose distance exceeds the bound, \<open>n_segments = ceil(dist / max_segment_m)\<close>
  and the points at fractions \<open>j / n_segments\<close>, \<open>1 \<le> j < n_segments\<close>, are
  inserted before \<open>b\<close>. \<open>densify_pairs\<close> is the loop over the pairs, with the
  current \<open>a\<close> as its accumulator.\<close>

definition densify_segment :: "geo_kernel \<Rightarrow> real \<Rightarrow> coordinate \<Rightarrow> coordinate \<Rightarrow> coordinate list" where
  "densify_segment g max_segment_m a b =
     (let dist = geo_dist g a b in
      if dist > max_segment_m then
        (let n_segments = nat \<lceil>dist / max_segment_m\<rceil>
         in map (\<lambda>j. interp a b (real j / real n_segments)) [1..<n_segments])
      else [])"

fun densify_pairs :: "geo_kernel \<Rightarrow> real \<Rightarrow> coordinate \<Rightarrow> coordinate list \<Rightarrow> coordinate list" where
  "densify_pairs g m a [] = []"
| "densify_pairs g m a (b # rest) = densify_segment g m a b @ b # densify_pairs g m b rest"

definition densify :: "geo_kernel \<Rightarrow> coordinate list \<Rightarrow> real \<Rightarrow> coordinate list" where
  "densify g points max_segment_m =
     (if length points < 2 then points
      else hd points # densify_pairs g max_segment_m (hd points) (tl points))"

subsection \<open>Lemmas\<close>

lemma densify_pairs_subseq: "subseq ps (densify_pairs g m a ps)"
  by (induction ps arbitrary: a) (auto intro: subseq_append_le_same_iff [THEN iffD2] list_emb_append2)

lemma densify_pairs_last: "last (densify_pairs g m a (b # rest)) = last (b # rest)"
proof (induction rest arbitrary: a b)
  case Nil
  then show ?case by simp
next
  case (Cons c rest')
  have "last (densify_pairs g m b (c # rest')) = last (c # rest')" by (rule Cons.IH)
  then show ?case by simp
qed

lemma densify_segment_short: "geo_dist g a b \<le> m \<Longrightarrow> densify_segment g m a b = []"
  by (simp add: densify_segment_def Let_def)

lemma densify_pairs_short:
  "\<forall>(p, q) \<in> set (pairs (a # ps)). geo_dist g p q \<le> m \<Longrightarrow> densify_pairs g m a ps = ps"
proof (induction ps arbitrary: a)
  case Nil
  then show ?case by simp
next
  case (Cons b rest)
  from Cons.prems have "geo_dist g a b \<le> m" and r: "\<forall>(p, q) \<in> set (pairs (b # rest)). geo_dist g p q \<le> m"
    by simp_all
  then show ?case using Cons.IH [OF r] by (simp add: densify_segment_short)
qed

lemma segment_as_fractions:
  assumes "2 \<le> n"
  shows "a # map (\<lambda>j. interp a b (real j / real n)) [1..<n] @ [b]
         = map (\<lambda>j. interp a b (real j / real n)) [0..<Suc n]"
proof -
  have "[0..<n] = 0 # [1..<n]" using assms by (simp add: upt_conv_Cons)
  then have "[0..<Suc n] = 0 # [1..<n] @ [n]" by simp
  then show ?thesis using assms by simp
qed

lemma densify_segment_pairs_within:
  assumes lin: "seg_linear g" and m: "0 < m"
    and pq: "(p, q) \<in> set (pairs (a # densify_segment g m a b @ [b]))"
  shows "geo_dist g p q \<le> m"
proof (cases "geo_dist g a b > m")
  case False
  with pq show ?thesis by (simp add: densify_segment_short)
next
  case True
  define d where "d = geo_dist g a b"
  define n where "n = nat \<lceil>d / m\<rceil>"
  have "1 < d / m" using True m by (simp add: d_def)
  then have n2: "2 \<le> n" and nm: "d / m \<le> real n" unfolding n_def by linarith+
  then have d_le: "d / real n \<le> m" using m True by (simp add: field_simps d_def)
  have seg: "a # densify_segment g m a b @ [b] = map (\<lambda>j. interp a b (real j / real n)) [0..<Suc n]"
    using True segment_as_fractions [OF n2] by (simp add: densify_segment_def Let_def d_def n_def)
  from pq obtain j where j: "j < n" and p: "p = interp a b (real j / real n)"
      and q: "q = interp a b (real (Suc j) / real n)"
    unfolding seg pairs_map_upt by auto
  have "geo_dist g p q = \<bar>real (Suc j) / real n - real j / real n\<bar> * d"
    using lin j n2 unfolding p q seg_linear_def d_def by (simp add: field_simps)
  also have "\<dots> = d / real n" using n2 by (simp add: field_simps)
  finally show ?thesis using d_le by simp
qed

lemma densify_pairs_within:
  assumes "seg_linear g" and "0 < m"
  shows "\<forall>(p, q) \<in> set (pairs (a # densify_pairs g m a ps)). geo_dist g p q \<le> m"
proof (induction ps arbitrary: a)
  case Nil
  then show ?case by simp
next
  case (Cons b rest)
  have "pairs (a # densify_pairs g m a (b # rest))
        = pairs (a # densify_segment g m a b @ [b]) @ pairs (b # densify_pairs g m b rest)"
    using pairs_append_Cons [of "a # densify_segment g m a b" b "densify_pairs g m b rest"] by simp
  then show ?case
    using densify_segment_pairs_within [OF assms] Cons.IH [of b] by auto
qed

text \<open>When the kernel's distance is linear along the code's interpolation
  and the bound is positive, no two consecutive points of \<open>densify\<close>'s output
  are farther apart than the bound (the spec's "no segment in the densified stage
  exceeds 80 m"). The haversine distance is linear along a meridian but not along
  every lng/lat segment, so for the code's kernel the bound holds up to that
  deviation (see the findings).\<close>

theorem densify_segments_within_bound:
  assumes "seg_linear g" and "0 < max_segment_m"
    and "(p, q) \<in> set (pairs (densify g points max_segment_m))"
  shows "geo_dist g p q \<le> max_segment_m"
proof (cases "length points < 2")
  case True
  with assms(3) show ?thesis by (simp add: densify_def pairs_short)
next
  case False
  then obtain a rest where "points = a # rest" by (cases points) auto
  with False assms(3) show ?thesis
    using densify_pairs_within [OF assms(1,2), of a rest] by (auto simp: densify_def)
qed

lemma densify_taxicab_example:
  "densify taxicab_kernel [\<lparr>lng = 0, lat = 0\<rparr>, \<lparr>lng = 100, lat = (0::real)\<rparr>] 80
     = [\<lparr>lng = 0, lat = 0\<rparr>, \<lparr>lng = 50, lat = 0\<rparr>, \<lparr>lng = 100, lat = 0\<rparr>]"
  by (simp add: densify_def densify_segment_def taxicab_kernel_def interp_def numeral_2_eq_2)

theorem densify_segments_within_bound_witness:
  "seg_linear taxicab_kernel \<and> (0::real) < 80 \<and>
   (\<lparr>lng = 0, lat = 0\<rparr>, \<lparr>lng = 50, lat = 0\<rparr>) \<in> set (pairs (densify taxicab_kernel
      [\<lparr>lng = 0, lat = 0\<rparr>, \<lparr>lng = 100, lat = 0\<rparr>] 80)) \<and>
   geo_dist taxicab_kernel \<lparr>lng = 0, lat = 0\<rparr> \<lparr>lng = 50, lat = (0::real)\<rparr> \<le> 80"
proof -
  have m: "(\<lparr>lng = 0, lat = 0\<rparr>, \<lparr>lng = 50, lat = 0\<rparr>) \<in> set (pairs (densify taxicab_kernel
      [\<lparr>lng = 0, lat = 0\<rparr>, \<lparr>lng = 100, lat = (0::real)\<rparr>] 80))"
    by (simp add: densify_taxicab_example)
  show ?thesis
    by (intro conjI taxicab_seg_linear m densify_segments_within_bound [OF taxicab_seg_linear _ m]) simp_all
qed

text \<open>\<open>densify\<close> only inserts: its input is a subsequence of its output, and a
  non-empty input keeps its first and last points.\<close>

theorem densify_keeps_points:
  assumes "points \<noteq> []"
  shows "subseq points (densify g points m) \<and>
         hd (densify g points m) = hd points \<and> last (densify g points m) = last points"
proof (cases "length points < 2")
  case True
  then have "densify g points m = points" by (simp add: densify_def)
  then show ?thesis using subseq_order.order_refl [of points] by simp
next
  case False
  then obtain a b rest where p: "points = a # b # rest"
    using assms by (cases points; cases "tl points") auto
  have "subseq (b # rest) (densify_pairs g m a (b # rest))" by (rule densify_pairs_subseq)
  then show ?thesis using densify_pairs_last [of g m a b rest] by (simp add: densify_def p)
qed

theorem densify_keeps_points_witness:
  "[\<lparr>lng = 0, lat = 0\<rparr>, \<lparr>lng = 100, lat = (0::real)\<rparr>] \<noteq> [] \<and>
   last (densify taxicab_kernel [\<lparr>lng = 0, lat = 0\<rparr>, \<lparr>lng = 100, lat = 0\<rparr>] 80)
     = last [\<lparr>lng = 0, lat = 0\<rparr>, \<lparr>lng = 100, lat = (0::real)\<rparr>]"
proof -
  have ne: "[\<lparr>lng = 0, lat = 0\<rparr>, \<lparr>lng = 100, lat = (0::real)\<rparr>] \<noteq> []" by simp
  show ?thesis
    using conjunct2 [OF conjunct2 [OF densify_keeps_points [OF ne, of taxicab_kernel 80]]] ne by blast
qed

end
