(* ===== verification/Dedup.thy ===== *)
theory Dedup
  imports Geodesy
begin

text \<open>
  The third stage of \<^verbatim>\<open>StreetMapper.map_to_streets\<close>: \<open>deduplicate\<close>, which
  drops points closer than the minimum to the last kept point unless the route
  turns there; consecutive outputs are spaced except the final pair.
\<close>

section \<open>Deduplicate\<close>

text \<open>\<open>deduplicate(points, min_distance_m)\<close>: a point closer than the minimum to
  the last kept point is dropped unless the bearing turns by more than 20 degrees
  there (the point is then kept; the test needs a next point, so the last input
  point never passes it); finally the last input point is appended unless the
  kept list already ends with it. \<open>dedup_scan\<close> is the loop, with the last kept
  point \<open>result[-1]\<close> as its accumulator.\<close>

definition angle_change :: "real \<Rightarrow> real \<Rightarrow> real" where
  "angle_change b_in b_out = (let a = \<bar>b_out - b_in\<bar> in if a > 180 then 360 - a else a)"

fun dedup_scan :: "geo_kernel \<Rightarrow> real \<Rightarrow> coordinate \<Rightarrow> coordinate list \<Rightarrow> coordinate list" where
  "dedup_scan g m prev [] = []"
| "dedup_scan g m prev [p] = (if m \<le> geo_dist g prev p then [p] else [])"
| "dedup_scan g m prev (p # next_p # rest) =
     (if m \<le> geo_dist g prev p then p # dedup_scan g m p (next_p # rest)
      else if 20 < angle_change (geo_bearing g prev p) (geo_bearing g p next_p)
      then p # dedup_scan g m p (next_p # rest)
      else dedup_scan g m prev (next_p # rest))"

definition deduplicate :: "geo_kernel \<Rightarrow> coordinate list \<Rightarrow> real \<Rightarrow> coordinate list" where
  "deduplicate g points min_distance_m =
     (if length points < 2 then points
      else
        let result = hd points # dedup_scan g min_distance_m (hd points) (tl points)
        in if last result \<noteq> last points then result @ [last points] else result)"

subsection \<open>Lemmas\<close>

lemma dedup_scan_subseq: "subseq (dedup_scan g m prev ps) ps"
  by (induction g m prev ps rule: dedup_scan.induct) (auto intro: list_emb_Cons)

lemma dedup_scan_subseq_last:
  "ps \<noteq> [] \<Longrightarrow> last (prev # dedup_scan g m prev ps) \<noteq> last ps \<Longrightarrow>
   subseq (dedup_scan g m prev ps @ [last ps]) ps"
proof (induction g m prev ps rule: dedup_scan.induct)
  case (1 g m prev)
  then show ?case by simp
next
  case (2 g m prev p)
  then show ?case by (auto split: if_splits)
next
  case (3 g m prev p next_p rest)
  show ?case
  proof (cases "m \<le> geo_dist g prev p \<or> 20 < angle_change (geo_bearing g prev p) (geo_bearing g p next_p)")
    case True
    then have eq: "dedup_scan g m prev (p # next_p # rest) = p # dedup_scan g m p (next_p # rest)"
      by auto
    have "last (p # dedup_scan g m p (next_p # rest)) \<noteq> last (next_p # rest)"
      using "3.prems"(2) unfolding eq by simp
    then have "subseq (dedup_scan g m p (next_p # rest) @ [last (next_p # rest)]) (next_p # rest)"
      using True "3.IH"(1,2) by (cases "m \<le> geo_dist g prev p") simp_all
    then have "subseq (p # dedup_scan g m p (next_p # rest) @ [last (next_p # rest)]) (p # next_p # rest)"
      by (rule subseq_Cons2)
    then show ?thesis unfolding eq by simp
  next
    case False
    then have eq: "dedup_scan g m prev (p # next_p # rest) = dedup_scan g m prev (next_p # rest)"
      by auto
    have "subseq (dedup_scan g m prev (next_p # rest) @ [last (next_p # rest)]) (next_p # rest)"
      using False "3.prems"(2) "3.IH"(3) unfolding eq by simp
    then have "subseq (dedup_scan g m prev (next_p # rest) @ [last (next_p # rest)]) (p # next_p # rest)"
      by (rule list_emb_Cons)
    then show ?thesis unfolding eq by simp
  qed
qed

lemma dedup_scan_spacing:
  "(u, v) \<in> set (pairs (prev # dedup_scan g m prev ps)) \<Longrightarrow>
   m \<le> geo_dist g u v \<or>
   (\<exists>nxt. (v, nxt) \<in> set (pairs ps) \<and> 20 < angle_change (geo_bearing g u v) (geo_bearing g v nxt))"
proof (induction g m prev ps rule: dedup_scan.induct)
  case (1 g m prev)
  then show ?case by simp
next
  case (2 g m prev p)
  then show ?case by (auto split: if_splits)
next
  case (3 g m prev p next_p rest)
  let ?R = "\<lambda>q. m \<le> geo_dist g u v \<or>
     (\<exists>nxt. (v, nxt) \<in> set (pairs q) \<and> 20 < angle_change (geo_bearing g u v) (geo_bearing g v nxt))"
  have mono: "?R (next_p # rest) \<Longrightarrow> ?R (p # next_p # rest)" by auto
  show ?case
  proof (cases "m \<le> geo_dist g prev p")
    case True
    with "3.prems" have "(u, v) = (prev, p) \<or> (u, v) \<in> set (pairs (p # dedup_scan g m p (next_p # rest)))"
      by auto
    then show ?thesis using True "3.IH"(1) mono by auto
  next
    case False
    show ?thesis
    proof (cases "20 < angle_change (geo_bearing g prev p) (geo_bearing g p next_p)")
      case True
      with False "3.prems" have "(u, v) = (prev, p) \<or> (u, v) \<in> set (pairs (p # dedup_scan g m p (next_p # rest)))"
        by auto
      then show ?thesis using False True "3.IH"(2) mono by auto
    next
      case False': False
      with False "3.prems" have "(u, v) \<in> set (pairs (prev # dedup_scan g m prev (next_p # rest)))"
        by simp
      then show ?thesis using False False' "3.IH"(3) mono by blast
    qed
  qed
qed

lemma pairs_butlast_subset: "set (pairs (butlast xs)) \<subseteq> set (pairs xs)"
  by (induction xs rule: induct_list012) auto

lemma deduplicate_cases:
  assumes "2 \<le> length points"
  obtains a ps where "points = a # ps" "ps \<noteq> []"
    "deduplicate g points m = a # dedup_scan g m a ps @ [last ps]"
    "last (a # dedup_scan g m a ps) \<noteq> last ps"
  | a ps where "points = a # ps" "ps \<noteq> []"
    "deduplicate g points m = a # dedup_scan g m a ps"
    "last (a # dedup_scan g m a ps) = last ps"
proof -
  from assms obtain a ps where p: "points = a # ps" and ne: "ps \<noteq> []"
    by (cases points) (auto simp: Suc_le_length_iff)
  show ?thesis
  proof (cases "last (a # dedup_scan g m a ps) = last ps")
    case True
    with p ne assms show ?thesis using that(2) by (simp add: deduplicate_def Let_def)
  next
    case False
    with p ne assms show ?thesis using that(1) by (simp add: deduplicate_def Let_def)
  qed
qed

text \<open>\<open>deduplicate\<close> keeps the first and the last point of a non-empty input
  (the repository's test \<open>test_deduplicate_keeps_last_point\<close>) and only drops
  points: its output is a subsequence of its input.\<close>

theorem deduplicate_endpoints_subseq:
  assumes "points \<noteq> []"
  shows "hd (deduplicate g points m) = hd points \<and> last (deduplicate g points m) = last points \<and>
         subseq (deduplicate g points m) points"
proof (cases "length points < 2")
  case True
  then have "deduplicate g points m = points" by (simp add: deduplicate_def)
  then show ?thesis using subseq_order.order_refl [of points] by simp
next
  case False
  then have "2 \<le> length points" by simp
  then show ?thesis
  proof (cases rule: deduplicate_cases [where g = g and m = m])
    case (1 a ps)
    then show ?thesis using dedup_scan_subseq_last [of ps a g m] by (simp add: last_ConsR)
  next
    case (2 a ps)
    then show ?thesis using dedup_scan_subseq [of g m a ps] by simp
  qed
qed

theorem deduplicate_endpoints_subseq_witness:
  "[\<lparr>lng = 0, lat = 0\<rparr>, \<lparr>lng = 1, lat = (0::real)\<rparr>] \<noteq> [] \<and>
   last (deduplicate taxicab_kernel [\<lparr>lng = 0, lat = 0\<rparr>, \<lparr>lng = 1, lat = 0\<rparr>] 12)
     = last [\<lparr>lng = 0, lat = 0\<rparr>, \<lparr>lng = 1, lat = (0::real)\<rparr>]"
proof -
  have ne: "[\<lparr>lng = 0, lat = 0\<rparr>, \<lparr>lng = 1, lat = (0::real)\<rparr>] \<noteq> []" by simp
  show ?thesis
    using conjunct1 [OF conjunct2 [OF deduplicate_endpoints_subseq [OF ne, of taxicab_kernel 12]]] ne
    by blast
qed

text \<open>C18. Every consecutive pair of \<open>deduplicate\<close>'s output, except possibly the
  final one, is at least \<open>min_distance_m\<close> apart, or its second point was kept
  because the bearing turns there by more than 20 degrees towards its successor in
  the input (the spec's spacing property of \<open>mapToStreets\<close>).\<close>

theorem deduplicate_spacing:
  assumes "(p, q) \<in> set (pairs (butlast (deduplicate g points m)))"
  shows "m \<le> geo_dist g p q \<or>
         (\<exists>nxt. (q, nxt) \<in> set (pairs points) \<and> 20 < angle_change (geo_bearing g p q) (geo_bearing g q nxt))"
proof (cases "length points < 2")
  case True
  then have "length (butlast (deduplicate g points m)) < 2" by (simp add: deduplicate_def)
  with assms show ?thesis by (simp add: pairs_short)
next
  case False
  then have "2 \<le> length points" by simp
  then show ?thesis
  proof (cases rule: deduplicate_cases [where g = g and m = m])
    case (1 a ps)
    with assms have "(p, q) \<in> set (pairs (a # dedup_scan g m a ps))" by simp
    then show ?thesis using dedup_scan_spacing [of p q a g m ps] \<open>points = a # ps\<close>
      by (cases ps) auto
  next
    case (2 a ps)
    have "(p, q) \<in> set (pairs (butlast (a # dedup_scan g m a ps)))"
      using assms unfolding 2(3) .
    then have "(p, q) \<in> set (pairs (a # dedup_scan g m a ps))"
      using pairs_butlast_subset by blast
    then show ?thesis using dedup_scan_spacing [of p q a g m ps] \<open>points = a # ps\<close>
      by (cases ps) auto
  qed
qed

lemma deduplicate_taxicab_example:
  "deduplicate taxicab_kernel [\<lparr>lng = 0, lat = 0\<rparr>, \<lparr>lng = 20, lat = 0\<rparr>, \<lparr>lng = 21, lat = (0::real)\<rparr>] 12
     = [\<lparr>lng = 0, lat = 0\<rparr>, \<lparr>lng = 20, lat = 0\<rparr>, \<lparr>lng = 21, lat = 0\<rparr>]"
  by (simp add: deduplicate_def taxicab_kernel_def)

theorem deduplicate_spacing_witness:
  "(\<lparr>lng = 0, lat = 0\<rparr>, \<lparr>lng = 20, lat = 0\<rparr>) \<in> set (pairs (butlast (deduplicate taxicab_kernel
      [\<lparr>lng = 0, lat = 0\<rparr>, \<lparr>lng = 20, lat = 0\<rparr>, \<lparr>lng = 21, lat = (0::real)\<rparr>] 12))) \<and>
   12 \<le> geo_dist taxicab_kernel \<lparr>lng = 0, lat = 0\<rparr> \<lparr>lng = 20, lat = (0::real)\<rparr>"
proof -
  have h: "(\<lparr>lng = 0, lat = 0\<rparr>, \<lparr>lng = 20, lat = 0\<rparr>) \<in> set (pairs (butlast (deduplicate taxicab_kernel
      [\<lparr>lng = 0, lat = 0\<rparr>, \<lparr>lng = 20, lat = 0\<rparr>, \<lparr>lng = 21, lat = (0::real)\<rparr>] 12)))"
    by (simp add: deduplicate_taxicab_example)
  show ?thesis using h deduplicate_spacing [OF h] by (simp add: taxicab_kernel_def)
qed

text \<open>C35. The final pair is the exception: \<open>deduplicate\<close> appends the last input
  point even when it is closer than \<open>min_distance_m\<close> to the last kept point and
  no turn was tested there. Any two distinct points are both kept, on every
  distance kernel and for every threshold, however close they are.\<close>

theorem deduplicate_final_pair_close:
  assumes "p \<noteq> q"
  shows "deduplicate g [p, q] m = [p, q]"
  using assms by (simp add: deduplicate_def)

lemma deduplicate_final_pair_close_witness:
  "deduplicate taxicab_kernel [\<lparr>lng = 0, lat = 0\<rparr>, \<lparr>lng = 1, lat = (0::real)\<rparr>] 12
     = [\<lparr>lng = 0, lat = 0\<rparr>, \<lparr>lng = 1, lat = 0\<rparr>] \<and>
   geo_dist taxicab_kernel \<lparr>lng = 0, lat = 0\<rparr> \<lparr>lng = 1, lat = (0::real)\<rparr> < 12"
  using deduplicate_final_pair_close [of "\<lparr>lng = 0, lat = 0\<rparr>" "\<lparr>lng = 1, lat = (0::real)\<rparr>" taxicab_kernel 12]
  by (simp add: taxicab_kernel_def)

end
