(* ===== verification/StreetMapper.thy ===== *)
theory StreetMapper
  imports ScaleToBbox Densify Dedup
begin

text \<open>
  \<^verbatim>\<open>class StreetMapper\<close> of \<^verbatim>\<open>src/backend/services/street_mapper.py\<close>: the
  three-stage pipeline \<open>map_to_streets\<close> = \<open>deduplicate \<circ> densify \<circ>
  scale_to_bbox\<close> that turns a shape's control points into street-snappable
  waypoints, and \<open>estimate_distance_km\<close>. The stages that measure distances take
  the geodesy kernel as their first argument; the code's own pipeline is the
  instance at \<open>haversine_kernel\<close>.
\<close>

section \<open>The pipeline and the distance estimate\<close>

text \<open>\<open>map_to_streets(control_points, target_bbox)\<close>: scale with the default
  padding 0.1, densify at 80 m, deduplicate at 12 m.\<close>

definition map_to_streets :: "geo_kernel \<Rightarrow> coordinate list \<Rightarrow> bounding_box \<Rightarrow> coordinate list" where
  "map_to_streets g control_points target_bbox =
     (let scaled = scale_to_bbox control_points target_bbox (1 / 10);
          dense = densify g scaled 80;
          clean = deduplicate g dense 12
      in clean)"

text \<open>\<open>round(x, 1)\<close> on a float, ties to even at the first decimal.\<close>

text \<open>The pipeline with pydantic's checks: \<open>scale_to_bbox\<close> builds a
  \<open>Coordinate\<close> per point and raises \<open>ValidationError\<close> at the first one out
  of range; the points \<open>densify\<close> inserts lie between two valid points and
  \<open>deduplicate\<close> only drops points, so nothing later raises.\<close>

definition map_to_streets_e :: "geo_kernel \<Rightarrow> coordinate list \<Rightarrow> bounding_box \<Rightarrow> py_error + coordinate list" where
  "map_to_streets_e g control_points target_bbox =
     sbind (check_coords (scale_to_bbox control_points target_bbox (1 / 10)))
       (\<lambda>_. Inr (map_to_streets g control_points target_bbox))"

definition py_round1 :: "real \<Rightarrow> real" where
  "py_round1 x = of_int (py_round (x * 10)) / 10"

definition estimate_distance_km :: "geo_kernel \<Rightarrow> coordinate list \<Rightarrow> real" where
  "estimate_distance_km g points =
     py_round1 (sum_list (map (\<lambda>(a, b). geo_dist g a b) (pairs points)) / 1000)"

subsection \<open>Lemmas\<close>

lemma densify_segment_valid:
  assumes "valid_coord a" "valid_coord b" "q \<in> set (densify_segment g m a b)"
  shows "valid_coord q"
proof -
  from assms(3) obtain j n where q: "q = interp a b (real j / real n)" and j: "j < n"
    by (auto simp: densify_segment_def Let_def split: if_splits)
  have "0 \<le> real j / real n" and "real j / real n \<le> 1" using j by simp_all
  then show ?thesis unfolding q by (rule valid_interp [OF assms(1,2)])
qed

lemma densify_segment_list_valid:
  "valid_coord a \<Longrightarrow> valid_coord b \<Longrightarrow> polyline_valid (densify_segment g m a b)"
  unfolding list_all_iff using densify_segment_valid by blast

lemma densify_pairs_valid:
  "valid_coord a \<Longrightarrow> polyline_valid ps \<Longrightarrow> polyline_valid (densify_pairs g m a ps)"
proof (induction ps arbitrary: a)
  case Nil
  then show ?case by simp
next
  case (Cons b rest)
  then have "valid_coord b" "polyline_valid rest" by simp_all
  with Cons.prems(1) show ?case
    using densify_segment_list_valid [of a b g m] Cons.IH [of b] by simp
qed

lemma densify_valid: "polyline_valid ps \<Longrightarrow> polyline_valid (densify g ps m)"
  by (cases ps) (auto simp: densify_def densify_pairs_valid)

lemma subseq_list_all: "subseq xs ys \<Longrightarrow> list_all P ys \<Longrightarrow> list_all P xs"
  unfolding list_all_iff using subseq_set by blast

lemma deduplicate_subseq: "subseq (deduplicate g ps m) ps"
  using deduplicate_endpoints_subseq [of ps g m] by (cases "ps = []") (simp_all add: deduplicate_def)

lemma bbox_ok_valid:
  assumes "bbox_ok b" "min_lng b \<le> x" "x \<le> max_lng b" "min_lat b \<le> y" "y \<le> max_lat b"
  shows "valid_coord \<lparr>lng = x, lat = y\<rparr>"
  using assms by (simp add: bbox_ok_def valid_coord_def)

lemma scale_to_bbox_valid:
  assumes "bbox_ok b" "0 \<le> pad" "pad \<le> 1 / 2"
  shows "polyline_valid (scale_to_bbox ps b pad)"
proof -
  have "valid_coord q" if q: "q \<in> set (scale_to_bbox ps b pad)" for q
  proof -
    have w: "0 \<le> width_deg b * pad" "0 \<le> height_deg b * pad"
      using assms by (simp_all add: bbox_ok_def width_deg_def height_deg_def)
    have "min_lng b \<le> lng q" "lng q \<le> max_lng b" "min_lat b \<le> lat q" "lat q \<le> max_lat b"
      using scale_to_bbox_within_padded_box [OF assms q] w by linarith+
    then show ?thesis using bbox_ok_valid [OF assms(1)] by (cases q) simp
  qed
  then show ?thesis by (simp add: list_all_iff)
qed

lemma map_to_streets_e_Inr: "map_to_streets_e g cps b = Inr m \<Longrightarrow> m = map_to_streets g cps b"
  by (auto simp: map_to_streets_e_def sbind_eq_Inr)

lemma map_to_streets_e_Inl: "map_to_streets_e g cps b = Inl e \<Longrightarrow> e = Validation_error"
  by (auto simp: map_to_streets_e_def sbind_eq_Inl dest: check_coords_Inl)

lemma map_to_streets_e_ok: "bbox_ok b \<Longrightarrow> map_to_streets_e g cps b = Inr (map_to_streets g cps b)"
  using scale_to_bbox_valid [of b "1 / 10" cps] by (simp add: map_to_streets_e_def)

lemma densify_segment_same: "q \<in> set (densify_segment g m c c) \<Longrightarrow> q = c"
  by (auto simp: densify_segment_def Let_def split: if_splits)

lemma densify_pairs_const: "set ps \<subseteq> {c} \<Longrightarrow> set (densify_pairs g m c ps) \<subseteq> {c}"
  by (induction ps) (auto dest: densify_segment_same)

lemma densify_const: "set ps \<subseteq> {c} \<Longrightarrow> set (densify g ps m) \<subseteq> {c}"
  by (cases ps) (auto simp: densify_def densify_pairs_const)

lemma scale_to_bbox_const:
  assumes "set ps \<subseteq> {c}"
  shows "\<exists>c'. set (scale_to_bbox ps b pad) \<subseteq> {c'}"
proof -
  have "scale_to_bbox ps b pad ! i = scale_to_bbox ps b pad ! 0" if i: "i < length ps" for i
  proof -
    have z: "0 < length ps" using i by linarith
    have "ps ! i \<in> set ps" "ps ! 0 \<in> set ps" using nth_mem [OF i] nth_mem [OF z] by simp_all
    then have "ps ! i = c" "ps ! 0 = c" using assms by blast+
    then show ?thesis by (simp add: scale_to_bbox_nth [OF i] scale_to_bbox_nth [OF z])
  qed
  then show ?thesis
    by (metis (no_types, lifting) in_set_conv_nth length_scale_to_bbox singleton_iff subsetI)
qed

text \<open>C36. For a well-formed target box, every waypoint \<open>map_to_streets\<close> returns
  is a valid coordinate, whatever the control points (even ones outside the
  coordinate ranges): the \<open>Coordinate(...)\<close> constructions in \<open>scale_to_bbox\<close>
  and \<open>densify\<close> never fail Pydantic's range validation.\<close>

theorem map_to_streets_valid:
  assumes "bbox_ok target_bbox"
  shows "polyline_valid (map_to_streets g control_points target_bbox)"
proof -
  have "polyline_valid (scale_to_bbox control_points target_bbox (1 / 10))"
    using scale_to_bbox_valid [OF assms] by simp
  then have "polyline_valid (densify g (scale_to_bbox control_points target_bbox (1 / 10)) 80)"
    by (rule densify_valid)
  then show ?thesis
    by (simp add: map_to_streets_def subseq_list_all [OF deduplicate_subseq])
qed

theorem map_to_streets_valid_witness:
  "bbox_ok \<lparr>min_lng = 14.42, min_lat = 50.07, max_lng = 14.46, max_lat = 50.09\<rparr> \<and>
   polyline_valid (map_to_streets haversine_kernel [\<lparr>lng = 0, lat = 0\<rparr>, \<lparr>lng = 1, lat = 0\<rparr>, \<lparr>lng = 1, lat = 1\<rparr>]
      \<lparr>min_lng = 14.42, min_lat = 50.07, max_lng = 14.46, max_lat = (50.09::real)\<rparr>)"
proof -
  have b: "bbox_ok \<lparr>min_lng = 14.42, min_lat = 50.07, max_lng = 14.46, max_lat = (50.09::real)\<rparr>"
    by (simp add: bbox_ok_def)
  show ?thesis using map_to_streets_valid [OF b] b by blast
qed

text \<open>A degenerate outline, every control point the same, is mapped to
  waypoints that are all one coordinate (the spec's scenario "\<open>mapToStreets\<close> on
  a single repeated point returns at most one distinct coordinate"), for any
  kernel and any target box.\<close>

theorem map_to_streets_degenerate:
  assumes "set control_points \<subseteq> {c}"
  shows "\<exists>c'. set (map_to_streets g control_points target_bbox) \<subseteq> {c'}"
proof -
  obtain c' where "set (scale_to_bbox control_points target_bbox (1 / 10)) \<subseteq> {c'}"
    using scale_to_bbox_const [OF assms] by blast
  then have "set (densify g (scale_to_bbox control_points target_bbox (1 / 10)) 80) \<subseteq> {c'}"
    by (rule densify_const)
  then show ?thesis
    using subseq_set [OF deduplicate_subseq] unfolding map_to_streets_def Let_def by blast
qed

theorem map_to_streets_degenerate_witness:
  "set [\<lparr>lng = 3, lat = 4\<rparr>, \<lparr>lng = 3, lat = 4\<rparr>, \<lparr>lng = 3, lat = (4::real)\<rparr>] \<subseteq> {\<lparr>lng = 3, lat = 4\<rparr>} \<and>
   (\<exists>c'. set (map_to_streets haversine_kernel
      [\<lparr>lng = 3, lat = 4\<rparr>, \<lparr>lng = 3, lat = 4\<rparr>, \<lparr>lng = 3, lat = 4\<rparr>]
      \<lparr>min_lng = 14.42, min_lat = 50.07, max_lng = 14.46, max_lat = (50.09::real)\<rparr>) \<subseteq> {c'})"
proof -
  have h: "set [\<lparr>lng = 3, lat = 4\<rparr>, \<lparr>lng = 3, lat = 4\<rparr>, \<lparr>lng = 3, lat = (4::real)\<rparr>] \<subseteq> {\<lparr>lng = 3, lat = 4\<rparr>}"
    by simp
  show ?thesis using map_to_streets_degenerate [OF h] h by blast
qed

end
