(* ===== verification/Waypoints.thy ===== *)
theory Waypoints
  imports StreetMapper
begin

text \<open>
  The pure helpers of \<open>ShapeGenerator\<close> in
  \<^verbatim>\<open>src/backend/services/shape_generator.py\<close> that turn a routed polyline into
  the response: \<open>_extract_waypoints\<close> (turn markers) and
  \<open>_difficulty_for_distance\<close>. The routed coordinates, JSON pairs
  \<open>[lng, lat]\<close> in the code, are \<open>coordinate\<close> values here; the local
  \<open>bearing\<close> of \<open>_extract_waypoints\<close> is the same formula as \<open>_bearing_deg\<close>, the
  kernel's \<open>geo_bearing\<close>.
\<close>

section \<open>Definitions\<close>

text \<open>\<^verbatim>\<open>class WaypointMarker(BaseModel)\<close>; the instruction strings the code writes
  are the constructors of \<open>instruction\<close>.\<close>

datatype instruction =
    Waypoint | Start_here | Make_a_u_turn | Turn_right | Bear_right | Turn_left | Bear_left | Finish

record waypoint_marker =
  index :: int
  marker_lng :: real
  marker_lat :: real
  instruction :: instruction

definition marker :: "int \<Rightarrow> coordinate \<Rightarrow> instruction \<Rightarrow> waypoint_marker" where
  "marker i c ins = \<lparr>index = i, marker_lng = lng c, marker_lat = lat c, instruction = ins\<rparr>"

text \<open>The turn classification of a marked point.\<close>

definition turn_instruction :: "real \<Rightarrow> real \<Rightarrow> instruction" where
  "turn_instruction change cross =
     (if change > 150 then Make_a_u_turn
      else if cross < 180 then (if change > 60 then Turn_right else Bear_right)
      else (if change > 60 then Turn_left else Bear_left))"

text \<open>The loop over \<open>range(step, len(coordinates) - step, step)\<close>, carrying the
  marker list; a point is marked when the bearing changes by 30 degrees or
  more, with the next index \<open>len(waypoints) + 1\<close>.\<close>

fun scan_turns :: "geo_kernel \<Rightarrow> coordinate list \<Rightarrow> nat \<Rightarrow> waypoint_marker list \<Rightarrow> nat list \<Rightarrow> waypoint_marker list" where
  "scan_turns g coords step acc [] = acc"
| "scan_turns g coords step acc (i # idxs) =
     (let prev = coords ! (i - step); curr = coords ! i;
          next_p = coords ! min (i + step) (length coords - 1);
          b1 = geo_bearing g prev curr; b2 = geo_bearing g curr next_p;
          change = angle_change b1 b2;
          cross = py_fmod (b2 - b1 + 360) 360
      in scan_turns g coords step
           (if 30 \<le> change then acc @ [marker (int (length acc) + 1) curr (turn_instruction change cross)] else acc) idxs)"

definition extract_waypoints :: "geo_kernel \<Rightarrow> coordinate list \<Rightarrow> waypoint_marker list" where
  "extract_waypoints g coords =
     (if length coords < 3 then map (\<lambda>(i, c). marker (int i + 1) c Waypoint) (zip [0..<length coords] coords)
      else
        let step = max 1 (length coords div 50);
            ws = scan_turns g coords step [marker 1 (coords ! 0) Start_here]
                   (py_range step (length coords - step) step)
        in ws @ [marker (int (length ws) + 1) (last coords) Finish])"

text \<open>\<open>_difficulty_for_distance\<close>: the strings \<open>ShapeIdea.difficulty\<close> accepts.\<close>

definition difficulty_for_distance :: "real \<Rightarrow> string" where
  "difficulty_for_distance km = (if km < 4 then ''easy'' else if km < 8 then ''moderate'' else ''hard'')"

section \<open>Lemmas\<close>

text \<open>The markers carry the indices \<open>1, 2, \<dots>\<close> in order.\<close>

definition indices_consecutive :: "waypoint_marker list \<Rightarrow> bool" where
  "indices_consecutive ws \<longleftrightarrow> map index ws = map (\<lambda>k. int k + 1) [0..<length ws]"

lemma indices_consecutive_snoc:
  "indices_consecutive ws \<Longrightarrow> indices_consecutive (ws @ [marker (int (length ws) + 1) c ins])"
  by (simp add: indices_consecutive_def marker_def)

lemma scan_turns_consecutive:
  "indices_consecutive acc \<Longrightarrow> indices_consecutive (scan_turns g coords step acc idxs)"
  by (induction idxs arbitrary: acc) (simp_all add: Let_def indices_consecutive_snoc)

text \<open>A marker the scan adds: a turn of at least 30 degrees at a sampled
  index \<open>i\<close>, at that routed point, with a turn instruction.\<close>

definition turn_change :: "geo_kernel \<Rightarrow> coordinate list \<Rightarrow> nat \<Rightarrow> nat \<Rightarrow> real" where
  "turn_change g coords step i =
     angle_change (geo_bearing g (coords ! (i - step)) (coords ! i))
                  (geo_bearing g (coords ! i) (coords ! min (i + step) (length coords - 1)))"

definition turn_marker :: "geo_kernel \<Rightarrow> coordinate list \<Rightarrow> nat \<Rightarrow> nat set \<Rightarrow> waypoint_marker \<Rightarrow> bool" where
  "turn_marker g coords step S m \<longleftrightarrow>
     (\<exists>i \<in> S. 30 \<le> turn_change g coords step i \<and> marker_lng m = lng (coords ! i) \<and> marker_lat m = lat (coords ! i) \<and>
              instruction m \<in> {Make_a_u_turn, Turn_right, Bear_right, Turn_left, Bear_left})"

lemma turn_instruction_cases:
  "turn_instruction change cross \<in> {Make_a_u_turn, Turn_right, Bear_right, Turn_left, Bear_left}"
  by (simp add: turn_instruction_def)

lemma scan_turns_split:
  "\<exists>zs. scan_turns g coords step acc idxs = acc @ zs \<and> (\<forall>m \<in> set zs. turn_marker g coords step (set idxs) m)"
proof (induction idxs arbitrary: acc)
  case Nil
  then show ?case by simp
next
  case (Cons i idxs)
  define new where "new = (if 30 \<le> turn_change g coords step i
     then [marker (int (length acc) + 1) (coords ! i)
             (turn_instruction (turn_change g coords step i)
               (py_fmod (geo_bearing g (coords ! i) (coords ! min (i + step) (length coords - 1)) -
                         geo_bearing g (coords ! (i - step)) (coords ! i) + 360) 360))] else [])"
  obtain zs where zs: "scan_turns g coords step (acc @ new) idxs = (acc @ new) @ zs"
    "\<forall>m \<in> set zs. turn_marker g coords step (set idxs) m"
    using Cons.IH by blast
  have step: "scan_turns g coords step acc (i # idxs) = scan_turns g coords step (acc @ new) idxs"
    by (simp add: Let_def new_def turn_change_def)
  have "\<forall>m \<in> set new. turn_marker g coords step (set (i # idxs)) m"
    by (auto simp: new_def turn_marker_def marker_def turn_instruction_cases [simplified])
  moreover have "\<forall>m \<in> set zs. turn_marker g coords step (set (i # idxs)) m"
    using zs(2) by (auto simp: turn_marker_def)
  ultimately show ?case using step zs(1) by (intro exI [of _ "new @ zs"]) auto
qed

lemma scan_start:
  "\<exists>zs. scan_turns g coords step [marker 1 c Start_here] idxs = marker 1 c Start_here # zs \<and>
        (\<forall>m \<in> set zs. turn_marker g coords step (set idxs) m)"
  using scan_turns_split [of g coords step "[marker 1 c Start_here]" idxs] by simp

lemma index_enumerated:
  "length xs = length ys \<Longrightarrow> map index (map (\<lambda>(i, c). marker (int i + 1) c ins) (zip xs ys)) = map (\<lambda>k. int k + 1) xs"
  by (induction xs ys rule: list_induct2) (simp_all add: marker_def)

section \<open>Properties\<close>

text \<open>The markers \<open>_extract_waypoints\<close> returns are numbered \<open>1, 2, \<dots>, n\<close>
  in order, on both branches.\<close>

theorem extract_waypoints_indices: "indices_consecutive (extract_waypoints g coords)"
proof (cases "length coords < 3")
  case True
  have "map index (extract_waypoints g coords) = map (\<lambda>k. int k + 1) [0..<length coords]"
    using True index_enumerated [of "[0..<length coords]" coords] by (simp add: extract_waypoints_def)
  then show ?thesis using True by (simp add: indices_consecutive_def extract_waypoints_def)
next
  case False
  let ?step = "max 1 (length coords div 50)"
  have "indices_consecutive [marker 1 (coords ! 0) Start_here]" by (simp add: indices_consecutive_def marker_def)
  then have "indices_consecutive (scan_turns g coords ?step [marker 1 (coords ! 0) Start_here]
                 (py_range ?step (length coords - ?step) ?step))" by (rule scan_turns_consecutive)
  then show ?thesis using False by (simp add: extract_waypoints_def Let_def indices_consecutive_snoc)
qed

text \<open>For a routed polyline of three or more points the first marker is
  "Start here" at its first point and the last is "Finish!" at its last point.\<close>

theorem extract_waypoints_endpoints:
  assumes "3 \<le> length coords"
  shows "hd (extract_waypoints g coords) = marker 1 (hd coords) Start_here \<and>
         last (extract_waypoints g coords) = marker (int (length (extract_waypoints g coords))) (last coords) Finish"
proof -
  let ?step = "max 1 (length coords div 50)"
  obtain zs where zs: "scan_turns g coords ?step [marker 1 (coords ! 0) Start_here] (py_range ?step (length coords - ?step) ?step)
                       = marker 1 (coords ! 0) Start_here # zs"
    using scan_start by blast
  have "coords ! 0 = hd coords" using assms by (cases coords) auto
  then show ?thesis using assms zs by (simp add: extract_waypoints_def Let_def)
qed

text \<open>Every marker between the start and the finish is a turn: it sits at a
  sampled routed point \<open>i\<close> (\<open>range(step, n - step, step)\<close>) where the bearing
  changes by at least 30 degrees, and carries a turn instruction.\<close>

theorem extract_waypoints_turns:
  assumes "3 \<le> length coords" "m \<in> set (butlast (tl (extract_waypoints g coords)))"
  shows "turn_marker g coords (max 1 (length coords div 50))
           {i. max 1 (length coords div 50) \<le> i \<and> i < length coords - max 1 (length coords div 50) \<and>
               max 1 (length coords div 50) dvd (i - max 1 (length coords div 50))} m"
proof -
  let ?step = "max 1 (length coords div 50)"
  obtain zs where zs: "scan_turns g coords ?step [marker 1 (coords ! 0) Start_here] (py_range ?step (length coords - ?step) ?step)
                       = marker 1 (coords ! 0) Start_here # zs"
    "\<forall>m \<in> set zs. turn_marker g coords ?step (set (py_range ?step (length coords - ?step) ?step)) m"
    using scan_start by blast
  have "m \<in> set zs" using assms zs(1) by (simp add: extract_waypoints_def Let_def)
  then show ?thesis using zs(2) set_py_range [of ?step ?step "length coords - ?step"] by simp
qed

section \<open>Witnesses\<close>

lemma compass_turn_example:
  "extract_waypoints compass_kernel [\<lparr>lng = 0, lat = 0\<rparr>, \<lparr>lng = 1, lat = 0\<rparr>, \<lparr>lng = 1, lat = (1::real)\<rparr>] =
     [marker 1 \<lparr>lng = 0, lat = 0\<rparr> Start_here, marker 2 \<lparr>lng = 1, lat = 0\<rparr> Turn_left,
      marker 3 \<lparr>lng = 1, lat = 1\<rparr> Finish]"
  by (simp add: extract_waypoints_def py_range_def compass_kernel_def taxicab_kernel_def Let_def
      angle_change_def py_fmod_def turn_instruction_def marker_def)

theorem extract_waypoints_endpoints_witness:
  "3 \<le> length [\<lparr>lng = 0, lat = 0\<rparr>, \<lparr>lng = 1, lat = 0\<rparr>, \<lparr>lng = 1, lat = (1::real)\<rparr>] \<and>
   hd (extract_waypoints compass_kernel [\<lparr>lng = 0, lat = 0\<rparr>, \<lparr>lng = 1, lat = 0\<rparr>, \<lparr>lng = 1, lat = (1::real)\<rparr>]) = marker 1 (hd [\<lparr>lng = 0, lat = 0\<rparr>, \<lparr>lng = 1, lat = 0\<rparr>, \<lparr>lng = 1, lat = (1::real)\<rparr>]) Start_here \<and>
   last (extract_waypoints compass_kernel [\<lparr>lng = 0, lat = 0\<rparr>, \<lparr>lng = 1, lat = 0\<rparr>, \<lparr>lng = 1, lat = (1::real)\<rparr>]) =
     marker (int (length (extract_waypoints compass_kernel [\<lparr>lng = 0, lat = 0\<rparr>, \<lparr>lng = 1, lat = 0\<rparr>, \<lparr>lng = 1, lat = (1::real)\<rparr>]))) (last [\<lparr>lng = 0, lat = 0\<rparr>, \<lparr>lng = 1, lat = 0\<rparr>, \<lparr>lng = 1, lat = (1::real)\<rparr>]) Finish"
  using extract_waypoints_endpoints [of "[\<lparr>lng = 0, lat = 0\<rparr>, \<lparr>lng = 1, lat = 0\<rparr>, \<lparr>lng = 1, lat = (1::real)\<rparr>]" compass_kernel] by simp

theorem extract_waypoints_turns_witness:
  "3 \<le> length [\<lparr>lng = 0, lat = 0\<rparr>, \<lparr>lng = 1, lat = 0\<rparr>, \<lparr>lng = 1, lat = (1::real)\<rparr>] \<and> marker 2 \<lparr>lng = 1, lat = 0\<rparr> Turn_left \<in> set (butlast (tl (extract_waypoints compass_kernel [\<lparr>lng = 0, lat = 0\<rparr>, \<lparr>lng = 1, lat = 0\<rparr>, \<lparr>lng = 1, lat = (1::real)\<rparr>]))) \<and>
   turn_marker compass_kernel [\<lparr>lng = 0, lat = 0\<rparr>, \<lparr>lng = 1, lat = 0\<rparr>, \<lparr>lng = 1, lat = (1::real)\<rparr>] (max 1 (length [\<lparr>lng = 0, lat = 0\<rparr>, \<lparr>lng = 1, lat = 0\<rparr>, \<lparr>lng = 1, lat = (1::real)\<rparr>] div 50))
     {i. max 1 (length [\<lparr>lng = 0, lat = 0\<rparr>, \<lparr>lng = 1, lat = 0\<rparr>, \<lparr>lng = 1, lat = (1::real)\<rparr>] div 50) \<le> i \<and> i < length [\<lparr>lng = 0, lat = 0\<rparr>, \<lparr>lng = 1, lat = 0\<rparr>, \<lparr>lng = 1, lat = (1::real)\<rparr>] - max 1 (length [\<lparr>lng = 0, lat = 0\<rparr>, \<lparr>lng = 1, lat = 0\<rparr>, \<lparr>lng = 1, lat = (1::real)\<rparr>] div 50) \<and>
         max 1 (length [\<lparr>lng = 0, lat = 0\<rparr>, \<lparr>lng = 1, lat = 0\<rparr>, \<lparr>lng = 1, lat = (1::real)\<rparr>] div 50) dvd (i - max 1 (length [\<lparr>lng = 0, lat = 0\<rparr>, \<lparr>lng = 1, lat = 0\<rparr>, \<lparr>lng = 1, lat = (1::real)\<rparr>] div 50))} (marker 2 \<lparr>lng = 1, lat = 0\<rparr> Turn_left)"
proof -
  have m: "marker 2 \<lparr>lng = 1, lat = 0\<rparr> Turn_left \<in> set (butlast (tl (extract_waypoints compass_kernel [\<lparr>lng = 0, lat = 0\<rparr>, \<lparr>lng = 1, lat = 0\<rparr>, \<lparr>lng = 1, lat = (1::real)\<rparr>])))"
    by (simp add: compass_turn_example)
  show ?thesis using extract_waypoints_turns [OF _ m] m by simp
qed

end
