(* ===== verification/Routing.thy ===== *)
theory Routing
  imports StreetMapper
begin

text \<open>
  \<open>ShapeGenerator._route_waypoints\<close> of
  \<^verbatim>\<open>src/backend/services/shape_generator.py\<close> (lines 254--329): the SvelteKit
  proxy first, the unrouted fallback without a Mapbox token, and otherwise the
  direct Mapbox Directions calls on chunks of 25 waypoints overlapping by one,
  stitched by dropping each later chunk's first point. The HTTP calls are
  parameters: \<open>proxy_result\<close> is the proxy's outcome (\<open>None\<close> for an exception,
  a non-200 status or \<open>success\<close> false) and \<open>directions\<close> answers one chunk
  with an exception (\<open>Inl\<close>, not caught in the chunk loop), \<open>None\<close> (a
  \<open>code\<close> other than \<open>Ok\<close> or no route) or the route's coordinates, distance
  in metres and duration in seconds.
\<close>

section \<open>Definitions\<close>

text \<open>The dictionary \<open>_route_waypoints\<close> returns.\<close>

record route_result =
  route_coords :: "coordinate list"
  route_distance_km :: real
  route_duration_minutes :: real

type_synonym directions_api = "coordinate list \<Rightarrow> py_error + (coordinate list \<times> real \<times> real) option"

text \<open>The chunk starts \<open>range(0, len(coords), chunk_size - 1)\<close> and the chunk
  \<open>coords[i : i + chunk_size]\<close> with \<open>chunk_size = 25\<close>.\<close>

definition chunk_starts :: "nat \<Rightarrow> nat list" where
  "chunk_starts n = py_range 0 n 24"

definition chunk_at :: "coordinate list \<Rightarrow> nat \<Rightarrow> coordinate list" where
  "chunk_at coords i = take 25 (drop i coords)"

text \<open>The chunk loop, carrying \<open>all_coords\<close>, \<open>total_dist\<close> (km) and
  \<open>total_dur\<close> (minutes).\<close>

fun stitch_chunks :: "directions_api \<Rightarrow> coordinate list \<Rightarrow> nat list \<Rightarrow> coordinate list \<times> real \<times> real \<Rightarrow>
                      py_error + coordinate list \<times> real \<times> real" where
  "stitch_chunks api coords [] acc = Inr acc"
| "stitch_chunks api coords (i # starts) (all_coords, total_dist, total_dur) =
     (let chunk = chunk_at coords i in
      if length chunk < 2 then stitch_chunks api coords starts (all_coords, total_dist, total_dur)
      else case api chunk of
        Inl e \<Rightarrow> Inl e
      | Inr None \<Rightarrow> stitch_chunks api coords starts (all_coords, total_dist, total_dur)
      | Inr (Some (rc, dist_m, dur_s)) \<Rightarrow>
          stitch_chunks api coords starts
            (if all_coords \<noteq> [] then all_coords @ tl rc else all_coords @ rc,
             total_dist + dist_m / 1000, total_dur + dur_s / 60))"

text \<open>The straight-line fallback values: \<open>estimate_distance_km\<close> and
  \<open>int(estimate / 5 * 60)\<close> minutes at 5 km/h.\<close>

definition fallback_minutes :: "geo_kernel \<Rightarrow> coordinate list \<Rightarrow> real" where
  "fallback_minutes g waypoints =
     of_int (let x = estimate_distance_km g waypoints / 5 * 60 in if 0 \<le> x then \<lfloor>x\<rfloor> else \<lceil>x\<rceil>)"

definition route_waypoints ::
  "geo_kernel \<Rightarrow> route_result option \<Rightarrow> bool \<Rightarrow> directions_api \<Rightarrow> coordinate list \<Rightarrow> py_error + route_result" where
  "route_waypoints g proxy_result has_token api waypoints =
     (case proxy_result of
        Some r \<Rightarrow> Inr r
      | None \<Rightarrow>
          if \<not> has_token then
            Inr \<lparr>route_coords = waypoints, route_distance_km = estimate_distance_km g waypoints,
                 route_duration_minutes = fallback_minutes g waypoints\<rparr>
          else
            case stitch_chunks api waypoints (chunk_starts (length waypoints)) ([], 0, 0) of
              Inl e \<Rightarrow> Inl e
            | Inr (all_coords, total_dist, total_dur) \<Rightarrow>
                Inr \<lparr>route_coords = (if all_coords = [] then waypoints else all_coords),
                     route_distance_km = py_or (py_round1 total_dist) (estimate_distance_km g waypoints),
                     route_duration_minutes = py_or (of_int (py_round total_dur)) (fallback_minutes g waypoints)\<rparr>)"

section \<open>Lemmas\<close>

lemma set_chunk_starts: "set (chunk_starts n) = {i. i < n \<and> 24 dvd i}"
  by (simp add: chunk_starts_def set_py_range)

lemma chunk_starts_upt: "chunk_starts n = map (\<lambda>k. k * 24) [0..<(n + 23) div 24]"
  by (simp add: chunk_starts_def py_range_def add.commute)

lemma chunk_starts_Cons: "0 < n \<Longrightarrow> chunk_starts n = 0 # map (\<lambda>k. k * 24) [1..<(n + 23) div 24]"
  by (simp add: chunk_starts_upt upt_conv_Cons)

lemma chunk_starts_cover: "(length w + 23) div 24 * 24 + 1 \<ge> length w"
  by simp

lemma take_tl_chunk: "take (Suc i) w @ tl (chunk_at w i) = take (i + 25) w"
proof -
  have "tl (chunk_at w i) = take 24 (drop (Suc i) w)"
    by (simp add: chunk_at_def tl_take tl_drop drop_Suc)
  then show ?thesis
    using take_add [of "Suc i" 24 w] by (simp add: add.commute)
qed

lemma nth_chunk_at: "k < 25 \<Longrightarrow> i + k < length w \<Longrightarrow> chunk_at w i ! k = w ! (i + k)"
  by (simp add: chunk_at_def)

lemma length_chunk_at: "length (chunk_at w i) = min 25 (length w - i)"
  by (simp add: chunk_at_def)

text \<open>Every later chunk continues the stitched prefix: when each chunk is
  answered with its own waypoints, after the chunks from \<open>k0 * 24\<close> on the
  stitched list is a prefix of the waypoints ending at the last start.\<close>

lemma stitch_chunks_prefix:
  assumes ok: "\<And>c. api c = Inr (Some (c, d c, t c))"
  shows "\<exists>D T. stitch_chunks api w (map (\<lambda>k. k * 24) [k0..<K]) (take (k0 * 24 + 1) w, D0, T0)
              = Inr (take (max k0 K * 24 + 1) w, D, T)"
proof (induction "K - k0" arbitrary: k0 D0 T0)
  case 0
  then show ?case by (simp add: max_def)
next
  case (Suc m)
  then have lt: "k0 < K" and m: "m = K - Suc k0" by auto
  have mx: "max (Suc k0) K = max k0 K" using lt by simp
  have ih: "\<exists>D T. stitch_chunks api w (map (\<lambda>k. k * 24) [Suc k0..<K]) (take (k0 * 24 + 25) w, D1, T1)
              = Inr (take (max k0 K * 24 + 1) w, D, T)" for D1 T1
    using Suc.hyps(1) [OF m, of D1 T1] mx by (simp add: add.commute)
  show ?case
  proof (cases "length (chunk_at w (k0 * 24)) < 2")
    case True
    then have "length w \<le> k0 * 24 + 1" by (auto simp: length_chunk_at)
    then have "take (k0 * 24 + 1) w = take (k0 * 24 + 25) w" by simp
    then show ?thesis using True ih lt by (simp add: upt_conv_Cons)
  next
    case False
    then have "k0 * 24 < length w" by (auto simp: length_chunk_at)
    then have ne: "take (k0 * 24 + 1) w \<noteq> []" by (cases w) simp_all
    have "take (k0 * 24 + 1) w @ tl (chunk_at w (k0 * 24)) = take (k0 * 24 + 25) w"
      using take_tl_chunk [of "k0 * 24" w] by simp
    then show ?thesis using False ih lt ne ok by (simp add: upt_conv_Cons Let_def)
  qed
qed

lemma stitch_chunks_identity:
  assumes ok: "\<And>c. api c = Inr (Some (c, d c, t c))" and n: "2 \<le> length w"
  shows "\<exists>D T. stitch_chunks api w (chunk_starts (length w)) ([], 0, 0) = Inr (w, D, T)"
proof -
  let ?K = "(length w + 23) div 24"
  have K: "1 \<le> ?K" using n by simp
  have c0: "\<not> length (chunk_at w 0) < 2" using n by (simp add: length_chunk_at)
  have first: "chunk_at w 0 = take (1 * 24 + 1) w" by (simp add: chunk_at_def)
  obtain D T where "stitch_chunks api w (map (\<lambda>k. k * 24) [1..<?K]) (take (1 * 24 + 1) w, d (chunk_at w 0) / 1000, t (chunk_at w 0) / 60)
              = Inr (take (max 1 ?K * 24 + 1) w, D, T)"
    using stitch_chunks_prefix [OF ok] by blast
  moreover have "take (max 1 ?K * 24 + 1) w = w" using K by simp
  moreover have "chunk_starts (length w) = 0 # map (\<lambda>k. k * 24) [1..<?K]"
    using n by (intro chunk_starts_Cons) linarith
  ultimately show ?thesis using c0 ok
    by (simp add: Let_def first)
qed

section \<open>Properties\<close>

text \<open>Chunking covers the route: for every pair of consecutive waypoints
  there is a chunk start of \<open>range(0, len(coords), 24)\<close> whose chunk of at
  most 25 points holds both, one after the other, so every leg of the route is
  sent to the Directions API.\<close>

theorem chunks_cover_legs:
  assumes "Suc j < length w"
  shows "\<exists>i\<in>set (chunk_starts (length w)). Suc (j - i) < length (chunk_at w i) \<and> length (chunk_at w i) \<le> 25 \<and>
            chunk_at w i ! (j - i) = w ! j \<and> chunk_at w i ! Suc (j - i) = w ! Suc j"
proof -
  define i where "i = j div 24 * 24"
  have ij: "i \<le> j" and small: "j - i < 24"
    unfolding i_def using div_mult_mod_eq [of j 24] by (simp, linarith)
  have "i \<in> set (chunk_starts (length w))"
    using ij assms by (simp add: set_chunk_starts i_def)
  moreover have "Suc (j - i) < length (chunk_at w i)"
    using ij small assms by (simp add: length_chunk_at)
  moreover have "chunk_at w i ! (j - i) = w ! j" "chunk_at w i ! Suc (j - i) = w ! Suc j"
    using ij small assms by (simp_all add: nth_chunk_at)
  ultimately show ?thesis by (auto simp: length_chunk_at)
qed

lemma chunks_cover_legs_witness:
  "\<exists>i\<in>set (chunk_starts 30). Suc (26 - i) < length (chunk_at (map (\<lambda>k. \<lparr>lng = real k, lat = 0\<rparr>) [0..<30]) i) \<and> length (chunk_at (map (\<lambda>k. \<lparr>lng = real k, lat = 0\<rparr>) [0..<30]) i) \<le> 25 \<and>
      chunk_at (map (\<lambda>k. \<lparr>lng = real k, lat = 0\<rparr>) [0..<30]) i ! (26 - i) = (map (\<lambda>k. \<lparr>lng = real k, lat = 0\<rparr>) [0..<30]) ! 26 \<and> chunk_at (map (\<lambda>k. \<lparr>lng = real k, lat = 0\<rparr>) [0..<30]) i ! Suc (26 - i) = (map (\<lambda>k. \<lparr>lng = real k, lat = 0\<rparr>) [0..<30]) ! Suc 26"
  using chunks_cover_legs [of 26 "(map (\<lambda>k. \<lparr>lng = real k, lat = 0\<rparr>) [0..<30])"] by simp

text \<open>C28. Stitching round trip: when the proxy fails, a token is set and the
  Directions API answers every chunk with a route through exactly its
  waypoints, dropping the first point of every later chunk reassembles the
  waypoints, each once and in order.\<close>

theorem route_waypoints_identity_router:
  assumes "2 \<le> length w" and "\<forall>c. api c = Inr (Some (c, d c, t c))"
  shows "\<exists>r. route_waypoints g None True api w = Inr r \<and> route_coords r = w"
proof -
  obtain D T where "stitch_chunks api w (chunk_starts (length w)) ([], 0, 0) = Inr (w, D, T)"
    using stitch_chunks_identity [of api d t w] assms by blast
  moreover have "w \<noteq> []" using assms(1) by auto
  ultimately show ?thesis by (simp add: route_waypoints_def)
qed

lemma route_waypoints_identity_router_witness:
  "\<exists>r. route_waypoints taxicab_kernel None True (\<lambda>c. Inr (Some (c, 1000, 60))) [\<lparr>lng = 0, lat = 0\<rparr>, \<lparr>lng = 1, lat = (0::real)\<rparr>] = Inr r \<and> route_coords r = [\<lparr>lng = 0, lat = 0\<rparr>, \<lparr>lng = 1, lat = (0::real)\<rparr>]"
  using route_waypoints_identity_router [of "[\<lparr>lng = 0, lat = 0\<rparr>, \<lparr>lng = 1, lat = (0::real)\<rparr>]" "(\<lambda>c. Inr (Some (c, 1000, 60)))" "\<lambda>_. 1000" "\<lambda>_. 60" taxicab_kernel] by simp

text \<open>C27. An exception of the direct Directions call is not caught: when the
  proxy fails, a token is set and the request for the first chunk raises, the
  exception leaves \<open>_route_waypoints\<close> instead of falling back to the
  unrouted waypoints.\<close>

theorem route_waypoints_chunk_error:
  assumes "2 \<le> length w" and "api (chunk_at w 0) = Inl e"
  shows "route_waypoints g None True api w = Inl e"
proof -
  have "chunk_starts (length w) = 0 # map (\<lambda>k. k * 24) [1..<(length w + 23) div 24]"
    using assms(1) by (intro chunk_starts_Cons) linarith
  moreover have "\<not> length (chunk_at w 0) < 2" using assms(1) by (simp add: length_chunk_at)
  ultimately show ?thesis using assms(2) by (simp add: route_waypoints_def)
qed

lemma route_waypoints_chunk_error_witness:
  "route_waypoints taxicab_kernel None True (\<lambda>_. Inl Http_error) [\<lparr>lng = 0, lat = 0\<rparr>, \<lparr>lng = 1, lat = (0::real)\<rparr>] = Inl Http_error"
  using route_waypoints_chunk_error [of "[\<lparr>lng = 0, lat = 0\<rparr>, \<lparr>lng = 1, lat = (0::real)\<rparr>]" "\<lambda>_. Inl Http_error" Http_error taxicab_kernel] by simp

end
