(* ===== verification/Refinement.thy ===== *)
theory Refinement
  imports Waypoints Routing
begin

text \<open>
  The refinement loop of \<open>ShapeGenerator.generate_from_description\<close> in
  \<^verbatim>\<open>src/backend/services/shape_generator.py\<close>: deviation-targeted tightening
  (\<open>_tighten_control_points\<close>) and the bounded retry loop (lines 97--133).
  Routing and validation are the collaborators \<open>route\<close> and \<open>judge\<close>; mapping
  is \<open>map_to_streets\<close> and the markers are \<open>extract_waypoints\<close>. The loop is a
  terminating recursion on the remaining retry budget, and also an inductive
  step relation whose reachable states satisfy the loop invariant.
\<close>

section \<open>Definitions\<close>

subsection \<open>Tightening\<close>

text \<open>The deviation of segment \<open>(a, b)\<close>: the distance from its midpoint to the
  nearest routed point, 0 without routed points.\<close>

definition segment_deviation :: "geo_kernel \<Rightarrow> coordinate list \<Rightarrow> coordinate \<Rightarrow> coordinate \<Rightarrow> real" where
  "segment_deviation g actual_points a b =
     (if actual_points \<noteq> [] then list_min (map (geo_dist g (midpoint a b)) actual_points) else 0)"

definition segment_deviations :: "geo_kernel \<Rightarrow> coordinate list \<Rightarrow> coordinate list \<Rightarrow> (nat \<times> real) list" where
  "segment_deviations g target_points actual_points =
     map (\<lambda>i. (i, segment_deviation g actual_points (target_points ! i) (target_points ! Suc i)))
       [0..<length target_points - 1]"

text \<open>\<open>sort(key=lambda x: x[1], reverse=True)\<close> is stable and descending: the
  stable ascending sort on the negated key. The worse half, at least one.\<close>

definition segments_to_tighten :: "geo_kernel \<Rightarrow> coordinate list \<Rightarrow> coordinate list \<Rightarrow> nat set" where
  "segments_to_tighten g target_points actual_points =
     (let devs = sort_key (\<lambda>x. - snd x) (segment_deviations g target_points actual_points)
      in set (map fst (take (max 1 (length devs div 2)) devs)))"

definition tighten_control_points :: "geo_kernel \<Rightarrow> coordinate list \<Rightarrow> coordinate list \<Rightarrow> coordinate list" where
  "tighten_control_points g target_points actual_points =
     (if length target_points < 2 then target_points
      else
        let sel = segments_to_tighten g target_points actual_points
        in target_points ! 0 #
           concat (map (\<lambda>i. let a = target_points ! i; b = target_points ! Suc i
                            in (if i \<in> sel then [midpoint a b] else []) @ [b])
                     [0..<length target_points - 1]))"

subsection \<open>The retry loop\<close>

text \<open>The loop's variables:
  \<open>control_points\<close>, \<open>mapped\<close>, \<open>routed\<close> (its \<open>route_coords\<close> are
  \<open>routed_coords\<close>), \<open>validation\<close>, \<open>waypoints\<close> and \<open>retries\<close>.\<close>

record gen_state =
  control_points :: "coordinate list"
  mapped :: "coordinate list"
  routed :: route_result
  validation :: validation_result
  waypoints :: "waypoint_marker list"
  retries :: nat

type_synonym router = "coordinate list \<Rightarrow> route_result"
type_synonym judge = "coordinate list \<Rightarrow> coordinate list \<Rightarrow> validation_result"

text \<open>\<open>MAX_RETRIES\<close> with the environment variable unset.\<close>

definition max_retries :: nat where
  "max_retries = 2"

text \<open>One attempt: map the control points to streets, route them, extract the
  markers and validate the mapped waypoints against the routed polyline.\<close>

definition attempt :: "geo_kernel \<Rightarrow> bounding_box \<Rightarrow> router \<Rightarrow> judge \<Rightarrow> coordinate list \<Rightarrow> nat \<Rightarrow> gen_state" where
  "attempt g bbox route judge cps n =
     (let m = map_to_streets g cps bbox; r = route m
      in \<lparr>control_points = cps, mapped = m, routed = r, validation = judge m (route_coords r),
          waypoints = extract_waypoints g (route_coords r), retries = n\<rparr>)"

text \<open>The body of \<open>while not validation.passed and retries < MAX_RETRIES\<close>:
  tighten against the last routed polyline and attempt again.\<close>

definition refine_step :: "geo_kernel \<Rightarrow> bounding_box \<Rightarrow> router \<Rightarrow> judge \<Rightarrow> gen_state \<Rightarrow> gen_state" where
  "refine_step g bbox route judge st =
     attempt g bbox route judge (tighten_control_points g (control_points st) (route_coords (routed st)))
       (Suc (retries st))"

function refine_loop :: "geo_kernel \<Rightarrow> bounding_box \<Rightarrow> router \<Rightarrow> judge \<Rightarrow> nat \<Rightarrow> gen_state \<Rightarrow> gen_state" where
  "refine_loop g bbox route judge max_r st =
     (if \<not> passed (validation st) \<and> retries st < max_r
      then refine_loop g bbox route judge max_r (refine_step g bbox route judge st)
      else st)"
  by pat_completeness auto
termination
  by (relation "measure (\<lambda>(g, bbox, route, judge, max_r, st). max_r - retries st)")
     (auto simp: refine_step_def attempt_def Let_def)

text \<open>Steps 3--7 of \<open>generate_from_description\<close> from the seeded control points.\<close>

definition generate_route :: "geo_kernel \<Rightarrow> bounding_box \<Rightarrow> router \<Rightarrow> judge \<Rightarrow> coordinate list \<Rightarrow> gen_state" where
  "generate_route g bbox route judge cps = refine_loop g bbox route judge max_retries (attempt g bbox route judge cps 0)"

text \<open>The loop as a state machine: the first attempt (\<open>GENERATE \<rightarrow> MAP \<rightarrow> ROUTE
  \<rightarrow> SCORE\<close>) and, while the score fails and retries remain, a RETRY step.\<close>

inductive refine_reach :: "geo_kernel \<Rightarrow> bounding_box \<Rightarrow> router \<Rightarrow> judge \<Rightarrow> nat \<Rightarrow> coordinate list \<Rightarrow> gen_state \<Rightarrow> bool"
  for g bbox route judge max_r cps0 where
  start: "refine_reach g bbox route judge max_r cps0 (attempt g bbox route judge cps0 0)"
| retry: "refine_reach g bbox route judge max_r cps0 st \<Longrightarrow> \<not> passed (validation st) \<Longrightarrow> retries st < max_r \<Longrightarrow>
          refine_reach g bbox route judge max_r cps0 (refine_step g bbox route judge st)"

inductive_cases refine_reach_cases: "refine_reach g bbox route judge max_r cps0 st"

section \<open>Lemmas\<close>

subsection \<open>Tightening\<close>

lemma map_fst_segment_deviations [simp]:
  "map fst (segment_deviations g target_points actual_points) = [0..<length target_points - 1]"
  by (simp add: segment_deviations_def comp_def)

lemma segments_to_tighten_card:
  assumes "2 \<le> length target_points"
  shows "card (segments_to_tighten g target_points actual_points) = max 1 ((length target_points - 1) div 2)"
    and "segments_to_tighten g target_points actual_points \<subseteq> {..<length target_points - 1}"
proof -
  let ?devs = "sort_key (\<lambda>x. - snd x) (segment_deviations g target_points actual_points)"
  let ?k = "max 1 (length ?devs div 2)"
  have perm: "mset ?devs = mset (segment_deviations g target_points actual_points)" by simp
  then have "mset (map fst ?devs) = mset [0..<length target_points - 1]"
    by (metis map_fst_segment_deviations mset_map)
  then have d: "distinct (map fst ?devs)" "set (map fst ?devs) = {..<length target_points - 1}"
    by (metis distinct_upt mset_eq_imp_distinct_iff, metis atLeast0LessThan mset_eq_setD set_upt)
  have len: "length ?devs = length target_points - 1"
    using perm by (metis length_map map_fst_segment_deviations mset_eq_length length_upt minus_nat.diff_0)
  have "?k \<le> length ?devs" using assms len by auto
  then show "card (segments_to_tighten g target_points actual_points) = max 1 ((length target_points - 1) div 2)"
    using d(1) len by (simp add: segments_to_tighten_def Let_def distinct_card take_map [symmetric] distinct_take)
  show "segments_to_tighten g target_points actual_points \<subseteq> {..<length target_points - 1}"
    using d(2) set_take_subset [of ?k "map fst ?devs"] by (simp add: segments_to_tighten_def Let_def take_map)
qed

lemma length_concat_optional:
  "length (concat (map (\<lambda>i. (if P i then [x i] else []) @ [y i]) xs)) = length xs + length (filter P xs)"
  by (induction xs) simp_all

lemma length_filter_upt_mem:
  "S \<subseteq> {..<m} \<Longrightarrow> length (filter (\<lambda>i. i \<in> S) [0..<m]) = card S"
proof -
  assume "S \<subseteq> {..<m}"
  then have "set (filter (\<lambda>i. i \<in> S) [0..<m]) = S" by auto
  then show ?thesis using distinct_card [of "filter (\<lambda>i. i \<in> S) [0..<m]"] by simp
qed

lemma subseq_concat_optional:
  "subseq (map y xs) (concat (map (\<lambda>i. e i @ [y i]) xs))"
proof (induction xs)
  case Nil
  then show ?case by simp
next
  case (Cons i xs)
  then have "subseq (y i # map y xs) (y i # concat (map (\<lambda>i. e i @ [y i]) xs))" by simp
  then show ?case by (simp add: list_emb_append2)
qed

lemma tighten_points_as_map:
  "2 \<le> length ps \<Longrightarrow> ps = ps ! 0 # map (\<lambda>i. ps ! Suc i) [0..<length ps - 1]"
  by (cases ps) (simp_all add: map_nth [symmetric] map_upt_Suc [symmetric] del: map_nth)

lemma segments_to_tighten_worst:
  assumes "i \<in> segments_to_tighten g target_points actual_points" "j < length target_points - 1"
    "j \<notin> segments_to_tighten g target_points actual_points"
  shows "segment_deviation g actual_points (target_points ! j) (target_points ! Suc j)
         \<le> segment_deviation g actual_points (target_points ! i) (target_points ! Suc i)"
proof -
  let ?dv = "\<lambda>i. segment_deviation g actual_points (target_points ! i) (target_points ! Suc i)"
  let ?devs = "sort_key (\<lambda>x. - snd x) (segment_deviations g target_points actual_points)"
  let ?k = "max 1 (length ?devs div 2)"
  have set_devs: "set ?devs = (\<lambda>i. (i, ?dv i)) ` {..<length target_points - 1}"
    by (auto simp: segment_deviations_def)
  obtain p where p: "p \<in> set (take ?k ?devs)" "fst p = i"
    using assms(1) by (auto simp: segments_to_tighten_def Let_def take_map)
  then have pi: "p = (i, ?dv i)" using set_devs in_set_takeD [OF p(1)] by auto
  have "(j, ?dv j) \<in> set ?devs" using set_devs assms(2) by auto
  moreover have "(j, ?dv j) \<notin> set (take ?k ?devs)"
    using assms(3) by (force simp: segments_to_tighten_def Let_def take_map)
  ultimately have q: "(j, ?dv j) \<in> set (drop ?k ?devs)"
    by (metis Un_iff append_take_drop_id set_append)
  have "sorted (map (\<lambda>x. - snd x) (take ?k ?devs) @ map (\<lambda>x. - snd x) (drop ?k ?devs))"
    by (metis map_append append_take_drop_id sorted_sort_key)
  then have "\<forall>x \<in> set (take ?k ?devs). \<forall>y \<in> set (drop ?k ?devs). - snd x \<le> - snd y"
    by (simp add: sorted_append)
  then have "- snd p \<le> - snd (j, ?dv j)" using p(1) q by blast
  then show ?thesis using pi by simp
qed

lemma valid_tighten:
  "polyline_valid target_points \<Longrightarrow> polyline_valid (tighten_control_points g target_points actual_points)"
  by (auto simp: tighten_control_points_def Let_def list_all_iff intro!: valid_midpoint nth_mem)

lemma last_concat_optional:
  "xs \<noteq> [] \<Longrightarrow> last (concat (map (\<lambda>i. e i @ [y i]) xs)) = y (last xs)"
  by (induction xs) auto

section \<open>Properties\<close>

subsection \<open>Tightening\<close>

text \<open>Tightening an outline of \<open>n \<ge> 2\<close> points inserts exactly
  \<open>max(1, (n - 1) // 2)\<close> midpoints.\<close>

theorem tighten_length:
  assumes "2 \<le> length target_points"
  shows "length (tighten_control_points g target_points actual_points) =
         length target_points + max 1 ((length target_points - 1) div 2)"
proof -
  let ?sel = "segments_to_tighten g target_points actual_points"
  have "length (tighten_control_points g target_points actual_points) =
        1 + (length target_points - 1) + length (filter (\<lambda>i. i \<in> ?sel) [0..<length target_points - 1])"
    using assms length_concat_optional [of "\<lambda>i. i \<in> ?sel" "\<lambda>i. midpoint (target_points ! i) (target_points ! Suc i)"
        "\<lambda>i. target_points ! Suc i" "[0..<length target_points - 1]"]
    by (simp add: tighten_control_points_def Let_def)
  then show ?thesis
    using assms length_filter_upt_mem [OF segments_to_tighten_card(2) [OF assms]] segments_to_tighten_card(1) [OF assms]
    by simp
qed

text \<open>C21. Tightening only inserts points: the outline is a subsequence of the
  result, and the first and last control points are kept.\<close>

theorem tighten_keeps_points:
  assumes "2 \<le> length target_points"
  shows "subseq target_points (tighten_control_points g target_points actual_points) \<and>
         hd (tighten_control_points g target_points actual_points) = hd target_points \<and>
         last (tighten_control_points g target_points actual_points) = last target_points"
proof -
  let ?sel = "segments_to_tighten g target_points actual_points"
  let ?m = "length target_points - 1"
  let ?body = "concat (map (\<lambda>i. (if i \<in> ?sel then [midpoint (target_points ! i) (target_points ! Suc i)] else [])
                              @ [target_points ! Suc i]) [0..<?m])"
  have t: "tighten_control_points g target_points actual_points = target_points ! 0 # ?body"
    using assms by (simp add: tighten_control_points_def Let_def)
  have "subseq (map (\<lambda>i. target_points ! Suc i) [0..<?m]) ?body" by (rule subseq_concat_optional)
  then have "subseq (target_points ! 0 # map (\<lambda>i. target_points ! Suc i) [0..<?m]) (target_points ! 0 # ?body)"
    by simp
  then have "subseq target_points (target_points ! 0 # ?body)"
    by (simp only: tighten_points_as_map [OF assms, symmetric])
  moreover have "last ?body = last target_points"
  proof -
    have "last ?body = target_points ! Suc (last [0..<?m])" by (rule last_concat_optional) (use assms in simp)
    also have "\<dots> = last target_points"
    proof -
      obtain k where k: "length target_points = Suc (Suc k)" using assms by (metis add_2_eq_Suc le_Suc_ex)
      then have "target_points \<noteq> []" by auto
      then show ?thesis using k by (simp add: last_conv_nth)
    qed
    finally show ?thesis .
  qed
  moreover have "hd target_points = target_points ! 0" using assms by (cases target_points) auto
  moreover have "?body \<noteq> []" using assms by (simp add: concat_eq_Nil_conv) (rule exI [of _ 0], linarith)
  ultimately show ?thesis using t by simp
qed

text \<open>C14. The segments that receive a midpoint are the worse half by deviation,
  at least one: there are \<open>max(1, (n - 1) // 2)\<close> of them, and every selected
  segment deviates at least as much as every unselected one.\<close>

theorem tighten_selects_worst:
  assumes "2 \<le> length target_points"
  shows "card (segments_to_tighten g target_points actual_points) = max 1 ((length target_points - 1) div 2) \<and>
         (\<forall>i \<in> segments_to_tighten g target_points actual_points. \<forall>j < length target_points - 1.
            j \<notin> segments_to_tighten g target_points actual_points \<longrightarrow>
            segment_deviation g actual_points (target_points ! j) (target_points ! Suc j)
              \<le> segment_deviation g actual_points (target_points ! i) (target_points ! Suc i))"
  using segments_to_tighten_card(1) [OF assms] segments_to_tighten_worst by blast

subsection \<open>The retry loop\<close>

declare refine_loop.simps [simp del]

lemma refine_loop_unfold:
  "refine_loop g bbox route judge max_r st =
     (if \<not> passed (validation st) \<and> retries st < max_r
      then refine_loop g bbox route judge max_r (refine_step g bbox route judge st) else st)"
  by (rule refine_loop.simps)

lemma refine_loop_continue:
  "\<not> passed (validation st) \<Longrightarrow> retries st < max_r \<Longrightarrow>
   refine_loop g bbox route judge max_r st = refine_loop g bbox route judge max_r (refine_step g bbox route judge st)"
  by (subst refine_loop_unfold) simp

lemma refine_loop_stop:
  "passed (validation st) \<or> max_r \<le> retries st \<Longrightarrow> refine_loop g bbox route judge max_r st = st"
  by (subst refine_loop_unfold) auto

lemma retries_refine_step [simp]: "retries (refine_step g bbox route judge st) = Suc (retries st)"
  by (simp add: refine_step_def attempt_def Let_def)

lemma retries_attempt [simp]: "retries (attempt g bbox route judge cps n) = n"
  by (simp add: attempt_def Let_def)

text \<open>An attempt's fields agree with each other: the state is what mapping,
  routing, marking and judging its own control points gives.\<close>

definition consistent :: "geo_kernel \<Rightarrow> bounding_box \<Rightarrow> router \<Rightarrow> judge \<Rightarrow> gen_state \<Rightarrow> bool" where
  "consistent g bbox route judge st \<longleftrightarrow>
     st = attempt g bbox route judge (control_points st) (retries st)"

lemma consistent_attempt: "consistent g bbox route judge (attempt g bbox route judge cps n)"
  by (simp add: consistent_def attempt_def Let_def)

lemma consistent_refine_step: "consistent g bbox route judge (refine_step g bbox route judge st)"
  by (simp add: refine_step_def consistent_attempt)

lemma refine_loop_reach:
  "refine_reach g bbox route judge max_r cps0 st \<Longrightarrow>
   refine_reach g bbox route judge max_r cps0 (refine_loop g bbox route judge max_r st)"
proof (induction g bbox route judge max_r st rule: refine_loop.induct)
  case (1 g bbox route judge max_r st)
  show ?case
  proof (cases "\<not> passed (validation st) \<and> retries st < max_r")
    case True
    then show ?thesis using 1 by (simp add: refine_loop_continue refine_reach.retry)
  next
    case False
    then have "passed (validation st) \<or> max_r \<le> retries st" by auto
    then show ?thesis using 1(2) by (simp add: refine_loop_stop)
  qed
qed

lemma refine_loop_exit:
  "passed (validation (refine_loop g bbox route judge max_r st)) \<or>
   max_r \<le> retries (refine_loop g bbox route judge max_r st)"
proof (induction g bbox route judge max_r st rule: refine_loop.induct)
  case (1 g bbox route judge max_r st)
  then show ?case
    by (cases "\<not> passed (validation st) \<and> retries st < max_r")
       (simp_all add: refine_loop_continue, metis linorder_not_less refine_loop_stop)
qed

lemma refine_reach_bounded:
  "refine_reach g bbox route judge max_r cps0 st \<Longrightarrow> retries st \<le> max_r"
  by (induction rule: refine_reach.induct) simp_all

lemma generate_route_reach:
  "refine_reach g bbox route judge max_retries cps (generate_route g bbox route judge cps)"
  unfolding generate_route_def by (rule refine_loop_reach [OF refine_reach.start])

lemma refine_reach_consistent:
  "refine_reach g bbox route judge max_r cps0 st \<Longrightarrow> consistent g bbox route judge st"
  by (induction rule: refine_reach.induct) (simp_all add: consistent_attempt consistent_refine_step)

lemma refine_reach_iterate:
  "refine_reach g bbox route judge max_r cps0 st \<Longrightarrow>
   st = (refine_step g bbox route judge ^^ retries st) (attempt g bbox route judge cps0 0)"
  by (induction rule: refine_reach.induct) simp_all

lemma refine_reach_valid_points:
  "refine_reach g bbox route judge max_r cps0 st \<Longrightarrow> polyline_valid cps0 \<Longrightarrow> polyline_valid (control_points st)"
  by (induction rule: refine_reach.induct)
     (simp_all add: attempt_def refine_step_def Let_def valid_tighten)

lemma refine_reach_earlier_failed:
  "refine_reach g bbox route judge max_r cps0 st \<Longrightarrow> j < retries st \<Longrightarrow>
   \<not> passed (validation ((refine_step g bbox route judge ^^ j) (attempt g bbox route judge cps0 0)))"
proof (induction arbitrary: j rule: refine_reach.induct)
  case start
  then show ?case by simp
next
  case (retry st)
  show ?case
  proof (cases "j < retries st")
    case True
    then show ?thesis using retry.IH by blast
  next
    case False
    then have "j = retries st" using retry.prems by simp
    then show ?thesis using retry.hyps(2) refine_reach_iterate [OF retry.hyps(1)] by simp
  qed
qed

subsection \<open>The retry loop\<close>

text \<open>C11. The loop is a run of the state machine that stops only in a terminal
  state: the result of steps 3--7 is reachable, and either passed validation or
  used up the whole retry budget.\<close>

theorem generate_route_terminal:
  "refine_reach g bbox route judge max_retries cps (generate_route g bbox route judge cps) \<and>
   (passed (validation (generate_route g bbox route judge cps)) \<or>
    retries (generate_route g bbox route judge cps) = max_retries)"
proof -
  note r = generate_route_reach [of g bbox route judge cps]
  then show ?thesis
    using refine_reach_bounded [OF r] refine_loop_exit [of g bbox route judge max_retries "attempt g bbox route judge cps 0"]
    by (auto simp: generate_route_def)
qed

text \<open>C16. Every reachable state of the loop respects the retry budget and is
  consistent: its mapped waypoints, routed polyline, markers and validation are
  those of its own control points.\<close>

theorem refine_reach_invariant:
  assumes "refine_reach g bbox route judge max_r cps0 st"
  shows "retries st \<le> max_r \<and> consistent g bbox route judge st"
  using refine_reach_bounded [OF assms] refine_reach_consistent [OF assms] by blast

text \<open>C17. \<open>generate_from_description\<close> returns its last attempt, and every
  earlier attempt failed validation: the first passing attempt is returned,
  otherwise the last one, whatever the earlier scores were.\<close>

theorem generate_route_first_pass:
  "generate_route g bbox route judge cps =
     (refine_step g bbox route judge ^^ retries (generate_route g bbox route judge cps)) (attempt g bbox route judge cps 0) \<and>
   (\<forall>j < retries (generate_route g bbox route judge cps).
      \<not> passed (validation ((refine_step g bbox route judge ^^ j) (attempt g bbox route judge cps 0))))"
proof -
  note r = generate_route_reach [of g bbox route judge cps]
  show ?thesis using refine_reach_iterate [OF r] refine_reach_earlier_failed [OF r] by blast
qed

text \<open>C23. The retry loop terminates after at most \<open>max_r - retries\<close> tightening
  steps, each a call of the router and the validator.\<close>

theorem refine_loop_iterations:
  "\<exists>k \<le> max_r - retries st. refine_loop g bbox route judge max_r st = (refine_step g bbox route judge ^^ k) st"
proof (induction g bbox route judge max_r st rule: refine_loop.induct)
  case (1 g bbox route judge max_r st)
  show ?case
  proof (cases "\<not> passed (validation st) \<and> retries st < max_r")
    case True
    then obtain k where k: "k \<le> max_r - retries (refine_step g bbox route judge st)"
      "refine_loop g bbox route judge max_r (refine_step g bbox route judge st) =
       (refine_step g bbox route judge ^^ k) (refine_step g bbox route judge st)"
      using 1 by blast
    then have "refine_loop g bbox route judge max_r st = (refine_step g bbox route judge ^^ Suc k) st"
      using True by (simp add: refine_loop_continue funpow_Suc_right del: funpow.simps)
    moreover have "Suc k \<le> max_r - retries st" using k(1) True by (simp only: retries_refine_step) linarith
    ultimately show ?thesis by blast
  next
    case False
    then have "passed (validation st) \<or> max_r \<le> retries st" by auto
    then show ?thesis by (intro exI [of _ 0]) (simp add: refine_loop_stop)
  qed
qed

text \<open>C24. Liveness of the retry state machine: from every reachable state a
  terminal state (passed, or the budget used up) is reached by at most
  \<open>max_r - retries\<close> further RETRY steps, every intermediate state being
  reachable.\<close>

theorem refine_reach_progress:
  assumes "refine_reach g bbox route judge max_r cps0 st"
  shows "\<exists>k \<le> max_r - retries st.
           refine_reach g bbox route judge max_r cps0 ((refine_step g bbox route judge ^^ k) st) \<and>
           (passed (validation ((refine_step g bbox route judge ^^ k) st)) \<or>
            retries ((refine_step g bbox route judge ^^ k) st) = max_r)"
  using assms
proof (induction "max_r - retries st" arbitrary: st)
  case 0
  then have "retries st = max_r" using refine_reach_bounded [OF 0(2)] by simp
  then show ?case using 0(2) by (intro exI [of _ 0]) simp
next
  case (Suc n)
  show ?case
  proof (cases "passed (validation st)")
    case True
    then show ?thesis using Suc(3) by (intro exI [of _ 0]) simp
  next
    case False
    have lt: "retries st < max_r" using Suc(2) by simp
    have r: "refine_reach g bbox route judge max_r cps0 (refine_step g bbox route judge st)"
      using refine_reach.retry [OF Suc(3) False lt] .
    have "n = max_r - retries (refine_step g bbox route judge st)" using Suc(2) by simp
    then obtain k where k: "k \<le> max_r - retries (refine_step g bbox route judge st)"
      "refine_reach g bbox route judge max_r cps0 ((refine_step g bbox route judge ^^ k) (refine_step g bbox route judge st)) \<and>
       (passed (validation ((refine_step g bbox route judge ^^ k) (refine_step g bbox route judge st))) \<or>
        retries ((refine_step g bbox route judge ^^ k) (refine_step g bbox route judge st)) = max_r)"
      using Suc(1) [OF _ r] by blast
    have "Suc k \<le> max_r - retries st" using k(1) lt by simp
    moreover have "(refine_step g bbox route judge ^^ Suc k) st = (refine_step g bbox route judge ^^ k) (refine_step g bbox route judge st)"
      by (simp add: funpow_Suc_right del: funpow.simps)
    ultimately show ?thesis using k(2) by metis
  qed
qed

section \<open>Witnesses\<close>

theorem tighten_length_witness:
  "2 \<le> length [\<lparr>lng = 0, lat = 0\<rparr>, \<lparr>lng = 2, lat = 0\<rparr>, \<lparr>lng = 2, lat = (2::real)\<rparr>] \<and>
   length (tighten_control_points taxicab_kernel [\<lparr>lng = 0, lat = 0\<rparr>, \<lparr>lng = 2, lat = 0\<rparr>, \<lparr>lng = 2, lat = (2::real)\<rparr>] [\<lparr>lng = 1, lat = 1\<rparr>]) = length [\<lparr>lng = 0, lat = 0\<rparr>, \<lparr>lng = 2, lat = 0\<rparr>, \<lparr>lng = 2, lat = (2::real)\<rparr>] + max 1 ((length [\<lparr>lng = 0, lat = 0\<rparr>, \<lparr>lng = 2, lat = 0\<rparr>, \<lparr>lng = 2, lat = (2::real)\<rparr>] - 1) div 2)"
  using tighten_length [of "[\<lparr>lng = 0, lat = 0\<rparr>, \<lparr>lng = 2, lat = 0\<rparr>, \<lparr>lng = 2, lat = (2::real)\<rparr>]" taxicab_kernel "[\<lparr>lng = 1, lat = 1\<rparr>]"] by simp

theorem tighten_keeps_points_witness:
  "2 \<le> length [\<lparr>lng = 0, lat = 0\<rparr>, \<lparr>lng = 2, lat = 0\<rparr>, \<lparr>lng = 2, lat = (2::real)\<rparr>] \<and> subseq [\<lparr>lng = 0, lat = 0\<rparr>, \<lparr>lng = 2, lat = 0\<rparr>, \<lparr>lng = 2, lat = (2::real)\<rparr>] (tighten_control_points taxicab_kernel [\<lparr>lng = 0, lat = 0\<rparr>, \<lparr>lng = 2, lat = 0\<rparr>, \<lparr>lng = 2, lat = (2::real)\<rparr>] [\<lparr>lng = 1, lat = 1\<rparr>]) \<and>
   hd (tighten_control_points taxicab_kernel [\<lparr>lng = 0, lat = 0\<rparr>, \<lparr>lng = 2, lat = 0\<rparr>, \<lparr>lng = 2, lat = (2::real)\<rparr>] [\<lparr>lng = 1, lat = 1\<rparr>]) = hd [\<lparr>lng = 0, lat = 0\<rparr>, \<lparr>lng = 2, lat = 0\<rparr>, \<lparr>lng = 2, lat = (2::real)\<rparr>] \<and>
   last (tighten_control_points taxicab_kernel [\<lparr>lng = 0, lat = 0\<rparr>, \<lparr>lng = 2, lat = 0\<rparr>, \<lparr>lng = 2, lat = (2::real)\<rparr>] [\<lparr>lng = 1, lat = 1\<rparr>]) = last [\<lparr>lng = 0, lat = 0\<rparr>, \<lparr>lng = 2, lat = 0\<rparr>, \<lparr>lng = 2, lat = (2::real)\<rparr>]"
  using tighten_keeps_points [of "[\<lparr>lng = 0, lat = 0\<rparr>, \<lparr>lng = 2, lat = 0\<rparr>, \<lparr>lng = 2, lat = (2::real)\<rparr>]" taxicab_kernel "[\<lparr>lng = 1, lat = 1\<rparr>]"] by simp

theorem tighten_selects_worst_witness:
  "2 \<le> length [\<lparr>lng = 0, lat = 0\<rparr>, \<lparr>lng = 2, lat = 0\<rparr>, \<lparr>lng = 2, lat = (2::real)\<rparr>] \<and>
   card (segments_to_tighten taxicab_kernel [\<lparr>lng = 0, lat = 0\<rparr>, \<lparr>lng = 2, lat = 0\<rparr>, \<lparr>lng = 2, lat = (2::real)\<rparr>] [\<lparr>lng = 1, lat = 1\<rparr>]) = max 1 ((length [\<lparr>lng = 0, lat = 0\<rparr>, \<lparr>lng = 2, lat = 0\<rparr>, \<lparr>lng = 2, lat = (2::real)\<rparr>] - 1) div 2)"
  using tighten_selects_worst [of "[\<lparr>lng = 0, lat = 0\<rparr>, \<lparr>lng = 2, lat = 0\<rparr>, \<lparr>lng = 2, lat = (2::real)\<rparr>]" taxicab_kernel "[\<lparr>lng = 1, lat = 1\<rparr>]"] by simp

theorem refine_reach_invariant_witness:
  "refine_reach taxicab_kernel \<lparr>min_lng = 1442 / 100, min_lat = 5007 / 100, max_lng = 1446 / 100, max_lat = (5009 / 100 :: real)\<rparr> (\<lambda>m. \<lparr>route_coords = m, route_distance_km = 0, route_duration_minutes = 0\<rparr>) (\<lambda>_ _. \<lparr>score = 100, passed = True, method_name = Algorithmic, reasoning = Empty_point_set\<rparr>) 2 [\<lparr>lng = 0, lat = 0\<rparr>, \<lparr>lng = 2, lat = 0\<rparr>, \<lparr>lng = 2, lat = (2::real)\<rparr>] (attempt taxicab_kernel \<lparr>min_lng = 1442 / 100, min_lat = 5007 / 100, max_lng = 1446 / 100, max_lat = (5009 / 100 :: real)\<rparr> (\<lambda>m. \<lparr>route_coords = m, route_distance_km = 0, route_duration_minutes = 0\<rparr>) (\<lambda>_ _. \<lparr>score = 100, passed = True, method_name = Algorithmic, reasoning = Empty_point_set\<rparr>) [\<lparr>lng = 0, lat = 0\<rparr>, \<lparr>lng = 2, lat = 0\<rparr>, \<lparr>lng = 2, lat = (2::real)\<rparr>] 0) \<and>
   retries (attempt taxicab_kernel \<lparr>min_lng = 1442 / 100, min_lat = 5007 / 100, max_lng = 1446 / 100, max_lat = (5009 / 100 :: real)\<rparr> (\<lambda>m. \<lparr>route_coords = m, route_distance_km = 0, route_duration_minutes = 0\<rparr>) (\<lambda>_ _. \<lparr>score = 100, passed = True, method_name = Algorithmic, reasoning = Empty_point_set\<rparr>) [\<lparr>lng = 0, lat = 0\<rparr>, \<lparr>lng = 2, lat = 0\<rparr>, \<lparr>lng = 2, lat = (2::real)\<rparr>] 0) \<le> 2 \<and>
   consistent taxicab_kernel \<lparr>min_lng = 1442 / 100, min_lat = 5007 / 100, max_lng = 1446 / 100, max_lat = (5009 / 100 :: real)\<rparr> (\<lambda>m. \<lparr>route_coords = m, route_distance_km = 0, route_duration_minutes = 0\<rparr>) (\<lambda>_ _. \<lparr>score = 100, passed = True, method_name = Algorithmic, reasoning = Empty_point_set\<rparr>) (attempt taxicab_kernel \<lparr>min_lng = 1442 / 100, min_lat = 5007 / 100, max_lng = 1446 / 100, max_lat = (5009 / 100 :: real)\<rparr> (\<lambda>m. \<lparr>route_coords = m, route_distance_km = 0, route_duration_minutes = 0\<rparr>) (\<lambda>_ _. \<lparr>score = 100, passed = True, method_name = Algorithmic, reasoning = Empty_point_set\<rparr>) [\<lparr>lng = 0, lat = 0\<rparr>, \<lparr>lng = 2, lat = 0\<rparr>, \<lparr>lng = 2, lat = (2::real)\<rparr>] 0)"
proof -
  have r: "refine_reach taxicab_kernel \<lparr>min_lng = 1442 / 100, min_lat = 5007 / 100, max_lng = 1446 / 100, max_lat = (5009 / 100 :: real)\<rparr> (\<lambda>m. \<lparr>route_coords = m, route_distance_km = 0, route_duration_minutes = 0\<rparr>) (\<lambda>_ _. \<lparr>score = 100, passed = True, method_name = Algorithmic, reasoning = Empty_point_set\<rparr>) 2 [\<lparr>lng = 0, lat = 0\<rparr>, \<lparr>lng = 2, lat = 0\<rparr>, \<lparr>lng = 2, lat = (2::real)\<rparr>] (attempt taxicab_kernel \<lparr>min_lng = 1442 / 100, min_lat = 5007 / 100, max_lng = 1446 / 100, max_lat = (5009 / 100 :: real)\<rparr> (\<lambda>m. \<lparr>route_coords = m, route_distance_km = 0, route_duration_minutes = 0\<rparr>) (\<lambda>_ _. \<lparr>score = 100, passed = True, method_name = Algorithmic, reasoning = Empty_point_set\<rparr>) [\<lparr>lng = 0, lat = 0\<rparr>, \<lparr>lng = 2, lat = 0\<rparr>, \<lparr>lng = 2, lat = (2::real)\<rparr>] 0)"
    by (rule refine_reach.start)
  show ?thesis using r refine_reach_invariant [OF r] by blast
qed

lemma always_pass_route: "generate_route taxicab_kernel \<lparr>min_lng = 1442 / 100, min_lat = 5007 / 100, max_lng = 1446 / 100, max_lat = (5009 / 100 :: real)\<rparr> (\<lambda>m. \<lparr>route_coords = m, route_distance_km = 0, route_duration_minutes = 0\<rparr>) (\<lambda>_ _. \<lparr>score = 100, passed = True, method_name = Algorithmic, reasoning = Empty_point_set\<rparr>) [\<lparr>lng = 0, lat = 0\<rparr>, \<lparr>lng = 2, lat = 0\<rparr>, \<lparr>lng = 2, lat = (2::real)\<rparr>] = attempt taxicab_kernel \<lparr>min_lng = 1442 / 100, min_lat = 5007 / 100, max_lng = 1446 / 100, max_lat = (5009 / 100 :: real)\<rparr> (\<lambda>m. \<lparr>route_coords = m, route_distance_km = 0, route_duration_minutes = 0\<rparr>) (\<lambda>_ _. \<lparr>score = 100, passed = True, method_name = Algorithmic, reasoning = Empty_point_set\<rparr>) [\<lparr>lng = 0, lat = 0\<rparr>, \<lparr>lng = 2, lat = 0\<rparr>, \<lparr>lng = 2, lat = (2::real)\<rparr>] 0"
  unfolding generate_route_def by (rule refine_loop_stop) (simp add: attempt_def Let_def)

theorem generate_route_first_pass_witness:
  "retries (generate_route taxicab_kernel \<lparr>min_lng = 1442 / 100, min_lat = 5007 / 100, max_lng = 1446 / 100, max_lat = (5009 / 100 :: real)\<rparr> (\<lambda>m. \<lparr>route_coords = m, route_distance_km = 0, route_duration_minutes = 0\<rparr>) (\<lambda>_ _. \<lparr>score = 100, passed = True, method_name = Algorithmic, reasoning = Empty_point_set\<rparr>) [\<lparr>lng = 0, lat = 0\<rparr>, \<lparr>lng = 2, lat = 0\<rparr>, \<lparr>lng = 2, lat = (2::real)\<rparr>]) = 0 \<and>
   generate_route taxicab_kernel \<lparr>min_lng = 1442 / 100, min_lat = 5007 / 100, max_lng = 1446 / 100, max_lat = (5009 / 100 :: real)\<rparr> (\<lambda>m. \<lparr>route_coords = m, route_distance_km = 0, route_duration_minutes = 0\<rparr>) (\<lambda>_ _. \<lparr>score = 100, passed = True, method_name = Algorithmic, reasoning = Empty_point_set\<rparr>) [\<lparr>lng = 0, lat = 0\<rparr>, \<lparr>lng = 2, lat = 0\<rparr>, \<lparr>lng = 2, lat = (2::real)\<rparr>] =
     (refine_step taxicab_kernel \<lparr>min_lng = 1442 / 100, min_lat = 5007 / 100, max_lng = 1446 / 100, max_lat = (5009 / 100 :: real)\<rparr> (\<lambda>m. \<lparr>route_coords = m, route_distance_km = 0, route_duration_minutes = 0\<rparr>) (\<lambda>_ _. \<lparr>score = 100, passed = True, method_name = Algorithmic, reasoning = Empty_point_set\<rparr>) ^^ retries (generate_route taxicab_kernel \<lparr>min_lng = 1442 / 100, min_lat = 5007 / 100, max_lng = 1446 / 100, max_lat = (5009 / 100 :: real)\<rparr> (\<lambda>m. \<lparr>route_coords = m, route_distance_km = 0, route_duration_minutes = 0\<rparr>) (\<lambda>_ _. \<lparr>score = 100, passed = True, method_name = Algorithmic, reasoning = Empty_point_set\<rparr>) [\<lparr>lng = 0, lat = 0\<rparr>, \<lparr>lng = 2, lat = 0\<rparr>, \<lparr>lng = 2, lat = (2::real)\<rparr>]))
       (attempt taxicab_kernel \<lparr>min_lng = 1442 / 100, min_lat = 5007 / 100, max_lng = 1446 / 100, max_lat = (5009 / 100 :: real)\<rparr> (\<lambda>m. \<lparr>route_coords = m, route_distance_km = 0, route_duration_minutes = 0\<rparr>) (\<lambda>_ _. \<lparr>score = 100, passed = True, method_name = Algorithmic, reasoning = Empty_point_set\<rparr>) [\<lparr>lng = 0, lat = 0\<rparr>, \<lparr>lng = 2, lat = 0\<rparr>, \<lparr>lng = 2, lat = (2::real)\<rparr>] 0)"
  using generate_route_first_pass [of taxicab_kernel "\<lparr>min_lng = 1442 / 100, min_lat = 5007 / 100, max_lng = 1446 / 100, max_lat = (5009 / 100 :: real)\<rparr>" "(\<lambda>m. \<lparr>route_coords = m, route_distance_km = 0, route_duration_minutes = 0\<rparr>)" "(\<lambda>_ _. \<lparr>score = 100, passed = True, method_name = Algorithmic, reasoning = Empty_point_set\<rparr>)" "[\<lparr>lng = 0, lat = 0\<rparr>, \<lparr>lng = 2, lat = 0\<rparr>, \<lparr>lng = 2, lat = (2::real)\<rparr>]"] always_pass_route by simp

theorem refine_reach_progress_witness:
  "refine_reach taxicab_kernel \<lparr>min_lng = 1442 / 100, min_lat = 5007 / 100, max_lng = 1446 / 100, max_lat = (5009 / 100 :: real)\<rparr>
     (\<lambda>m. \<lparr>route_coords = m, route_distance_km = 0, route_duration_minutes = 0\<rparr>)
     (\<lambda>_ _. \<lparr>score = 0, passed = False, method_name = Algorithmic, reasoning = Empty_point_set\<rparr>) 2 []
     (attempt taxicab_kernel \<lparr>min_lng = 1442 / 100, min_lat = 5007 / 100, max_lng = 1446 / 100, max_lat = (5009 / 100 :: real)\<rparr>
       (\<lambda>m. \<lparr>route_coords = m, route_distance_km = 0, route_duration_minutes = 0\<rparr>)
       (\<lambda>_ _. \<lparr>score = 0, passed = False, method_name = Algorithmic, reasoning = Empty_point_set\<rparr>) [] 0) \<and>
   (\<exists>k \<le> 2. retries ((refine_step taxicab_kernel \<lparr>min_lng = 1442 / 100, min_lat = 5007 / 100, max_lng = 1446 / 100, max_lat = (5009 / 100 :: real)\<rparr>
       (\<lambda>m. \<lparr>route_coords = m, route_distance_km = 0, route_duration_minutes = 0\<rparr>)
       (\<lambda>_ _. \<lparr>score = 0, passed = False, method_name = Algorithmic, reasoning = Empty_point_set\<rparr>) ^^ k)
       (attempt taxicab_kernel \<lparr>min_lng = 1442 / 100, min_lat = 5007 / 100, max_lng = 1446 / 100, max_lat = (5009 / 100 :: real)\<rparr>
         (\<lambda>m. \<lparr>route_coords = m, route_distance_km = 0, route_duration_minutes = 0\<rparr>)
         (\<lambda>_ _. \<lparr>score = 0, passed = False, method_name = Algorithmic, reasoning = Empty_point_set\<rparr>) [] 0)) = 2)"
proof -
  let ?b = "\<lparr>min_lng = 1442 / 100, min_lat = 5007 / 100, max_lng = 1446 / 100, max_lat = (5009 / 100 :: real)\<rparr>"
  let ?r = "\<lambda>m. \<lparr>route_coords = m, route_distance_km = 0, route_duration_minutes = 0\<rparr>"
  let ?j = "\<lambda>_ _. \<lparr>score = 0, passed = False, method_name = Algorithmic, reasoning = Empty_point_set\<rparr>"
  have s: "refine_reach taxicab_kernel ?b ?r ?j 2 [] (attempt taxicab_kernel ?b ?r ?j [] 0)" by (rule refine_reach.start)
  obtain k where k: "k \<le> 2 - retries (attempt taxicab_kernel ?b ?r ?j [] 0)"
    "refine_reach taxicab_kernel ?b ?r ?j 2 [] ((refine_step taxicab_kernel ?b ?r ?j ^^ k) (attempt taxicab_kernel ?b ?r ?j [] 0))"
    "passed (validation ((refine_step taxicab_kernel ?b ?r ?j ^^ k) (attempt taxicab_kernel ?b ?r ?j [] 0))) \<or>
     retries ((refine_step taxicab_kernel ?b ?r ?j ^^ k) (attempt taxicab_kernel ?b ?r ?j [] 0)) = 2"
    using refine_reach_progress [OF s] by blast
  let ?st = "(refine_step taxicab_kernel ?b ?r ?j ^^ k) (attempt taxicab_kernel ?b ?r ?j [] 0)"
  have c: "?st = attempt taxicab_kernel ?b ?r ?j (control_points ?st) (retries ?st)"
    using refine_reach_consistent [OF k(2)] by (simp add: consistent_def)
  have "\<not> passed (validation ?st)" by (subst c) (simp add: attempt_def Let_def)
  then show ?thesis using s k(1,3) by auto
qed

end
