(* ===== verification/CheckedLoop.thy ===== *)
theory CheckedLoop
  imports Refinement
begin

text \<open>
  Steps 3--7 of \<open>generate_from_description\<close> with the exceptions the code can
  raise on the way. The router is \<open>_route_waypoints\<close>, which may raise (see
  \<open>Routing.route_waypoints\<close>: an HTTP or JSON error of a direct Mapbox request
  escapes); the validator may raise; and every \<open>Coordinate\<close> the code builds
  is checked by pydantic: the scaled points of \<open>map_to_streets\<close> and
  \<open>routed_coords = [Coordinate(lng=c[0], lat=c[1]) ...]\<close> after each route.
  The first exception ends the request. The loop is a terminating recursion on
  the retry budget, sequenced with \<open>sbind\<close>; when neither collaborator raises,
  each successful run is a run of the total model \<open>generate_route\<close> of
  \<open>Refinement\<close>, so the facts proved there hold of it.
\<close>

section \<open>Definitions\<close>

type_synonym router_e = "coordinate list \<Rightarrow> py_error + route_result"
type_synonym judge_e = "coordinate list \<Rightarrow> coordinate list \<Rightarrow> py_error + validation_result"

text \<open>One attempt: map (raising on a scaled point out of range), route,
  extract the markers, build \<open>routed_coords\<close> (raising on a routed point out of
  range) and validate.\<close>

definition attempt_e ::
  "geo_kernel \<Rightarrow> bounding_box \<Rightarrow> router_e \<Rightarrow> judge_e \<Rightarrow> coordinate list \<Rightarrow> nat \<Rightarrow> py_error + gen_state" where
  "attempt_e g bbox route judge cps n =
     sbind (map_to_streets_e g cps bbox) (\<lambda>m.
     sbind (route m) (\<lambda>r.
     sbind (check_coords (route_coords r)) (\<lambda>routed_coords.
     sbind (judge m routed_coords) (\<lambda>v.
       Inr \<lparr>control_points = cps, mapped = m, routed = r, validation = v,
            waypoints = extract_waypoints g (route_coords r), retries = n\<rparr>))))"

function refine_loop_e ::
  "geo_kernel \<Rightarrow> bounding_box \<Rightarrow> router_e \<Rightarrow> judge_e \<Rightarrow> nat \<Rightarrow> gen_state \<Rightarrow> py_error + gen_state" where
  "refine_loop_e g bbox route judge max_r st =
     (if \<not> passed (validation st) \<and> retries st < max_r
      then sbind (attempt_e g bbox route judge (tighten_control_points g (control_points st) (route_coords (routed st)))
                    (Suc (retries st)))
                 (\<lambda>st'. refine_loop_e g bbox route judge max_r st')
      else Inr st)"
  by pat_completeness auto
termination
  by (relation "measure (\<lambda>(g, bbox, route, judge, max_r, st). max_r - retries st)")
     (auto simp: attempt_e_def sbind_eq_Inr)

definition generate_route_e ::
  "geo_kernel \<Rightarrow> bounding_box \<Rightarrow> router_e \<Rightarrow> judge_e \<Rightarrow> coordinate list \<Rightarrow> py_error + gen_state" where
  "generate_route_e g bbox route judge cps =
     sbind (attempt_e g bbox route judge cps 0) (\<lambda>st. refine_loop_e g bbox route judge max_retries st)"

text \<open>Where an exception comes from: pydantic's check, the router or the validator.\<close>

definition raised_by :: "router_e \<Rightarrow> judge_e \<Rightarrow> py_error \<Rightarrow> bool" where
  "raised_by route judge e \<longleftrightarrow>
     e = Validation_error \<or> (\<exists>m. route m = Inl e) \<or> (\<exists>m a. judge m a = Inl e)"

text \<open>The collaborators succeed on every input, with routed points in range.\<close>

definition never_raise :: "router_e \<Rightarrow> judge_e \<Rightarrow> bool" where
  "never_raise route judge \<longleftrightarrow>
     (\<forall>m. \<exists>r. route m = Inr r \<and> polyline_valid (route_coords r)) \<and> (\<forall>m a. \<exists>v. judge m a = Inr v)"

section \<open>Lemmas\<close>

declare refine_loop_e.simps [simp del]

lemma attempt_e_retries: "attempt_e g bbox route judge cps n = Inr st \<Longrightarrow> retries st = n"
  by (auto simp: attempt_e_def sbind_eq_Inr)


lemma attempt_e_Inr:
  "attempt_e g bbox route judge cps n = Inr st \<Longrightarrow>
   control_points st = cps \<and> retries st = n \<and> route (mapped st) = Inr (routed st) \<and>
   polyline_valid (route_coords (routed st))"
  by (auto simp: attempt_e_def sbind_eq_Inr check_coords_Inr dest: map_to_streets_e_Inr)

lemma attempt_e_Inl: "attempt_e g bbox route judge cps n = Inl e \<Longrightarrow> raised_by route judge e"
  by (auto simp: attempt_e_def raised_by_def sbind_eq_Inl dest: map_to_streets_e_Inl check_coords_Inl)

lemma refine_loop_e_Inl: "refine_loop_e g bbox route judge max_r st = Inl e \<Longrightarrow> raised_by route judge e"
proof (induction g bbox route judge max_r st rule: refine_loop_e.induct)
  case (1 g bbox route judge max_r st)
  then show ?case
    by (subst (asm) refine_loop_e.simps) (auto simp: sbind_eq_Inl split: if_splits dest: attempt_e_Inl)
qed

lemma generate_route_e_Inl: "generate_route_e g bbox route judge cps = Inl e \<Longrightarrow> raised_by route judge e"
  by (auto simp: generate_route_e_def sbind_eq_Inl dest: attempt_e_Inl refine_loop_e_Inl)

text \<open>The final state of a successful run: its control points are the seeded
  ones or tightenings of them, and its route is one the router returned with
  valid coordinates.\<close>

lemma refine_loop_e_Inr:
  "refine_loop_e g bbox route judge max_r st = Inr st' \<Longrightarrow>
   (polyline_valid (control_points st) \<longrightarrow> polyline_valid (control_points st')) \<and>
   (st' = st \<or> (route (mapped st') = Inr (routed st') \<and> polyline_valid (route_coords (routed st'))))"
proof (induction g bbox route judge max_r st arbitrary: st' rule: refine_loop_e.induct)
  case (1 g bbox route judge max_r st)
  show ?case
  proof (cases "\<not> passed (validation st) \<and> retries st < max_r")
    case True
    then obtain s1 where s1: "attempt_e g bbox route judge (tighten_control_points g (control_points st) (route_coords (routed st)))
        (Suc (retries st)) = Inr s1" "refine_loop_e g bbox route judge max_r s1 = Inr st'"
      using "1.prems" by (subst (asm) refine_loop_e.simps) (auto simp: sbind_eq_Inr)
    have ih: "(polyline_valid (control_points s1) \<longrightarrow> polyline_valid (control_points st')) \<and>
        (st' = s1 \<or> (route (mapped st') = Inr (routed st') \<and> polyline_valid (route_coords (routed st'))))"
      using "1.IH" [OF True s1(1)] s1(2) .
    then show ?thesis using attempt_e_Inr [OF s1(1)] valid_tighten by metis
  next
    case False
    then show ?thesis using "1.prems" by (subst (asm) refine_loop_e.simps) auto
  qed
qed

lemma generate_route_e_Inr:
  "generate_route_e g bbox route judge cps = Inr st \<Longrightarrow>
   (polyline_valid cps \<longrightarrow> polyline_valid (control_points st)) \<and>
   route (mapped st) = Inr (routed st) \<and> polyline_valid (route_coords (routed st))"
  by (auto simp: generate_route_e_def sbind_eq_Inr dest!: refine_loop_e_Inr attempt_e_Inr)

text \<open>With collaborators that never raise, a successful attempt or loop is the
  total model's.\<close>

lemma attempt_e_refines:
  "attempt_e g bbox (\<lambda>m. Inr (rt m)) (\<lambda>m a. Inr (jd m a)) cps n = Inr st \<Longrightarrow> st = attempt g bbox rt jd cps n"
  by (auto simp: attempt_e_def attempt_def Let_def sbind_eq_Inr check_coords_Inr dest!: map_to_streets_e_Inr)

lemma refine_loop_e_refines_gen:
  "refine_loop_e g bbox route judge max_r st = Inr st' \<Longrightarrow>
   route = (\<lambda>m. Inr (rt m)) \<Longrightarrow> judge = (\<lambda>m a. Inr (jd m a)) \<Longrightarrow> st' = refine_loop g bbox rt jd max_r st"
proof (induction g bbox route judge max_r st arbitrary: st' rule: refine_loop_e.induct)
  case (1 g bbox route judge max_r st)
  show ?case
  proof (cases "\<not> passed (validation st) \<and> retries st < max_r")
    case True
    then obtain s1 where s1: "attempt_e g bbox route judge
        (tighten_control_points g (control_points st) (route_coords (routed st))) (Suc (retries st)) = Inr s1"
        "refine_loop_e g bbox route judge max_r s1 = Inr st'"
      using "1.prems"(1) by (subst (asm) refine_loop_e.simps) (auto simp: sbind_eq_Inr)
    have "s1 = refine_step g bbox rt jd st"
      using attempt_e_refines s1(1) "1.prems"(2,3) by (simp add: refine_step_def)
    then show ?thesis using "1.IH" [OF True s1(1) s1(2) "1.prems"(2,3)] True by (simp add: refine_loop_continue)
  next
    case False
    then have "refine_loop g bbox rt jd max_r st = st"
      by (intro refine_loop_stop) auto
    then show ?thesis using "1.prems" False by (subst (asm) refine_loop_e.simps) auto
  qed
qed

lemmas refine_loop_e_refines = refine_loop_e_refines_gen [OF _ refl refl]

lemma attempt_e_succeeds:
  assumes "bbox_ok bbox" "never_raise route judge"
  shows "\<exists>st. attempt_e g bbox route judge cps n = Inr st"
proof -
  obtain r where r: "route (map_to_streets g cps bbox) = Inr r" "polyline_valid (route_coords r)"
    using assms(2) unfolding never_raise_def by blast
  obtain v where "judge (map_to_streets g cps bbox) (route_coords r) = Inr v"
    using assms(2) unfolding never_raise_def by blast
  then show ?thesis using r by (simp add: attempt_e_def map_to_streets_e_ok [OF assms(1)])
qed

lemma refine_loop_e_succeeds:
  "bbox_ok bbox \<Longrightarrow> never_raise route judge \<Longrightarrow> \<exists>st'. refine_loop_e g bbox route judge max_r st = Inr st'"
proof (induction g bbox route judge max_r st rule: refine_loop_e.induct)
  case (1 g bbox route judge max_r st)
  show ?case
  proof (cases "\<not> passed (validation st) \<and> retries st < max_r")
    case True
    obtain s1 where s1: "attempt_e g bbox route judge (tighten_control_points g (control_points st) (route_coords (routed st)))
        (Suc (retries st)) = Inr s1"
      using attempt_e_succeeds [OF "1.prems"] by blast
    then show ?thesis using "1.IH" [OF True s1 "1.prems"] True by (subst refine_loop_e.simps) simp
  next
    case False
    then show ?thesis by (subst refine_loop_e.simps) auto
  qed
qed

lemma generate_route_e_succeeds:
  "bbox_ok bbox \<Longrightarrow> never_raise route judge \<Longrightarrow> \<exists>st. generate_route_e g bbox route judge cps = Inr st"
proof -
  assume a: "bbox_ok bbox" "never_raise route judge"
  obtain s0 where s0: "attempt_e g bbox route judge cps 0 = Inr s0" using attempt_e_succeeds [OF a] by blast
  obtain st where "refine_loop_e g bbox route judge max_retries s0 = Inr st" using refine_loop_e_succeeds [OF a] by blast
  then show ?thesis using s0 by (simp add: generate_route_e_def)
qed

section \<open>Properties\<close>


end
