(* ===== verification/Llm.thy ===== *)
theory Llm
  imports PyStr
begin

text \<open>
  The parsing glue of \<^verbatim>\<open>src/backend/services/llm.py\<close> that turns a language
  model's text into control points: the Markdown code-fence stripping shared by
  \<open>parse_ideas_json\<close> and \<open>parse_shape_json\<close>, their fallback to the span
  between the first opening and the last closing bracket, and
  \<open>coords_from_raw\<close>. \<open>json.loads\<close> is the parameter \<open>loads\<close> (\<open>None\<close>
  for a \<open>JSONDecodeError\<close>) returning a \<open>json\<close> value, and \<open>float()\<close> of a
  string is the parameter \<open>parse_float\<close>. \<open>configure_llm\<close> is the choice of
  client settings from \<open>GLM_API_KEY\<close>; the DSPy signatures only declare
  prompts and are not modelled.
\<close>

section \<open>Definitions\<close>

text \<open>\<open>configure_llm\<close>: no client when \<open>GLM_API_KEY\<close> is unset or empty;
  otherwise the client settings it passes to \<open>dspy.LM\<close>.\<close>

record lm_config =
  lm_model :: string
  lm_api_key :: string
  lm_api_base :: string
  lm_timeout :: nat
  lm_num_retries :: nat

definition configure_llm :: "string option \<Rightarrow> lm_config option" where
  "configure_llm api_key =
     (case api_key of
        None \<Rightarrow> None
      | Some k \<Rightarrow>
          if k = [] then None
          else Some \<lparr>lm_model = ''openai/glm-4-plus'', lm_api_key = k,
                     lm_api_base = ''https://open.bigmodel.cn/api/paas/v4/'', lm_timeout = 10, lm_num_retries = 1\<rparr>)"

text \<open>The values \<open>json.loads\<close> produces; an object keeps its keys in order,
  and a lookup takes the last binding of a key, as the decoder does.\<close>

datatype json = JNull | JBool bool | JNum real | JStr string | JArr "json list" | JObj "(string \<times> json) list"

definition py_dict_get :: "(string \<times> json) list \<Rightarrow> string \<Rightarrow> json option" where
  "py_dict_get kvs k = map_of (rev kvs) k"

definition py_get :: "(string \<times> json) list \<Rightarrow> string \<Rightarrow> json \<Rightarrow> json" where
  "py_get kvs k dflt = (case py_dict_get kvs k of Some v \<Rightarrow> v | None \<Rightarrow> dflt)"

definition newline :: char where
  "newline = CHR 0x0A"

text \<open>Both parsers: strip, and when the text starts with a code fence drop the
  first line, and the last one too when it is the closing fence.\<close>

definition strip_fences :: "string \<Rightarrow> string" where
  "strip_fences raw =
     (let text = py_strip raw in
      if prefix ''```'' text then
        (let lines = py_split_sep newline text in
         py_join [newline] (if py_strip (last lines) = ''```'' then tl (butlast lines) else tl lines))
      else text)"

text \<open>\<open>json.loads(text)\<close>, and on a decode error \<open>json.loads\<close> of the text from
  the first \<open>opening\<close> to the last \<open>closing\<close> character, or \<open>ValueError\<close>.\<close>

definition loads_with_span :: "(string \<Rightarrow> json option) \<Rightarrow> char \<Rightarrow> char \<Rightarrow> string \<Rightarrow> py_error + json" where
  "loads_with_span loads opening closing text =
     (case loads text of
        Some d \<Rightarrow> Inr d
      | None \<Rightarrow>
          (let start = py_find opening text; stop = py_rfind closing text + 1 in
           if 0 \<le> start \<and> start < stop then
             (case loads (take (nat stop - nat start) (drop (nat start) text)) of
                Some d \<Rightarrow> Inr d
              | None \<Rightarrow> Inl Value_error)
           else Inl Value_error))"

definition parse_ideas_json :: "(string \<Rightarrow> json option) \<Rightarrow> string \<Rightarrow> py_error + json list" where
  "parse_ideas_json loads raw =
     (case loads_with_span loads (CHR ''['') (CHR '']'') (strip_fences raw) of
        Inl e \<Rightarrow> Inl e
      | Inr data \<Rightarrow>
          (let data' = (case data of JObj kvs \<Rightarrow> (case py_dict_get kvs ''ideas'' of Some v \<Rightarrow> v | None \<Rightarrow> data) | _ \<Rightarrow> data)
           in case data' of JArr xs \<Rightarrow> Inr xs | _ \<Rightarrow> Inl Value_error))"

definition parse_shape_json :: "(string \<Rightarrow> json option) \<Rightarrow> string \<Rightarrow> py_error + json" where
  "parse_shape_json loads raw = loads_with_span loads (CHR ''{'') (CHR ''}'') (strip_fences raw)"

text \<open>\<open>float(x)\<close> of a JSON value, and the pydantic \<open>Coordinate\<close> constructor.\<close>

fun py_float :: "(string \<Rightarrow> real option) \<Rightarrow> json \<Rightarrow> py_error + real" where
  "py_float pf (JNum r) = Inr r"
| "py_float pf (JBool b) = Inr (if b then 1 else 0)"
| "py_float pf (JStr s) = (case pf s of Some r \<Rightarrow> Inr r | None \<Rightarrow> Inl Value_error)"
| "py_float pf _ = Inl Type_error"

definition mk_coordinate :: "real \<Rightarrow> real \<Rightarrow> py_error + coordinate" where
  "mk_coordinate x y =
     (if valid_coord \<lparr>lng = x, lat = y\<rparr> then Inr \<lparr>lng = x, lat = y\<rparr> else Inl Validation_error)"

definition coord_of :: "(string \<Rightarrow> real option) \<Rightarrow> json \<Rightarrow> json \<Rightarrow> py_error + coordinate" where
  "coord_of pf jx jy =
     (case py_float pf jx of
        Inl e \<Rightarrow> Inl e
      | Inr x \<Rightarrow> (case py_float pf jy of Inl e \<Rightarrow> Inl e | Inr y \<Rightarrow> mk_coordinate x y))"

text \<open>\<open>for p in raw_points\<close>: a list yields its items, a dictionary its keys and
  a string its characters; anything else raises \<open>TypeError\<close>.\<close>

fun py_iter :: "json \<Rightarrow> py_error + json list" where
  "py_iter (JArr xs) = Inr xs"
| "py_iter (JObj kvs) = Inr (map (\<lambda>kv. JStr (fst kv)) kvs)"
| "py_iter (JStr s) = Inr (map (\<lambda>c. JStr [c]) s)"
| "py_iter _ = Inl Type_error"

fun coords_loop :: "(string \<Rightarrow> real option) \<Rightarrow> json list \<Rightarrow> py_error + coordinate list" where
  "coords_loop pf [] = Inr []"
| "coords_loop pf (JArr xs # ps) =
     (if 2 \<le> length xs then
        (case coord_of pf (xs ! 0) (xs ! 1) of
           Inl e \<Rightarrow> Inl e
         | Inr c \<Rightarrow> (case coords_loop pf ps of Inl e \<Rightarrow> Inl e | Inr cs \<Rightarrow> Inr (c # cs)))
      else coords_loop pf ps)"
| "coords_loop pf (JObj kvs # ps) =
     (case coord_of pf (py_get kvs ''lng'' (py_get kvs ''longitude'' (JNum 0)))
                       (py_get kvs ''lat'' (py_get kvs ''latitude'' (JNum 0))) of
        Inl e \<Rightarrow> Inl e
      | Inr c \<Rightarrow> (case coords_loop pf ps of Inl e \<Rightarrow> Inl e | Inr cs \<Rightarrow> Inr (c # cs)))"
| "coords_loop pf (_ # ps) = coords_loop pf ps"

definition coords_from_raw :: "(string \<Rightarrow> real option) \<Rightarrow> json \<Rightarrow> py_error + coordinate list" where
  "coords_from_raw pf raw_points =
     (case py_iter raw_points of Inl e \<Rightarrow> Inl e | Inr ps \<Rightarrow> coords_loop pf ps)"

section \<open>Lemmas\<close>

lemma coord_of_Inr:
  "coord_of pf jx jy = Inr c \<Longrightarrow> valid_coord c"
  by (auto simp: coord_of_def mk_coordinate_def split: sum.splits if_splits)

lemma coords_loop_valid:
  "coords_loop pf ps = Inr cs \<Longrightarrow> polyline_valid cs \<and> length cs \<le> length ps"
proof (induction pf ps arbitrary: cs rule: coords_loop.induct)
  case (2 pf xs ps)
  then show ?case by (auto split: if_splits sum.splits dest: coord_of_Inr)
next
  case (3 pf kvs ps)
  then show ?case by (auto split: sum.splits dest: coord_of_Inr)
qed auto

lemma coordinate_eta [simp]: "\<lparr>lng = lng c, lat = lat c\<rparr> = (c :: coordinate)"
  by (cases c) simp

lemma coords_loop_encoded:
  "polyline_valid cs \<Longrightarrow> coords_loop pf (map (\<lambda>c. JArr [JNum (lng c), JNum (lat c)]) cs) = Inr cs"
  by (induction cs) (auto simp: coord_of_def mk_coordinate_def)

lemma py_strip_id:
  "s \<noteq> [] \<Longrightarrow> \<not> py_isspace (hd s) \<Longrightarrow> \<not> py_isspace (last s) \<Longrightarrow> py_strip s = s"
proof -
  assume s: "s \<noteq> []" "\<not> py_isspace (hd s)" "\<not> py_isspace (last s)"
  have "dropWhile py_isspace s = s" using s by (cases s) simp_all
  moreover have "dropWhile py_isspace (rev s) = rev s" using s by (cases "rev s") (simp_all add: hd_rev [symmetric])
  ultimately show ?thesis by (simp add: py_strip_def)
qed

lemma split_fenced:
  assumes "newline \<notin> set tag"
  shows "py_split_sep newline (''```'' @ tag @ newline # body @ newline # ''```'') =
           (''```'' @ tag) # split_on (\<lambda>c. c = newline) body @ [''```'']"
proof -
  let ?p = "\<lambda>c. c = newline"
  have nb: "newline \<noteq> CHR ''`''" by (simp add: newline_def)
  have "split_on ?p ((''```'' @ tag) @ newline # (body @ newline # ''```'')) =
          (''```'' @ tag) # split_on ?p (body @ newline # ''```'')"
    using assms nb by (intro split_on_append_sep) (auto simp: list_all_iff)
  moreover have "split_on ?p (newline # ''```'') = [[], ''```'']" using nb by simp
  moreover have "split_on ?p (body @ newline # ''```'') =
                   butlast (split_on ?p body) @ (last (split_on ?p body) @ []) # [''```'']"
    using split_on_append [of ?p body "newline # ''```''"] \<open>split_on ?p (newline # ''```'') = [[], ''```'']\<close> by simp
  ultimately show ?thesis by (simp add: py_split_sep_def)
qed

lemma coords_from_raw_valid:
  "coords_from_raw pf raw = Inr cs \<Longrightarrow> polyline_valid cs"
  using coords_loop_valid by (auto simp: coords_from_raw_def split: sum.splits)

section \<open>Properties\<close>

text \<open>Code-fence stripping inverts the fencing a model wraps its JSON in: for
  a fence line \<open>```tag\<close> without a newline in the tag, the text between the
  fence lines is recovered exactly, whatever lines it has.\<close>

theorem strip_fences_roundtrip:
  assumes "newline \<notin> set tag"
  shows "strip_fences (''```'' @ tag @ newline # body @ newline # ''```'') = body"
proof -
  let ?text = "''```'' @ tag @ newline # body @ newline # ''```''"
  have "\<not> py_isspace (CHR ''`'')" by (simp add: py_str_simps)
  then have st: "py_strip ?text = ?text" by (intro py_strip_id) simp_all
  have ps: "py_strip ''```'' = ''```''" by (simp add: py_str_simps)
  show ?thesis
    unfolding strip_fences_def Let_def st split_fenced [OF assms]
    using join_split_on [of newline body] ps by simp
qed

lemma strip_fences_roundtrip_witness:
  "strip_fences (''```'' @ ''json'' @ newline # ''{}'' @ newline # ''```'') = ''{}''"
  using strip_fences_roundtrip [of "''json''" "''{}''"] by (simp add: newline_def)

text \<open>C31. Decoding inverts encoding for control points: a JSON array of
  \<open>[lng, lat]\<close> pairs of valid coordinates is turned by \<open>coords_from_raw\<close>
  into exactly those coordinates, in order.\<close>

theorem coords_from_raw_roundtrip:
  assumes "polyline_valid cs"
  shows "coords_from_raw pf (JArr (map (\<lambda>c. JArr [JNum (lng c), JNum (lat c)]) cs)) = Inr cs"
  using coords_loop_encoded [OF assms] by (simp add: coords_from_raw_def)

lemma coords_from_raw_roundtrip_witness:
  "coords_from_raw (\<lambda>_. None) (JArr (map (\<lambda>c. JArr [JNum (lng c), JNum (lat c)]) [\<lparr>lng = 1442 / 100, lat = 5008 / 100\<rparr>, \<lparr>lng = 1443 / 100, lat = (5009 / 100 :: real)\<rparr>])) = Inr [\<lparr>lng = 1442 / 100, lat = 5008 / 100\<rparr>, \<lparr>lng = 1443 / 100, lat = (5009 / 100 :: real)\<rparr>]"
  using coords_from_raw_roundtrip [of "[\<lparr>lng = 1442 / 100, lat = 5008 / 100\<rparr>, \<lparr>lng = 1443 / 100, lat = (5009 / 100 :: real)\<rparr>]" "\<lambda>_. None"] by (simp add: valid_coord_def)

end
