(* ===== verification/Templates.thy ===== *)
theory Templates
  imports PyStr
begin

text \<open>
  The parametric fallback shapes of \<^verbatim>\<open>src/backend/services/shape_templates.py\<close>:
  the six closed-form templates \<open>_heart\<close>, \<open>_star\<close>, \<open>_circle\<close>,
  \<open>_triangle\<close>, \<open>_arrow\<close>, \<open>_square\<close>, the block letters of \<open>_letter\<close>,
  the registry \<open>TEMPLATES\<close> (a list, in the dictionary's insertion order) and
  the dispatch \<open>get_parametric_shape\<close>. A template maps the centre
  \<open>(cx, cy)\<close> and the diameter \<open>scale\<close> to control points; the pydantic
  range check of \<open>Coordinate\<close> is the separate predicate \<open>valid_coord\<close>,
  which the box lemma discharges for centres away from the poles and the
  antimeridian.
\<close>

section \<open>Definitions\<close>

subsection \<open>The templates\<close>

definition heart :: "real \<Rightarrow> real \<Rightarrow> real \<Rightarrow> coordinate list" where
  "heart cx cy scale =
     (let n = 64 :: nat;
          points = map (\<lambda>i. let t = 2 * pi * real i / real (n - 1);
                              x = 16 * sin t ^ 3;
                              y = 13 * cos t - 5 * cos (2 * t) - 2 * cos (3 * t) - cos (4 * t)
                          in \<lparr>lng = cx + (x / 17) * scale * 0.5, lat = cy + (y / 17) * scale * 0.5\<rparr>) [0..<n]
      in points @ [points ! 0])"

definition star :: "real \<Rightarrow> real \<Rightarrow> real \<Rightarrow> coordinate list" where
  "star cx cy scale =
     (let outer_r = scale * 0.5;
          inner_r = outer_r * 0.38;
          vertices = map (\<lambda>i. let angle = pi / 2 + (2 * pi * real i / 10);
                                r = (if i mod 2 = 0 then outer_r else inner_r)
                            in (cx + r * cos angle, cy + r * sin angle)) [0..<10];
          points = concat (map (\<lambda>i. let (ax, ay) = vertices ! i; (bx, by) = vertices ! ((i + 1) mod length vertices)
                                     in [\<lparr>lng = ax, lat = ay\<rparr>, \<lparr>lng = (ax + bx) / 2, lat = (ay + by) / 2\<rparr>])
                        [0..<length vertices])
      in points @ [points ! 0])"

definition circle :: "real \<Rightarrow> real \<Rightarrow> real \<Rightarrow> coordinate list" where
  "circle cx cy scale =
     (let r = scale * 0.45;
          n = 48 :: nat;
          points = map (\<lambda>i. let angle = 2 * pi * real i / real n
                          in \<lparr>lng = cx + r * cos angle, lat = cy + r * sin angle\<rparr>) [0..<n]
      in points @ [points ! 0])"

text \<open>\<open>_triangle\<close> and \<open>_square\<close>: \<open>pts_per_edge + 1\<close> points per edge at
  \<open>frac = j / (pts_per_edge + 1)\<close>, corner first.\<close>

definition edge_points :: "nat \<Rightarrow> real \<times> real \<Rightarrow> real \<times> real \<Rightarrow> coordinate list" where
  "edge_points pts_per_edge a b =
     map (\<lambda>j. let frac = real j / real (pts_per_edge + 1)
             in \<lparr>lng = fst a + (fst b - fst a) * frac, lat = snd a + (snd b - snd a) * frac\<rparr>) [0..<pts_per_edge + 1]"

definition triangle :: "real \<Rightarrow> real \<Rightarrow> real \<Rightarrow> coordinate list" where
  "triangle cx cy scale =
     (let r = scale * 0.45;
          corners = map (\<lambda>i. let angle = pi / 2 + (2 * pi * real i / 3)
                           in (cx + r * cos angle, cy + r * sin angle)) [0..<3];
          points = concat (map (\<lambda>i. edge_points 4 (corners ! i) (corners ! ((i + 1) mod 3))) [0..<3])
      in points @ [points ! 0])"

definition arrow :: "real \<Rightarrow> real \<Rightarrow> real \<Rightarrow> coordinate list" where
  "arrow cx cy scale =
     (let s = scale * 0.45;
          vertices = [(cx - s, cy), (cx + s * 0.3, cy), (cx + s * 0.3, cy + s * 0.4), (cx + s, cy),
                      (cx + s * 0.3, cy - s * 0.4), (cx + s * 0.3, cy), (cx - s, cy)];
          points = concat (map (\<lambda>i. let (ax, ay) = vertices ! i; (bx, by) = vertices ! (i + 1)
                                     in [\<lparr>lng = ax, lat = ay\<rparr>, \<lparr>lng = (ax + bx) / 2, lat = (ay + by) / 2\<rparr>])
                        [0..<length vertices - 1])
      in points @ [\<lparr>lng = fst (last vertices), lat = snd (last vertices)\<rparr>])"

definition square :: "real \<Rightarrow> real \<Rightarrow> real \<Rightarrow> coordinate list" where
  "square cx cy scale =
     (let s = scale * 0.4;
          corners = [(cx - s, cy + s), (cx + s, cy + s), (cx + s, cy - s), (cx - s, cy - s)];
          points = concat (map (\<lambda>i. edge_points 3 (corners ! i) (corners ! ((i + 1) mod 4))) [0..<4])
      in points @ [points ! 0])"

subsection \<open>Letters\<close>

text \<open>The offsets of \<open>_letter\<close>'s \<open>templates\<close> dictionary, keyed by the
  upper-case letter, with \<open>s = 0.4 scale\<close> and \<open>h = 0.5 scale\<close>.\<close>

definition letter_templates :: "real \<Rightarrow> real \<Rightarrow> (char \<times> (real \<times> real) list) list" where
  "letter_templates s h =
     [(CHR ''A'', [(-s, -h), (-s * 0.2, h), (s * 0.2, h), (s, -h), (s * 0.5, 0), (-s * 0.5, 0)]),
      (CHR ''B'', [(-s, -h), (-s, h), (s * 0.5, h), (s, h * 0.6), (s * 0.5, 0),
                   (s, -h * 0.6), (s * 0.5, -h), (-s, -h), (-s, 0), (s * 0.5, 0)]),
      (CHR ''C'', [(s, h * 0.7), (0, h), (-s, h * 0.5), (-s, -h * 0.5), (0, -h), (s, -h * 0.7)]),
      (CHR ''D'', [(-s, -h), (-s, h), (s * 0.3, h), (s, 0), (s * 0.3, -h), (-s, -h)]),
      (CHR ''E'', [(s, h), (-s, h), (-s, 0), (s * 0.5, 0), (-s, 0), (-s, -h), (s, -h)]),
      (CHR ''H'', [(-s, h), (-s, -h), (-s, 0), (s, 0), (s, h), (s, -h)]),
      (CHR ''L'', [(-s, h), (-s, -h), (s, -h)]),
      (CHR ''M'', [(-s, -h), (-s, h), (0, 0), (s, h), (s, -h)]),
      (CHR ''N'', [(-s, -h), (-s, h), (s, -h), (s, h)]),
      (CHR ''O'', [(0, h), (-s, h * 0.5), (-s, -h * 0.5), (0, -h), (s, -h * 0.5), (s, h * 0.5), (0, h)]),
      (CHR ''P'', [(-s, -h), (-s, h), (s * 0.5, h), (s, h * 0.5), (s * 0.5, 0), (-s, 0)]),
      (CHR ''R'', [(-s, -h), (-s, h), (s * 0.5, h), (s, h * 0.5), (s * 0.5, 0), (-s, 0), (s, -h)]),
      (CHR ''S'', [(s, h * 0.7), (0, h), (-s, h * 0.3), (-s, 0), (s, 0), (s, -h * 0.3), (0, -h), (-s, -h * 0.7)]),
      (CHR ''T'', [(-s, h), (s, h), (0, h), (0, -h)]),
      (CHR ''V'', [(-s, h), (0, -h), (s, h)]),
      (CHR ''W'', [(-s, h), (-s * 0.5, -h), (0, 0), (s * 0.5, -h), (s, h)]),
      (CHR ''X'', [(-s, h), (s, -h), (0, 0), (-s, -h), (s, h)]),
      (CHR ''Z'', [(-s, h), (s, h), (-s, -h), (s, -h)])]"

definition letter :: "char \<Rightarrow> real \<Rightarrow> real \<Rightarrow> real \<Rightarrow> coordinate list" where
  "letter c cx cy scale =
     (let s = scale * 0.4;
          h = scale * 0.5;
          templates = letter_templates s h;
          raw = (case map_of templates (py_upper_char c) of
                   Some r \<Rightarrow> r
                 | None \<Rightarrow> (case map_of templates (CHR ''O'') of Some r \<Rightarrow> r | None \<Rightarrow> []))
      in map (\<lambda>(dx, dy). \<lparr>lng = cx + dx, lat = cy + dy\<rparr>) raw)"

subsection \<open>Dispatch\<close>

definition template_registry :: "(string \<times> (real \<Rightarrow> real \<Rightarrow> real \<Rightarrow> coordinate list)) list" where
  "template_registry =
     [(''heart'', heart), (''star'', star), (''circle'', circle), (''triangle'', triangle),
      (''arrow'', arrow), (''square'', square)]"

text \<open>\<open>get_parametric_shape\<close>: the letter patterns when the name contains
  \<open>letter\<close> (the first alphabetic character other than \<open>l\<close>, \<open>e\<close>, \<open>t\<close>,
  \<open>r\<close>, else a one-letter word), then the first registry key contained in
  the name, then a one-letter name, and the circle by default.\<close>

definition get_parametric_shape :: "string \<Rightarrow> coordinate \<Rightarrow> real \<Rightarrow> coordinate list" where
  "get_parametric_shape shape_name center scale =
     (let name_lower = py_strip (py_lower shape_name);
          by_template =
            (case find (\<lambda>(key, func). py_in key name_lower) template_registry of
               Some (key, func) \<Rightarrow> func (lng center) (lat center) scale
             | None \<Rightarrow>
                 if length name_lower = 1 \<and> py_isalpha name_lower
                 then letter (hd name_lower) (lng center) (lat center) scale
                 else circle (lng center) (lat center) scale)
      in if py_in ''letter'' name_lower then
           (case find (\<lambda>c. py_isalpha_char c \<and> c \<noteq> CHR ''l'' \<and> c \<noteq> CHR ''e'' \<and> c \<noteq> CHR ''t'' \<and> c \<noteq> CHR ''r'') name_lower of
              Some c \<Rightarrow> letter c (lng center) (lat center) scale
            | None \<Rightarrow>
                (case find (\<lambda>p. length p = 1 \<and> py_isalpha p) (py_split name_lower) of
                   Some p \<Rightarrow> letter (hd p) (lng center) (lat center) scale
                 | None \<Rightarrow> by_template))
         else by_template)"

text \<open>The property the box lemmas state: a point at most \<open>rad\<close> from
  \<open>(cx, cy)\<close> on each axis.\<close>

definition near_centre :: "real \<Rightarrow> real \<Rightarrow> real \<Rightarrow> coordinate \<Rightarrow> bool" where
  "near_centre cx cy rad p = (\<bar>lng p - cx\<bar> \<le> rad \<and> \<bar>lat p - cy\<bar> \<le> rad)"

section \<open>Lemmas\<close>

lemma heart_y_poly:
  "13 * cos (t::real) - 5 * cos (2 * t) - 2 * cos (3 * t) - cos (4 * t) =
   - 8 * cos t ^ 4 - 8 * cos t ^ 3 - 2 * cos t ^ 2 + 19 * cos t + 4"
proof -
  have c4: "cos (4 * t) = 2 * cos (2 * t) ^ 2 - 1"
    using cos_double_cos [of "2 * t"] by simp
  show ?thesis unfolding c4 cos_double_cos cos_treble_cos by algebra
qed

lemma heart_y_bounds:
  "- 17 \<le> 13 * cos (t::real) - 5 * cos (2 * t) - 2 * cos (3 * t) - cos (4 * t) \<and>
   13 * cos t - 5 * cos (2 * t) - 2 * cos (3 * t) - cos (4 * t) \<le> 17"
proof -
  define c where "c = cos t"
  define y where "y = 13 * cos t - 5 * cos (2 * t) - 2 * cos (3 * t) - cos (4 * t)"
  have yc: "y = - 8 * c ^ 4 - 8 * c ^ 3 - 2 * c ^ 2 + 19 * c + 4"
    unfolding y_def c_def by (rule heart_y_poly)
  have lo: "-1 \<le> c" "c \<le> 1" unfolding c_def by simp_all
  have c3: "c ^ 3 \<le> 1" using lo power_le_one [of c 3] by (cases "0 \<le> c") (auto intro: order_trans [of _ 0])
  have "y + 17 = (c + 1) * (21 - 8 * c ^ 3 - 2 * c)" unfolding yc by algebra
  moreover have "0 \<le> (c + 1) * (21 - 8 * c ^ 3 - 2 * c)" using lo c3 by (intro mult_nonneg_nonneg) simp_all
  ultimately have l: "- 17 \<le> y" by linarith
  have e: "32 * (17 - y) = 64 * (2 * c ^ 2 + c - 1) ^ 2 + (16 * c - 15) ^ 2 + 127" unfolding yc by algebra
  have "0 \<le> 64 * (2 * c ^ 2 + c - 1) ^ 2 + (16 * c - 15) ^ 2 + 127" by simp
  then have "0 \<le> 32 * (17 - y)" unfolding e .
  then have u: "y \<le> 17" by simp
  show ?thesis using l u unfolding y_def by simp
qed


lemma closed_set: "xs \<noteq> [] \<Longrightarrow> set (xs @ [xs ! 0]) = set xs"
  by (cases xs) auto

lemma abs_interp_le:
  assumes "\<bar>a - c\<bar> \<le> r" "\<bar>b - c\<bar> \<le> r" "0 \<le> f" "f \<le> (1::real)"
  shows "\<bar>a + (b - a) * f - c\<bar> \<le> r"
proof -
  have "a + (b - a) * f - c = (1 - f) * (a - c) + f * (b - c)" by algebra
  also have "\<bar>\<dots>\<bar> \<le> (1 - f) * \<bar>a - c\<bar> + f * \<bar>b - c\<bar>"
    using abs_triangle_ineq [of "(1 - f) * (a - c)" "f * (b - c)"] assms(3,4) by (simp add: abs_mult)
  also have "\<dots> \<le> (1 - f) * r + f * r"
    using assms by (intro add_mono mult_left_mono) simp_all
  finally show ?thesis by (simp add: algebra_simps)
qed

lemma near_centre_interp:
  "near_centre cx cy rad \<lparr>lng = a1, lat = a2\<rparr> \<Longrightarrow> near_centre cx cy rad \<lparr>lng = b1, lat = b2\<rparr> \<Longrightarrow> 0 \<le> f \<Longrightarrow> f \<le> 1 \<Longrightarrow>
   near_centre cx cy rad \<lparr>lng = a1 + (b1 - a1) * f, lat = a2 + (b2 - a2) * f\<rparr>"
  by (simp add: near_centre_def abs_interp_le)

lemma near_centre_mid:
  "near_centre cx cy rad \<lparr>lng = a1, lat = a2\<rparr> \<Longrightarrow> near_centre cx cy rad \<lparr>lng = b1, lat = b2\<rparr> \<Longrightarrow>
   near_centre cx cy rad \<lparr>lng = (a1 + b1) / 2, lat = (a2 + b2) / 2\<rparr>"
  using near_centre_interp [of cx cy rad a1 a2 b1 b2 "1 / 2"] by (simp add: field_simps)

lemma near_centre_polar:
  "0 \<le> r \<Longrightarrow> r \<le> rad \<Longrightarrow> near_centre cx cy rad \<lparr>lng = cx + r * cos a, lat = cy + r * sin a\<rparr>"
  using mult_left_le [of "\<bar>cos a\<bar>" r] mult_left_le [of "\<bar>sin a\<bar>" r]
  by (simp add: near_centre_def abs_mult)

lemma polar_points_near_centre:
  "0 \<le> r \<Longrightarrow> r \<le> rad \<Longrightarrow>
   \<forall>p\<in>set (map (\<lambda>i. \<lparr>lng = cx + r * cos (g i), lat = cy + r * sin (g i)\<rparr>) xs). near_centre cx cy rad p"
  by (auto intro: near_centre_polar)

lemma circle_near_centre:
  assumes "0 \<le> scale"
  shows "\<forall>p\<in>set (circle cx cy scale). near_centre cx cy (scale / 2) p"
proof -
  let ?P = "map (\<lambda>i. \<lparr>lng = cx + scale * 0.45 * cos (2 * pi * real i / real (48::nat)),
                        lat = cy + scale * 0.45 * sin (2 * pi * real i / real (48::nat))\<rparr>) [0..<48]"
  have e: "circle cx cy scale = ?P @ [?P ! 0]" by (simp only: circle_def Let_def)
  have ne: "?P \<noteq> []" by (simp del: upt_rec_numeral)
  have all: "\<forall>p\<in>set ?P. near_centre cx cy (scale / 2) p"
    using polar_points_near_centre [of "scale * 0.45" "scale / 2" cx "\<lambda>i. 2 * pi * real i / real (48::nat)" cy "[0..<48]"] assms
    by simp
  show ?thesis unfolding e closed_set [OF ne] by (rule all)
qed

lemma map_polar_near_centre:
  assumes "\<And>i. i \<in> set xs \<Longrightarrow> 0 \<le> R i \<and> R i \<le> rad"
  shows "\<forall>v\<in>set (map (\<lambda>i. (cx + R i * cos (A i), cy + R i * sin (A i))) xs). near_centre cx cy rad \<lparr>lng = fst v, lat = snd v\<rparr>"
  using assms near_centre_polar by auto

lemma in_set_concat_map: "p \<in> set (concat (map f xs)) \<Longrightarrow> \<exists>i\<in>set xs. p \<in> set (f i)"
  by auto

lemma vertex_mids_near_centre:
  assumes vs: "\<forall>v\<in>set vs. near_centre cx cy rad \<lparr>lng = fst v, lat = snd v\<rparr>"
    and idx: "\<forall>i\<in>set idx. i < length vs \<and> k i < length vs"
  shows "\<forall>p\<in>set (concat (map (\<lambda>i. let (a1, a2) = vs ! i; (b1, b2) = vs ! k i
                                    in [\<lparr>lng = a1, lat = a2\<rparr>, \<lparr>lng = (a1 + b1) / 2, lat = (a2 + b2) / 2\<rparr>]) idx)).
           near_centre cx cy rad p"
proof
  fix p
  assume "p \<in> set (concat (map (\<lambda>i. let (a1, a2) = vs ! i; (b1, b2) = vs ! k i
                                    in [\<lparr>lng = a1, lat = a2\<rparr>, \<lparr>lng = (a1 + b1) / 2, lat = (a2 + b2) / 2\<rparr>]) idx))"
  then obtain i where i: "i \<in> set idx"
    and p: "p \<in> set (let (a1, a2) = vs ! i; (b1, b2) = vs ! k i
                     in [\<lparr>lng = a1, lat = a2\<rparr>, \<lparr>lng = (a1 + b1) / 2, lat = (a2 + b2) / 2\<rparr>])"
    by (blast dest: in_set_concat_map)
  obtain a1 a2 where va: "vs ! i = (a1, a2)" by (cases "vs ! i")
  obtain b1 b2 where vb: "vs ! k i = (b1, b2)" by (cases "vs ! k i")
  have na: "near_centre cx cy rad \<lparr>lng = a1, lat = a2\<rparr>"
    using vs nth_mem [of i vs] idx i va by force
  have nb: "near_centre cx cy rad \<lparr>lng = b1, lat = b2\<rparr>"
    using vs nth_mem [of "k i" vs] idx i vb by force
  show "near_centre cx cy rad p"
    using p na nb near_centre_mid [OF na nb] by (auto simp: va vb)
qed

lemma edge_points_near_centre:
  assumes "near_centre cx cy rad \<lparr>lng = fst a, lat = snd a\<rparr>" "near_centre cx cy rad \<lparr>lng = fst b, lat = snd b\<rparr>"
  shows "\<forall>p\<in>set (edge_points k a b). near_centre cx cy rad p"
proof -
  have gen: "\<forall>p\<in>set (map (\<lambda>j. \<lparr>lng = fst a + (fst b - fst a) * F j, lat = snd a + (snd b - snd a) * F j\<rparr>) xs).
          near_centre cx cy rad p" if "\<forall>j\<in>set xs. 0 \<le> F j \<and> F j \<le> 1" for F xs
    using that assms near_centre_interp by auto
  have "\<forall>j\<in>set [0..<k + 1]. 0 \<le> real j / real (k + 1) \<and> real j / real (k + 1) \<le> 1"
    by simp
  then show ?thesis unfolding edge_points_def Let_def
    by (rule gen [of "[0..<k + 1]" "\<lambda>j. real j / real (k + 1)"])
qed

lemma star_near_centre:
  assumes "0 \<le> scale"
  shows "\<forall>p\<in>set (star cx cy scale). near_centre cx cy (scale / 2) p"
proof -
  define R where "R = (\<lambda>i::nat. if i mod 2 = 0 then scale * 0.5 else scale * 0.5 * 0.38)"
  define A where "A = (\<lambda>i::nat. pi / 2 + (2 * pi * real i / 10))"
  define vs where "vs = map (\<lambda>i. (cx + R i * cos (A i), cy + R i * sin (A i))) [0..<10]"
  define P where "P = concat (map (\<lambda>i. let (a1, a2) = vs ! i; (b1, b2) = vs ! ((i + 1) mod length vs)
                                    in [\<lparr>lng = a1, lat = a2\<rparr>, \<lparr>lng = (a1 + b1) / 2, lat = (a2 + b2) / 2\<rparr>])
                        [0..<length vs])"
  have e: "star cx cy scale = P @ [P ! 0]" unfolding star_def P_def vs_def R_def A_def by (simp only: Let_def)
  have lv: "length vs = 10" by (simp add: vs_def)
  have vn: "\<forall>v\<in>set vs. near_centre cx cy (scale / 2) \<lparr>lng = fst v, lat = snd v\<rparr>"
    unfolding vs_def using assms by (intro map_polar_near_centre) (simp add: R_def)
  have all: "\<forall>p\<in>set P. near_centre cx cy (scale / 2) p"
    unfolding P_def using vn lv by (intro vertex_mids_near_centre) auto
  have ne: "P \<noteq> []" unfolding P_def using lv by (simp add: Let_def split_beta upt_conv_Cons del: upt_rec_numeral)
  show ?thesis unfolding e closed_set [OF ne] by (rule all)
qed

lemma corner_edges_near_centre:
  assumes cs: "\<forall>v\<in>set cs. near_centre cx cy rad \<lparr>lng = fst v, lat = snd v\<rparr>"
    and idx: "\<forall>i\<in>set idx. i < length cs \<and> k i < length cs"
  shows "\<forall>p\<in>set (concat (map (\<lambda>i. edge_points m (cs ! i) (cs ! k i)) idx)). near_centre cx cy rad p"
proof
  fix p
  assume "p \<in> set (concat (map (\<lambda>i. edge_points m (cs ! i) (cs ! k i)) idx))"
  then obtain i where i: "i \<in> set idx" and p: "p \<in> set (edge_points m (cs ! i) (cs ! k i))"
    by (blast dest: in_set_concat_map)
  have "near_centre cx cy rad \<lparr>lng = fst (cs ! i), lat = snd (cs ! i)\<rparr>"
       "near_centre cx cy rad \<lparr>lng = fst (cs ! k i), lat = snd (cs ! k i)\<rparr>"
    using cs idx i by simp_all
  then show "near_centre cx cy rad p" using p edge_points_near_centre by blast
qed

lemma triangle_near_centre:
  assumes "0 \<le> scale"
  shows "\<forall>p\<in>set (triangle cx cy scale). near_centre cx cy (scale / 2) p"
proof -
  define cs where "cs = map (\<lambda>i. (cx + scale * 0.45 * cos (pi / 2 + (2 * pi * real i / 3)),
                                 cy + scale * 0.45 * sin (pi / 2 + (2 * pi * real i / 3)))) [0..<3]"
  define P where "P = concat (map (\<lambda>i. edge_points 4 (cs ! i) (cs ! ((i + 1) mod 3))) [0..<3])"
  have e: "triangle cx cy scale = P @ [P ! 0]" unfolding triangle_def P_def cs_def by (simp only: Let_def)
  have lc: "length cs = 3" by (simp add: cs_def)
  have cn: "\<forall>v\<in>set cs. near_centre cx cy (scale / 2) \<lparr>lng = fst v, lat = snd v\<rparr>"
    unfolding cs_def
    by (rule map_polar_near_centre [where R = "\<lambda>_. scale * 0.45" and A = "\<lambda>i. pi / 2 + (2 * pi * real i / 3)"])
       (insert assms, simp)
  have all: "\<forall>p\<in>set P. near_centre cx cy (scale / 2) p"
    unfolding P_def using cn lc by (intro corner_edges_near_centre) auto
  have ne: "P \<noteq> []" by (fastforce simp: P_def edge_points_def)
  show ?thesis unfolding e closed_set [OF ne] by (rule all)
qed

lemma square_near_centre:
  assumes "0 \<le> scale"
  shows "\<forall>p\<in>set (square cx cy scale). near_centre cx cy (scale / 2) p"
proof -
  define cs where "cs = [(cx - scale * 0.4, cy + scale * 0.4), (cx + scale * 0.4, cy + scale * 0.4),
                         (cx + scale * 0.4, cy - scale * 0.4), (cx - scale * 0.4, cy - scale * 0.4)]"
  define P where "P = concat (map (\<lambda>i. edge_points 3 (cs ! i) (cs ! ((i + 1) mod 4))) [0..<4])"
  have e: "square cx cy scale = P @ [P ! 0]" unfolding square_def P_def cs_def by (simp only: Let_def)
  have cn: "\<forall>v\<in>set cs. near_centre cx cy (scale / 2) \<lparr>lng = fst v, lat = snd v\<rparr>"
    using assms by (auto simp: cs_def near_centre_def)
  have all: "\<forall>p\<in>set P. near_centre cx cy (scale / 2) p"
    unfolding P_def using cn by (intro corner_edges_near_centre) (auto simp: cs_def)
  have ne: "P \<noteq> []" by (fastforce simp: P_def edge_points_def)
  show ?thesis unfolding e closed_set [OF ne] by (rule all)
qed

lemma arrow_near_centre:
  assumes "0 \<le> scale"
  shows "\<forall>p\<in>set (arrow cx cy scale). near_centre cx cy (scale / 2) p"
proof -
  define s where "s = scale * 0.45"
  define vs where "vs = [(cx - s, cy), (cx + s * 0.3, cy), (cx + s * 0.3, cy + s * 0.4), (cx + s, cy),
                         (cx + s * 0.3, cy - s * 0.4), (cx + s * 0.3, cy), (cx - s, cy)]"
  define P where "P = concat (map (\<lambda>i. let (a1, a2) = vs ! i; (b1, b2) = vs ! (i + 1)
                                    in [\<lparr>lng = a1, lat = a2\<rparr>, \<lparr>lng = (a1 + b1) / 2, lat = (a2 + b2) / 2\<rparr>])
                        [0..<length vs - 1])"
  have e: "arrow cx cy scale = P @ [\<lparr>lng = fst (last vs), lat = snd (last vs)\<rparr>]"
    unfolding arrow_def P_def vs_def s_def by (simp only: Let_def)
  have vn: "\<forall>v\<in>set vs. near_centre cx cy (scale / 2) \<lparr>lng = fst v, lat = snd v\<rparr>"
    using assms by (auto simp: vs_def s_def near_centre_def)
  have all: "\<forall>p\<in>set P. near_centre cx cy (scale / 2) p"
    unfolding P_def using vn by (intro vertex_mids_near_centre) (auto simp: vs_def)
  have "near_centre cx cy (scale / 2) \<lparr>lng = fst (last vs), lat = snd (last vs)\<rparr>"
    using vn by (simp add: vs_def)
  then show ?thesis unfolding e using all by simp
qed

lemma heart_points_near_centre:
  assumes "0 \<le> scale" "\<And>i. \<bar>X i\<bar> \<le> 17" "\<And>i. \<bar>Y i\<bar> \<le> 17"
  shows "\<forall>p\<in>set (map (\<lambda>i. \<lparr>lng = cx + (X i / 17) * scale * 0.5, lat = cy + (Y i / 17) * scale * 0.5\<rparr>) xs).
           near_centre cx cy (scale / 2) p"
proof -
  have "\<bar>(Z / 17) * scale * 0.5\<bar> \<le> scale / 2" if "\<bar>Z\<bar> \<le> 17" for Z
  proof -
    have "\<bar>(Z / 17) * scale * 0.5\<bar> = \<bar>Z\<bar> / 17 * (scale / 2)" using assms(1) by (simp add: abs_mult)
    also have "\<dots> \<le> 1 * (scale / 2)" using that assms(1) by (intro mult_right_mono) simp_all
    finally show ?thesis by simp
  qed
  then show ?thesis using assms(2,3) by (auto simp: near_centre_def)
qed

lemma heart_near_centre:
  assumes "0 \<le> scale"
  shows "\<forall>p\<in>set (heart cx cy scale). near_centre cx cy (scale / 2) p"
proof -
  define T where "T = (\<lambda>i::nat. 2 * pi * real i / real (64 - 1 :: nat))"
  define X where "X = (\<lambda>i. 16 * sin (T i) ^ 3)"
  define Y where "Y = (\<lambda>i. 13 * cos (T i) - 5 * cos (2 * T i) - 2 * cos (3 * T i) - cos (4 * T i))"
  define P where "P = map (\<lambda>i. \<lparr>lng = cx + (X i / 17) * scale * 0.5, lat = cy + (Y i / 17) * scale * 0.5\<rparr>) [0..<64]"
  have e: "heart cx cy scale = P @ [P ! 0]" unfolding heart_def P_def X_def Y_def T_def by (simp only: Let_def)
  have x: "\<And>i. \<bar>X i\<bar> \<le> 17"
  proof -
    fix i
    have "\<bar>sin (T i) ^ 3\<bar> \<le> 1" unfolding power_abs by (rule power_le_one) simp_all
    then show "\<bar>X i\<bar> \<le> 17" unfolding X_def by (simp add: abs_mult)
  qed
  have y: "\<And>i. \<bar>Y i\<bar> \<le> 17"
  proof -
    fix i
    show "\<bar>Y i\<bar> \<le> 17" using heart_y_bounds [of "T i"] unfolding Y_def by linarith
  qed
  have ne: "P \<noteq> []" by (simp add: P_def del: upt_rec_numeral)
  have all: "\<forall>p\<in>set P. near_centre cx cy (scale / 2) p"
    unfolding P_def by (rule heart_points_near_centre [OF assms x y])
  show ?thesis unfolding e closed_set [OF ne] by (rule all)
qed

lemma letter_offsets_bounded:
  "0 \<le> s \<Longrightarrow> 0 \<le> h \<Longrightarrow> (k, r) \<in> set (letter_templates s h) \<Longrightarrow> (dx, dy) \<in> set r \<Longrightarrow>
   \<bar>dx\<bar> \<le> s \<and> \<bar>dy\<bar> \<le> h"
  by (auto simp: letter_templates_def abs_mult)

lemma letter_near_centre:
  assumes "0 \<le> scale"
  shows "\<forall>p\<in>set (letter c cx cy scale). near_centre cx cy (scale / 2) p"
proof -
  define T where "T = letter_templates (scale * 0.4) (scale * 0.5)"
  define raw where "raw = (case map_of T (py_upper_char c) of Some r \<Rightarrow> r
                          | None \<Rightarrow> (case map_of T (CHR ''O'') of Some r \<Rightarrow> r | None \<Rightarrow> []))"
  have e: "letter c cx cy scale = map (\<lambda>(dx, dy). \<lparr>lng = cx + dx, lat = cy + dy\<rparr>) raw"
    unfolding letter_def raw_def T_def by (simp only: Let_def)
  have r: "raw = [] \<or> (\<exists>k. (k, raw) \<in> set T)"
    unfolding raw_def by (auto split: option.splits dest: map_of_SomeD)
  have "\<bar>dx\<bar> \<le> scale / 2 \<and> \<bar>dy\<bar> \<le> scale / 2" if d: "(dx, dy) \<in> set raw" for dx dy
  proof -
    obtain k where "(k, raw) \<in> set T" using r d by auto
    then have "\<bar>dx\<bar> \<le> scale * 0.4 \<and> \<bar>dy\<bar> \<le> scale * 0.5"
      using letter_offsets_bounded [of "scale * 0.4" "scale * 0.5" k raw dx dy] assms d unfolding T_def by simp
    then show ?thesis using assms by simp
  qed
  then show ?thesis unfolding e by (auto simp: near_centre_def)
qed

lemma find_in_set: "find P xs = Some x \<Longrightarrow> x \<in> set xs"
  by (induction xs) (auto split: if_splits)

lemma registry_near_centre:
  "0 \<le> scale \<Longrightarrow> (k, f) \<in> set template_registry \<Longrightarrow> \<forall>p\<in>set (f cx cy scale). near_centre cx cy (scale / 2) p"
  by (auto simp: template_registry_def heart_near_centre star_near_centre circle_near_centre
                 triangle_near_centre arrow_near_centre square_near_centre)

lemma get_parametric_shape_near_centre_all:
  assumes "0 \<le> scale"
  shows "\<forall>p\<in>set (get_parametric_shape shape_name center scale). near_centre (lng center) (lat center) (scale / 2) p"
  using assms registry_near_centre [OF assms] letter_near_centre [OF assms] circle_near_centre [OF assms]
  unfolding get_parametric_shape_def Let_def
  by (auto split: option.splits dest!: find_in_set)

lemma letter_templates_length:
  "(k, r) \<in> set (letter_templates s h) \<Longrightarrow> 3 \<le> length r"
  by (auto simp: letter_templates_def)

lemma letter_length: "3 \<le> length (letter c cx cy scale)"
proof -
  define T where "T = letter_templates (scale * 0.4) (scale * 0.5)"
  obtain r where o: "map_of T (CHR ''O'') = Some r" by (simp add: T_def letter_templates_def)
  have "3 \<le> length (case map_of T (py_upper_char c) of Some r \<Rightarrow> r | None \<Rightarrow> r)"
    using o letter_templates_length [of _ _ "scale * 0.4" "scale * 0.5"]
    by (auto simp: T_def split: option.splits dest!: map_of_SomeD)
  then show ?thesis unfolding letter_def Let_def T_def [symmetric] by (simp add: o split: option.splits)
qed

lemma length_concat_const: "(\<And>i. length (f i) = k) \<Longrightarrow> length (concat (map f xs)) = k * length xs"
  by (induction xs) simp_all

lemma template_lengths:
  "length (heart cx cy scale) = 65" "length (star cx cy scale) = 21" "length (circle cx cy scale) = 49"
  "length (triangle cx cy scale) = 16" "length (arrow cx cy scale) = 13" "length (square cx cy scale) = 17"
  by (simp_all add: heart_def star_def circle_def triangle_def arrow_def square_def Let_def
        length_concat_const [where k = 2] length_concat_const [where k = 5] length_concat_const [where k = 4]
        split_beta edge_points_def del: upt_rec_numeral)

lemma registry_length:
  "(k, f) \<in> set template_registry \<Longrightarrow> 3 \<le> length (f cx cy scale)"
  by (auto simp: template_registry_def template_lengths)

lemma get_parametric_shape_length: "3 \<le> length (get_parametric_shape shape_name center scale)"
  using registry_length letter_length [of _ "lng center" "lat center" scale]
        template_lengths(3) [of "lng center" "lat center" scale]
  unfolding get_parametric_shape_def Let_def
  by (auto split: option.splits dest!: find_in_set)

section \<open>Properties\<close>

text \<open>C29. Every fallback shape is usable and stays where it was put: whatever the
  name, \<open>get_parametric_shape\<close> returns at least three control points, all
  within \<open>scale / 2\<close> of the centre on both axes, so the template's
  diameter is at most \<open>scale\<close> as the module comment says.\<close>

theorem get_parametric_shape_in_box:
  assumes "0 \<le> scale"
  shows "3 \<le> length (get_parametric_shape shape_name center scale) \<and>
         (\<forall>p\<in>set (get_parametric_shape shape_name center scale). near_centre (lng center) (lat center) (scale / 2) p)"
  using get_parametric_shape_length get_parametric_shape_near_centre_all [OF assms] by blast

lemma get_parametric_shape_in_box_witness:
  "3 \<le> length (get_parametric_shape ''L'' \<lparr>lng = 0, lat = (0::real)\<rparr> 1) \<and>
   near_centre 0 0 (1 / 2) (hd (get_parametric_shape ''L'' \<lparr>lng = 0, lat = (0::real)\<rparr> 1))"
proof -
  have t: "3 \<le> length (get_parametric_shape ''L'' \<lparr>lng = 0, lat = (0::real)\<rparr> 1) \<and>
     (\<forall>p\<in>set (get_parametric_shape ''L'' \<lparr>lng = 0, lat = (0::real)\<rparr> 1). near_centre 0 0 (1 / 2) p)"
    using get_parametric_shape_in_box [of 1 "''L''" "\<lparr>lng = 0, lat = (0::real)\<rparr>"] by simp
  then have "get_parametric_shape ''L'' \<lparr>lng = 0, lat = (0::real)\<rparr> 1 \<noteq> []" by auto
  then show ?thesis using t hd_in_set by blast
qed

lemma py_lower_lowercase:
  "list_all (\<lambda>c. 97 \<le> (of_char c :: nat) \<and> of_char c \<le> (122::nat)) w \<Longrightarrow> py_lower w = w"
  by (induction w) (auto simp: py_lower_def py_lower_char_def Let_def)

lemma py_strip_letter_phrase:
  assumes "w \<noteq> []" "97 \<le> (of_char (hd w) :: nat)" "(of_char (hd w) :: nat) \<le> 122"
  shows "\<exists>t. py_strip (w @ '' letter '' @ [y]) = w @ '' letter'' @ t"
proof -
  obtain c ws where w: "w = c # ws" using assms(1) by (cases w) auto
  have nc: "\<not> py_isspace c" using assms w by (auto simp: py_isspace_def Let_def)
  have sp: "py_isspace CHR '' ''" "\<not> py_isspace CHR ''r''" by (simp_all add: py_isspace_def)
  have "py_strip (w @ '' letter '' @ [y]) = w @ '' letter'' @ (if py_isspace y then [] else '' '' @ [y])"
    using nc sp by (simp add: w py_strip_def)
  then show ?thesis by blast
qed

text \<open>C30. The letter pattern reads the wrong character: for a phrase
  \<open>"<word> letter X"\<close> whose first word is lower case and starts with a
  letter other than \<open>l\<close>, \<open>e\<close>, \<open>t\<close>, \<open>r\<close>, the scan for the first
  alphabetic character other than those four stops at the first letter of that
  word, so the block letter drawn is that letter whatever \<open>X\<close> is requested.\<close>

theorem letter_pattern_first_letter:
  assumes "w \<noteq> []" "list_all (\<lambda>c. 97 \<le> (of_char c :: nat) \<and> of_char c \<le> (122::nat)) w"
    and "hd w \<notin> {CHR ''l'', CHR ''e'', CHR ''t'', CHR ''r''}"
  shows "get_parametric_shape (w @ '' letter '' @ [x]) center scale = letter (hd w) (lng center) (lat center) scale"
proof -
  obtain c ws where w: "w = c # ws" using assms(1) by (cases w) auto
  have c: "97 \<le> (of_char c :: nat)" "(of_char c :: nat) \<le> 122" using assms(2) w by auto
  have low: "py_lower (w @ '' letter '' @ [x]) = w @ '' letter '' @ [py_lower_char x]"
  proof -
    have "map py_lower_char w = w" using py_lower_lowercase [OF assms(2)] by (simp add: py_lower_def)
    then show ?thesis by (simp add: py_lower_def py_lower_char_def)
  qed
  obtain t where t: "py_strip (w @ '' letter '' @ [py_lower_char x]) = w @ '' letter'' @ t"
    using py_strip_letter_phrase [of w] assms(1) c w by auto
  have "py_in ''letter'' (w @ '' letter'' @ t)"
    unfolding py_in_sublist sublist_def by (rule exI [of _ "w @ '' ''"], rule exI [of _ t]) simp
  moreover have "py_isalpha_char c" using c by (simp add: py_isalpha_char_def Let_def)
  moreover have "py_strip (py_lower (w @ '' letter '' @ [x])) = w @ '' letter'' @ t" using low t by simp
  ultimately show ?thesis
    using assms(3) unfolding get_parametric_shape_def Let_def by (simp add: w)
qed

lemma letter_pattern_first_letter_witness:
  "get_parametric_shape (''draw'' @ '' letter '' @ [CHR ''M'']) \<lparr>lng = 0, lat = 0\<rparr> 1 = letter CHR ''d'' 0 0 1 \<and>
   get_parametric_shape ''draw letter M'' \<lparr>lng = 0, lat = 0\<rparr> 1 \<noteq> letter CHR ''M'' 0 0 1"
proof -
  have d: "get_parametric_shape (''draw'' @ '' letter '' @ [CHR ''M'']) \<lparr>lng = 0, lat = 0\<rparr> 1 = letter CHR ''d'' 0 0 1"
    using letter_pattern_first_letter [of "''draw''" "CHR ''M''" "\<lparr>lng = 0, lat = 0\<rparr>" 1] by simp
  moreover have "length (letter CHR ''d'' 0 0 1) \<noteq> length (letter CHR ''M'' 0 0 (1::real))"
    by (simp add: letter_def letter_templates_def Let_def py_str_simps)
  ultimately show ?thesis by auto
qed

end
