(* ===== verification/Seeding.thy ===== *)
theory Seeding
  imports Llm Templates
begin

text \<open>
  Where the control points of \<open>ShapeGenerator.generate_from_description\<close> come
  from: \<open>_generate_control_points\<close> of
  \<^verbatim>\<open>src/backend/services/shape_generator.py\<close> asks the language model
  (when one is configured) for a shape, parses it with \<open>parse_shape_json\<close> and
  \<open>coords_from_raw\<close>, keeps it when it has at least three points, and
  otherwise falls back to \<open>get_parametric_shape\<close> at the box centre with
  \<open>scale = 0.7 min(width, height)\<close>. The model's reply is the parameter
  \<open>shape_reply\<close> (\<open>Inl\<close> when the DSPy call raises); every exception of
  the language-model path is caught, as the \<open>except Exception: pass\<close> does.
\<close>

section \<open>Definitions\<close>

definition template_scale :: "bounding_box \<Rightarrow> real" where
  "template_scale bbox = min (width_deg bbox) (height_deg bbox) * 0.7"

text \<open>The language-model attempt: \<open>Some points\<close> when it returns, \<open>None\<close>
  when it raises or yields fewer than three points (\<open>raw.get\<close> on a
  non-dictionary raises \<open>AttributeError\<close>).\<close>

definition llm_control_points ::
  "bool \<Rightarrow> py_error + string \<Rightarrow> (string \<Rightarrow> json option) \<Rightarrow> (string \<Rightarrow> real option) \<Rightarrow> coordinate list option" where
  "llm_control_points has_lm shape_reply loads pf =
     (if \<not> has_lm then None
      else case shape_reply of
        Inl _ \<Rightarrow> None
      | Inr shape_json \<Rightarrow>
          (case parse_shape_json loads shape_json of
             Inl _ \<Rightarrow> None
           | Inr (JObj kvs) \<Rightarrow>
               (case coords_from_raw pf (py_get kvs ''control_points'' (JArr [])) of
                  Inl _ \<Rightarrow> None
                | Inr points \<Rightarrow> if 3 \<le> length points then Some points else None)
           | Inr _ \<Rightarrow> None))"

definition generate_control_points ::
  "bool \<Rightarrow> py_error + string \<Rightarrow> (string \<Rightarrow> json option) \<Rightarrow> (string \<Rightarrow> real option) \<Rightarrow>
   string \<Rightarrow> bounding_box \<Rightarrow> coordinate list" where
  "generate_control_points has_lm shape_reply loads pf description bbox =
     (case llm_control_points has_lm shape_reply loads pf of
        Some points \<Rightarrow> points
      | None \<Rightarrow> get_parametric_shape description (bbox_center bbox) (template_scale bbox))"

text \<open>The same with pydantic's checks: \<open>bbox.center()\<close> builds a
  \<open>Coordinate\<close>, and so does every template point; either raises
  \<open>ValidationError\<close> out of range. The model's points were checked by
  \<open>coords_from_raw\<close>.\<close>

definition generate_control_points_e ::
  "bool \<Rightarrow> py_error + string \<Rightarrow> (string \<Rightarrow> json option) \<Rightarrow> (string \<Rightarrow> real option) \<Rightarrow>
   string \<Rightarrow> bounding_box \<Rightarrow> py_error + coordinate list" where
  "generate_control_points_e has_lm shape_reply loads pf description bbox =
     (case llm_control_points has_lm shape_reply loads pf of
        Some points \<Rightarrow> Inr points
      | None \<Rightarrow>
          sbind (check_coord (bbox_center bbox)) (\<lambda>center.
            check_coords (get_parametric_shape description center (template_scale bbox))))"

section \<open>Lemmas\<close>

lemma llm_control_points_ok:
  "llm_control_points has_lm shape_reply loads pf = Some points \<Longrightarrow> 3 \<le> length points \<and> polyline_valid points"
  by (auto simp: llm_control_points_def split: if_splits sum.splits json.splits dest: coords_from_raw_valid)

lemma template_scale_nonneg: "bbox_ok bbox \<Longrightarrow> 0 \<le> template_scale bbox"
  by (simp add: template_scale_def bbox_ok_def width_deg_def height_deg_def)

lemma near_centre_in_bbox:
  assumes "bbox_ok bbox" "near_centre (lng (bbox_center bbox)) (lat (bbox_center bbox)) (template_scale bbox / 2) p"
  shows "min_lng bbox \<le> lng p \<and> lng p \<le> max_lng bbox \<and> min_lat bbox \<le> lat p \<and> lat p \<le> max_lat bbox"
proof -
  have w: "template_scale bbox \<le> 0.7 * (max_lng bbox - min_lng bbox)" "template_scale bbox \<le> 0.7 * (max_lat bbox - min_lat bbox)"
    by (simp_all add: template_scale_def width_deg_def height_deg_def min_def)
  have a: "\<bar>lng p - (min_lng bbox + max_lng bbox) / 2\<bar> \<le> template_scale bbox / 2"
    and b: "\<bar>lat p - (min_lat bbox + max_lat bbox) / 2\<bar> \<le> template_scale bbox / 2"
    using assms(2) by (simp_all add: near_centre_def bbox_center_def)
  have bb: "min_lng bbox < max_lng bbox" "min_lat bbox < max_lat bbox" using assms(1) by (simp_all add: bbox_ok_def)
  note facts = abs_le_D1 [OF a] abs_le_D2 [OF a] abs_le_D1 [OF b] abs_le_D2 [OF b] w bb
  have "min_lng bbox \<le> lng p" using facts by argo
  moreover have "lng p \<le> max_lng bbox" using facts by argo
  moreover have "min_lat bbox \<le> lat p" using facts by argo
  moreover have "lat p \<le> max_lat bbox" using facts by argo
  ultimately show ?thesis by blast
qed

lemma template_points_valid:
  assumes "bbox_ok bbox"
  shows "polyline_valid (get_parametric_shape description (bbox_center bbox) (template_scale bbox))"
proof -
  have "valid_coord p" if "p \<in> set (get_parametric_shape description (bbox_center bbox) (template_scale bbox))" for p
  proof -
    have "near_centre (lng (bbox_center bbox)) (lat (bbox_center bbox)) (template_scale bbox / 2) p"
      using that get_parametric_shape_near_centre_all [OF template_scale_nonneg [OF assms]] by blast
    then show ?thesis using near_centre_in_bbox [OF assms] assms by (force simp: valid_coord_def bbox_ok_def)
  qed
  then show ?thesis by (simp add: list_all_iff)
qed

lemma generate_control_points_valid:
  "bbox_ok bbox \<Longrightarrow> polyline_valid (generate_control_points has_lm shape_reply loads pf description bbox)"
  using template_points_valid llm_control_points_ok
  by (auto simp: generate_control_points_def split: option.splits)

lemma generate_control_points_e_Inr:
  "generate_control_points_e has_lm shape_reply loads pf description bbox = Inr ps \<Longrightarrow>
   ps = generate_control_points has_lm shape_reply loads pf description bbox \<and> polyline_valid ps"
  by (auto simp: generate_control_points_e_def generate_control_points_def sbind_eq_Inr check_coord_Inr
      check_coords_Inr split: option.splits dest: llm_control_points_ok)

lemma generate_control_points_e_Inl:
  "generate_control_points_e has_lm shape_reply loads pf description bbox = Inl e \<Longrightarrow> e = Validation_error"
  by (auto simp: generate_control_points_e_def sbind_eq_Inl split: option.splits
      dest: check_coord_Inl check_coords_Inl)

lemma bbox_center_valid: "bbox_ok bbox \<Longrightarrow> valid_coord (bbox_center bbox)"
  by (simp add: bbox_ok_def bbox_center_def valid_coord_def)

lemma generate_control_points_e_ok:
  assumes "bbox_ok bbox"
  shows "generate_control_points_e has_lm shape_reply loads pf description bbox =
           Inr (generate_control_points has_lm shape_reply loads pf description bbox)"
  using bbox_center_valid [OF assms] template_points_valid [OF assms, of description]
  by (simp add: generate_control_points_e_def generate_control_points_def split: option.splits)

section \<open>Properties\<close>

text \<open>C3. Seeding never fails and always gives the loop something to map: for a
  well-formed target box, \<open>_generate_control_points\<close> returns at least three
  control points, all valid coordinates (pydantic accepts them), whether the
  language model answered, failed, or was not configured; the template
  fallback stays inside the box.\<close>

theorem generate_control_points_ok:
  assumes "bbox_ok bbox"
  shows "3 \<le> length (generate_control_points has_lm shape_reply loads pf description bbox) \<and>
         polyline_valid (generate_control_points has_lm shape_reply loads pf description bbox)"
proof (cases "llm_control_points has_lm shape_reply loads pf")
  case None
  then show ?thesis
    using get_parametric_shape_length generate_control_points_valid [OF assms, of has_lm shape_reply loads pf description]
    by (simp add: generate_control_points_def)
next
  case (Some points)
  then show ?thesis using llm_control_points_ok by (simp add: generate_control_points_def)
qed

lemma generate_control_points_ok_witness:
  "bbox_ok \<lparr>min_lng = 1442 / 100, min_lat = 5007 / 100, max_lng = 1446 / 100, max_lat = (5009 / 100 :: real)\<rparr> \<and>
   3 \<le> length (generate_control_points False (Inl Value_error) (\<lambda>_. None) (\<lambda>_. None) ''heart'' \<lparr>min_lng = 1442 / 100, min_lat = 5007 / 100, max_lng = 1446 / 100, max_lat = (5009 / 100 :: real)\<rparr>) \<and>
   polyline_valid (generate_control_points False (Inl Value_error) (\<lambda>_. None) (\<lambda>_. None) ''heart'' \<lparr>min_lng = 1442 / 100, min_lat = 5007 / 100, max_lng = 1446 / 100, max_lat = (5009 / 100 :: real)\<rparr>)"
proof -
  have b: "bbox_ok \<lparr>min_lng = 1442 / 100, min_lat = 5007 / 100, max_lng = 1446 / 100, max_lat = (5009 / 100 :: real)\<rparr>" by (simp add: bbox_ok_def)
  show ?thesis using generate_control_points_ok [OF b, of False "Inl Value_error" "\<lambda>_. None" "\<lambda>_. None" "''heart''"] b
    by simp
qed

end
