(* ===== verification/Neighborhood.thy ===== *)
theory Neighborhood
  imports PyStr "HOL-Library.Product_Lexorder"
begin

text \<open>
  The neighbourhood service of \<^verbatim>\<open>src/backend/services/neighborhood.py\<close>: the
  term normalisation \<open>_normalize_shape_term\<close>, the fuzzy lookup
  \<open>get_by_name\<close> and the ranking \<open>find_best_for_shape\<close>. The dataset is a list
  of \<open>neighborhood\<close> records (its loading is in \<open>Dataset\<close>).
  Three library calls are parameters: \<open>unicodedata\<close>'s diacritic stripping
  (\<open>strip_diacritics\<close>), the MD5 tie-breaker (\<open>tie\<close>, a real in [0, 1] per
  name) and the iteration order of a Python set of strings (\<open>order\<close>, an
  enumeration of the set), which depends on the process's hash seed.
\<close>

section \<open>Definitions\<close>

datatype street_layout = Grid | Organic | Mixed

text \<open>\<^verbatim>\<open>class Neighborhood(BaseModel)\<close> (fields prefixed with \<open>hood_\<close>).\<close>

record neighborhood =
  hood_name :: string
  hood_name_cs :: string
  hood_center :: coordinate
  hood_bbox :: bounding_box
  hood_layout :: street_layout
  hood_character :: string
  hood_good_for :: "string list"

definition shape_layout_prefs :: "(string \<times> street_layout) list" where
  "shape_layout_prefs =
     [(''heart'', Mixed), (''star'', Grid), (''circle'', Mixed), (''triangle'', Grid), (''square'', Grid),
      (''arrow'', Grid), (''letter'', Grid), (''geometric'', Grid), (''creature'', Organic),
      (''animal'', Organic), (''cat'', Organic), (''dog'', Organic), (''bird'', Organic),
      (''fish'', Organic), (''fox'', Organic), (''flower'', Organic), (''tree'', Mixed)]"

definition noise_words :: "string list" where
  "noise_words =
     [''a'', ''an'', ''the'', ''shape'', ''shaped'', ''pattern'', ''route'', ''running'', ''draw'',
      ''make'', ''create'', ''please'', ''me'', ''i'', ''want'', ''like'', ''of'', ''in'', ''with'']"

text \<open>\<open>re.sub(r"[^a-z0-9\s]", "", ...)\<close>: the characters kept.\<close>

definition term_char :: "char \<Rightarrow> bool" where
  "term_char c = (let n = (of_char c :: nat) in (97 \<le> n \<and> n \<le> 122) \<or> (48 \<le> n \<and> n \<le> 57) \<or> py_isspace c)"

text \<open>The plural stripping of one token: a final \<open>s\<close>, then a final \<open>es\<close>.\<close>

definition stem_token :: "string \<Rightarrow> string" where
  "stem_token tok =
     (let stem = (if py_endswith tok ''s'' \<and> length tok > 3 then take (length tok - 1) tok else tok)
      in if py_endswith stem ''es'' \<and> length stem > 4 then take (length stem - 2) stem else stem)"

definition normalize_shape_term :: "string \<Rightarrow> string set" where
  "normalize_shape_term text =
     set (map stem_token (filter (\<lambda>tok. tok \<notin> set noise_words)
                            (py_split (filter term_char (py_strip (py_lower text))))))"

text \<open>\<open>get_by_name\<close>: the first neighbourhood whose English or Czech name
  matches after lower-casing and diacritic stripping.\<close>

definition get_by_name :: "(string \<Rightarrow> string) \<Rightarrow> neighborhood list \<Rightarrow> string \<Rightarrow> neighborhood option" where
  "get_by_name strip_diacritics hoods name =
     (let normalized = strip_diacritics (py_strip (py_lower name))
      in find (\<lambda>hood. strip_diacritics (py_lower (hood_name hood)) = normalized \<or>
                       strip_diacritics (py_lower (hood_name_cs hood)) = normalized) hoods)"

text \<open>The layout preference: the first term, in the set's iteration order, that
  has an entry in \<open>_SHAPE_LAYOUT_PREFS\<close>.\<close>

definition preferred_layout :: "(string set \<Rightarrow> string list) \<Rightarrow> string set \<Rightarrow> street_layout option" where
  "preferred_layout order desc_terms =
     (case find (\<lambda>t. map_of shape_layout_prefs t \<noteq> None) (order desc_terms) of
        Some t \<Rightarrow> map_of shape_layout_prefs t
      | None \<Rightarrow> None)"

definition bbox_diag_km :: "bounding_box \<Rightarrow> real" where
  "bbox_diag_km b = sqrt ((width_deg b * 111) ^ 2 + (height_deg b * 71.5) ^ 2)"

definition hood_score :: "string set \<Rightarrow> street_layout option \<Rightarrow> real \<Rightarrow> neighborhood \<Rightarrow> real" where
  "hood_score desc_terms pref size_km hood =
     sum_list (map (\<lambda>good_raw. let overlap = desc_terms \<inter> normalize_shape_term good_raw
                               in if overlap \<noteq> {} then 15 * real (card overlap) else 0) (hood_good_for hood))
     + (case pref of
          None \<Rightarrow> 0
        | Some l \<Rightarrow> if hood_layout hood = l then 8 else if hood_layout hood = Mixed then 4 else 0)
     + (if bbox_diag_km (hood_bbox hood) \<ge> size_km * 0.3 then 3 else 0)"

text \<open>\<open>scored.sort(key=lambda x: (x[0], x[1]), reverse=True)\<close> is a stable sort
  by the negated key.\<close>

definition find_best_for_shape ::
  "(string \<Rightarrow> real) \<Rightarrow> (string set \<Rightarrow> string list) \<Rightarrow> neighborhood list \<Rightarrow> string \<Rightarrow> real \<Rightarrow> neighborhood list" where
  "find_best_for_shape tie order hoods shape_type size_km =
     (let desc_terms = normalize_shape_term shape_type;
          pref = preferred_layout order desc_terms;
          scored = map (\<lambda>hood. (hood_score desc_terms pref size_km hood, tie (hood_name hood), hood)) hoods
      in map (\<lambda>(_, _, hood). hood) (sort_key (\<lambda>(s, t, _). (- s, - t)) scored))"

section \<open>Lemmas\<close>

lemma hood_ranking_sorted:
  "sorted_wrt (\<lambda>a b. f b \<le> f a)
     (map (\<lambda>(_, _, hood). hood) (sort_key (\<lambda>(s, t, _). (- s :: real, - t :: real)) (map (\<lambda>h. (f h, g h, h)) hs)))"
proof -
  let ?ys = "sort_key (\<lambda>(s, t, _). (- s :: real, - t :: real)) (map (\<lambda>h. (f h, g h, h)) hs)"
  have "sorted (map (\<lambda>(s, t, _). (- s :: real, - t :: real)) ?ys)" by (rule sorted_sort_key)
  then have "sorted_wrt (\<lambda>x y. (\<lambda>(s, t, _). (- s, - t)) x \<le> (\<lambda>(s, t, _). (- s :: real, - t :: real)) y) ?ys"
    by (simp add: sorted_wrt_map)
  then have s: "sorted_wrt (\<lambda>x y. fst y \<le> fst x) ?ys"
    by (rule sorted_wrt_mono_rel [rotated]) (auto simp: less_eq_prod_def split: prod.splits)
  have all: "\<forall>x\<in>set ?ys. fst x = f (snd (snd x))" by auto
  from s have "sorted_wrt (\<lambda>x y. f (snd (snd y)) \<le> f (snd (snd x))) ?ys"
    by (rule sorted_wrt_mono_rel [rotated]) (insert all, auto)
  then show ?thesis by (simp add: sorted_wrt_map split_beta)
qed

lemma mset_hood_ranking:
  "mset (map (\<lambda>(_, _, hood). hood) (sort_key k (map (\<lambda>h. (f h, g h, h)) hs))) = mset hs"
proof -
  have "mset (map (\<lambda>(_, _, hood). hood) (sort_key k (map (\<lambda>h. (f h, g h, h)) hs))) =
        image_mset (\<lambda>(_, _, hood). hood) (mset (map (\<lambda>h. (f h, g h, h)) hs))"
    by (simp only: mset_map mset_sort)
  also have "\<dots> = mset hs" by (simp add: multiset.map_comp comp_def)
  finally show ?thesis .
qed

section \<open>Properties\<close>

text \<open>C33. The plural rule for \<open>-es\<close> never fires on an \<open>-es\<close> plural: the final
  \<open>s\<close> is stripped first, and what remains ends in \<open>e\<close>, so \<open>foxes\<close>
  normalises to \<open>foxe\<close> and no longer matches \<open>fox\<close>.\<close>

theorem stem_es_plural:
  assumes "2 \<le> length u"
  shows "stem_token (u @ ''es'') = u @ ''e''"
  using assms by (simp add: stem_token_def py_endswith_def Let_def)

lemma stem_es_plural_witness:
  "stem_token (''fox'' @ ''es'') = ''fox'' @ ''e''"
  using stem_es_plural [of "''fox''"] by simp

text \<open>The ranking is a ranking: \<open>find_best_for_shape\<close> returns every
  neighbourhood exactly once, in non-increasing order of its score.\<close>

theorem find_best_for_shape_ranked:
  "mset (find_best_for_shape tie order hoods shape_type size_km) = mset hoods \<and>
   sorted_wrt (\<lambda>a b. hood_score (normalize_shape_term shape_type)
                         (preferred_layout order (normalize_shape_term shape_type)) size_km b
                   \<le> hood_score (normalize_shape_term shape_type)
                         (preferred_layout order (normalize_shape_term shape_type)) size_km a)
     (find_best_for_shape tie order hoods shape_type size_km)"
  unfolding find_best_for_shape_def Let_def
  by (intro conjI mset_hood_ranking hood_ranking_sorted)

text \<open>The ranking depends on the hash seed: the layout preference is taken
  from the first description term in the iteration order of a Python set,
  which varies between processes. For \<open>"cat star"\<close> (\<open>cat\<close> prefers organic
  streets, \<open>star\<close> a grid) the two orders of the same set put different
  neighbourhoods first, whatever the MD5 tie-breaker.\<close>

theorem find_best_depends_on_set_order:
  "set [''cat'', ''star''] = normalize_shape_term ''cat star'' \<and>
   hd (find_best_for_shape tie (\<lambda>_. [''cat'', ''star'']) [\<lparr>hood_name = ''Karlin'', hood_name_cs = ''Karlin'', hood_center = \<lparr>lng = 0, lat = 0\<rparr>, hood_bbox = \<lparr>min_lng = 0, min_lat = 0, max_lng = 1 / 100, max_lat = 1 / 100\<rparr>, hood_layout = Grid, hood_character = [], hood_good_for = []\<rparr>, \<lparr>hood_name = ''Mala Strana'', hood_name_cs = ''Mala Strana'', hood_center = \<lparr>lng = 0, lat = 0\<rparr>, hood_bbox = \<lparr>min_lng = 0, min_lat = 0, max_lng = 1 / 100, max_lat = 1 / 100\<rparr>, hood_layout = Organic, hood_character = [], hood_good_for = []\<rparr>] ''cat star'' 5) = \<lparr>hood_name = ''Mala Strana'', hood_name_cs = ''Mala Strana'', hood_center = \<lparr>lng = 0, lat = 0\<rparr>, hood_bbox = \<lparr>min_lng = 0, min_lat = 0, max_lng = 1 / 100, max_lat = 1 / 100\<rparr>, hood_layout = Organic, hood_character = [], hood_good_for = []\<rparr> \<and>
   hd (find_best_for_shape tie (\<lambda>_. [''star'', ''cat'']) [\<lparr>hood_name = ''Karlin'', hood_name_cs = ''Karlin'', hood_center = \<lparr>lng = 0, lat = 0\<rparr>, hood_bbox = \<lparr>min_lng = 0, min_lat = 0, max_lng = 1 / 100, max_lat = 1 / 100\<rparr>, hood_layout = Grid, hood_character = [], hood_good_for = []\<rparr>, \<lparr>hood_name = ''Mala Strana'', hood_name_cs = ''Mala Strana'', hood_center = \<lparr>lng = 0, lat = 0\<rparr>, hood_bbox = \<lparr>min_lng = 0, min_lat = 0, max_lng = 1 / 100, max_lat = 1 / 100\<rparr>, hood_layout = Organic, hood_character = [], hood_good_for = []\<rparr>] ''cat star'' 5) = \<lparr>hood_name = ''Karlin'', hood_name_cs = ''Karlin'', hood_center = \<lparr>lng = 0, lat = 0\<rparr>, hood_bbox = \<lparr>min_lng = 0, min_lat = 0, max_lng = 1 / 100, max_lat = 1 / 100\<rparr>, hood_layout = Grid, hood_character = [], hood_good_for = []\<rparr>"
  by (simp add: normalize_shape_term_def find_best_for_shape_def preferred_layout_def hood_score_def
                shape_layout_prefs_def noise_words_def stem_token_def term_char_def py_str_simps
                less_eq_prod_def insert_commute)

end
