(* ===== verification/Describe.thy ===== *)
theory Describe
  imports CheckedLoop Seeding Neighborhood
begin

text \<open>
  The two request handlers of \<open>ShapeGenerator\<close> in
  \<^verbatim>\<open>src/backend/services/shape_generator.py\<close> and the helpers only they
  use: \<open>generate_from_description\<close> (Mode B: pick a neighbourhood, rank the
  alternatives, seed control points, run the refinement loop of
  \<open>Refinement\<close>, build the \<open>ShapeIdea\<close> and \<open>DescribeResponse\<close>),
  \<open>_find_neighborhood\<close>, \<open>_emoji_for_description\<close>, and
  \<open>generate_for_neighborhood\<close> (Mode A) with \<open>_generate_with_llm\<close> and
  \<open>_generate_with_templates\<close>. Pydantic's checks of \<open>ShapeIdea\<close>
  (\<open>estimated_distance_km > 0\<close>, the difficulty pattern) and of
  \<open>DescribeResponse\<close> (an integral \<open>duration_minutes\<close>) are the
  constructors \<open>mk_shape_idea\<close> and \<open>mk_describe_response\<close>. Strings are
  byte strings: an emoji is its UTF-8 encoding. The language model's replies
  are parameters (\<open>Inl\<close> when the DSPy call raises). The router
  \<open>_route_waypoints\<close> and the validator are collaborators that may raise
  (\<open>router_e\<close>, \<open>judge_e\<close> of \<open>CheckedLoop\<close>), and every \<open>Coordinate\<close>
  the handlers build is checked (\<open>check_coord\<close>, \<open>check_coords\<close>): the
  box centre and the template points of \<open>_generate_control_points\<close> and
  \<open>_generate_with_templates\<close>, the scaled points of \<open>map_to_streets\<close>,
  and the routed points of steps 6 and 7. \<open>generate_from_description\<close> is
  step 1 (\<open>select_hood\<close>) followed by the rest of the handler in the chosen
  neighbourhood (\<open>describe_in_hood\<close>).
\<close>

section \<open>Definitions\<close>

subsection \<open>Response schemas\<close>

record shape_idea =
  idea_name :: string
  idea_description :: string
  idea_emoji :: string
  estimated_distance_km :: real
  difficulty :: string
  idea_control_points :: "coordinate list"
  target_area :: string

definition mk_shape_idea ::
  "string \<Rightarrow> string \<Rightarrow> string \<Rightarrow> real \<Rightarrow> string \<Rightarrow> coordinate list \<Rightarrow> string \<Rightarrow> py_error + shape_idea" where
  "mk_shape_idea n d e km diff cps area =
     (if 0 < km \<and> diff \<in> {''easy'', ''moderate'', ''hard''}
      then Inr \<lparr>idea_name = n, idea_description = d, idea_emoji = e, estimated_distance_km = km,
                difficulty = diff, idea_control_points = cps, target_area = area\<rparr>
      else Inl Validation_error)"

record describe_response =
  shape :: shape_idea
  response_neighborhood :: string
  response_bbox :: bounding_box
  similarity_score :: real
  routed_coordinates :: "coordinate list"
  distance_km :: real
  duration_minutes :: int
  response_waypoints :: "waypoint_marker list"
  alternative_neighborhoods :: "string list"

definition mk_describe_response ::
  "shape_idea \<Rightarrow> string \<Rightarrow> bounding_box \<Rightarrow> real \<Rightarrow> coordinate list \<Rightarrow> real \<Rightarrow> real \<Rightarrow> waypoint_marker list \<Rightarrow>
   string list \<Rightarrow> py_error + describe_response" where
  "mk_describe_response s n b sc rc km dur ws alts =
     (if dur = of_int \<lfloor>dur\<rfloor>
      then Inr \<lparr>shape = s, response_neighborhood = n, response_bbox = b, similarity_score = sc,
                routed_coordinates = rc, distance_km = km, duration_minutes = \<lfloor>dur\<rfloor>,
                response_waypoints = ws, alternative_neighborhoods = alts\<rparr>
      else Inl Validation_error)"

text \<open>The constraints of \<^verbatim>\<open>class ShapeIdea\<close> a response's idea satisfies:
  a positive distance, a difficulty matching \<open>^(easy|moderate|hard)$\<close>, and
  control points that are valid \<open>Coordinate\<close>s.\<close>

definition shape_idea_typed :: "shape_idea \<Rightarrow> bool" where
  "shape_idea_typed i \<longleftrightarrow>
     0 < estimated_distance_km i \<and> difficulty i \<in> {''easy'', ''moderate'', ''hard''} \<and>
     polyline_valid (idea_control_points i)"

subsection \<open>Helpers\<close>

text \<open>\<open>str.title()\<close> on ASCII: a letter is upper-cased after a non-letter and
  lower-cased after a letter.\<close>

fun title_go :: "bool \<Rightarrow> string \<Rightarrow> string" where
  "title_go prev [] = []"
| "title_go prev (c # cs) =
     (if py_isalpha_char c then (if prev then py_lower_char c else py_upper_char c) # title_go True cs
      else c # title_go False cs)"

definition py_title :: "string \<Rightarrow> string" where
  "py_title s = title_go False s"

text \<open>The \<open>mapping\<close> of \<open>_emoji_for_description\<close>, in insertion order; the
  emojis of \<open>_generate_with_templates\<close> are the same glyphs.\<close>

definition emoji_table :: "(string \<times> string) list" where
  "emoji_table =
     [(''heart'', [CHR 0xE2, CHR 0x9D, CHR 0xA4, CHR 0xEF, CHR 0xB8, CHR 0x8F]),
      (''star'', [CHR 0xE2, CHR 0xAD, CHR 0x90]),
      (''circle'', [CHR 0xE2, CHR 0xAD, CHR 0x95]),
      (''triangle'', [CHR 0xF0, CHR 0x9F, CHR 0x94, CHR 0xBA]),
      (''arrow'', [CHR 0xE2, CHR 0x9E, CHR 0xA1, CHR 0xEF, CHR 0xB8, CHR 0x8F]),
      (''square'', [CHR 0xE2, CHR 0xAC, CHR 0x9C]),
      (''cat'', [CHR 0xF0, CHR 0x9F, CHR 0x90, CHR 0xB1]),
      (''dog'', [CHR 0xF0, CHR 0x9F, CHR 0x90, CHR 0x95]),
      (''fox'', [CHR 0xF0, CHR 0x9F, CHR 0xA6, CHR 0x8A]),
      (''bird'', [CHR 0xF0, CHR 0x9F, CHR 0x90, CHR 0xA6]),
      (''rabbit'', [CHR 0xF0, CHR 0x9F, CHR 0x90, CHR 0xB0]),
      (''fish'', [CHR 0xF0, CHR 0x9F, CHR 0x90, CHR 0x9F]),
      (''flower'', [CHR 0xF0, CHR 0x9F, CHR 0x8C, CHR 0xB8]),
      (''tree'', [CHR 0xF0, CHR 0x9F, CHR 0x8C, CHR 0xB3]),
      (''house'', [CHR 0xF0, CHR 0x9F, CHR 0x8F, CHR 0xA0]),
      (''crown'', [CHR 0xF0, CHR 0x9F, CHR 0x91, CHR 0x91]),
      (''lightning'', [CHR 0xE2, CHR 0x9A, CHR 0xA1]),
      (''moon'', [CHR 0xF0, CHR 0x9F, CHR 0x8C, CHR 0x99]),
      (''sun'', [CHR 0xE2, CHR 0x98, CHR 0x80, CHR 0xEF, CHR 0xB8, CHR 0x8F]),
      (''diamond'', [CHR 0xF0, CHR 0x9F, CHR 0x92, CHR 0x8E])]"

definition sparkles :: string where
  "sparkles = [CHR 0xE2, CHR 0x9C, CHR 0xA8]"

definition emoji_for_description :: "string \<Rightarrow> string" where
  "emoji_for_description desc =
     (let desc_l = py_lower desc in
      case find (\<lambda>(key, _). py_in key desc_l) emoji_table of Some (_, emoji) \<Rightarrow> emoji | None \<Rightarrow> sparkles)"

text \<open>\<open>_find_neighborhood\<close>: the model's choice when it names a known
  neighbourhood (any exception ignored), else the best-ranked one for a 5 km
  route, else the first of the dataset, else \<open>None\<close>.\<close>

definition find_neighborhood ::
  "bool \<Rightarrow> py_error + string \<Rightarrow> (string \<Rightarrow> string) \<Rightarrow> (string \<Rightarrow> real) \<Rightarrow> (string set \<Rightarrow> string list) \<Rightarrow>
   neighborhood list \<Rightarrow> string \<Rightarrow> neighborhood option" where
  "find_neighborhood has_lm area_reply strip_diacritics tie order hoods description =
     (let chosen = (if has_lm then (case area_reply of Inl _ \<Rightarrow> None | Inr best \<Rightarrow> get_by_name strip_diacritics hoods best)
                    else None)
      in case chosen of
           Some hood \<Rightarrow> Some hood
         | None \<Rightarrow> (case find_best_for_shape tie order hoods description 5 of
                      hood # _ \<Rightarrow> Some hood
                    | [] \<Rightarrow> (case hoods of hood # _ \<Rightarrow> Some hood | [] \<Rightarrow> None)))"

text \<open>The alternatives: the ranked names other than the chosen one, at most three.\<close>

definition alternatives :: "neighborhood list \<Rightarrow> string \<Rightarrow> string list" where
  "alternatives all_ranked chosen = take 3 (filter (\<lambda>n. n \<noteq> chosen) (map hood_name all_ranked))"

subsection \<open>Mode B\<close>

text \<open>The collaborators of one request: the dataset and the library calls of
  the neighbourhood service, the language model's two replies with the JSON
  decoder, and the router (\<open>_route_waypoints\<close>) and validator of the
  refinement loop, each of which may raise.\<close>

record services =
  sv_hoods :: "neighborhood list"
  sv_strip_diacritics :: "string \<Rightarrow> string"
  sv_tie :: "string \<Rightarrow> real"
  sv_set_order :: "string set \<Rightarrow> string list"
  sv_has_lm :: bool
  sv_area_reply :: "py_error + string"
  sv_shape_reply :: "py_error + string"
  sv_json_loads :: "string \<Rightarrow> json option"
  sv_parse_float :: "string \<Rightarrow> real option"
  sv_route :: router_e
  sv_judge :: judge_e

text \<open>Step 1: the named neighbourhood (a non-empty name that is unknown raises
  \<open>ValueError\<close>), or \<open>_find_neighborhood\<close>'s choice; \<open>None\<close> there makes
  the next \<open>hood.name\<close> raise \<open>AttributeError\<close>.\<close>

definition select_hood :: "services \<Rightarrow> string \<Rightarrow> string option \<Rightarrow> py_error + neighborhood" where
  "select_hood sv description neighborhood_opt =
     (case neighborhood_opt of
        Some n \<Rightarrow>
          if n \<noteq> [] then (case get_by_name (sv_strip_diacritics sv) (sv_hoods sv) n of Some h \<Rightarrow> Inr h | None \<Rightarrow> Inl Value_error)
          else (case find_neighborhood (sv_has_lm sv) (sv_area_reply sv) (sv_strip_diacritics sv) (sv_tie sv) (sv_set_order sv) (sv_hoods sv) description of
                  Some h \<Rightarrow> Inr h | None \<Rightarrow> Inl Attribute_error)
      | None \<Rightarrow>
          (case find_neighborhood (sv_has_lm sv) (sv_area_reply sv) (sv_strip_diacritics sv) (sv_tie sv) (sv_set_order sv) (sv_hoods sv) description of
             Some h \<Rightarrow> Inr h | None \<Rightarrow> Inl Attribute_error))"

text \<open>Steps 2--7 in the chosen neighbourhood: the alternatives, the seeded
  control points, the checked refinement loop, and the two response models.\<close>

definition describe_in_hood ::
  "geo_kernel \<Rightarrow> services \<Rightarrow> string \<Rightarrow> real \<Rightarrow> neighborhood \<Rightarrow> py_error + describe_response" where
  "describe_in_hood g sv description max_distance_km hood =
     (let alts = alternatives (find_best_for_shape (sv_tie sv) (sv_set_order sv) (sv_hoods sv) description max_distance_km) (hood_name hood)
      in sbind (generate_control_points_e (sv_has_lm sv) (sv_shape_reply sv) (sv_json_loads sv) (sv_parse_float sv)
                  description (hood_bbox hood)) (\<lambda>cps.
         sbind (generate_route_e g (hood_bbox hood) (sv_route sv) (sv_judge sv) cps) (\<lambda>st.
         (let km = route_distance_km (routed st)
          in sbind (mk_shape_idea (py_title description) (''A '' @ description @ '' route through '' @ hood_name hood)
                      (emoji_for_description description) km (difficulty_for_distance km) (control_points st) (hood_name hood))
                (\<lambda>s. mk_describe_response s (hood_name hood) (hood_bbox hood) (score (validation st))
                       (route_coords (routed st)) km (route_duration_minutes (routed st)) (waypoints st) alts)))))"

definition generate_from_description ::
  "geo_kernel \<Rightarrow> services \<Rightarrow> string \<Rightarrow> real \<Rightarrow> string option \<Rightarrow> py_error + describe_response" where
  "generate_from_description g sv description max_distance_km neighborhood_opt =
     sbind (select_hood sv description neighborhood_opt) (describe_in_hood g sv description max_distance_km)"

subsection \<open>Mode A\<close>

text \<open>\<open>_generate_with_templates\<close>: the first \<open>count\<close> of six templates at the
  box centre, mapped to the streets; \<open>bbox.center()\<close>, the template points and
  the scaled points are pydantic \<open>Coordinate\<close>s (out of range they raise
  \<open>ValidationError\<close>), and building a \<open>ShapeIdea\<close> raises when the estimate
  rounds to 0 km.\<close>

definition template_names :: "string list" where
  "template_names = [''heart'', ''star'', ''triangle'', ''circle'', ''arrow'', ''square'']"

definition template_idea :: "geo_kernel \<Rightarrow> neighborhood \<Rightarrow> coordinate \<Rightarrow> string \<Rightarrow> py_error + shape_idea" where
  "template_idea g hood center name =
     (let bbox = hood_bbox hood
      in sbind (check_coords (get_parametric_shape name center (template_scale bbox))) (\<lambda>raw_points.
         sbind (map_to_streets_e g raw_points bbox) (\<lambda>mapped.
           mk_shape_idea (py_title name @ '' in '' @ hood_name hood)
             (''A '' @ name @ '' shape traced through the streets of '' @ hood_name hood)
             (case map_of emoji_table name of Some e \<Rightarrow> e | None \<Rightarrow> [])
             (estimate_distance_km g mapped) ''moderate'' mapped (hood_name hood))))"

fun collect_ideas :: "('a \<Rightarrow> py_error + shape_idea option) \<Rightarrow> 'a list \<Rightarrow> py_error + shape_idea list" where
  "collect_ideas f [] = Inr []"
| "collect_ideas f (x # xs) =
     (case f x of
        Inl e \<Rightarrow> Inl e
      | Inr None \<Rightarrow> collect_ideas f xs
      | Inr (Some idea) \<Rightarrow> (case collect_ideas f xs of Inl e \<Rightarrow> Inl e | Inr ideas \<Rightarrow> Inr (idea # ideas)))"

definition generate_with_templates :: "geo_kernel \<Rightarrow> neighborhood \<Rightarrow> nat \<Rightarrow> py_error + shape_idea list" where
  "generate_with_templates g hood cnt =
     sbind (check_coord (bbox_center (hood_bbox hood))) (\<lambda>center.
       collect_ideas (\<lambda>name. case template_idea g hood center name of Inl e \<Rightarrow> Inl e | Inr i \<Rightarrow> Inr (Some i))
         (take cnt template_names))"

text \<open>\<open>_generate_with_llm\<close>: one idea per raw object among the first
  \<open>count\<close>, skipping those with fewer than three control points. A string
  field that is not a JSON string fails pydantic's check.\<close>

fun json_str :: "json \<Rightarrow> py_error + string" where
  "json_str (JStr s) = Inr s"
| "json_str _ = Inl Validation_error"

definition llm_idea ::
  "geo_kernel \<Rightarrow> (string \<Rightarrow> real option) \<Rightarrow> neighborhood \<Rightarrow> json \<Rightarrow> py_error + shape_idea option" where
  "llm_idea g pf hood raw =
     (case raw of
        JObj kvs \<Rightarrow>
          (case coords_from_raw pf (py_get kvs ''control_points'' (JArr [])) of
             Inl e \<Rightarrow> Inl e
           | Inr points \<Rightarrow>
               if length points < 3 then Inr None
               else
                 sbind (map_to_streets_e g points (hood_bbox hood)) (\<lambda>mapped.
                  case (json_str (py_get kvs ''name'' (JStr ''Unnamed'')), json_str (py_get kvs ''description'' (JStr [])),
                        json_str (py_get kvs ''emoji'' (JStr [])), json_str (py_get kvs ''difficulty'' (JStr ''moderate''))) of
                    (Inr n, Inr d, Inr e, Inr diff) \<Rightarrow>
                      (case mk_shape_idea n d e (estimate_distance_km g mapped) diff mapped (hood_name hood) of
                         Inl err \<Rightarrow> Inl err
                       | Inr idea \<Rightarrow> Inr (Some idea))
                  | _ \<Rightarrow> Inl Validation_error))
      | _ \<Rightarrow> Inl Attribute_error)"

definition generate_with_llm ::
  "geo_kernel \<Rightarrow> (string \<Rightarrow> json option) \<Rightarrow> (string \<Rightarrow> real option) \<Rightarrow> py_error + string \<Rightarrow> neighborhood \<Rightarrow> nat \<Rightarrow>
   py_error + shape_idea list" where
  "generate_with_llm g loads pf ideas_reply hood cnt =
     (case ideas_reply of
        Inl e \<Rightarrow> Inl e
      | Inr ideas_json \<Rightarrow>
          (case parse_ideas_json loads ideas_json of
             Inl e \<Rightarrow> Inl e
           | Inr raw_ideas \<Rightarrow> collect_ideas (llm_idea g pf hood) (take cnt raw_ideas)))"

text \<open>\<open>generate_for_neighborhood\<close>: an unknown name raises \<open>ValueError\<close>; the
  model's ideas are used unless the call raised or produced none, in which case
  the templates are used (and their errors are not caught).\<close>

record generate_response =
  response_ideas :: "shape_idea list"
  generate_neighborhood :: string
  generate_bbox :: bounding_box

definition generate_for_neighborhood ::
  "geo_kernel \<Rightarrow> services \<Rightarrow> py_error + string \<Rightarrow> string \<Rightarrow> nat \<Rightarrow> py_error + generate_response" where
  "generate_for_neighborhood g sv ideas_reply neighborhood cnt =
     (case get_by_name (sv_strip_diacritics sv) (sv_hoods sv) neighborhood of
        None \<Rightarrow> Inl Value_error
      | Some hood \<Rightarrow>
          (let llm_ideas = (if sv_has_lm sv then
                              (case generate_with_llm g (sv_json_loads sv) (sv_parse_float sv) ideas_reply hood cnt of
                                 Inl _ \<Rightarrow> [] | Inr idea_list \<Rightarrow> idea_list)
                            else [])
           in case (if llm_ideas = [] then generate_with_templates g hood cnt else Inr llm_ideas) of
                Inl e \<Rightarrow> Inl e
              | Inr idea_list \<Rightarrow> Inr \<lparr>response_ideas = idea_list, generate_neighborhood = hood_name hood, generate_bbox = hood_bbox hood\<rparr>))"

section \<open>Lemmas\<close>

lemma mk_shape_idea_Inr:
  "mk_shape_idea n d e km diff cps area = Inr i \<Longrightarrow>
   0 < km \<and> estimated_distance_km i = km \<and> difficulty i = diff \<and> idea_control_points i = cps"
  by (auto simp: mk_shape_idea_def split: if_splits)

lemma mk_shape_idea_Inl: "mk_shape_idea n d e km diff cps area = Inl err \<Longrightarrow> err = Validation_error"
  by (auto simp: mk_shape_idea_def split: if_splits)

lemma mk_describe_response_Inr:
  "mk_describe_response s n b sc rc km dur ws alts = Inr r \<Longrightarrow>
   shape r = s \<and> response_neighborhood r = n \<and> distance_km r = km \<and> alternative_neighborhoods r = alts"
  by (auto simp: mk_describe_response_def split: if_splits)

lemma mk_describe_response_Inl: "mk_describe_response s n b sc rc km dur ws alts = Inl err \<Longrightarrow> err = Validation_error"
  by (auto simp: mk_describe_response_def split: if_splits)

lemma alternatives_ok: "length (alternatives ranked n) \<le> 3 \<and> n \<notin> set (alternatives ranked n)"
  by (auto simp: alternatives_def dest: in_set_takeD)

lemma find_best_for_shape_mset: "mset (find_best_for_shape tie order hs d km) = mset hs"
  unfolding find_best_for_shape_def Let_def by (rule mset_hood_ranking)

lemma find_best_for_shape_set: "set (find_best_for_shape tie order hs d km) = set hs"
  using arg_cong [OF find_best_for_shape_mset [of tie order hs d km], of set_mset] by simp

lemma find_best_for_shape_nonempty: "hs \<noteq> [] \<Longrightarrow> find_best_for_shape tie order hs d km \<noteq> []"
  using find_best_for_shape_set [of tie order hs d km] by auto

lemma get_by_name_in_set: "get_by_name sd hs n = Some h \<Longrightarrow> h \<in> set hs"
  by (auto simp: get_by_name_def Let_def dest: find_in_set)

lemma find_neighborhood_some:
  assumes "hs \<noteq> []"
  shows "\<exists>h. find_neighborhood lm reply sd tie order hs d = Some h \<and> h \<in> set hs"
proof -
  obtain h0 rest where r: "find_best_for_shape tie order hs d 5 = h0 # rest"
    using find_best_for_shape_nonempty [OF assms] by (cases "find_best_for_shape tie order hs d 5") auto
  have "h0 \<in> set hs" using find_best_for_shape_set [of tie order hs d 5] r by auto
  then show ?thesis using r
    by (auto simp: find_neighborhood_def Let_def split: option.splits sum.splits dest: get_by_name_in_set)
qed

lemma find_neighborhood_empty: "find_neighborhood lm reply sd tie order [] d = None"
  by (auto simp: find_neighborhood_def Let_def get_by_name_def find_best_for_shape_def split: option.splits sum.splits)

lemma find_neighborhood_in_set: "find_neighborhood lm reply sd tie order hs d = Some h \<Longrightarrow> h \<in> set hs"
  using find_best_for_shape_set [of tie order hs d 5]
  by (auto simp: find_neighborhood_def Let_def split: option.splits sum.splits list.splits if_splits
           dest: get_by_name_in_set)

lemma alternatives_in_ranked: "set (alternatives ranked n) \<subseteq> hood_name ` set ranked"
  by (auto simp: alternatives_def dest: in_set_takeD)

lemma difficulty_for_distance_cases: "difficulty_for_distance km \<in> {''easy'', ''moderate'', ''hard''}"
  by (simp add: difficulty_for_distance_def)

text \<open>The shape of a successful Mode B response.\<close>

lemma select_hood_Inr: "select_hood sv description n = Inr hood \<Longrightarrow> hood \<in> set (sv_hoods sv)"
  by (auto simp: select_hood_def split: option.splits if_splits dest: get_by_name_in_set find_neighborhood_in_set)

lemma select_hood_Inl: "select_hood sv description n = Inl e \<Longrightarrow> e \<in> {Value_error, Attribute_error}"
  by (auto simp: select_hood_def split: option.splits if_splits)

lemma describe_in_hood_Inr:
  assumes "describe_in_hood g sv description max_distance_km hood = Inr resp"
  obtains cps st where "response_neighborhood resp = hood_name hood"
    "alternative_neighborhoods resp =
       alternatives (find_best_for_shape (sv_tie sv) (sv_set_order sv) (sv_hoods sv) description max_distance_km) (hood_name hood)"
    "0 < estimated_distance_km (shape resp)" "estimated_distance_km (shape resp) = distance_km resp"
    "distance_km resp = route_distance_km (routed st)"
    "difficulty (shape resp) = difficulty_for_distance (distance_km resp)"
    "generate_control_points_e (sv_has_lm sv) (sv_shape_reply sv) (sv_json_loads sv) (sv_parse_float sv)
       description (hood_bbox hood) = Inr cps"
    "generate_route_e g (hood_bbox hood) (sv_route sv) (sv_judge sv) cps = Inr st"
    "idea_control_points (shape resp) = control_points st"
proof -
  obtain cps st s where c: "generate_control_points_e (sv_has_lm sv) (sv_shape_reply sv) (sv_json_loads sv) (sv_parse_float sv)
       description (hood_bbox hood) = Inr cps"
    and r: "generate_route_e g (hood_bbox hood) (sv_route sv) (sv_judge sv) cps = Inr st"
    and i: "mk_shape_idea (py_title description) (''A '' @ description @ '' route through '' @ hood_name hood)
              (emoji_for_description description) (route_distance_km (routed st))
              (difficulty_for_distance (route_distance_km (routed st))) (control_points st) (hood_name hood) = Inr s"
    and d: "mk_describe_response s (hood_name hood) (hood_bbox hood) (score (validation st))
              (route_coords (routed st)) (route_distance_km (routed st)) (route_duration_minutes (routed st)) (waypoints st)
              (alternatives (find_best_for_shape (sv_tie sv) (sv_set_order sv) (sv_hoods sv) description max_distance_km) (hood_name hood))
            = Inr resp"
    using assms by (auto simp: describe_in_hood_def Let_def sbind_eq_Inr)
  show ?thesis
    using that [OF _ _ _ _ _ _ c r] mk_shape_idea_Inr [OF i] mk_describe_response_Inr [OF d] by auto
qed

lemma describe_in_hood_Inl:
  "describe_in_hood g sv description max_distance_km hood = Inl e \<Longrightarrow>
   raised_by (sv_route sv) (sv_judge sv) e"
  by (auto simp: describe_in_hood_def Let_def sbind_eq_Inl raised_by_def
           dest!: generate_control_points_e_Inl generate_route_e_Inl mk_shape_idea_Inl mk_describe_response_Inl)

lemma generate_from_description_Inr:
  assumes "generate_from_description g sv description max_distance_km neighborhood_opt = Inr resp"
  obtains hood cps st where "hood \<in> set (sv_hoods sv)" "response_neighborhood resp = hood_name hood"
    "alternative_neighborhoods resp =
       alternatives (find_best_for_shape (sv_tie sv) (sv_set_order sv) (sv_hoods sv) description max_distance_km) (hood_name hood)"
    "0 < estimated_distance_km (shape resp)" "estimated_distance_km (shape resp) = distance_km resp"
    "distance_km resp = route_distance_km (routed st)"
    "difficulty (shape resp) = difficulty_for_distance (distance_km resp)"
    "generate_control_points_e (sv_has_lm sv) (sv_shape_reply sv) (sv_json_loads sv) (sv_parse_float sv)
       description (hood_bbox hood) = Inr cps"
    "generate_route_e g (hood_bbox hood) (sv_route sv) (sv_judge sv) cps = Inr st"
    "idea_control_points (shape resp) = control_points st"
proof -
  obtain hood where h: "select_hood sv description neighborhood_opt = Inr hood"
    and d: "describe_in_hood g sv description max_distance_km hood = Inr resp"
    using assms by (auto simp: generate_from_description_def sbind_eq_Inr)
  show ?thesis using describe_in_hood_Inr [OF d] that select_hood_Inr [OF h] by metis
qed

lemma generate_from_description_Inl:
  "generate_from_description g sv description max_distance_km neighborhood_opt = Inl e \<Longrightarrow>
   e \<in> {Value_error, Attribute_error} \<or> raised_by (sv_route sv) (sv_judge sv) e"
  by (auto simp: generate_from_description_def sbind_eq_Inl dest: select_hood_Inl describe_in_hood_Inl)

lemma generate_route_valid_points:
  "polyline_valid cps \<Longrightarrow> polyline_valid (control_points (generate_route g bbox route judge cps))"
  using refine_reach_valid_points [OF generate_route_reach] .

section \<open>Properties\<close>

text \<open>C5. What a Mode B request can return: an exception the handler raises
  itself (\<open>ValueError\<close> for an unknown neighbourhood, \<open>AttributeError\<close> when
  no neighbourhood can be chosen, pydantic's \<open>ValidationError\<close> for a point
  out of range, a non-positive distance or a fractional duration) or one the
  router or the validator raised, passed on unchanged; or a response whose
  alternatives are at most three and exclude the chosen neighbourhood, and
  whose idea reports the routed distance, positive, with the matching
  difficulty.\<close>

theorem generate_from_description_outcome:
  "case generate_from_description g sv description max_distance_km neighborhood_opt of
     Inl e \<Rightarrow> e \<in> {Value_error, Attribute_error, Validation_error} \<or>
              (\<exists>m. sv_route sv m = Inl e) \<or> (\<exists>m a. sv_judge sv m a = Inl e)
   | Inr resp \<Rightarrow>
       length (alternative_neighborhoods resp) \<le> 3 \<and>
       response_neighborhood resp \<notin> set (alternative_neighborhoods resp) \<and>
       0 < estimated_distance_km (shape resp) \<and> estimated_distance_km (shape resp) = distance_km resp \<and>
       difficulty (shape resp) = difficulty_for_distance (distance_km resp)"
proof (cases "generate_from_description g sv description max_distance_km neighborhood_opt")
  case (Inl e)
  then show ?thesis using generate_from_description_Inl [OF Inl] by (auto simp: raised_by_def)
next
  case (Inr resp)
  then show ?thesis
    using alternatives_ok by (auto elim!: generate_from_description_Inr)
qed

text \<open>With an empty dataset and no neighbourhood named, \<open>_find_neighborhood\<close>
  returns \<open>None\<close> and \<open>generate_from_description\<close> fails with
  \<open>AttributeError\<close> on \<open>hood.name\<close> instead of reporting the missing data.\<close>

theorem generate_from_description_no_hoods:
  assumes "sv_hoods sv = []"
  shows "generate_from_description g sv description max_distance_km None = Inl Attribute_error"
  using assms by (simp add: generate_from_description_def select_hood_def find_neighborhood_empty)

lemma generate_from_description_no_hoods_witness:
  "generate_from_description taxicab_kernel
     \<lparr>sv_hoods = [], sv_strip_diacritics = id, sv_tie = \<lambda>_. 0, sv_set_order = \<lambda>_. [], sv_has_lm = False,
      sv_area_reply = Inl Http_error, sv_shape_reply = Inl Http_error, sv_json_loads = \<lambda>_. None, sv_parse_float = \<lambda>_. None,
      sv_route = \<lambda>m. Inr \<lparr>route_coords = m, route_distance_km = 1, route_duration_minutes = 12\<rparr>,
      sv_judge = \<lambda>_ _. Inr \<lparr>score = 100, passed = True, method_name = Algorithmic, reasoning = Empty_point_set\<rparr>\<rparr>
     ''heart'' 10 None = Inl Attribute_error"
  using generate_from_description_no_hoods [of
     "\<lparr>sv_hoods = [], sv_strip_diacritics = id, sv_tie = \<lambda>_. 0, sv_set_order = \<lambda>_. [], sv_has_lm = False,
      sv_area_reply = Inl Http_error, sv_shape_reply = Inl Http_error, sv_json_loads = \<lambda>_. None, sv_parse_float = \<lambda>_. None,
      sv_route = \<lambda>m. Inr \<lparr>route_coords = m, route_distance_km = 1, route_duration_minutes = 12\<rparr>,
      sv_judge = \<lambda>_ _. Inr \<lparr>score = 100, passed = True, method_name = Algorithmic, reasoning = Empty_point_set\<rparr>\<rparr>"
     taxicab_kernel "''heart''" 10] by simp

text \<open>C4. Every Mode B response is well typed against the schemas: the
  idea satisfies the \<open>ShapeIdea\<close> constraints (its control points, the
  loop's final ones, are valid coordinates), and the chosen and alternative
  neighbourhoods are names from the dataset, provided the dataset's boxes are
  well-formed.\<close>

theorem generate_from_description_typed:
  assumes "\<forall>h\<in>set (sv_hoods sv). bbox_ok (hood_bbox h)"
  shows "case generate_from_description g sv description max_distance_km neighborhood_opt of
           Inl _ \<Rightarrow> True
         | Inr resp \<Rightarrow>
             shape_idea_typed (shape resp) \<and>
             response_neighborhood resp \<in> hood_name ` set (sv_hoods sv) \<and>
             set (alternative_neighborhoods resp) \<subseteq> hood_name ` set (sv_hoods sv)"
proof -
  have "shape_idea_typed (shape resp) \<and>
        response_neighborhood resp \<in> hood_name ` set (sv_hoods sv) \<and>
        set (alternative_neighborhoods resp) \<subseteq> hood_name ` set (sv_hoods sv)"
    if r: "generate_from_description g sv description max_distance_km neighborhood_opt = Inr resp" for resp
  proof -
    obtain hood cps st where hd: "hood \<in> set (sv_hoods sv)" "response_neighborhood resp = hood_name hood"
      "alternative_neighborhoods resp =
         alternatives (find_best_for_shape (sv_tie sv) (sv_set_order sv) (sv_hoods sv) description max_distance_km) (hood_name hood)"
      "0 < estimated_distance_km (shape resp)"
      "difficulty (shape resp) = difficulty_for_distance (distance_km resp)"
      "generate_control_points_e (sv_has_lm sv) (sv_shape_reply sv) (sv_json_loads sv) (sv_parse_float sv)
         description (hood_bbox hood) = Inr cps"
      "generate_route_e g (hood_bbox hood) (sv_route sv) (sv_judge sv) cps = Inr st"
      "idea_control_points (shape resp) = control_points st"
      using generate_from_description_Inr [OF r] by metis
    have "polyline_valid (idea_control_points (shape resp))"
      using generate_control_points_e_Inr [OF hd(6)] generate_route_e_Inr [OF hd(7)] hd(8) by auto
    then have "shape_idea_typed (shape resp)"
      using hd(4,5) difficulty_for_distance_cases by (simp add: shape_idea_typed_def)
    moreover have "set (alternative_neighborhoods resp) \<subseteq> hood_name ` set (sv_hoods sv)"
      unfolding hd(3) using alternatives_in_ranked find_best_for_shape_set by metis
    ultimately show ?thesis using hd(1,2) by blast
  qed
  then show ?thesis by (simp split: sum.split)
qed

lemma generate_from_description_typed_witness:
  "bbox_ok (hood_bbox (hd (sv_hoods \<lparr>sv_hoods = [\<lparr>hood_name = ''Karlin'', hood_name_cs = ''Karlin'', hood_center = \<lparr>lng = 1445 / 100, lat = 5009 / 100\<rparr>,
         hood_bbox = \<lparr>min_lng = 1443 / 100, min_lat = 5008 / 100, max_lng = 1447 / 100, max_lat = 5010 / 100\<rparr>,
         hood_layout = Grid, hood_character = [], hood_good_for = [''letter'']\<rparr>],
      sv_strip_diacritics = id, sv_tie = \<lambda>_. 0, sv_set_order = \<lambda>_. [], sv_has_lm = False,
      sv_area_reply = Inl Http_error, sv_shape_reply = Inl Http_error, sv_json_loads = \<lambda>_. None, sv_parse_float = \<lambda>_. None,
      sv_route = \<lambda>m. Inr \<lparr>route_coords = m, route_distance_km = 3, route_duration_minutes = 40\<rparr>,
      sv_judge = \<lambda>_ _. Inr \<lparr>score = 100, passed = True, method_name = Algorithmic, reasoning = Empty_point_set\<rparr>\<rparr>))) \<and>
   (case generate_from_description taxicab_kernel \<lparr>sv_hoods = [\<lparr>hood_name = ''Karlin'', hood_name_cs = ''Karlin'', hood_center = \<lparr>lng = 1445 / 100, lat = 5009 / 100\<rparr>,
         hood_bbox = \<lparr>min_lng = 1443 / 100, min_lat = 5008 / 100, max_lng = 1447 / 100, max_lat = 5010 / 100\<rparr>,
         hood_layout = Grid, hood_character = [], hood_good_for = [''letter'']\<rparr>],
      sv_strip_diacritics = id, sv_tie = \<lambda>_. 0, sv_set_order = \<lambda>_. [], sv_has_lm = False,
      sv_area_reply = Inl Http_error, sv_shape_reply = Inl Http_error, sv_json_loads = \<lambda>_. None, sv_parse_float = \<lambda>_. None,
      sv_route = \<lambda>m. Inr \<lparr>route_coords = m, route_distance_km = 3, route_duration_minutes = 40\<rparr>,
      sv_judge = \<lambda>_ _. Inr \<lparr>score = 100, passed = True, method_name = Algorithmic, reasoning = Empty_point_set\<rparr>\<rparr> ''letter M'' 10 None of
      Inl _ \<Rightarrow> True
    | Inr resp \<Rightarrow>
        shape_idea_typed (shape resp) \<and>
        response_neighborhood resp \<in> hood_name ` set (sv_hoods \<lparr>sv_hoods = [\<lparr>hood_name = ''Karlin'', hood_name_cs = ''Karlin'', hood_center = \<lparr>lng = 1445 / 100, lat = 5009 / 100\<rparr>,
         hood_bbox = \<lparr>min_lng = 1443 / 100, min_lat = 5008 / 100, max_lng = 1447 / 100, max_lat = 5010 / 100\<rparr>,
         hood_layout = Grid, hood_character = [], hood_good_for = [''letter'']\<rparr>],
      sv_strip_diacritics = id, sv_tie = \<lambda>_. 0, sv_set_order = \<lambda>_. [], sv_has_lm = False,
      sv_area_reply = Inl Http_error, sv_shape_reply = Inl Http_error, sv_json_loads = \<lambda>_. None, sv_parse_float = \<lambda>_. None,
      sv_route = \<lambda>m. Inr \<lparr>route_coords = m, route_distance_km = 3, route_duration_minutes = 40\<rparr>,
      sv_judge = \<lambda>_ _. Inr \<lparr>score = 100, passed = True, method_name = Algorithmic, reasoning = Empty_point_set\<rparr>\<rparr>) \<and>
        set (alternative_neighborhoods resp) \<subseteq> hood_name ` set (sv_hoods \<lparr>sv_hoods = [\<lparr>hood_name = ''Karlin'', hood_name_cs = ''Karlin'', hood_center = \<lparr>lng = 1445 / 100, lat = 5009 / 100\<rparr>,
         hood_bbox = \<lparr>min_lng = 1443 / 100, min_lat = 5008 / 100, max_lng = 1447 / 100, max_lat = 5010 / 100\<rparr>,
         hood_layout = Grid, hood_character = [], hood_good_for = [''letter'']\<rparr>],
      sv_strip_diacritics = id, sv_tie = \<lambda>_. 0, sv_set_order = \<lambda>_. [], sv_has_lm = False,
      sv_area_reply = Inl Http_error, sv_shape_reply = Inl Http_error, sv_json_loads = \<lambda>_. None, sv_parse_float = \<lambda>_. None,
      sv_route = \<lambda>m. Inr \<lparr>route_coords = m, route_distance_km = 3, route_duration_minutes = 40\<rparr>,
      sv_judge = \<lambda>_ _. Inr \<lparr>score = 100, passed = True, method_name = Algorithmic, reasoning = Empty_point_set\<rparr>\<rparr>))"
proof -
  have b: "\<forall>h\<in>set (sv_hoods \<lparr>sv_hoods = [\<lparr>hood_name = ''Karlin'', hood_name_cs = ''Karlin'', hood_center = \<lparr>lng = 1445 / 100, lat = 5009 / 100\<rparr>,
         hood_bbox = \<lparr>min_lng = 1443 / 100, min_lat = 5008 / 100, max_lng = 1447 / 100, max_lat = 5010 / 100\<rparr>,
         hood_layout = Grid, hood_character = [], hood_good_for = [''letter'']\<rparr>],
      sv_strip_diacritics = id, sv_tie = \<lambda>_. 0, sv_set_order = \<lambda>_. [], sv_has_lm = False,
      sv_area_reply = Inl Http_error, sv_shape_reply = Inl Http_error, sv_json_loads = \<lambda>_. None, sv_parse_float = \<lambda>_. None,
      sv_route = \<lambda>m. Inr \<lparr>route_coords = m, route_distance_km = 3, route_duration_minutes = 40\<rparr>,
      sv_judge = \<lambda>_ _. Inr \<lparr>score = 100, passed = True, method_name = Algorithmic, reasoning = Empty_point_set\<rparr>\<rparr>). bbox_ok (hood_bbox h)" by (simp add: bbox_ok_def)
  show ?thesis using generate_from_description_typed [OF b, of taxicab_kernel "''letter M''" 10 None] b by (simp add: bbox_ok_def)
qed

end
