(* ===== verification/Dataset.thy ===== *)
theory Dataset
  imports Describe
begin

text \<open>
  The dataset side of \<^verbatim>\<open>src/backend/services/neighborhood.py\<close>:
  \<open>NeighborhoodService._load\<close> (no file gives the empty list; otherwise each
  entry of the decoded JSON goes through \<open>_parse\<close>, the first exception
  propagating), \<open>_parse\<close> with Python's item access on the decoded value and
  the pydantic models it builds (\<open>Coordinate\<close>, \<open>BoundingBox\<close>,
  \<open>Neighborhood\<close>), and \<open>get_summary_string\<close>. The file's existence and the
  result of \<open>json.load\<close> are parameters. The pydantic field readers are shared
  with the request models of the web layer.
\<close>

section \<open>Definitions\<close>

subsection \<open>Python item access and pydantic fields\<close>

text \<open>\<open>v[key]\<close> and \<open>v[i]\<close> on a decoded JSON value: a dictionary raises
  \<open>KeyError\<close> for a missing key (and for any integer, its keys being strings),
  a list or string \<open>IndexError\<close> past its end, other values \<open>TypeError\<close>.\<close>

fun py_getitem :: "json \<Rightarrow> string \<Rightarrow> py_error + json" where
  "py_getitem (JObj kvs) k = (case py_dict_get kvs k of Some v \<Rightarrow> Inr v | None \<Rightarrow> Inl Key_error)"
| "py_getitem _ k = Inl Type_error"

fun py_index :: "json \<Rightarrow> nat \<Rightarrow> py_error + json" where
  "py_index (JArr xs) i = (if i < length xs then Inr (xs ! i) else Inl Index_error)"
| "py_index (JStr s) i = (if i < length s then Inr (JStr [s ! i]) else Inl Index_error)"
| "py_index (JObj kvs) i = Inl Key_error"
| "py_index _ i = Inl Type_error"

text \<open>Pydantic's lax fields: a float field accepts a number, a boolean or a
  numeric string (read by \<open>parse_float\<close>); an int field the same values when
  they are integral; a \<open>list[str]\<close> field a list of strings.\<close>

definition field_float :: "(string \<Rightarrow> real option) \<Rightarrow> json \<Rightarrow> py_error + real" where
  "field_float pf v = (case py_float pf v of Inl _ \<Rightarrow> Inl Validation_error | Inr r \<Rightarrow> Inr r)"

definition field_int :: "(string \<Rightarrow> real option) \<Rightarrow> json \<Rightarrow> py_error + int" where
  "field_int pf v =
     (case field_float pf v of
        Inl e \<Rightarrow> Inl e
      | Inr r \<Rightarrow> if r = of_int \<lfloor>r\<rfloor> then Inr \<lfloor>r\<rfloor> else Inl Validation_error)"

fun field_str_list :: "json \<Rightarrow> py_error + string list" where
  "field_str_list (JArr xs) = map_sum json_str xs"
| "field_str_list _ = Inl Validation_error"

text \<open>\<open>street_layout\<close>: the pattern \<open>^(grid|organic|mixed)$\<close>.\<close>

definition layout_name :: "street_layout \<Rightarrow> string" where
  "layout_name l = (case l of Grid \<Rightarrow> ''grid'' | Organic \<Rightarrow> ''organic'' | Mixed \<Rightarrow> ''mixed'')"

definition field_layout :: "json \<Rightarrow> py_error + street_layout" where
  "field_layout v =
     sbind (json_str v) (\<lambda>s. case find (\<lambda>l. layout_name l = s) [Grid, Organic, Mixed] of
                              Some l \<Rightarrow> Inr l | None \<Rightarrow> Inl Validation_error)"

subsection \<open>Loading\<close>

text \<open>\<open>_parse\<close>: the keyword arguments in order (each item access may raise,
  \<open>Coordinate\<close> and \<open>BoundingBox\<close> are validated as they are built), then the
  \<open>Neighborhood\<close> model's own validation.\<close>

definition parse_coordinate :: "(string \<Rightarrow> real option) \<Rightarrow> json \<Rightarrow> json \<Rightarrow> py_error + coordinate" where
  "parse_coordinate pf x y =
     (case (field_float pf x, field_float pf y) of
        (Inr lng', Inr lat') \<Rightarrow> mk_coordinate lng' lat'
      | _ \<Rightarrow> Inl Validation_error)"

definition parse_bbox :: "(string \<Rightarrow> real option) \<Rightarrow> json list \<Rightarrow> py_error + bounding_box" where
  "parse_bbox pf vs =
     (case map_sum (field_float pf) vs of
        Inr [a, b, c, d] \<Rightarrow> Inr \<lparr>min_lng = a, min_lat = b, max_lng = c, max_lat = d\<rparr>
      | _ \<Rightarrow> Inl Validation_error)"

definition parse_hood :: "(string \<Rightarrow> real option) \<Rightarrow> json \<Rightarrow> py_error + neighborhood" where
  "parse_hood pf entry =
     sbind (py_getitem entry ''name'') (\<lambda>name.
     sbind (py_getitem entry ''name_cs'') (\<lambda>name_cs.
     sbind (sbind (py_getitem entry ''center'') (\<lambda>c.
            sbind (py_index c 0) (\<lambda>x. sbind (py_index c 1) (\<lambda>y. parse_coordinate pf x y)))) (\<lambda>center.
     sbind (sbind (py_getitem entry ''bbox'') (\<lambda>b.
            sbind (map_sum (py_index b) [0, 1, 2, 3]) (\<lambda>vs. parse_bbox pf vs))) (\<lambda>bbox.
     sbind (py_getitem entry ''street_layout'') (\<lambda>layout.
     sbind (py_getitem entry ''character'') (\<lambda>character.
     sbind (py_getitem entry ''good_for'') (\<lambda>good_for.
       (case (json_str name, json_str name_cs, field_layout layout, json_str character, field_str_list good_for) of
          (Inr n, Inr ncs, Inr l, Inr ch, Inr gf) \<Rightarrow>
            Inr \<lparr>hood_name = n, hood_name_cs = ncs, hood_center = center, hood_bbox = bbox,
                 hood_layout = l, hood_character = ch, hood_good_for = gf\<rparr>
        | _ \<Rightarrow> Inl Validation_error))))))))"

text \<open>\<open>_load\<close>: no file is the empty dataset; otherwise the decoded value is
  iterated and every entry parsed.\<close>

definition load_hoods :: "bool \<Rightarrow> py_error + json \<Rightarrow> (string \<Rightarrow> real option) \<Rightarrow> py_error + neighborhood list" where
  "load_hoods exists raw pf =
     (if \<not> exists then Inr [] else sbind raw (\<lambda>r. sbind (py_iter r) (map_sum (parse_hood pf))))"

text \<open>\<open>ShapeGenerator.__init__\<close>: the neighbourhood service loads the dataset
  (its exceptions propagate), and the three predictors exist exactly when
  \<open>configure_llm\<close> returned a client. The other collaborators are those of
  the given services.\<close>

definition shape_generator_init ::
  "string option \<Rightarrow> bool \<Rightarrow> py_error + json \<Rightarrow> services \<Rightarrow> py_error + services" where
  "shape_generator_init api_key exists raw sv =
     sbind (load_hoods exists raw (sv_parse_float sv))
       (\<lambda>hoods. Inr (sv\<lparr>sv_hoods := hoods, sv_has_lm := (configure_llm api_key \<noteq> None)\<rparr>))"

subsection \<open>The summary for the language model\<close>

definition summary_line :: "neighborhood \<Rightarrow> string" where
  "summary_line h =
     ''- '' @ hood_name h @ '' ('' @ layout_name (hood_layout h) @ '' streets): '' @ hood_character h @
     ''. Good for: '' @ py_join '', '' (hood_good_for h)"

definition get_summary_string :: "neighborhood list \<Rightarrow> string" where
  "get_summary_string hs = py_join [newline] (map summary_line hs)"

subsection \<open>The entry format\<close>

text \<open>The JSON entry \<open>_parse\<close> reads for a neighbourhood: the record's fields
  under their names, the centre as \<open>[lng, lat]\<close> and the box as
  \<open>[min_lng, min_lat, max_lng, max_lat]\<close>.\<close>

definition hood_json :: "neighborhood \<Rightarrow> json" where
  "hood_json h =
     JObj [(''name'', JStr (hood_name h)), (''name_cs'', JStr (hood_name_cs h)),
           (''center'', JArr [JNum (lng (hood_center h)), JNum (lat (hood_center h))]),
           (''bbox'', JArr [JNum (min_lng (hood_bbox h)), JNum (min_lat (hood_bbox h)),
                            JNum (max_lng (hood_bbox h)), JNum (max_lat (hood_bbox h))]),
           (''street_layout'', JStr (layout_name (hood_layout h))), (''character'', JStr (hood_character h)),
           (''good_for'', JArr (map JStr (hood_good_for h)))]"

section \<open>Lemmas\<close>

lemma map_sum_json_str: "map_sum json_str (map JStr ws) = Inr ws"
  by (induction ws) simp_all

lemma field_layout_name [simp]: "field_layout (JStr (layout_name l)) = Inr l"
  by (cases l) (simp_all add: field_layout_def layout_name_def)

lemma parse_hood_hood_json:
  assumes "valid_coord (hood_center h)"
  shows "parse_hood pf (hood_json h) = Inr h"
proof -
  have c: "mk_coordinate (lng (hood_center h)) (lat (hood_center h)) = Inr (hood_center h)"
    using assms by (simp add: mk_coordinate_def)
  show ?thesis
    using c
    by (simp add: parse_hood_def hood_json_def py_dict_get_def parse_coordinate_def field_float_def
        parse_bbox_def map_sum_json_str)
qed

lemma set_py_join: "set (py_join sep ws) \<subseteq> set sep \<union> \<Union> (set ` set ws)"
  by (induction sep ws rule: py_join.induct) auto

lemma newline_summary_line:
  assumes "newline \<notin> set (hood_name h @ hood_character h @ concat (hood_good_for h))"
  shows "newline \<notin> set (summary_line h)"
proof -
  have "newline \<notin> set (py_join '', '' (hood_good_for h))"
    using set_py_join [of "'', ''" "hood_good_for h"] assms by (auto simp: newline_def)
  moreover have "newline \<notin> set (layout_name l)" for l
    by (cases l) (simp_all add: layout_name_def newline_def)
  ultimately show ?thesis using assms by (simp add: summary_line_def newline_def)
qed

section \<open>Properties\<close>

text \<open>C32. Loading inverts the entry format: a data file holding the entries of
  neighbourhoods with valid centres loads back exactly those neighbourhoods,
  in order.\<close>

theorem load_hoods_roundtrip:
  assumes "list_all (\<lambda>h. valid_coord (hood_center h)) hs"
  shows "load_hoods True (Inr (JArr (map hood_json hs))) pf = Inr hs"
proof -
  have "map_sum (parse_hood pf) (map hood_json hs) = Inr hs"
    using assms by (induction hs) (simp_all add: parse_hood_hood_json)
  then show ?thesis by (simp add: load_hoods_def)
qed

lemma load_hoods_roundtrip_witness:
  "list_all (\<lambda>h. valid_coord (hood_center h)) [\<lparr>hood_name = ''Karlin'', hood_name_cs = ''Karlin'', hood_center = \<lparr>lng = 1445 / 100, lat = 5009 / 100\<rparr>,
         hood_bbox = \<lparr>min_lng = 1443 / 100, min_lat = 5008 / 100, max_lng = 1447 / 100, max_lat = 5010 / 100\<rparr>,
         hood_layout = Grid, hood_character = ''industrial riverside'', hood_good_for = [''letter'', ''star'']\<rparr>] \<and>
   load_hoods True (Inr (JArr (map hood_json [\<lparr>hood_name = ''Karlin'', hood_name_cs = ''Karlin'', hood_center = \<lparr>lng = 1445 / 100, lat = 5009 / 100\<rparr>,
         hood_bbox = \<lparr>min_lng = 1443 / 100, min_lat = 5008 / 100, max_lng = 1447 / 100, max_lat = 5010 / 100\<rparr>,
         hood_layout = Grid, hood_character = ''industrial riverside'', hood_good_for = [''letter'', ''star'']\<rparr>]))) (\<lambda>_. None) = Inr [\<lparr>hood_name = ''Karlin'', hood_name_cs = ''Karlin'', hood_center = \<lparr>lng = 1445 / 100, lat = 5009 / 100\<rparr>,
         hood_bbox = \<lparr>min_lng = 1443 / 100, min_lat = 5008 / 100, max_lng = 1447 / 100, max_lat = 5010 / 100\<rparr>,
         hood_layout = Grid, hood_character = ''industrial riverside'', hood_good_for = [''letter'', ''star'']\<rparr>]"
proof -
  have v: "list_all (\<lambda>h. valid_coord (hood_center h)) [\<lparr>hood_name = ''Karlin'', hood_name_cs = ''Karlin'', hood_center = \<lparr>lng = 1445 / 100, lat = 5009 / 100\<rparr>,
         hood_bbox = \<lparr>min_lng = 1443 / 100, min_lat = 5008 / 100, max_lng = 1447 / 100, max_lat = 5010 / 100\<rparr>,
         hood_layout = Grid, hood_character = ''industrial riverside'', hood_good_for = [''letter'', ''star'']\<rparr>]"
    by (simp add: valid_coord_def)
  show ?thesis using load_hoods_roundtrip [OF v, of "\<lambda>_. None"] v by simp
qed

text \<open>\<open>get_summary_string\<close> gives every neighbourhood its own line: when no
  name, character or use contains a newline, splitting the summary at the
  newlines recovers exactly the per-neighbourhood lines, in order.\<close>

theorem get_summary_string_lines:
  assumes "hs \<noteq> []"
    and "list_all (\<lambda>h. newline \<notin> set (hood_name h @ hood_character h @ concat (hood_good_for h))) hs"
  shows "py_split_sep newline (get_summary_string hs) = map summary_line hs"
proof -
  have "list_all (\<lambda>w. newline \<notin> set w) (map summary_line hs)"
    using assms(2) newline_summary_line by (simp add: list_all_iff)
  then show ?thesis
    using split_on_join [of "map summary_line hs" newline] assms(1)
    by (simp add: get_summary_string_def py_split_sep_def)
qed

lemma get_summary_string_lines_witness:
  "[\<lparr>hood_name = ''Karlin'', hood_name_cs = ''Karlin'', hood_center = \<lparr>lng = 1445 / 100, lat = 5009 / 100\<rparr>,
         hood_bbox = \<lparr>min_lng = 1443 / 100, min_lat = 5008 / 100, max_lng = 1447 / 100, max_lat = 5010 / 100\<rparr>,
         hood_layout = Grid, hood_character = ''industrial riverside'', hood_good_for = [''letter'', ''star'']\<rparr>] \<noteq> [] \<and>
   list_all (\<lambda>h. newline \<notin> set (hood_name h @ hood_character h @ concat (hood_good_for h))) [\<lparr>hood_name = ''Karlin'', hood_name_cs = ''Karlin'', hood_center = \<lparr>lng = 1445 / 100, lat = 5009 / 100\<rparr>,
         hood_bbox = \<lparr>min_lng = 1443 / 100, min_lat = 5008 / 100, max_lng = 1447 / 100, max_lat = 5010 / 100\<rparr>,
         hood_layout = Grid, hood_character = ''industrial riverside'', hood_good_for = [''letter'', ''star'']\<rparr>] \<and>
   py_split_sep newline (get_summary_string [\<lparr>hood_name = ''Karlin'', hood_name_cs = ''Karlin'', hood_center = \<lparr>lng = 1445 / 100, lat = 5009 / 100\<rparr>,
         hood_bbox = \<lparr>min_lng = 1443 / 100, min_lat = 5008 / 100, max_lng = 1447 / 100, max_lat = 5010 / 100\<rparr>,
         hood_layout = Grid, hood_character = ''industrial riverside'', hood_good_for = [''letter'', ''star'']\<rparr>]) = map summary_line [\<lparr>hood_name = ''Karlin'', hood_name_cs = ''Karlin'', hood_center = \<lparr>lng = 1445 / 100, lat = 5009 / 100\<rparr>,
         hood_bbox = \<lparr>min_lng = 1443 / 100, min_lat = 5008 / 100, max_lng = 1447 / 100, max_lat = 5010 / 100\<rparr>,
         hood_layout = Grid, hood_character = ''industrial riverside'', hood_good_for = [''letter'', ''star'']\<rparr>]"
proof -
  have n: "list_all (\<lambda>h. newline \<notin> set (hood_name h @ hood_character h @ concat (hood_good_for h))) [\<lparr>hood_name = ''Karlin'', hood_name_cs = ''Karlin'', hood_center = \<lparr>lng = 1445 / 100, lat = 5009 / 100\<rparr>,
         hood_bbox = \<lparr>min_lng = 1443 / 100, min_lat = 5008 / 100, max_lng = 1447 / 100, max_lat = 5010 / 100\<rparr>,
         hood_layout = Grid, hood_character = ''industrial riverside'', hood_good_for = [''letter'', ''star'']\<rparr>]"
    by (simp add: newline_def)
  show ?thesis using get_summary_string_lines [OF _ n] n by simp
qed

end
