(* ===== verification/Api.thy ===== *)
theory Api
  imports Dataset
begin

text \<open>
  The web layer: the request schemas \<open>GenerateRequest\<close> and \<open>DescribeRequest\<close>
  of \<^verbatim>\<open>src/backend/models/schemas.py\<close> read from a JSON body, the three
  routers of \<^verbatim>\<open>src/backend/routers\<close> (\<open>health_check\<close>, \<open>generate_shapes\<close>,
  \<open>describe_shape\<close>) and the prefixes under which \<^verbatim>\<open>src/backend/main.py\<close>
  mounts them. A reply is a status code and a body. A body that pydantic
  rejects is answered 422 by the framework; a handler's \<open>ValueError\<close> (pydantic's
  \<open>ValidationError\<close> is one) becomes 400 and any other exception 500.
\<close>

section \<open>Definitions\<close>

subsection \<open>Requests\<close>

record generate_request =
  greq_neighborhood :: string
  greq_count :: int

text \<open>\<open>GenerateRequest\<close>: \<open>neighborhood\<close> required, \<open>count\<close> defaulting to 3 with
  \<open>ge=1, le=6\<close>.\<close>

definition parse_generate_request :: "(string \<Rightarrow> real option) \<Rightarrow> json \<Rightarrow> py_error + generate_request" where
  "parse_generate_request pf body =
     (case body of
        JObj kvs \<Rightarrow>
          (case (case py_dict_get kvs ''neighborhood'' of Some v \<Rightarrow> json_str v | None \<Rightarrow> Inl Validation_error,
                 case py_dict_get kvs ''count'' of Some v \<Rightarrow> field_int pf v | None \<Rightarrow> Inr 3) of
             (Inr n, Inr c) \<Rightarrow>
               if 1 \<le> c \<and> c \<le> 6 then Inr \<lparr>greq_neighborhood = n, greq_count = c\<rparr> else Inl Validation_error
           | _ \<Rightarrow> Inl Validation_error)
      | _ \<Rightarrow> Inl Validation_error)"

record describe_request =
  dreq_description :: string
  dreq_max_distance_km :: real
  dreq_neighborhood :: "string option"

text \<open>\<open>DescribeRequest\<close>: \<open>description\<close> required, \<open>max_distance_km\<close> defaulting
  to 10 with \<open>ge=1.0, le=30.0\<close>, \<open>neighborhood\<close> a string or \<open>null\<close>, default
  \<open>None\<close>.\<close>

definition parse_describe_request :: "(string \<Rightarrow> real option) \<Rightarrow> json \<Rightarrow> py_error + describe_request" where
  "parse_describe_request pf body =
     (case body of
        JObj kvs \<Rightarrow>
          (case (case py_dict_get kvs ''description'' of Some v \<Rightarrow> json_str v | None \<Rightarrow> Inl Validation_error,
                 case py_dict_get kvs ''max_distance_km'' of Some v \<Rightarrow> field_float pf v | None \<Rightarrow> Inr 10,
                 case py_dict_get kvs ''neighborhood'' of
                   Some JNull \<Rightarrow> Inr None
                 | Some v \<Rightarrow> (case json_str v of Inl e \<Rightarrow> Inl e | Inr s \<Rightarrow> Inr (Some s))
                 | None \<Rightarrow> Inr None) of
             (Inr d, Inr km, Inr n) \<Rightarrow>
               if 1 \<le> km \<and> km \<le> 30 then Inr \<lparr>dreq_description = d, dreq_max_distance_km = km, dreq_neighborhood = n\<rparr>
               else Inl Validation_error
           | _ \<Rightarrow> Inl Validation_error)
      | _ \<Rightarrow> Inl Validation_error)"

subsection \<open>Replies\<close>

record health_response =
  health_status :: string
  health_version :: string

datatype api_body =
    Health_body health_response
  | Generate_body generate_response
  | Describe_body describe_response
  | Error_detail py_error
  | Not_found
  | Plain_text string

type_synonym api_reply = "nat \<times> api_body"

text \<open>The routers' \<open>except ValueError\<close> / \<open>except Exception\<close>: \<open>ValueError\<close> and
  its subclass \<open>ValidationError\<close> are 400, every other exception 500.\<close>

definition http_status :: "py_error \<Rightarrow> nat" where
  "http_status e = (case e of Value_error \<Rightarrow> 400 | Validation_error \<Rightarrow> 400 | _ \<Rightarrow> 500)"

definition http_reply :: "('a \<Rightarrow> api_body) \<Rightarrow> py_error + 'a \<Rightarrow> api_reply" where
  "http_reply f r = (case r of Inl e \<Rightarrow> (http_status e, Error_detail e) | Inr x \<Rightarrow> (200, f x))"

subsection \<open>Routers\<close>

definition health_check :: health_response where
  "health_check = \<lparr>health_status = ''ok'', health_version = ''2.0.0''\<rparr>"

definition generate_shapes :: "geo_kernel \<Rightarrow> services \<Rightarrow> py_error + string \<Rightarrow> generate_request \<Rightarrow> api_reply" where
  "generate_shapes g sv ideas_reply req =
     http_reply Generate_body
       (generate_for_neighborhood g sv ideas_reply (greq_neighborhood req) (nat (greq_count req)))"

definition describe_shape :: "geo_kernel \<Rightarrow> services \<Rightarrow> describe_request \<Rightarrow> api_reply" where
  "describe_shape g sv req =
     http_reply Describe_body
       (generate_from_description g sv (dreq_description req) (dreq_max_distance_km req) (dreq_neighborhood req))"

subsection \<open>The application\<close>

text \<open>\<open>app.include_router\<close> with the prefixes \<open>/health\<close>, \<open>/generate\<close> and
  \<open>/describe\<close>, each router serving \<open>/\<close>: a request is a method, a path and (for
  \<open>POST\<close>) a JSON body; a body pydantic rejects is 422 before the handler runs,
  a known path with another method (\<open>OPTIONS\<close> included) 405, any other path
  404.\<close>

datatype api_request = Api_get string | Api_post string json | Api_options string

definition app :: "geo_kernel \<Rightarrow> services \<Rightarrow> py_error + string \<Rightarrow> api_request \<Rightarrow> api_reply" where
  "app g sv ideas_reply rq =
     (case rq of
        Api_get p \<Rightarrow>
          if p = ''/health/'' then (200, Health_body health_check)
          else if p = ''/generate/'' \<or> p = ''/describe/'' then (405, Not_found)
          else (404, Not_found)
      | Api_post p body \<Rightarrow>
          if p = ''/generate/'' then
            (case parse_generate_request (sv_parse_float sv) body of
               Inl e \<Rightarrow> (422, Error_detail e)
             | Inr req \<Rightarrow> generate_shapes g sv ideas_reply req)
          else if p = ''/describe/'' then
            (case parse_describe_request (sv_parse_float sv) body of
               Inl e \<Rightarrow> (422, Error_detail e)
             | Inr req \<Rightarrow> describe_shape g sv req)
          else if p = ''/health/'' then (405, Not_found)
          else (404, Not_found)
      | Api_options p \<Rightarrow>
          if p = ''/health/'' \<or> p = ''/generate/'' \<or> p = ''/describe/'' then (405, Not_found)
          else (404, Not_found))"

section \<open>Lemmas\<close>

text \<open>Which exceptions the two handlers can raise.\<close>

lemma collect_ideas_Inl:
  assumes "\<And>x e. f x = Inl e \<Longrightarrow> P e"
  shows "collect_ideas f xs = Inl e \<Longrightarrow> P e"
  by (induction xs) (auto split: sum.splits option.splits intro: assms)

lemma collect_ideas_length:
  assumes "\<And>x. f x \<noteq> Inr None"
  shows "collect_ideas f xs = Inr ys \<Longrightarrow> length ys = length xs"
proof (induction xs arbitrary: ys)
  case (Cons x xs)
  then show ?case using assms [of x] by (auto split: sum.splits option.splits)
qed simp

lemma template_idea_Inl: "template_idea g hood center name = Inl e \<Longrightarrow> e = Validation_error"
  by (auto simp: template_idea_def Let_def sbind_eq_Inl
           dest: check_coords_Inl map_to_streets_e_Inl mk_shape_idea_Inl)

lemma template_idea_typed: "template_idea g hood center name = Inr i \<Longrightarrow> 0 < estimated_distance_km i"
  by (auto simp: template_idea_def Let_def sbind_eq_Inr dest: mk_shape_idea_Inr)

lemma generate_with_templates_Inl: "generate_with_templates g hood cnt = Inl e \<Longrightarrow> e = Validation_error"
  unfolding generate_with_templates_def sbind_eq_Inl
  by (auto dest: check_coord_Inl elim!: collect_ideas_Inl [rotated] split: sum.splits dest: template_idea_Inl)

lemma http_reply_status:
  "fst (http_reply f r) = (case r of Inr _ \<Rightarrow> 200 | Inl e \<Rightarrow> http_status e)"
  by (simp add: http_reply_def split: sum.splits)

lemma collect_ideas_all:
  assumes "\<And>x i. f x = Inr (Some i) \<Longrightarrow> P i"
  shows "collect_ideas f xs = Inr ys \<Longrightarrow> list_all P ys \<and> length ys \<le> length xs"
proof (induction xs arbitrary: ys)
  case (Cons x xs)
  then show ?case using assms [of x] by (fastforce split: sum.splits option.splits)
qed simp

lemma generate_with_templates_ideas:
  assumes "generate_with_templates g hood cnt = Inr ideas"
  shows "list_all (\<lambda>i. 0 < estimated_distance_km i) ideas \<and> length ideas = min cnt 6"
proof -
  obtain center where c: "collect_ideas (\<lambda>name. case template_idea g hood center name of Inl e \<Rightarrow> Inl e | Inr i \<Rightarrow> Inr (Some i))
      (take cnt template_names) = Inr ideas"
    using assms by (auto simp: generate_with_templates_def sbind_eq_Inr)
  have "length ideas = length (take cnt template_names)"
    using collect_ideas_length [OF _ c] by (auto split: sum.splits)
  moreover have "(case template_idea g hood center x of Inl e \<Rightarrow> Inl e | Inr i \<Rightarrow> Inr (Some i)) = Inr (Some i) \<Longrightarrow>
      0 < estimated_distance_km i" for x i
    by (auto split: sum.splits dest: template_idea_typed)
  then have "list_all (\<lambda>i. 0 < estimated_distance_km i) ideas"
    using collect_ideas_all [OF _ c, of "\<lambda>i. 0 < estimated_distance_km i"] by blast
  ultimately show ?thesis by (simp add: template_names_def)
qed

lemma generate_for_neighborhood_Inl:
  "generate_for_neighborhood g sv ideas_reply neighborhood cnt = Inl e \<Longrightarrow> e = Value_error \<or> e = Validation_error"
  by (auto simp: generate_for_neighborhood_def Let_def split: option.splits sum.splits if_splits
           dest: generate_with_templates_Inl)

lemma llm_idea_typed:
  assumes "llm_idea g pf hood raw = Inr (Some i)"
  shows "0 < estimated_distance_km i"
proof -
  obtain kvs where raw: "raw = JObj kvs" using assms by (cases raw) (simp_all add: llm_idea_def)
  obtain points where p: "coords_from_raw pf (py_get kvs ''control_points'' (JArr [])) = Inr points"
      "\<not> length points < 3"
    using assms raw by (cases "coords_from_raw pf (py_get kvs ''control_points'' (JArr []))")
                       (simp_all add: llm_idea_def split: if_splits)
  obtain mapped where "map_to_streets_e g points (hood_bbox hood) = Inr mapped"
    using assms raw p by (cases "map_to_streets_e g points (hood_bbox hood)") (simp_all add: llm_idea_def)
  then show ?thesis using assms raw p
    by (cases "json_str (py_get kvs ''name'' (JStr ''Unnamed''))";
        cases "json_str (py_get kvs ''description'' (JStr []))";
        cases "json_str (py_get kvs ''emoji'' (JStr []))";
        cases "json_str (py_get kvs ''difficulty'' (JStr ''moderate''))")
       (auto simp: llm_idea_def split: sum.splits dest: mk_shape_idea_Inr)
qed

lemma field_int_JNum: "field_int pf (JNum c) = Inr k \<Longrightarrow> c = of_int k"
  by (auto simp: field_int_def field_float_def split: if_splits)

text \<open>When Mode B succeeds: in a well-formed box, with a router that answers
  every request with valid points, a positive distance and whole minutes, and a
  validator that answers, the seeding, the loop and both response models all
  succeed.\<close>

lemma describe_in_hood_succeeds:
  assumes "bbox_ok (hood_bbox hood)"
    and r: "\<forall>m. \<exists>r. sv_route sv m = Inr r \<and> polyline_valid (route_coords r) \<and> 0 < route_distance_km r \<and>
                    route_duration_minutes r = of_int \<lfloor>route_duration_minutes r\<rfloor>"
    and j: "\<forall>m a. \<exists>v. sv_judge sv m a = Inr v"
  shows "\<exists>resp. describe_in_hood g sv description max_distance_km hood = Inr resp"
proof -
  have nr: "never_raise (sv_route sv) (sv_judge sv)"
    using r j unfolding never_raise_def by blast
  obtain st where st: "generate_route_e g (hood_bbox hood) (sv_route sv) (sv_judge sv)
      (generate_control_points (sv_has_lm sv) (sv_shape_reply sv) (sv_json_loads sv) (sv_parse_float sv) description (hood_bbox hood))
      = Inr st"
    using generate_route_e_succeeds [OF assms(1) nr] by blast
  have "sv_route sv (mapped st) = Inr (routed st)" using generate_route_e_Inr [OF st] by blast
  then have km: "0 < route_distance_km (routed st)"
    and dur: "route_duration_minutes (routed st) = of_int \<lfloor>route_duration_minutes (routed st)\<rfloor>"
    using r by (metis sum.inject(2))+
  show ?thesis
    using st km dur difficulty_for_distance_cases [of "route_distance_km (routed st)"]
    by (simp add: describe_in_hood_def Let_def generate_control_points_e_ok [OF assms(1)] mk_shape_idea_def
        mk_describe_response_def)
qed

section \<open>Properties\<close>

text \<open>C6. The generate endpoint never answers 500: a body pydantic rejects is
  422, an unknown neighbourhood or an idea whose estimate is 0 km raises a
  \<open>ValueError\<close> (400), and the model's failures are caught and replaced by
  the templates.\<close>

theorem app_generate_no_server_error:
  "fst (app g sv ideas_reply (Api_post ''/generate/'' body)) \<in> {200, 400, 422}"
  by (auto simp: app_def generate_shapes_def http_reply_status http_status_def
           split: sum.splits dest!: generate_for_neighborhood_Inl)

text \<open>C9. The describe handler adds no server error of its own: with a
  non-empty dataset, if neither the router nor the validator raises an
  exception the router maps to 500, the answer is 200, 400 or 422. A 500 from
  \<open>/describe/\<close> is therefore always an exception of \<open>_route_waypoints\<close> or the
  validator passed on unchanged, such as the HTTP error of a direct Mapbox
  request (\<open>Routing.route_waypoints_chunk_error\<close>).\<close>

theorem app_describe_no_server_error:
  assumes "sv_hoods sv \<noteq> []"
    and "\<forall>m e. sv_route sv m = Inl e \<longrightarrow> http_status e \<noteq> 500"
    and "\<forall>m a e. sv_judge sv m a = Inl e \<longrightarrow> http_status e \<noteq> 500"
  shows "fst (app g sv ideas_reply (Api_post ''/describe/'' body)) \<in> {200, 400, 422}"
proof -
  have "http_status e = 400"
    if "generate_from_description g sv description km n = Inl e" for description km n e
  proof -
    have sel: "select_hood sv description n = Inl e' \<Longrightarrow> e' = Value_error" for e'
      using find_neighborhood_some [OF assms(1), of "sv_has_lm sv" "sv_area_reply sv" "sv_strip_diacritics sv"
              "sv_tie sv" "sv_set_order sv" description]
      by (auto simp: select_hood_def split: option.splits if_splits)
    have "e = Value_error \<or> raised_by (sv_route sv) (sv_judge sv) e"
      using that by (auto simp: generate_from_description_def sbind_eq_Inl dest: sel describe_in_hood_Inl)
    moreover have "http_status e \<in> {400, 500}" by (simp add: http_status_def split: py_error.splits)
    ultimately show ?thesis
      using assms by (auto simp: raised_by_def http_status_def)
  qed
  then show ?thesis
    by (auto simp: app_def describe_shape_def http_reply_status split: sum.splits)
qed

lemma app_describe_no_server_error_witness:
  "sv_hoods \<lparr>sv_hoods = [\<lparr>hood_name = ''Karlin'', hood_name_cs = ''Karlin'', hood_center = \<lparr>lng = 1445 / 100, lat = 5009 / 100\<rparr>,
         hood_bbox = \<lparr>min_lng = 1443 / 100, min_lat = 5008 / 100, max_lng = 1447 / 100, max_lat = 5010 / 100\<rparr>,
         hood_layout = Grid, hood_character = [], hood_good_for = [''letter'']\<rparr>],
      sv_strip_diacritics = id, sv_tie = \<lambda>_. 0, sv_set_order = \<lambda>_. [], sv_has_lm = False,
      sv_area_reply = Inl Http_error, sv_shape_reply = Inl Http_error, sv_json_loads = \<lambda>_. None, sv_parse_float = \<lambda>_. None,
      sv_route = \<lambda>m. Inr \<lparr>route_coords = [\<lparr>lng = 1445 / 100, lat = 5009 / 100\<rparr>], route_distance_km = 3, route_duration_minutes = 40\<rparr>,
      sv_judge = \<lambda>_ _. Inr \<lparr>score = 100, passed = True, method_name = Algorithmic, reasoning = Empty_point_set\<rparr>\<rparr> \<noteq> [] \<and>
   fst (app taxicab_kernel \<lparr>sv_hoods = [\<lparr>hood_name = ''Karlin'', hood_name_cs = ''Karlin'', hood_center = \<lparr>lng = 1445 / 100, lat = 5009 / 100\<rparr>,
         hood_bbox = \<lparr>min_lng = 1443 / 100, min_lat = 5008 / 100, max_lng = 1447 / 100, max_lat = 5010 / 100\<rparr>,
         hood_layout = Grid, hood_character = [], hood_good_for = [''letter'']\<rparr>],
      sv_strip_diacritics = id, sv_tie = \<lambda>_. 0, sv_set_order = \<lambda>_. [], sv_has_lm = False,
      sv_area_reply = Inl Http_error, sv_shape_reply = Inl Http_error, sv_json_loads = \<lambda>_. None, sv_parse_float = \<lambda>_. None,
      sv_route = \<lambda>m. Inr \<lparr>route_coords = [\<lparr>lng = 1445 / 100, lat = 5009 / 100\<rparr>], route_distance_km = 3, route_duration_minutes = 40\<rparr>,
      sv_judge = \<lambda>_ _. Inr \<lparr>score = 100, passed = True, method_name = Algorithmic, reasoning = Empty_point_set\<rparr>\<rparr> (Inl Http_error) (Api_post ''/describe/'' (JObj []))) \<in> {200, 400, 422}"
proof -
  have h: "sv_hoods \<lparr>sv_hoods = [\<lparr>hood_name = ''Karlin'', hood_name_cs = ''Karlin'', hood_center = \<lparr>lng = 1445 / 100, lat = 5009 / 100\<rparr>,
         hood_bbox = \<lparr>min_lng = 1443 / 100, min_lat = 5008 / 100, max_lng = 1447 / 100, max_lat = 5010 / 100\<rparr>,
         hood_layout = Grid, hood_character = [], hood_good_for = [''letter'']\<rparr>],
      sv_strip_diacritics = id, sv_tie = \<lambda>_. 0, sv_set_order = \<lambda>_. [], sv_has_lm = False,
      sv_area_reply = Inl Http_error, sv_shape_reply = Inl Http_error, sv_json_loads = \<lambda>_. None, sv_parse_float = \<lambda>_. None,
      sv_route = \<lambda>m. Inr \<lparr>route_coords = [\<lparr>lng = 1445 / 100, lat = 5009 / 100\<rparr>], route_distance_km = 3, route_duration_minutes = 40\<rparr>,
      sv_judge = \<lambda>_ _. Inr \<lparr>score = 100, passed = True, method_name = Algorithmic, reasoning = Empty_point_set\<rparr>\<rparr> \<noteq> []" by simp
  have r: "\<forall>m e. sv_route \<lparr>sv_hoods = [\<lparr>hood_name = ''Karlin'', hood_name_cs = ''Karlin'', hood_center = \<lparr>lng = 1445 / 100, lat = 5009 / 100\<rparr>,
         hood_bbox = \<lparr>min_lng = 1443 / 100, min_lat = 5008 / 100, max_lng = 1447 / 100, max_lat = 5010 / 100\<rparr>,
         hood_layout = Grid, hood_character = [], hood_good_for = [''letter'']\<rparr>],
      sv_strip_diacritics = id, sv_tie = \<lambda>_. 0, sv_set_order = \<lambda>_. [], sv_has_lm = False,
      sv_area_reply = Inl Http_error, sv_shape_reply = Inl Http_error, sv_json_loads = \<lambda>_. None, sv_parse_float = \<lambda>_. None,
      sv_route = \<lambda>m. Inr \<lparr>route_coords = [\<lparr>lng = 1445 / 100, lat = 5009 / 100\<rparr>], route_distance_km = 3, route_duration_minutes = 40\<rparr>,
      sv_judge = \<lambda>_ _. Inr \<lparr>score = 100, passed = True, method_name = Algorithmic, reasoning = Empty_point_set\<rparr>\<rparr> m = Inl e \<longrightarrow> http_status e \<noteq> 500" by simp
  have j: "\<forall>m a e. sv_judge \<lparr>sv_hoods = [\<lparr>hood_name = ''Karlin'', hood_name_cs = ''Karlin'', hood_center = \<lparr>lng = 1445 / 100, lat = 5009 / 100\<rparr>,
         hood_bbox = \<lparr>min_lng = 1443 / 100, min_lat = 5008 / 100, max_lng = 1447 / 100, max_lat = 5010 / 100\<rparr>,
         hood_layout = Grid, hood_character = [], hood_good_for = [''letter'']\<rparr>],
      sv_strip_diacritics = id, sv_tie = \<lambda>_. 0, sv_set_order = \<lambda>_. [], sv_has_lm = False,
      sv_area_reply = Inl Http_error, sv_shape_reply = Inl Http_error, sv_json_loads = \<lambda>_. None, sv_parse_float = \<lambda>_. None,
      sv_route = \<lambda>m. Inr \<lparr>route_coords = [\<lparr>lng = 1445 / 100, lat = 5009 / 100\<rparr>], route_distance_km = 3, route_duration_minutes = 40\<rparr>,
      sv_judge = \<lambda>_ _. Inr \<lparr>score = 100, passed = True, method_name = Algorithmic, reasoning = Empty_point_set\<rparr>\<rparr> m a = Inl e \<longrightarrow> http_status e \<noteq> 500" by simp
  show ?thesis using app_describe_no_server_error [OF h r j, of taxicab_kernel "Inl Http_error" "JObj []"] h r j by blast
qed

text \<open>C8. A \<open>count\<close> outside \<open>[1, 6]\<close> is rejected with 422 before the handler
  runs, as \<^verbatim>\<open>test_generate_count_bounds\<close> expects.\<close>

theorem app_generate_count_bounds:
  assumes "py_dict_get kvs ''count'' = Some (JNum c)" "c < 1 \<or> 6 < c"
  shows "app g sv ideas_reply (Api_post ''/generate/'' (JObj kvs)) = (422, Error_detail Validation_error)"
  using assms field_int_JNum [of "sv_parse_float sv" c]
  by (auto simp: app_def parse_generate_request_def split: option.splits sum.splits prod.splits)

lemma app_generate_count_bounds_witness:
  "py_dict_get [(''neighborhood'', JStr ''Vinohrady''), (''count'', JNum 10)] ''count'' = Some (JNum 10) \<and> (10 < (1::real) \<or> 6 < (10::real)) \<and>
   app taxicab_kernel \<lparr>sv_hoods = [\<lparr>hood_name = ''Karlin'', hood_name_cs = ''Karlin'', hood_center = \<lparr>lng = 1445 / 100, lat = 5009 / 100\<rparr>,
         hood_bbox = \<lparr>min_lng = 1443 / 100, min_lat = 5008 / 100, max_lng = 1447 / 100, max_lat = 5010 / 100\<rparr>,
         hood_layout = Grid, hood_character = [], hood_good_for = [''letter'']\<rparr>],
      sv_strip_diacritics = id, sv_tie = \<lambda>_. 0, sv_set_order = \<lambda>_. [], sv_has_lm = False,
      sv_area_reply = Inl Http_error, sv_shape_reply = Inl Http_error, sv_json_loads = \<lambda>_. None, sv_parse_float = \<lambda>_. None,
      sv_route = \<lambda>m. Inr \<lparr>route_coords = m, route_distance_km = 3, route_duration_minutes = 40\<rparr>,
      sv_judge = \<lambda>_ _. Inr \<lparr>score = 100, passed = True, method_name = Algorithmic, reasoning = Empty_point_set\<rparr>\<rparr> (Inl Http_error) (Api_post ''/generate/'' (JObj [(''neighborhood'', JStr ''Vinohrady''), (''count'', JNum 10)]))
     = (422, Error_detail Validation_error)"
  using app_generate_count_bounds [of "[(''neighborhood'', JStr ''Vinohrady''), (''count'', JNum 10)]" 10 taxicab_kernel "\<lparr>sv_hoods = [\<lparr>hood_name = ''Karlin'', hood_name_cs = ''Karlin'', hood_center = \<lparr>lng = 1445 / 100, lat = 5009 / 100\<rparr>,
         hood_bbox = \<lparr>min_lng = 1443 / 100, min_lat = 5008 / 100, max_lng = 1447 / 100, max_lat = 5010 / 100\<rparr>,
         hood_layout = Grid, hood_character = [], hood_good_for = [''letter'']\<rparr>],
      sv_strip_diacritics = id, sv_tie = \<lambda>_. 0, sv_set_order = \<lambda>_. [], sv_has_lm = False,
      sv_area_reply = Inl Http_error, sv_shape_reply = Inl Http_error, sv_json_loads = \<lambda>_. None, sv_parse_float = \<lambda>_. None,
      sv_route = \<lambda>m. Inr \<lparr>route_coords = m, route_distance_km = 3, route_duration_minutes = 40\<rparr>,
      sv_judge = \<lambda>_ _. Inr \<lparr>score = 100, passed = True, method_name = Algorithmic, reasoning = Empty_point_set\<rparr>\<rparr>" "Inl Http_error"]
  by (simp add: py_dict_get_def)

text \<open>A well-formed request naming a neighbourhood that is not in the
  dataset is answered 400, as \<^verbatim>\<open>test_generate_unknown_neighborhood\<close>
  expects.\<close>

theorem app_generate_unknown:
  assumes "parse_generate_request (sv_parse_float sv) body = Inr req"
    "get_by_name (sv_strip_diacritics sv) (sv_hoods sv) (greq_neighborhood req) = None"
  shows "app g sv ideas_reply (Api_post ''/generate/'' body) = (400, Error_detail Value_error)"
  using assms
  by (simp add: app_def generate_shapes_def http_reply_def generate_for_neighborhood_def http_status_def)

lemma app_generate_unknown_witness:
  "parse_generate_request (sv_parse_float \<lparr>sv_hoods = [\<lparr>hood_name = ''Karlin'', hood_name_cs = ''Karlin'', hood_center = \<lparr>lng = 1445 / 100, lat = 5009 / 100\<rparr>,
         hood_bbox = \<lparr>min_lng = 1443 / 100, min_lat = 5008 / 100, max_lng = 1447 / 100, max_lat = 5010 / 100\<rparr>,
         hood_layout = Grid, hood_character = [], hood_good_for = [''letter'']\<rparr>],
      sv_strip_diacritics = id, sv_tie = \<lambda>_. 0, sv_set_order = \<lambda>_. [], sv_has_lm = False,
      sv_area_reply = Inl Http_error, sv_shape_reply = Inl Http_error, sv_json_loads = \<lambda>_. None, sv_parse_float = \<lambda>_. None,
      sv_route = \<lambda>m. Inr \<lparr>route_coords = m, route_distance_km = 3, route_duration_minutes = 40\<rparr>,
      sv_judge = \<lambda>_ _. Inr \<lparr>score = 100, passed = True, method_name = Algorithmic, reasoning = Empty_point_set\<rparr>\<rparr>) (JObj [(''neighborhood'', JStr ''NonExistent'')]) =
     Inr \<lparr>greq_neighborhood = ''NonExistent'', greq_count = 3\<rparr> \<and>
   get_by_name (sv_strip_diacritics \<lparr>sv_hoods = [\<lparr>hood_name = ''Karlin'', hood_name_cs = ''Karlin'', hood_center = \<lparr>lng = 1445 / 100, lat = 5009 / 100\<rparr>,
         hood_bbox = \<lparr>min_lng = 1443 / 100, min_lat = 5008 / 100, max_lng = 1447 / 100, max_lat = 5010 / 100\<rparr>,
         hood_layout = Grid, hood_character = [], hood_good_for = [''letter'']\<rparr>],
      sv_strip_diacritics = id, sv_tie = \<lambda>_. 0, sv_set_order = \<lambda>_. [], sv_has_lm = False,
      sv_area_reply = Inl Http_error, sv_shape_reply = Inl Http_error, sv_json_loads = \<lambda>_. None, sv_parse_float = \<lambda>_. None,
      sv_route = \<lambda>m. Inr \<lparr>route_coords = m, route_distance_km = 3, route_duration_minutes = 40\<rparr>,
      sv_judge = \<lambda>_ _. Inr \<lparr>score = 100, passed = True, method_name = Algorithmic, reasoning = Empty_point_set\<rparr>\<rparr>) (sv_hoods \<lparr>sv_hoods = [\<lparr>hood_name = ''Karlin'', hood_name_cs = ''Karlin'', hood_center = \<lparr>lng = 1445 / 100, lat = 5009 / 100\<rparr>,
         hood_bbox = \<lparr>min_lng = 1443 / 100, min_lat = 5008 / 100, max_lng = 1447 / 100, max_lat = 5010 / 100\<rparr>,
         hood_layout = Grid, hood_character = [], hood_good_for = [''letter'']\<rparr>],
      sv_strip_diacritics = id, sv_tie = \<lambda>_. 0, sv_set_order = \<lambda>_. [], sv_has_lm = False,
      sv_area_reply = Inl Http_error, sv_shape_reply = Inl Http_error, sv_json_loads = \<lambda>_. None, sv_parse_float = \<lambda>_. None,
      sv_route = \<lambda>m. Inr \<lparr>route_coords = m, route_distance_km = 3, route_duration_minutes = 40\<rparr>,
      sv_judge = \<lambda>_ _. Inr \<lparr>score = 100, passed = True, method_name = Algorithmic, reasoning = Empty_point_set\<rparr>\<rparr>) ''NonExistent'' = None \<and>
   app taxicab_kernel \<lparr>sv_hoods = [\<lparr>hood_name = ''Karlin'', hood_name_cs = ''Karlin'', hood_center = \<lparr>lng = 1445 / 100, lat = 5009 / 100\<rparr>,
         hood_bbox = \<lparr>min_lng = 1443 / 100, min_lat = 5008 / 100, max_lng = 1447 / 100, max_lat = 5010 / 100\<rparr>,
         hood_layout = Grid, hood_character = [], hood_good_for = [''letter'']\<rparr>],
      sv_strip_diacritics = id, sv_tie = \<lambda>_. 0, sv_set_order = \<lambda>_. [], sv_has_lm = False,
      sv_area_reply = Inl Http_error, sv_shape_reply = Inl Http_error, sv_json_loads = \<lambda>_. None, sv_parse_float = \<lambda>_. None,
      sv_route = \<lambda>m. Inr \<lparr>route_coords = m, route_distance_km = 3, route_duration_minutes = 40\<rparr>,
      sv_judge = \<lambda>_ _. Inr \<lparr>score = 100, passed = True, method_name = Algorithmic, reasoning = Empty_point_set\<rparr>\<rparr> (Inl Http_error) (Api_post ''/generate/'' (JObj [(''neighborhood'', JStr ''NonExistent'')]))
     = (400, Error_detail Value_error)"
proof -
  have p: "parse_generate_request (sv_parse_float \<lparr>sv_hoods = [\<lparr>hood_name = ''Karlin'', hood_name_cs = ''Karlin'', hood_center = \<lparr>lng = 1445 / 100, lat = 5009 / 100\<rparr>,
         hood_bbox = \<lparr>min_lng = 1443 / 100, min_lat = 5008 / 100, max_lng = 1447 / 100, max_lat = 5010 / 100\<rparr>,
         hood_layout = Grid, hood_character = [], hood_good_for = [''letter'']\<rparr>],
      sv_strip_diacritics = id, sv_tie = \<lambda>_. 0, sv_set_order = \<lambda>_. [], sv_has_lm = False,
      sv_area_reply = Inl Http_error, sv_shape_reply = Inl Http_error, sv_json_loads = \<lambda>_. None, sv_parse_float = \<lambda>_. None,
      sv_route = \<lambda>m. Inr \<lparr>route_coords = m, route_distance_km = 3, route_duration_minutes = 40\<rparr>,
      sv_judge = \<lambda>_ _. Inr \<lparr>score = 100, passed = True, method_name = Algorithmic, reasoning = Empty_point_set\<rparr>\<rparr>) (JObj [(''neighborhood'', JStr ''NonExistent'')]) =
     Inr \<lparr>greq_neighborhood = ''NonExistent'', greq_count = 3\<rparr>"
    by (simp add: parse_generate_request_def py_dict_get_def)
  have n: "get_by_name (sv_strip_diacritics \<lparr>sv_hoods = [\<lparr>hood_name = ''Karlin'', hood_name_cs = ''Karlin'', hood_center = \<lparr>lng = 1445 / 100, lat = 5009 / 100\<rparr>,
         hood_bbox = \<lparr>min_lng = 1443 / 100, min_lat = 5008 / 100, max_lng = 1447 / 100, max_lat = 5010 / 100\<rparr>,
         hood_layout = Grid, hood_character = [], hood_good_for = [''letter'']\<rparr>],
      sv_strip_diacritics = id, sv_tie = \<lambda>_. 0, sv_set_order = \<lambda>_. [], sv_has_lm = False,
      sv_area_reply = Inl Http_error, sv_shape_reply = Inl Http_error, sv_json_loads = \<lambda>_. None, sv_parse_float = \<lambda>_. None,
      sv_route = \<lambda>m. Inr \<lparr>route_coords = m, route_distance_km = 3, route_duration_minutes = 40\<rparr>,
      sv_judge = \<lambda>_ _. Inr \<lparr>score = 100, passed = True, method_name = Algorithmic, reasoning = Empty_point_set\<rparr>\<rparr>) (sv_hoods \<lparr>sv_hoods = [\<lparr>hood_name = ''Karlin'', hood_name_cs = ''Karlin'', hood_center = \<lparr>lng = 1445 / 100, lat = 5009 / 100\<rparr>,
         hood_bbox = \<lparr>min_lng = 1443 / 100, min_lat = 5008 / 100, max_lng = 1447 / 100, max_lat = 5010 / 100\<rparr>,
         hood_layout = Grid, hood_character = [], hood_good_for = [''letter'']\<rparr>],
      sv_strip_diacritics = id, sv_tie = \<lambda>_. 0, sv_set_order = \<lambda>_. [], sv_has_lm = False,
      sv_area_reply = Inl Http_error, sv_shape_reply = Inl Http_error, sv_json_loads = \<lambda>_. None, sv_parse_float = \<lambda>_. None,
      sv_route = \<lambda>m. Inr \<lparr>route_coords = m, route_distance_km = 3, route_duration_minutes = 40\<rparr>,
      sv_judge = \<lambda>_ _. Inr \<lparr>score = 100, passed = True, method_name = Algorithmic, reasoning = Empty_point_set\<rparr>\<rparr>) ''NonExistent'' = None"
    by (simp add: get_by_name_def Let_def py_str_simps)
  show ?thesis using app_generate_unknown [OF p, of taxicab_kernel "Inl Http_error"] p n by simp
qed

text \<open>C7. What \<open>generate_for_neighborhood\<close> returns: a \<open>ValueError\<close> (an
  unknown name, or pydantic's check of an idea), or at most \<open>count\<close> ideas,
  each with a positive distance estimate, for a neighbourhood of the dataset;
  without a language model they are exactly the first \<open>count\<close> of the six
  templates.\<close>

theorem generate_for_neighborhood_ideas:
  "case generate_for_neighborhood g sv ideas_reply neighborhood cnt of
     Inl e \<Rightarrow> e = Value_error \<or> e = Validation_error
   | Inr resp \<Rightarrow>
       length (response_ideas resp) \<le> cnt \<and>
       list_all (\<lambda>i. 0 < estimated_distance_km i) (response_ideas resp) \<and>
       generate_neighborhood resp \<in> hood_name ` set (sv_hoods sv) \<and>
       (sv_has_lm sv \<or> length (response_ideas resp) = min cnt 6)"
proof (cases "generate_for_neighborhood g sv ideas_reply neighborhood cnt")
  case (Inl e)
  then show ?thesis using generate_for_neighborhood_Inl by simp
next
  case (Inr resp)
  obtain hood where h: "get_by_name (sv_strip_diacritics sv) (sv_hoods sv) neighborhood = Some hood"
    using Inr by (auto simp: generate_for_neighborhood_def split: option.splits)
  have llm: "generate_with_llm g (sv_json_loads sv) (sv_parse_float sv) ideas_reply hood cnt = Inr ys \<Longrightarrow>
             list_all (\<lambda>i. 0 < estimated_distance_km i) ys \<and> length ys \<le> cnt" for ys
    using collect_ideas_all [of "llm_idea g (sv_parse_float sv) hood" "\<lambda>i. 0 < estimated_distance_km i", OF llm_idea_typed]
    by (fastforce simp: generate_with_llm_def split: sum.splits)
  have tpl: "generate_with_templates g hood cnt = Inr ys \<Longrightarrow>
             list_all (\<lambda>i. 0 < estimated_distance_km i) ys \<and> length ys = min cnt 6" for ys
    by (rule generate_with_templates_ideas)
  show ?thesis
    using Inr h get_by_name_in_set [OF h] llm tpl
    by (auto simp: generate_for_neighborhood_def Let_def split: sum.splits if_splits)
qed

text \<open>C26. Without the data file the generator's neighbourhood service loads
  no neighbourhoods, and the describe endpoint fails every well-formed request,
  with or without a language model: 400 when it names a neighbourhood, and 500
  (the \<open>AttributeError\<close> of \<open>hood.name\<close>) when it names none or the empty
  one.\<close>

theorem app_describe_missing_dataset:
  assumes "shape_generator_init api_key False raw sv = Inr gen"
    and "parse_describe_request (sv_parse_float gen) body = Inr req"
  shows "app g gen ideas_reply (Api_post ''/describe/'' body) =
           (case dreq_neighborhood req of
              Some n \<Rightarrow> if n \<noteq> [] then (400, Error_detail Value_error) else (500, Error_detail Attribute_error)
            | None \<Rightarrow> (500, Error_detail Attribute_error))"
proof -
  have "sv_hoods gen = []" using assms(1) by (auto simp: shape_generator_init_def load_hoods_def)
  then show ?thesis
    using assms(2)
    by (simp add: app_def describe_shape_def http_reply_def http_status_def generate_from_description_def
        select_hood_def find_neighborhood_empty get_by_name_def split: option.splits)
qed

lemma app_describe_missing_dataset_witness:
  "shape_generator_init None False (Inl Http_error) \<lparr>sv_hoods = [], sv_strip_diacritics = id, sv_tie = \<lambda>_. 0, sv_set_order = \<lambda>_. [], sv_has_lm = False,
      sv_area_reply = Inl Http_error, sv_shape_reply = Inl Http_error, sv_json_loads = \<lambda>_. None, sv_parse_float = \<lambda>_. None,
      sv_route = \<lambda>m. Inr \<lparr>route_coords = m, route_distance_km = 3, route_duration_minutes = 40\<rparr>,
      sv_judge = \<lambda>_ _. Inr \<lparr>score = 100, passed = True, method_name = Algorithmic, reasoning = Empty_point_set\<rparr>\<rparr> = Inr \<lparr>sv_hoods = [], sv_strip_diacritics = id, sv_tie = \<lambda>_. 0, sv_set_order = \<lambda>_. [], sv_has_lm = False,
      sv_area_reply = Inl Http_error, sv_shape_reply = Inl Http_error, sv_json_loads = \<lambda>_. None, sv_parse_float = \<lambda>_. None,
      sv_route = \<lambda>m. Inr \<lparr>route_coords = m, route_distance_km = 3, route_duration_minutes = 40\<rparr>,
      sv_judge = \<lambda>_ _. Inr \<lparr>score = 100, passed = True, method_name = Algorithmic, reasoning = Empty_point_set\<rparr>\<rparr> \<and>
   parse_describe_request (sv_parse_float \<lparr>sv_hoods = [], sv_strip_diacritics = id, sv_tie = \<lambda>_. 0, sv_set_order = \<lambda>_. [], sv_has_lm = False,
      sv_area_reply = Inl Http_error, sv_shape_reply = Inl Http_error, sv_json_loads = \<lambda>_. None, sv_parse_float = \<lambda>_. None,
      sv_route = \<lambda>m. Inr \<lparr>route_coords = m, route_distance_km = 3, route_duration_minutes = 40\<rparr>,
      sv_judge = \<lambda>_ _. Inr \<lparr>score = 100, passed = True, method_name = Algorithmic, reasoning = Empty_point_set\<rparr>\<rparr>) (JObj [(''description'', JStr ''a heart shape'')]) =
     Inr \<lparr>dreq_description = ''a heart shape'', dreq_max_distance_km = 10, dreq_neighborhood = None\<rparr> \<and>
   app taxicab_kernel \<lparr>sv_hoods = [], sv_strip_diacritics = id, sv_tie = \<lambda>_. 0, sv_set_order = \<lambda>_. [], sv_has_lm = False,
      sv_area_reply = Inl Http_error, sv_shape_reply = Inl Http_error, sv_json_loads = \<lambda>_. None, sv_parse_float = \<lambda>_. None,
      sv_route = \<lambda>m. Inr \<lparr>route_coords = m, route_distance_km = 3, route_duration_minutes = 40\<rparr>,
      sv_judge = \<lambda>_ _. Inr \<lparr>score = 100, passed = True, method_name = Algorithmic, reasoning = Empty_point_set\<rparr>\<rparr> (Inl Http_error) (Api_post ''/describe/'' (JObj [(''description'', JStr ''a heart shape'')]))
     = (500, Error_detail Attribute_error)"
proof -
  have l: "shape_generator_init None False (Inl Http_error) \<lparr>sv_hoods = [], sv_strip_diacritics = id, sv_tie = \<lambda>_. 0, sv_set_order = \<lambda>_. [], sv_has_lm = False,
      sv_area_reply = Inl Http_error, sv_shape_reply = Inl Http_error, sv_json_loads = \<lambda>_. None, sv_parse_float = \<lambda>_. None,
      sv_route = \<lambda>m. Inr \<lparr>route_coords = m, route_distance_km = 3, route_duration_minutes = 40\<rparr>,
      sv_judge = \<lambda>_ _. Inr \<lparr>score = 100, passed = True, method_name = Algorithmic, reasoning = Empty_point_set\<rparr>\<rparr> = Inr \<lparr>sv_hoods = [], sv_strip_diacritics = id, sv_tie = \<lambda>_. 0, sv_set_order = \<lambda>_. [], sv_has_lm = False,
      sv_area_reply = Inl Http_error, sv_shape_reply = Inl Http_error, sv_json_loads = \<lambda>_. None, sv_parse_float = \<lambda>_. None,
      sv_route = \<lambda>m. Inr \<lparr>route_coords = m, route_distance_km = 3, route_duration_minutes = 40\<rparr>,
      sv_judge = \<lambda>_ _. Inr \<lparr>score = 100, passed = True, method_name = Algorithmic, reasoning = Empty_point_set\<rparr>\<rparr>"
    by (simp add: shape_generator_init_def load_hoods_def configure_llm_def)
  have p: "parse_describe_request (sv_parse_float \<lparr>sv_hoods = [], sv_strip_diacritics = id, sv_tie = \<lambda>_. 0, sv_set_order = \<lambda>_. [], sv_has_lm = False,
      sv_area_reply = Inl Http_error, sv_shape_reply = Inl Http_error, sv_json_loads = \<lambda>_. None, sv_parse_float = \<lambda>_. None,
      sv_route = \<lambda>m. Inr \<lparr>route_coords = m, route_distance_km = 3, route_duration_minutes = 40\<rparr>,
      sv_judge = \<lambda>_ _. Inr \<lparr>score = 100, passed = True, method_name = Algorithmic, reasoning = Empty_point_set\<rparr>\<rparr>) (JObj [(''description'', JStr ''a heart shape'')]) =
     Inr \<lparr>dreq_description = ''a heart shape'', dreq_max_distance_km = 10, dreq_neighborhood = None\<rparr>"
    by (simp add: parse_describe_request_def py_dict_get_def)
  show ?thesis using app_describe_missing_dataset [OF l p, of taxicab_kernel "Inl Http_error"] l p by simp
qed

text \<open>C10. The describe endpoint succeeds: with a non-empty dataset of
  well-formed boxes, a router that answers every request with valid points, a
  positive distance and whole minutes, and a validator that answers, every
  well-formed request that names no neighbourhood is answered 200 with a
  \<open>DescribeResponse\<close>, as \<^verbatim>\<open>test_describe_returns_route\<close> expects.\<close>

theorem app_describe_success:
  assumes "sv_hoods sv \<noteq> []"
    and "\<forall>h\<in>set (sv_hoods sv). bbox_ok (hood_bbox h)"
    and "\<forall>m. \<exists>r. sv_route sv m = Inr r \<and> polyline_valid (route_coords r) \<and> 0 < route_distance_km r \<and>
                 route_duration_minutes r = of_int \<lfloor>route_duration_minutes r\<rfloor>"
    and "\<forall>m a. \<exists>v. sv_judge sv m a = Inr v"
    and "parse_describe_request (sv_parse_float sv) body = Inr req"
    and "dreq_neighborhood req = None"
  shows "\<exists>resp. app g sv ideas_reply (Api_post ''/describe/'' body) = (200, Describe_body resp)"
proof -
  obtain hood where h: "find_neighborhood (sv_has_lm sv) (sv_area_reply sv) (sv_strip_diacritics sv) (sv_tie sv)
      (sv_set_order sv) (sv_hoods sv) (dreq_description req) = Some hood" "hood \<in> set (sv_hoods sv)"
    using find_neighborhood_some [OF assms(1)] by blast
  obtain resp where "describe_in_hood g sv (dreq_description req) (dreq_max_distance_km req) hood = Inr resp"
    using describe_in_hood_succeeds [OF _ assms(3,4)] assms(2) h(2) by blast
  then show ?thesis
    using assms(5,6) h(1)
    by (simp add: app_def describe_shape_def http_reply_def generate_from_description_def select_hood_def)
qed

lemma app_describe_success_witness:
  "sv_hoods \<lparr>sv_hoods = [\<lparr>hood_name = ''Karlin'', hood_name_cs = ''Karlin'', hood_center = \<lparr>lng = 1445 / 100, lat = 5009 / 100\<rparr>,
         hood_bbox = \<lparr>min_lng = 1443 / 100, min_lat = 5008 / 100, max_lng = 1447 / 100, max_lat = 5010 / 100\<rparr>,
         hood_layout = Grid, hood_character = [], hood_good_for = [''letter'']\<rparr>],
      sv_strip_diacritics = id, sv_tie = \<lambda>_. 0, sv_set_order = \<lambda>_. [], sv_has_lm = False,
      sv_area_reply = Inl Http_error, sv_shape_reply = Inl Http_error, sv_json_loads = \<lambda>_. None, sv_parse_float = \<lambda>_. None,
      sv_route = \<lambda>m. Inr \<lparr>route_coords = [\<lparr>lng = 1445 / 100, lat = 5009 / 100\<rparr>], route_distance_km = 3, route_duration_minutes = 40\<rparr>,
      sv_judge = \<lambda>_ _. Inr \<lparr>score = 100, passed = True, method_name = Algorithmic, reasoning = Empty_point_set\<rparr>\<rparr> \<noteq> [] \<and>
   parse_describe_request (sv_parse_float \<lparr>sv_hoods = [\<lparr>hood_name = ''Karlin'', hood_name_cs = ''Karlin'', hood_center = \<lparr>lng = 1445 / 100, lat = 5009 / 100\<rparr>,
         hood_bbox = \<lparr>min_lng = 1443 / 100, min_lat = 5008 / 100, max_lng = 1447 / 100, max_lat = 5010 / 100\<rparr>,
         hood_layout = Grid, hood_character = [], hood_good_for = [''letter'']\<rparr>],
      sv_strip_diacritics = id, sv_tie = \<lambda>_. 0, sv_set_order = \<lambda>_. [], sv_has_lm = False,
      sv_area_reply = Inl Http_error, sv_shape_reply = Inl Http_error, sv_json_loads = \<lambda>_. None, sv_parse_float = \<lambda>_. None,
      sv_route = \<lambda>m. Inr \<lparr>route_coords = [\<lparr>lng = 1445 / 100, lat = 5009 / 100\<rparr>], route_distance_km = 3, route_duration_minutes = 40\<rparr>,
      sv_judge = \<lambda>_ _. Inr \<lparr>score = 100, passed = True, method_name = Algorithmic, reasoning = Empty_point_set\<rparr>\<rparr>) (JObj [(''description'', JStr ''a heart shape'')]) =
     Inr \<lparr>dreq_description = ''a heart shape'', dreq_max_distance_km = 10, dreq_neighborhood = None\<rparr> \<and>
   (\<exists>resp. app taxicab_kernel \<lparr>sv_hoods = [\<lparr>hood_name = ''Karlin'', hood_name_cs = ''Karlin'', hood_center = \<lparr>lng = 1445 / 100, lat = 5009 / 100\<rparr>,
         hood_bbox = \<lparr>min_lng = 1443 / 100, min_lat = 5008 / 100, max_lng = 1447 / 100, max_lat = 5010 / 100\<rparr>,
         hood_layout = Grid, hood_character = [], hood_good_for = [''letter'']\<rparr>],
      sv_strip_diacritics = id, sv_tie = \<lambda>_. 0, sv_set_order = \<lambda>_. [], sv_has_lm = False,
      sv_area_reply = Inl Http_error, sv_shape_reply = Inl Http_error, sv_json_loads = \<lambda>_. None, sv_parse_float = \<lambda>_. None,
      sv_route = \<lambda>m. Inr \<lparr>route_coords = [\<lparr>lng = 1445 / 100, lat = 5009 / 100\<rparr>], route_distance_km = 3, route_duration_minutes = 40\<rparr>,
      sv_judge = \<lambda>_ _. Inr \<lparr>score = 100, passed = True, method_name = Algorithmic, reasoning = Empty_point_set\<rparr>\<rparr> (Inl Http_error) (Api_post ''/describe/'' (JObj [(''description'', JStr ''a heart shape'')]))
      = (200, Describe_body resp))"
proof -
  have h: "sv_hoods \<lparr>sv_hoods = [\<lparr>hood_name = ''Karlin'', hood_name_cs = ''Karlin'', hood_center = \<lparr>lng = 1445 / 100, lat = 5009 / 100\<rparr>,
         hood_bbox = \<lparr>min_lng = 1443 / 100, min_lat = 5008 / 100, max_lng = 1447 / 100, max_lat = 5010 / 100\<rparr>,
         hood_layout = Grid, hood_character = [], hood_good_for = [''letter'']\<rparr>],
      sv_strip_diacritics = id, sv_tie = \<lambda>_. 0, sv_set_order = \<lambda>_. [], sv_has_lm = False,
      sv_area_reply = Inl Http_error, sv_shape_reply = Inl Http_error, sv_json_loads = \<lambda>_. None, sv_parse_float = \<lambda>_. None,
      sv_route = \<lambda>m. Inr \<lparr>route_coords = [\<lparr>lng = 1445 / 100, lat = 5009 / 100\<rparr>], route_distance_km = 3, route_duration_minutes = 40\<rparr>,
      sv_judge = \<lambda>_ _. Inr \<lparr>score = 100, passed = True, method_name = Algorithmic, reasoning = Empty_point_set\<rparr>\<rparr> \<noteq> []" by simp
  have b: "\<forall>h\<in>set (sv_hoods \<lparr>sv_hoods = [\<lparr>hood_name = ''Karlin'', hood_name_cs = ''Karlin'', hood_center = \<lparr>lng = 1445 / 100, lat = 5009 / 100\<rparr>,
         hood_bbox = \<lparr>min_lng = 1443 / 100, min_lat = 5008 / 100, max_lng = 1447 / 100, max_lat = 5010 / 100\<rparr>,
         hood_layout = Grid, hood_character = [], hood_good_for = [''letter'']\<rparr>],
      sv_strip_diacritics = id, sv_tie = \<lambda>_. 0, sv_set_order = \<lambda>_. [], sv_has_lm = False,
      sv_area_reply = Inl Http_error, sv_shape_reply = Inl Http_error, sv_json_loads = \<lambda>_. None, sv_parse_float = \<lambda>_. None,
      sv_route = \<lambda>m. Inr \<lparr>route_coords = [\<lparr>lng = 1445 / 100, lat = 5009 / 100\<rparr>], route_distance_km = 3, route_duration_minutes = 40\<rparr>,
      sv_judge = \<lambda>_ _. Inr \<lparr>score = 100, passed = True, method_name = Algorithmic, reasoning = Empty_point_set\<rparr>\<rparr>). bbox_ok (hood_bbox h)" by (simp add: bbox_ok_def)
  have r: "\<forall>m. \<exists>r. sv_route \<lparr>sv_hoods = [\<lparr>hood_name = ''Karlin'', hood_name_cs = ''Karlin'', hood_center = \<lparr>lng = 1445 / 100, lat = 5009 / 100\<rparr>,
         hood_bbox = \<lparr>min_lng = 1443 / 100, min_lat = 5008 / 100, max_lng = 1447 / 100, max_lat = 5010 / 100\<rparr>,
         hood_layout = Grid, hood_character = [], hood_good_for = [''letter'']\<rparr>],
      sv_strip_diacritics = id, sv_tie = \<lambda>_. 0, sv_set_order = \<lambda>_. [], sv_has_lm = False,
      sv_area_reply = Inl Http_error, sv_shape_reply = Inl Http_error, sv_json_loads = \<lambda>_. None, sv_parse_float = \<lambda>_. None,
      sv_route = \<lambda>m. Inr \<lparr>route_coords = [\<lparr>lng = 1445 / 100, lat = 5009 / 100\<rparr>], route_distance_km = 3, route_duration_minutes = 40\<rparr>,
      sv_judge = \<lambda>_ _. Inr \<lparr>score = 100, passed = True, method_name = Algorithmic, reasoning = Empty_point_set\<rparr>\<rparr> m = Inr r \<and> polyline_valid (route_coords r) \<and> 0 < route_distance_km r \<and>
        route_duration_minutes r = of_int \<lfloor>route_duration_minutes r\<rfloor>" by (simp add: valid_coord_def)
  have j: "\<forall>m a. \<exists>v. sv_judge \<lparr>sv_hoods = [\<lparr>hood_name = ''Karlin'', hood_name_cs = ''Karlin'', hood_center = \<lparr>lng = 1445 / 100, lat = 5009 / 100\<rparr>,
         hood_bbox = \<lparr>min_lng = 1443 / 100, min_lat = 5008 / 100, max_lng = 1447 / 100, max_lat = 5010 / 100\<rparr>,
         hood_layout = Grid, hood_character = [], hood_good_for = [''letter'']\<rparr>],
      sv_strip_diacritics = id, sv_tie = \<lambda>_. 0, sv_set_order = \<lambda>_. [], sv_has_lm = False,
      sv_area_reply = Inl Http_error, sv_shape_reply = Inl Http_error, sv_json_loads = \<lambda>_. None, sv_parse_float = \<lambda>_. None,
      sv_route = \<lambda>m. Inr \<lparr>route_coords = [\<lparr>lng = 1445 / 100, lat = 5009 / 100\<rparr>], route_distance_km = 3, route_duration_minutes = 40\<rparr>,
      sv_judge = \<lambda>_ _. Inr \<lparr>score = 100, passed = True, method_name = Algorithmic, reasoning = Empty_point_set\<rparr>\<rparr> m a = Inr v" by simp
  have p: "parse_describe_request (sv_parse_float \<lparr>sv_hoods = [\<lparr>hood_name = ''Karlin'', hood_name_cs = ''Karlin'', hood_center = \<lparr>lng = 1445 / 100, lat = 5009 / 100\<rparr>,
         hood_bbox = \<lparr>min_lng = 1443 / 100, min_lat = 5008 / 100, max_lng = 1447 / 100, max_lat = 5010 / 100\<rparr>,
         hood_layout = Grid, hood_character = [], hood_good_for = [''letter'']\<rparr>],
      sv_strip_diacritics = id, sv_tie = \<lambda>_. 0, sv_set_order = \<lambda>_. [], sv_has_lm = False,
      sv_area_reply = Inl Http_error, sv_shape_reply = Inl Http_error, sv_json_loads = \<lambda>_. None, sv_parse_float = \<lambda>_. None,
      sv_route = \<lambda>m. Inr \<lparr>route_coords = [\<lparr>lng = 1445 / 100, lat = 5009 / 100\<rparr>], route_distance_km = 3, route_duration_minutes = 40\<rparr>,
      sv_judge = \<lambda>_ _. Inr \<lparr>score = 100, passed = True, method_name = Algorithmic, reasoning = Empty_point_set\<rparr>\<rparr>) (JObj [(''description'', JStr ''a heart shape'')]) =
     Inr \<lparr>dreq_description = ''a heart shape'', dreq_max_distance_km = 10, dreq_neighborhood = None\<rparr>"
    by (simp add: parse_describe_request_def py_dict_get_def)
  show ?thesis using app_describe_success [OF h b r j p, of taxicab_kernel "Inl Http_error"] h b r j p by simp
qed

end
