(* ===== verification/Cors.thy ===== *)
theory Cors
  imports Api
begin

text \<open>
  The CORS middleware \<^verbatim>\<open>src/backend/main.py\<close> installs in front of the
  application (\<open>app.add_middleware(CORSMiddleware, ...)\<close>): four local
  development origins, every method, every header, no credentials. A request
  carries an optional \<open>Origin\<close> header and, for a preflight, an
  \<open>Access-Control-Request-Method\<close> header. The middleware answers a preflight
  itself (200, or 400 listing the failed checks) and otherwise passes the
  request to the application, adding \<open>Access-Control-Allow-Origin\<close> (the
  requesting origin) when that origin is allowed. The reply is the status,
  the body and the value of that header.
\<close>

section \<open>Definitions\<close>

definition cors_allow_origins :: "string list" where
  "cors_allow_origins =
     [''http://localhost:5173'', ''http://127.0.0.1:5173'', ''http://localhost:4173'', ''http://127.0.0.1:4173'']"

text \<open>\<open>allow_methods=["*"]\<close> stands for all the methods the middleware knows.\<close>

definition cors_all_methods :: "string list" where
  "cors_all_methods = [''DELETE'', ''GET'', ''HEAD'', ''OPTIONS'', ''PATCH'', ''POST'', ''PUT'']"

text \<open>Starlette's \<open>allow_all_origins = "*" in allow_origins\<close> and
  \<open>is_allowed_origin\<close> (no \<open>allow_origin_regex\<close> is configured).\<close>

definition allow_all_origins :: bool where
  "allow_all_origins \<longleftrightarrow> ''*'' \<in> set cors_allow_origins"

definition is_allowed_origin :: "string \<Rightarrow> bool" where
  "is_allowed_origin origin \<longleftrightarrow> allow_all_origins \<or> origin \<in> set cors_allow_origins"

text \<open>The value of \<open>Access-Control-Allow-Origin\<close> for an allowed origin:
  \<open>*\<close> when every origin is allowed and credentials are not
  (\<open>allow_credentials=False\<close>, the default), the origin itself otherwise.\<close>

definition allow_origin_value :: "string \<Rightarrow> string" where
  "allow_origin_value origin = (if allow_all_origins then ''*'' else origin)"

type_synonym cors_reply = "api_reply \<times> string option"

text \<open>\<open>preflight_response\<close>: the origin and method checks; the explicit
  origin is echoed when allowed, even in a failed reply.\<close>

definition preflight_response :: "string \<Rightarrow> string \<Rightarrow> cors_reply" where
  "preflight_response origin requested_method =
     (let failures = (if is_allowed_origin origin then [] else [''origin'']) @
                     (if requested_method \<in> set cors_all_methods then [] else [''method'']);
          allow = (if is_allowed_origin origin then Some (allow_origin_value origin) else None)
      in if failures = [] then ((200, Plain_text ''OK''), allow)
         else ((400, Plain_text (''Disallowed CORS '' @ py_join '', '' failures)), allow))"

text \<open>The middleware's \<open>__call__\<close>: no \<open>Origin\<close> header passes the request
  through untouched; an \<open>OPTIONS\<close> request with
  \<open>Access-Control-Request-Method\<close> is a preflight; any other request is
  answered by the application, with the header added for an allowed origin.\<close>

definition cors_app ::
  "geo_kernel \<Rightarrow> services \<Rightarrow> py_error + string \<Rightarrow> string option \<Rightarrow> string option \<Rightarrow> api_request \<Rightarrow> cors_reply" where
  "cors_app g sv ideas_reply origin request_method rq =
     (case origin of
        None \<Rightarrow> (app g sv ideas_reply rq, None)
      | Some org \<Rightarrow>
          (case (rq, request_method) of
             (Api_options _, Some m) \<Rightarrow> preflight_response org m
           | _ \<Rightarrow> (app g sv ideas_reply rq, if is_allowed_origin org then Some (allow_origin_value org) else None)))"

section \<open>Lemmas\<close>

text \<open>The configured list has no wildcard, so each allowed origin is echoed.\<close>

lemma not_allow_all_origins: "\<not> allow_all_origins"
  by (simp add: allow_all_origins_def cors_allow_origins_def)

text \<open>A preflight is answered by the middleware before routing: from a listed
  origin for a known method it is 200 whatever the path, and from any other
  origin it is 400 without the header.\<close>

lemma cors_preflight:
  "cors_app g sv ideas_reply (Some org) (Some m) (Api_options p) =
     (if is_allowed_origin org \<and> m \<in> set cors_all_methods then ((200, Plain_text ''OK''), Some org)
      else if is_allowed_origin org then ((400, Plain_text ''Disallowed CORS method''), Some org)
      else ((400, Plain_text (''Disallowed CORS '' @ (if m \<in> set cors_all_methods then ''origin'' else ''origin, method''))), None))"
  by (simp add: cors_app_def preflight_response_def allow_origin_value_def not_allow_all_origins Let_def)

end
