(* ===== verification/RetryLoop.thy ===== *)
theory RetryLoop
  imports Refinement "HOL-Library.While_Combinator"
begin

text \<open>
  The retry loop of \<open>generate_from_description\<close> written as the source writes
  it, \<open>while not validation.passed and retries < MAX_RETRIES: ...\<close>, with the
  library's \<open>while_option\<close> (\<open>None\<close> when the loop does not end). It returns,
  and returns the state the terminating recursion \<open>refine_loop\<close> computes, so
  the facts proved of \<open>refine_loop\<close> hold of the loop as written.
\<close>

section \<open>Definitions\<close>

definition refine_while ::
  "geo_kernel \<Rightarrow> bounding_box \<Rightarrow> router \<Rightarrow> judge \<Rightarrow> nat \<Rightarrow> gen_state \<Rightarrow> gen_state option" where
  "refine_while g bbox route judge max_r st =
     while_option (\<lambda>st. \<not> passed (validation st) \<and> retries st < max_r) (refine_step g bbox route judge) st"

section \<open>Properties\<close>

text \<open>C25. The loop as written terminates from every state and computes the
  result of the recursive model: \<open>while_option\<close> returns \<open>Some\<close> of
  \<open>refine_loop\<close>'s state.\<close>

theorem refine_while_refine_loop:
  "refine_while g bbox route judge max_r st = Some (refine_loop g bbox route judge max_r st)"
proof (induction g bbox route judge max_r st rule: refine_loop.induct)
  case (1 g bbox route judge max_r st)
  show ?case
  proof (cases "\<not> passed (validation st) \<and> retries st < max_r")
    case True
    then show ?thesis
      using 1 by (simp add: refine_while_def while_option_unfold [of _ _ st] refine_loop_continue)
  next
    case False
    then have "refine_loop g bbox route judge max_r st = st"
      by (auto intro: refine_loop_stop)
    with False show ?thesis by (auto simp: refine_while_def while_option_unfold [of _ _ st])
  qed
qed

end
