(* ===== verification/Spec2Isabelle.thy ===== *)
theory Spec2Isabelle
  imports Validator Cors RetryLoop
begin

text \<open>
  Verification development for the geometry-and-scoring core of Ghost Tracks
  (\<^verbatim>\<open>src/backend\<close>): the pipeline that maps an abstract shape outline into
  street-snappable waypoints, scores how faithfully a routed polyline reproduces
  it, and retries with targeted edits when the score is too low.

  \<^bold>\<open>Model.\<close> Python floats are \<open>real\<close> (exact arithmetic; rounding of the
  float operations is not modelled), Python lists are HOL lists, the Pydantic
  schemas of \<^verbatim>\<open>models/schemas.py\<close> are records, and exceptions are values
  of \<open>py_error\<close> in a sum type. Every component that measures a distance or a
  bearing takes a \<open>geo_kernel\<close>; the code's kernel is \<open>haversine_kernel\<close>,
  and the theorems assume only the laws \<open>geo_laws\<close>, which
  \<open>Geodesy.haversine_kernel_laws\<close> proves for it. The planar
  \<open>taxicab_kernel\<close> and \<open>compass_kernel\<close> satisfy the same laws and serve
  the witnesses, which evaluate the definitions by \<open>simp\<close>. External
  collaborators are parameters: the router, the validator inside the loop,
  PIL's line drawing, the seeded \<open>rng.sample\<close>, the vision model's reply and
  \<open>json.loads\<close>.

  \<^bold>\<open>Theories.\<close>
  \<^item> \<open>Prelude\<close>: the schemas (\<open>coordinate\<close>, \<open>bounding_box\<close>,
    \<open>validation_result\<close>), the kernel interface, the Python idioms the code
    relies on (\<open>x or 1e-6\<close>, \<open>round\<close>, float \<open>%\<close>, \<open>min\<close>/\<open>max\<close> of a
    list, \<open>range\<close> with a step), interpolation and consecutive pairs.
  \<^item> \<open>PyStr\<close>: the Python string idioms (\<open>strip\<close>, \<open>find\<close>,
    \<open>lower\<close>, \<open>isalpha\<close>, \<open>in\<close>, \<open>split\<close>, \<open>join\<close>) on ASCII strings;
    \<open>in\<close> is \<open>Sublist.sublist\<close> and \<open>join\<close> inverts \<open>split\<close>.
  \<^item> \<open>Geodesy\<close>: \<open>haversine_distance_m\<close>, \<open>_bearing_deg\<close> of
    \<^verbatim>\<open>street_mapper.py\<close>: zero and symmetry, square-root arguments in
    \<open>[0, 1]\<close>, distance in \<open>[0, pi R]\<close>, bearing in \<open>[0, 360)\<close>, exact
    arc length along a meridian.
  \<^item> \<open>ScaleToBbox\<close>, \<open>Densify\<close>, \<open>Dedup\<close> and \<open>StreetMapper\<close>: every
    method of \<open>StreetMapper\<close>, one theory per stage: the scaled shape lies in
    the padded box, is uniform and centred; densify keeps the input and bounds
    the pieces under a kernel linear along segments (a planar kernel: the
    haversine distance is not linear in the lng/lat interpolation, so for it
    the bound is not proved); deduplicate keeps the
    endpoints and spaces all but the final pair; \<open>map_to_streets\<close>
    composes them and yields valid coordinates.
  \<^item> \<open>Resample\<close>: \<open>_resample_curve\<close>: exactly \<open>n\<close> samples, equally
    spaced by arc length, starting at the first point.
  \<^item> \<open>Metrics\<close>: the similarity measures of \<^verbatim>\<open>shape_validator.py\<close>: exact
    diameter up to 60 points and a lower bound above, modified Hausdorff at most
    the Hausdorff distance, pixels of the shared box inside the image.
  \<^item> \<open>Validator\<close>: \<open>ShapeValidator\<close>: \<open>validate\<close> never raises and
    its result is in range with \<open>passed\<close> implying the threshold; a degenerate
    target scores 0; an identical route scores at least 90; an out-of-range vision
    score falls back; the JSON-span fallback parser recovers an embedded object.
  \<^item> \<open>Waypoints\<close>: \<open>_extract_waypoints\<close> (consecutive indices, start and
    finish markers, turn markers only at sharp bearing changes) and
    \<open>_difficulty_for_distance\<close>.
  \<^item> \<open>Routing\<close>: \<open>_route_waypoints\<close>: the proxy outcome, the
    straight-line fallback without a token, and the direct Directions calls on
    chunks \<open>coords[i : i + 25]\<close> for \<open>i\<close> in \<open>range(0, n, 24)\<close>, stitched
    by dropping each later chunk's first point: every leg lies in one chunk,
    stitching an exact router gives back the waypoints, and an exception of a
    chunk request propagates.
  \<^item> \<open>Templates\<close>: \<^verbatim>\<open>shape_templates.py\<close>: every template and the
    letter table, and \<open>get_parametric_shape\<close>: at least three points, all
    within \<open>scale / 2\<close> of the centre (the heart curve by a polynomial bound on
    \<open>cos\<close>), and the letter pattern, which draws the first letter of the
    phrase's first word whatever letter it asks for.
  \<^item> \<open>Llm\<close>: the parsers of \<^verbatim>\<open>llm.py\<close> over a \<open>json\<close> value type:
    fence stripping inverts fencing and \<open>coords_from_raw\<close> inverts the
    encoding of valid coordinates.
  \<^item> \<open>Neighborhood\<close>: \<^verbatim>\<open>neighborhood.py\<close>: term normalisation,
    lookup by name and \<open>find_best_for_shape\<close>, a permutation of the
    neighbourhoods sorted by score whose order depends on the iteration order
    of a Python set; the \<open>-es\<close> plural rule never fires.
  \<^item> \<open>Seeding\<close>: \<open>_generate_control_points\<close>: the language-model path and
    the template fallback together always yield three or more valid points.
  \<^item> \<open>Refinement\<close>: \<open>_tighten_control_points\<close> (exact number of inserted
    midpoints, the outline kept, the worse half selected) and the retry loop of
    \<open>generate_from_description\<close>, as a recursion terminating on the budget
    \<open>MAX_RETRIES = 2\<close> and as the step relation \<open>refine_reach\<close>, with its
    reachability invariant, terminal states, first-pass result and progress
    (every reachable state reaches a terminal one within the remaining budget).
  \<^item> \<open>CheckedLoop\<close>: steps 3--7 of \<open>generate_from_description\<close> with
    the exceptions they can raise: a router and a validator that may raise,
    and pydantic's checks of the scaled points and of each routed polyline
    (\<open>Coordinate(lng=c[0], lat=c[1])\<close>). An exception comes from one of
    them, a successful run keeps valid points, and with collaborators that
    never raise the checked loop is exactly the total \<open>generate_route\<close>.
  \<^item> \<open>Describe\<close>: the request handlers \<open>generate_from_description\<close>
    (Mode B) and \<open>generate_for_neighborhood\<close> (Mode A) with
    \<open>_find_neighborhood\<close>, \<open>_emoji_for_description\<close>,
    \<open>_generate_with_llm\<close> and \<open>_generate_with_templates\<close>, over the
    components above; the pydantic checks of \<open>ShapeIdea\<close> and
    \<open>DescribeResponse\<close> are constructors returning \<open>ValidationError\<close>.
    Step 1 is \<open>select_hood\<close>, the rest \<open>describe_in_hood\<close>, which runs
    the checked loop of \<open>CheckedLoop\<close>; the box centre and template points
    are checked as \<open>Coordinate\<close>s. A Mode B request raises only
    \<open>ValueError\<close>, \<open>AttributeError\<close>, \<open>ValidationError\<close> or an
    exception of the router or the validator, and its responses are well typed.
  \<^item> \<open>Dataset\<close>: \<open>_load\<close>, \<open>_parse\<close> and \<open>get_summary_string\<close> of
    \<^verbatim>\<open>neighborhood.py\<close>, with Python's item access (\<open>KeyError\<close>,
    \<open>IndexError\<close>, \<open>TypeError\<close>) and pydantic's lax fields: loading inverts
    the entry format, and the summary has one line per neighbourhood;
    \<open>shape_generator_init\<close> is \<open>ShapeGenerator.__init__\<close> (the dataset
    loaded, the predictors present exactly when \<open>configure_llm\<close> returned a
    client).
  \<^item> \<open>Api\<close>: the web layer: \<open>GenerateRequest\<close> and \<open>DescribeRequest\<close>
    read from a JSON body (422 when pydantic rejects it), the routers
    \<open>health_check\<close>, \<open>generate_shapes\<close> and \<open>describe_shape\<close> of
    \<^verbatim>\<open>routers/\<close> (a \<open>ValueError\<close>, pydantic's \<open>ValidationError\<close>
    included, is 400 and any other exception 500) and the route table of
    \<^verbatim>\<open>main.py\<close> as the function \<open>app\<close> from a request to a status and
    a body. \<open>/generate/\<close> never answers 500, \<open>/describe/\<close> only when the
    dataset is empty or the router or validator raises an exception mapped
    to 500, and without the data file it fails every request; out-of-range counts are 422 and unknown
    neighbourhoods 400, as \<^verbatim>\<open>tests/test_api.py\<close> expects; Mode A returns
    at most \<open>count\<close> ideas, exactly \<open>min(count, 6)\<close> templates without a
    language model.
  \<^item> \<open>Cors\<close>: the \<open>CORSMiddleware\<close> of \<^verbatim>\<open>main.py\<close> in front of
    \<open>app\<close>, with Starlette's wildcard rule: the configured list has no
    \<open>*\<close>, so an allowed origin is echoed, and a preflight is answered before
    routing.
  \<^item> \<open>RetryLoop\<close>: the retry loop as written, a \<open>while_option\<close> over
    \<open>refine_step\<close>; it returns \<open>Some\<close> of \<open>refine_loop\<close>'s result, so the
    loop terminates and everything proved of \<open>refine_loop\<close> holds of it.
  \<^item> This theory: the loop run with the code's validator reports a well-formed
    validation.

  \<^bold>\<open>Bounds and fuel.\<close> No fuel is needed: every loop is structural recursion
  over a list or, for the retry loop, a \<open>function\<close> whose measure is the
  remaining retry budget; the loop as written, a \<open>while_option\<close>, is proved
  to return \<open>Some\<close> of that function's result from every state. The budget
  is \<open>MAX_RETRIES\<close>' default 2 (the environment variable is not read).

  \<^bold>\<open>Not modelled.\<close> Of the web layer, \<open>load_dotenv\<close> and the
  \<open>sys.path\<close> set-up of \<^verbatim>\<open>main.py\<close> (process environment), the CORS
  headers other than \<open>Access-Control-Allow-Origin\<close>, FastAPI's redirect of a path without its trailing slash
  and the JSON encoding of responses; pydantic's lax coercions are modelled
  for numbers, booleans and numeric strings only; the DSPy signatures of
  \<^verbatim>\<open>llm.py\<close> (prompt declarations for the library); the HTTP calls, the language
  model and PIL, numpy, \<open>random\<close>, \<open>hashlib\<close> and \<open>unicodedata\<close>
  internals (library code the sources only call, here parameters);
  float rounding (for instance \<open>total * k / (n - 1)\<close> rounding above
  \<open>total\<close> in \<open>_resample_curve\<close>).
\<close>

section \<open>Composition\<close>

text \<open>\<open>generate_from_description\<close> calls \<open>self.validator.validate(...)\<close> on
  the mapped waypoints and the routed polyline; without a vision API key that is
  \<open>_validate_algorithmic\<close> at the default threshold.\<close>

definition code_judge :: "geo_kernel \<Rightarrow> diameter_sampler \<Rightarrow> line_drawer \<Rightarrow> int \<Rightarrow> judge" where
  "code_judge g smp draw threshold =
     (\<lambda>target actual. projr (validate False (\<lambda>_. None :: unit option) (\<lambda>_. Inl Value_error) (Inl Value_error)
                               g smp draw target actual threshold))"

lemma map_to_streets_valid_coords:
  "bbox_ok bbox \<Longrightarrow> polyline_valid (map_to_streets g cps bbox)"
  using densify_valid [OF scale_to_bbox_valid] by (simp add: map_to_streets_def subseq_list_all [OF deduplicate_subseq])

text \<open>C2. The whole loop with the code's validator: for a well-formed target box
  and a router that returns valid coordinates, the validation that
  \<open>generate_from_description\<close> reports is a real \<open>ValidationResult\<close> in
  [0, 100] whose \<open>passed\<close> flag implies the threshold is met.\<close>

theorem generate_route_validation_ok:
  assumes "geo_laws g" "bbox_ok bbox" "\<forall>m. polyline_valid (route_coords (route m))"
  shows "result_ok threshold (validation (generate_route g bbox route (code_judge g smp draw threshold) cps))"
proof -
  let ?j = "code_judge g smp draw threshold"
  let ?st = "generate_route g bbox route ?j cps"
  let ?m = "map_to_streets g (control_points ?st) bbox"
  have "?st = attempt g bbox route ?j (control_points ?st) (retries ?st)"
    using refine_reach_consistent [OF generate_route_reach] by (simp add: consistent_def)
  then have v: "validation ?st = ?j ?m (route_coords (route ?m))"
    by (metis (no_types, lifting) attempt_def gen_state.select_convs(4))
  obtain r where "validate_algorithmic g smp draw ?m (route_coords (route ?m)) threshold = Inr r" "result_ok threshold r"
    using validate_algorithmic_ok [OF assms(1) map_to_streets_valid_coords [OF assms(2)]] assms(3) by blast
  then show ?thesis using v by (simp add: code_judge_def validate_def)
qed

theorem generate_route_validation_ok_witness:
  "geo_laws taxicab_kernel \<and> bbox_ok \<lparr>min_lng = 1442 / 100, min_lat = 5007 / 100, max_lng = 1446 / 100, max_lat = (5009 / 100 :: real)\<rparr> \<and>
   result_ok 45 (validation (generate_route taxicab_kernel \<lparr>min_lng = 1442 / 100, min_lat = 5007 / 100, max_lng = 1446 / 100, max_lat = (5009 / 100 :: real)\<rparr> (\<lambda>m. \<lparr>route_coords = [], route_distance_km = 0, route_duration_minutes = 0\<rparr>) (code_judge taxicab_kernel (\<lambda>_ _. [] :: nat list) (\<lambda>_ _ _ _. False) 45) [\<lparr>lng = 0, lat = 0\<rparr>, \<lparr>lng = 2, lat = 0\<rparr>, \<lparr>lng = 2, lat = (2::real)\<rparr>]))"
proof -
  have b: "bbox_ok \<lparr>min_lng = 1442 / 100, min_lat = 5007 / 100, max_lng = 1446 / 100, max_lat = (5009 / 100 :: real)\<rparr>" by (simp add: bbox_ok_def valid_coord_def)
  have r: "\<forall>m. polyline_valid (route_coords ((\<lambda>m. \<lparr>route_coords = [], route_distance_km = 0, route_duration_minutes = 0\<rparr>) m))" by simp
  show ?thesis using generate_route_validation_ok [OF taxicab_kernel_laws b r] taxicab_kernel_laws b by simp
qed

end
